(* ===== verification/Prelude.thy ===== *)
theory Prelude
  imports Main "HOL-Library.Word" "HOL-Library.Sublist"
begin

text \<open>
  Shared vocabulary of the development.

  \<^item> \<open>byte\<close>, \<open>u16\<close>, \<open>u32\<close>, \<open>u64\<close>: the machine integers of the Rust code, as words.
  \<^item> \<open>and_then\<close>, \<open>map_err\<close>, \<open>ok_or\<close>: the methods of Rust's \<open>Result\<close> and \<open>Option\<close> that the
    code's \<open>?\<close> operator and error mapping stand for. A \<open>Result<T, E>\<close> is a sum \<open>'e + 't\<close>.
  \<^item> \<open>collect_res\<close>, \<open>for_each_res\<close>: \<open>collect::<Result<Vec<_>, _>>\<close> and a \<open>for\<close> loop whose
    body may return early with an error.
  \<^item> little-endian integers, decimal and debug formatting, prefix stripping, trimming.

  The collection \<open>res_simps\<close> holds the rewrite rules for results that decide when a
  chain of fallible steps succeeds and with which value.
\<close>

unbundle bit_operations_syntax

named_theorems res_simps \<open>when a chain of fallible steps succeeds\<close>

section \<open>Machine types\<close>

type_synonym byte = "8 word"
type_synonym bytes = "byte list"
type_synonym u16 = "16 word"
type_synonym u32 = "32 word"
type_synonym u64 = "64 word"

section \<open>Results\<close>

definition and_then :: "'e + 'a \<Rightarrow> ('a \<Rightarrow> 'e + 'b) \<Rightarrow> 'e + 'b" where
  "and_then r f = (case r of Inl e \<Rightarrow> Inl e | Inr x \<Rightarrow> f x)"

definition map_err :: "('e \<Rightarrow> 'f) \<Rightarrow> 'e + 'a \<Rightarrow> 'f + 'a" where
  "map_err g r = (case r of Inl e \<Rightarrow> Inl (g e) | Inr x \<Rightarrow> Inr x)"

definition ok_or :: "'e \<Rightarrow> 'a option \<Rightarrow> 'e + 'a" where
  "ok_or e opt = (case opt of None \<Rightarrow> Inl e | Some x \<Rightarrow> Inr x)"

definition result_ok :: "'e + 'a \<Rightarrow> 'a option" where
  "result_ok r = (case r of Inl _ \<Rightarrow> None | Inr x \<Rightarrow> Some x)"

lemma and_then_simps [simp]:
  "and_then (Inl e) f = Inl e"
  "and_then (Inr x) f = f x"
  by (simp_all add: and_then_def)

lemma map_err_simps [simp]:
  "map_err g (Inl e) = Inl (g e)"
  "map_err g (Inr x) = Inr x"
  by (simp_all add: map_err_def)

lemma ok_or_simps [simp]:
  "ok_or e None = Inl e"
  "ok_or e (Some x) = Inr x"
  by (simp_all add: ok_or_def)

lemma and_then_assoc: "and_then (and_then r f) g = and_then r (\<lambda>x. and_then (f x) g)"
  by (cases r) simp_all

lemma and_then_eq_Inr [res_simps]:
  "and_then r f = Inr y \<longleftrightarrow> (\<exists>x. r = Inr x \<and> f x = Inr y)"
  by (cases r) simp_all

lemma and_then_eq_Inl:
  "and_then r f = Inl e \<longleftrightarrow> r = Inl e \<or> (\<exists>x. r = Inr x \<and> f x = Inl e)"
  by (cases r) simp_all

lemma map_err_eq_Inr [res_simps]: "map_err g r = Inr x \<longleftrightarrow> r = Inr x"
  by (cases r) simp_all

lemma map_err_eq_Inl: "map_err g r = Inl e \<longleftrightarrow> (\<exists>e'. r = Inl e' \<and> e = g e')"
  by (cases r) auto

lemma ok_or_eq_Inr [res_simps]: "ok_or e opt = Inr x \<longleftrightarrow> opt = Some x"
  by (cases opt) simp_all

lemma ok_or_eq_Inl: "ok_or e opt = Inl e' \<longleftrightarrow> opt = None \<and> e' = e"
  by (cases opt) auto

lemma if_Inl_eq_Inr [res_simps]:
  "(if b then Inl e else r) = Inr x \<longleftrightarrow> \<not> b \<and> r = Inr x"
  by simp

lemma result_ok_eq_Some [simp]: "result_ok r = Some x \<longleftrightarrow> r = Inr x"
  by (cases r) (simp_all add: result_ok_def)

lemma unit_res_cases: "(r :: 'e + unit) = Inr () \<or> (\<exists>e. r = Inl e)"
  by (cases r) simp_all

fun collect_res :: "('e + 'a) list \<Rightarrow> 'e + 'a list" where
  "collect_res [] = Inr []"
| "collect_res (r # rs) =
     and_then r (\<lambda>x. and_then (collect_res rs) (\<lambda>xs. Inr (x # xs)))"

lemma collect_res_eq_Inr: "collect_res rs = Inr xs \<longleftrightarrow> rs = map Inr xs"
  by (induction rs arbitrary: xs) (auto simp: and_then_eq_Inr Cons_eq_map_conv)

lemma collect_res_length: "collect_res rs = Inr xs \<Longrightarrow> length xs = length rs"
  by (simp add: collect_res_eq_Inr)

fun for_each_res :: "('a \<Rightarrow> 'e + unit) \<Rightarrow> 'a list \<Rightarrow> 'e + unit" where
  "for_each_res f [] = Inr ()"
| "for_each_res f (x # xs) = and_then (f x) (\<lambda>_. for_each_res f xs)"

lemma for_each_res_ok [res_simps]:
  "for_each_res f xs = Inr u \<longleftrightarrow> (\<forall>x\<in>set xs. f x = Inr ())"
  by (induction xs) (auto simp: and_then_eq_Inr)

lemma for_each_res_error:
  "for_each_res f xs = Inl e \<Longrightarrow> \<exists>x\<in>set xs. f x = Inl e"
  by (induction xs) (auto simp: and_then_eq_Inl)

lemma for_each_res_first_errorI:
  "\<forall>y\<in>set ys. f y = Inr () \<Longrightarrow> f x = Inl e \<Longrightarrow> for_each_res f (ys @ x # zs) = Inl e"
  by (induction ys) simp_all

lemma for_each_res_first_errorE:
  assumes "for_each_res f xs = Inl e"
  obtains ys x zs where "xs = ys @ x # zs" and "f x = Inl e" and "\<forall>y\<in>set ys. f y = Inr ()"
  using assms
proof (induction xs arbitrary: thesis)
  case Nil
  then show ?case by simp
next
  case (Cons x xs)
  show ?case
  proof (cases "f x")
    case (Inl e')
    with Cons.prems show ?thesis by (auto intro: Cons.prems(1) [of "[]" x xs])
  next
    case (Inr u)
    with Cons.prems(2) have "for_each_res f xs = Inl e" by simp
    then obtain ys y zs where "xs = ys @ y # zs" "f y = Inl e" "\<forall>y\<in>set ys. f y = Inr ()"
      using Cons.IH by blast
    with Inr show ?thesis by (intro Cons.prems(1) [of "x # ys" y zs]) simp_all
  qed
qed

text \<open>A loop over \<open>xs\<close> that updates a state and may return early.\<close>

fun fold_res :: "('x \<Rightarrow> 's \<Rightarrow> 'e + 's) \<Rightarrow> 'x list \<Rightarrow> 's \<Rightarrow> 'e + 's" where
  "fold_res f [] s = Inr s"
| "fold_res f (x # xs) s = and_then (f x s) (fold_res f xs)"

lemma fold_res_append: "fold_res f (xs @ ys) s = and_then (fold_res f xs s) (fold_res f ys)"
  by (induction xs arbitrary: s) (auto simp: and_then_def split: sum.split)

lemma fold_res_invariant:
  assumes "fold_res f xs s = Inr t" and "P s"
    and "\<And>x u v. x \<in> set xs \<Longrightarrow> P u \<Longrightarrow> f x u = Inr v \<Longrightarrow> P v"
  shows "P t"
  using assms
proof (induction xs arbitrary: s)
  case Nil
  then show ?case by simp
next
  case (Cons x xs)
  from Cons.prems(1) obtain u where u: "f x s = Inr u" "fold_res f xs u = Inr t"
    by (auto simp: and_then_eq_Inr)
  have "P u" using Cons.prems(2,3) u(1) by auto
  with u(2) show ?case by (rule Cons.IH) (use Cons.prems(3) in auto)
qed

lemma find_SomeD: "List.find P xs = Some x \<Longrightarrow> x \<in> set xs \<and> P x"
  by (induction xs) (auto split: if_splits)

lemma not_Some_False_iff: "x \<noteq> Some False \<longleftrightarrow> x = None \<or> x = Some True"
  by (cases x) auto

lemma filter_eq_middleD:
  "filter P xs = us @ m # vs \<Longrightarrow>
     \<exists>ys zs. xs = ys @ m # zs \<and> filter P ys = us \<and> filter P zs = vs \<and> P m"
proof (induction xs arbitrary: us)
  case Nil
  then show ?case by simp
next
  case (Cons a xs)
  show ?case
  proof (cases "P a")
    case False
    with Cons obtain ys zs where "xs = ys @ m # zs" "filter P ys = us" "filter P zs = vs" "P m"
      by auto
    with False show ?thesis by (intro exI [of _ "a # ys"] exI [of _ zs]) simp
  next
    case True
    show ?thesis
    proof (cases us)
      case Nil
      with True Cons.prems show ?thesis by (intro exI [of _ "[]"] exI [of _ xs]) auto
    next
      case (Cons u us')
      with True Cons.prems have "filter P xs = us' @ m # vs" and "u = a" by auto
      with Cons.IH obtain ys zs where "xs = ys @ m # zs" "filter P ys = us'"
        "filter P zs = vs" "P m" by blast
      with True Cons \<open>u = a\<close> show ?thesis by (intro exI [of _ "a # ys"] exI [of _ zs]) simp
    qed
  qed
qed

section \<open>Little-endian integers\<close>

fun le_nat :: "bytes \<Rightarrow> nat" where
  "le_nat [] = 0"
| "le_nat (b # bs) = unat b + 256 * le_nat bs"

fun le_bytes :: "nat \<Rightarrow> nat \<Rightarrow> bytes" where
  "le_bytes 0 n = []"
| "le_bytes (Suc k) n = of_nat (n mod 256) # le_bytes k (n div 256)"

lemma length_le_bytes [simp]: "length (le_bytes k n) = k"
  by (induction k arbitrary: n) simp_all

lemma unat_byte_less: "unat (b :: byte) < 256"
  using unsigned_less [of b] by simp

lemma le_nat_less: "le_nat bs < 256 ^ length bs"
proof (induction bs)
  case Nil
  then show ?case by simp
next
  case (Cons b bs)
  from Cons.IH have "Suc (le_nat bs) \<le> 256 ^ length bs" by simp
  then have "256 * Suc (le_nat bs) \<le> 256 * 256 ^ length bs" by (rule mult_le_mono2)
  with unat_byte_less [of b] show ?case by simp
qed

lemma unat_of_nat_byte: "unat (of_nat n :: byte) = n mod 256"
  by (simp add: unat_of_nat)

lemma le_nat_le_bytes: "le_nat (le_bytes k n) = n mod 256 ^ k"
proof (induction k arbitrary: n)
  case 0
  then show ?case by simp
next
  case (Suc k)
  have "n mod (256 * 256 ^ k) = 256 * (n div 256 mod 256 ^ k) + n mod 256"
    by (rule mod_mult2_eq)
  with Suc.IH [of "n div 256"] show ?case
    by (simp add: unat_of_nat_byte)
qed

lemma le_bytes_le_nat: "length bs = k \<Longrightarrow> le_bytes k (le_nat bs) = bs"
  by (induction bs arbitrary: k) (auto simp: unat_byte_less)

definition u16_from_le :: "bytes \<Rightarrow> u16" where
  "u16_from_le bs = of_nat (le_nat bs)"

definition u32_from_le :: "bytes \<Rightarrow> u32" where
  "u32_from_le bs = of_nat (le_nat bs)"

definition u64_from_le :: "bytes \<Rightarrow> u64" where
  "u64_from_le bs = of_nat (le_nat bs)"

lemma unat_u16_from_le: "length bs = 2 \<Longrightarrow> unat (u16_from_le bs) = le_nat bs"
  using le_nat_less [of bs] by (simp add: u16_from_le_def unat_of_nat)

lemma unat_u32_from_le: "length bs = 4 \<Longrightarrow> unat (u32_from_le bs) = le_nat bs"
  using le_nat_less [of bs] by (simp add: u32_from_le_def unat_of_nat)

lemma u16_from_le_bytes [simp]: "u16_from_le (le_bytes 2 (unat x)) = x"
  using unsigned_less [of x, where ?'a = nat]
  by (simp add: u16_from_le_def le_nat_le_bytes)

lemma u32_from_le_bytes [simp]: "u32_from_le (le_bytes 4 (unat x)) = x"
  using unsigned_less [of x, where ?'a = nat]
  by (simp add: u32_from_le_def le_nat_le_bytes)

lemma le_bytes_u16_from_le [simp]:
  "length bs = 2 \<Longrightarrow> le_bytes 2 (unat (u16_from_le bs)) = bs"
  by (simp add: unat_u16_from_le le_bytes_le_nat)

lemma le_bytes_u32_from_le [simp]:
  "length bs = 4 \<Longrightarrow> le_bytes 4 (unat (u32_from_le bs)) = bs"
  by (simp add: unat_u32_from_le le_bytes_le_nat)

lemma le_bytes_u16I:
  "length bs = 2 \<Longrightarrow> c = u16_from_le bs \<Longrightarrow> bs = le_bytes 2 (unat c)"
  by simp

lemma unat_u16_of_len [simp]: "n < 65536 \<Longrightarrow> unat (u16_from_le (le_bytes 2 n)) = n"
  by (simp add: unat_u16_from_le le_nat_le_bytes)

lemma unat_u32_of_len [simp]: "n < 4294967296 \<Longrightarrow> unat (u32_from_le (le_bytes 4 n)) = n"
  by (simp add: unat_u32_from_le le_nat_le_bytes)

lemma unat_u16_from_le_less: "unat (u16_from_le bs) < 65536"
  using unsigned_less [of "u16_from_le bs", where ?'a = nat] by simp

lemma unat_u32_from_le_less: "unat (u32_from_le bs) < 4294967296"
  using unsigned_less [of "u32_from_le bs", where ?'a = nat] by simp

section \<open>Strings and formatting\<close>

text \<open>
  A Rust \<open>str\<close> is a \<open>string\<close> whose characters are its UTF-8 bytes; \<open>as_bytes\<close> is \<open>str_bytes\<close>
  and \<open>len\<close> is \<open>length\<close>. \<open>dec_nat\<close> and \<open>dec_int\<close> are \<open>{}\<close> on integers, \<open>debug_list\<close> is
  \<open>{:?}\<close> on a slice, \<open>debug_str\<close> is \<open>{:?}\<close> on a \<open>str\<close> (characters outside ASCII are
  copied; control characters use the \<open>\u{..}\<close> form).
\<close>

definition str_bytes :: "string \<Rightarrow> bytes" where
  "str_bytes s = map of_char s"

lemma length_str_bytes [simp]: "length (str_bytes s) = length s"
  by (simp add: str_bytes_def)

fun dec_nat :: "nat \<Rightarrow> string" where
  "dec_nat n = (if n < 10 then [char_of (48 + n)]
                else dec_nat (n div 10) @ [char_of (48 + n mod 10)])"

declare dec_nat.simps [simp del]

definition dec_int :: "int \<Rightarrow> string" where
  "dec_int i = (if i < 0 then ''-'' @ dec_nat (nat (- i)) else dec_nat (nat i))"

definition dec_word :: "'a::len word \<Rightarrow> string" where
  "dec_word w = dec_nat (unat w)"

fun join_with :: "string \<Rightarrow> string list \<Rightarrow> string" where
  "join_with sep [] = []"
| "join_with sep [x] = x"
| "join_with sep (x # y # xs) = x @ sep @ join_with sep (y # xs)"

definition debug_list :: "('a \<Rightarrow> string) \<Rightarrow> 'a list \<Rightarrow> string" where
  "debug_list f xs = ''['' @ join_with '', '' (map f xs) @ '']''"

definition hex_digit :: "nat \<Rightarrow> char" where
  "hex_digit n = (if n < 10 then char_of (48 + n) else char_of (87 + n))"

definition debug_char :: "char \<Rightarrow> string" where
  "debug_char c =
     (let n = (of_char c :: nat); bs = char_of (92 :: nat) in
      if n = 0 then [bs, CHR ''0'']
      else if n = 9 then [bs, CHR ''t'']
      else if n = 10 then [bs, CHR ''n'']
      else if n = 13 then [bs, CHR ''r'']
      else if n = 34 \<or> n = 92 then [bs, c]
      else if n < 16 then [bs] @ ''u{'' @ [hex_digit n] @ ''}''
      else if n < 32 \<or> n = 127 then
        [bs] @ ''u{'' @ [hex_digit (n div 16), hex_digit (n mod 16)] @ ''}''
      else [c])"

definition debug_str :: "string \<Rightarrow> string" where
  "debug_str s = [char_of (34 :: nat)] @ concat (map debug_char s) @ [char_of (34 :: nat)]"

definition quoted :: "string \<Rightarrow> string" where
  "quoted s = [char_of (39 :: nat)] @ s @ [char_of (39 :: nat)]"

fun strip_prefix :: "'a list \<Rightarrow> 'a list \<Rightarrow> 'a list option" where
  "strip_prefix [] xs = Some xs"
| "strip_prefix (p # ps) [] = None"
| "strip_prefix (p # ps) (x # xs) = (if p = x then strip_prefix ps xs else None)"

lemma strip_prefix_eq_Some: "strip_prefix ps xs = Some ys \<longleftrightarrow> xs = ps @ ys"
  by (induction ps xs rule: strip_prefix.induct) auto

text \<open>
  \<open>str::parse::<usize>\<close> on a 64-bit target: an optional plus sign, then at least one decimal
  digit and nothing else, with a value that fits.
\<close>

definition digit_value :: "char \<Rightarrow> nat option" where
  "digit_value c =
     (let n = (of_char c :: nat) in if 48 \<le> n \<and> n \<le> 57 then Some (n - 48) else None)"

fun parse_digits :: "nat \<Rightarrow> string \<Rightarrow> nat option" where
  "parse_digits acc [] = Some acc"
| "parse_digits acc (c # cs) =
     (case digit_value c of
        None \<Rightarrow> None
      | Some d \<Rightarrow> if 10 * acc + d < 2 ^ 64 then parse_digits (10 * acc + d) cs else None)"

definition parse_usize :: "string \<Rightarrow> nat option" where
  "parse_usize s =
     (let digits = (case s of c # cs \<Rightarrow> if c = CHR ''+'' then cs else s | [] \<Rightarrow> s) in
      if digits = [] then None else parse_digits 0 digits)"

definition str_contains :: "string \<Rightarrow> string \<Rightarrow> bool" where
  "str_contains s pat = sublist pat s"

lemma str_contains_middle: "str_contains (xs @ pat @ ys) pat"
  by (auto simp: str_contains_def sublist_def)

text \<open>Printing a number and parsing it back.\<close>

lemma digit_value_char: "d < 10 \<Longrightarrow> digit_value (char_of (48 + d)) = Some d"
  by (simp add: digit_value_def take_bit_nat_eq_self)

lemma parse_digits_append:
  "parse_digits acc (xs @ ys) = Option.bind (parse_digits acc xs) (\<lambda>a. parse_digits a ys)"
  by (induction acc xs rule: parse_digits.induct) (auto split: option.splits)

lemma dec_nat_unfold:
  "dec_nat n = (if n < 10 then [char_of (48 + n)]
     else dec_nat (n div 10) @ [char_of (48 + n mod 10)])"
  by (subst dec_nat.simps) simp

lemma parse_digits_dec_nat: "n < 2 ^ 64 \<Longrightarrow> parse_digits 0 (dec_nat n) = Some n"
proof (induction n rule: dec_nat.induct)
  case (1 n)
  show ?case
  proof (cases "n < 10")
    case True
    then show ?thesis by (simp add: dec_nat_unfold [of n] digit_value_char)
  next
    case False
    then have "parse_digits 0 (dec_nat (n div 10)) = Some (n div 10)"
      using 1 by simp
    moreover have "10 * (n div 10) + n mod 10 = n" by simp
    ultimately show ?thesis
      using 1(2) False
      by (simp add: dec_nat_unfold [of n] parse_digits_append digit_value_char)
  qed
qed

lemma dec_nat_digits: "c \<in> set (dec_nat n) \<Longrightarrow> digit_value c \<noteq> None"
proof (induction n rule: dec_nat.induct)
  case (1 n)
  show ?case
  proof (cases "n < 10")
    case True
    with 1(2) show ?thesis by (simp add: dec_nat_unfold [of n] digit_value_char)
  next
    case False
    with 1 show ?thesis by (auto simp: dec_nat_unfold [of n] digit_value_char)
  qed
qed

lemma parse_usize_dec_nat:
  assumes "n < 2 ^ 64"
  shows "parse_usize (dec_nat n) = Some n"
proof -
  obtain c cs where d: "dec_nat n = c # cs"
    by (cases "dec_nat n") (simp_all add: dec_nat_unfold [of n] split: if_splits)
  then have "c \<noteq> CHR ''+''"
    using dec_nat_digits [of c n] by (auto simp: digit_value_def)
  then show ?thesis
    using parse_digits_dec_nat [OF assms] by (simp add: parse_usize_def d)
qed

end
