(* ===== verification/Errors.thy ===== *)
theory Errors
  imports Prelude
begin

text \<open>
  \<^verbatim>\<open>dcap-verify/src/error.rs\<close>: the rejection categories, their stable slugs, and the
  rejection value itself. Every fallible operation of the crate returns
  \<open>verify_error + 'a\<close>, here \<open>'a res\<close>.
\<close>

datatype error_category =
    QuoteParse
  | CollateralParse
  | QuoteSignatureInvalid
  | QeReportSignatureInvalid
  | QeBindingInvalid
  | QeVendorInvalid
  | QeIdentitySignatureInvalid
  | QeIdentityStale
  | QeIdentityMismatch
  | TcbInfoSignatureInvalid
  | TcbInfoStale
  | CertOrCrlTimeInvalid
  | CrlInvalid
  | RootCaUntrusted
  | TcbLevelUnsupported
  | TcbStandingRejected
  | MrenclaveMismatch
  | DebugEnclaveRejected

fun error_category_as_str :: "error_category \<Rightarrow> string" where
  "error_category_as_str QuoteParse = ''quote-parse-error''"
| "error_category_as_str CollateralParse = ''collateral-parse-error''"
| "error_category_as_str QuoteSignatureInvalid = ''quote-signature-invalid''"
| "error_category_as_str QeReportSignatureInvalid = ''qe-report-signature-invalid''"
| "error_category_as_str QeBindingInvalid = ''qe-binding-invalid''"
| "error_category_as_str QeVendorInvalid = ''qe-vendor-invalid''"
| "error_category_as_str QeIdentitySignatureInvalid = ''qe-identity-signature-invalid''"
| "error_category_as_str QeIdentityStale = ''qe-identity-stale''"
| "error_category_as_str QeIdentityMismatch = ''qe-identity-mismatch''"
| "error_category_as_str TcbInfoSignatureInvalid = ''tcb-info-signature-invalid''"
| "error_category_as_str TcbInfoStale = ''tcb-info-stale''"
| "error_category_as_str CertOrCrlTimeInvalid = ''cert-or-crl-time-invalid''"
| "error_category_as_str CrlInvalid = ''crl-invalid''"
| "error_category_as_str RootCaUntrusted = ''root-ca-untrusted''"
| "error_category_as_str TcbLevelUnsupported = ''tcb-level-unsupported''"
| "error_category_as_str TcbStandingRejected = ''tcb-standing-rejected''"
| "error_category_as_str MrenclaveMismatch = ''mrenclave-mismatch''"
| "error_category_as_str DebugEnclaveRejected = ''debug-enclave-rejected''"

text \<open>\<open>Display\<close> of a category writes its slug; of an error, \<open>[category] detail\<close>.\<close>

definition display_category :: "error_category \<Rightarrow> string" where
  "display_category c = error_category_as_str c"

record verify_error =
  category :: error_category
  detail :: string

definition verify_error_new :: "error_category \<Rightarrow> string \<Rightarrow> verify_error" where
  "verify_error_new c d = \<lparr>category = c, detail = d\<rparr>"

definition display_verify_error :: "verify_error \<Rightarrow> string" where
  "display_verify_error e = ''['' @ display_category (category e) @ ''] '' @ detail e"

type_synonym 'a res = "verify_error + 'a"

lemma category_verify_error_new [simp]: "category (verify_error_new c d) = c"
  by (simp add: verify_error_new_def)

lemma detail_verify_error_new [simp]: "detail (verify_error_new c d) = d"
  by (simp add: verify_error_new_def)

text \<open>
  A result whose rejections all carry one of the categories of a set: the contract by
  which the categories of a composed check follow from those of its parts.
\<close>

definition rejects_within :: "error_category set \<Rightarrow> 'a res \<Rightarrow> bool" where
  "rejects_within cs r \<longleftrightarrow> (\<forall>e. r = Inl e \<longrightarrow> category e \<in> cs)"

named_theorems rejects_intros \<open>which categories a check can reject with\<close>

lemma rejects_within_Inr [rejects_intros]: "rejects_within cs (Inr x)"
  by (simp add: rejects_within_def)

lemma rejects_within_Inl [rejects_intros]:
  "c \<in> cs \<Longrightarrow> rejects_within cs (Inl (verify_error_new c d))"
  by (simp add: rejects_within_def)

lemma rejects_within_and_then [rejects_intros]:
  "rejects_within cs r \<Longrightarrow> (\<And>x. r = Inr x \<Longrightarrow> rejects_within cs (f x)) \<Longrightarrow>
   rejects_within cs (and_then r f)"
  by (auto simp: rejects_within_def and_then_eq_Inl)

lemma rejects_within_if [rejects_intros]:
  "(b \<Longrightarrow> rejects_within cs r) \<Longrightarrow> (\<not> b \<Longrightarrow> rejects_within cs r') \<Longrightarrow>
   rejects_within cs (if b then r else r')"
  by simp

lemma rejects_within_map_err [rejects_intros]:
  "(\<And>e. category (g e) \<in> cs) \<Longrightarrow> rejects_within cs (map_err g r)"
  by (auto simp: rejects_within_def map_err_eq_Inl)

lemma rejects_within_ok_or [rejects_intros]:
  "category e \<in> cs \<Longrightarrow> rejects_within cs (ok_or e opt)"
  by (auto simp: rejects_within_def ok_or_eq_Inl)

lemma rejects_within_for_each [rejects_intros]:
  "(\<And>x. x \<in> set xs \<Longrightarrow> rejects_within cs (f x)) \<Longrightarrow> rejects_within cs (for_each_res f xs)"
  using for_each_res_error by (fastforce simp: rejects_within_def)

lemma rejects_within_mono: "rejects_within cs r \<Longrightarrow> cs \<subseteq> cs' \<Longrightarrow> rejects_within cs' r"
  by (auto simp: rejects_within_def)

text \<open>The categories as a finite, enumerable type, so that statements about all of them compute.\<close>

instantiation error_category :: enum
begin

definition enum_error_category :: "error_category list" where
  "enum_error_category =
     [QuoteParse, CollateralParse, QuoteSignatureInvalid, QeReportSignatureInvalid,
      QeBindingInvalid, QeVendorInvalid, QeIdentitySignatureInvalid, QeIdentityStale,
      QeIdentityMismatch, TcbInfoSignatureInvalid, TcbInfoStale, CertOrCrlTimeInvalid,
      CrlInvalid, RootCaUntrusted, TcbLevelUnsupported, TcbStandingRejected,
      MrenclaveMismatch, DebugEnclaveRejected]"

definition enum_all_error_category :: "(error_category \<Rightarrow> bool) \<Rightarrow> bool" where
  "enum_all_error_category P \<longleftrightarrow> list_all P enum_class.enum"

definition enum_ex_error_category :: "(error_category \<Rightarrow> bool) \<Rightarrow> bool" where
  "enum_ex_error_category P \<longleftrightarrow> list_ex P enum_class.enum"

lemma UNIV_error_category: "UNIV = set (enum_class.enum :: error_category list)"
proof -
  have "c \<in> set (enum_class.enum :: error_category list)" for c
    by (cases c) (simp_all add: enum_error_category_def)
  then show ?thesis by auto
qed

instance
proof
  show "(UNIV :: error_category set) = set enum_class.enum"
    by (rule UNIV_error_category)
  show "distinct (enum_class.enum :: error_category list)"
    by (simp add: enum_error_category_def)
  show "enum_class.enum_all P = Ball (UNIV :: error_category set) P" for P
    by (simp only: UNIV_error_category enum_all_error_category_def list_all_iff)
  show "enum_class.enum_ex P = Bex (UNIV :: error_category set) P" for P
    by (simp only: UNIV_error_category enum_ex_error_category_def list_ex_iff)
qed

end

text \<open>Slugs are pairwise different: the map from categories to slugs loses nothing.\<close>

lemma distinct_slugs: "distinct (map error_category_as_str enum_class.enum)"
  by (simp add: enum_error_category_def)

lemma inj_error_category_as_str: "inj error_category_as_str"
  using distinct_slugs by (simp add: UNIV_error_category distinct_map)

section \<open>Property\<close>

text \<open>The slug of a category identifies it, and a displayed category is its slug: no two
  categories are reported alike.\<close>

theorem slug_identifies_category:
  "display_category c = error_category_as_str d \<longleftrightarrow> c = d"
  using inj_error_category_as_str by (auto simp: display_category_def dest: injD)

end
