(* ===== verification/Crates.thy ===== *)
theory Crates
  imports Errors
begin

text \<open>
  The third-party crates the verifier calls (\<^verbatim>\<open>p256\<close>, \<^verbatim>\<open>sha2\<close>, \<^verbatim>\<open>x509-parser\<close>, \<^verbatim>\<open>pem\<close>,
  \<^verbatim>\<open>hex\<close>, \<^verbatim>\<open>serde_json\<close>) are not part of the repository. They enter the model as one record of
  functions, \<open>crates\<close>, that every operation using them takes as an argument; nothing is
  assumed about it unless a theorem says so. The decoded values they return are records of
  the accessors the code reads off them, and no more:

  \<^item> \<open>x509_name\<close>: \<open>as_raw\<close>, \<open>iter_common_name\<close> with \<open>as_str\<close> (\<open>None\<close> where it fails), \<open>Display\<close>;
  \<^item> \<open>algorithm_id\<close>: the OID and the parameters, which the code compares with the crate's
    \<open>==\<close> (equality of the model's value) and reads with \<open>as_oid\<close>;
  \<^item> \<open>x509_cert\<close>, \<open>x509_crl\<close>: the certificate and CRL accessors;
  \<^item> \<open>der_obj\<close>: a parsed DER object, by what each accessor returns on it.

  An \<open>Err(e)\<close> of a crate is \<open>Inl\<close> of the text \<open>e\<close> displays, the only thing the code reads of it.
  A key \<open>'k\<close> and a signature \<open>'s\<close> are opaque.
\<close>

section \<open>Decoded values\<close>

record pem_block =
  pem_tag :: string
  pem_contents :: bytes

record x509_name =
  name_raw :: bytes
  common_names :: "string option list"
  name_display :: string

record der_any =
  any_value :: bytes
  any_as_oid :: "string option"

record algorithm_id =
  alg_oid :: string
  alg_parameters :: "der_any option"

record basic_constraints_ext =
  bc_ca :: bool
  bc_path_len :: "u32 option"

record x509_cert =
  subject :: x509_name
  issuer :: x509_name
  not_before :: int
  not_after :: int
  signature_algorithm :: algorithm_id
  tbs_signature :: algorithm_id
  spki_algorithm :: algorithm_id
  spki_data :: bytes
  signature_value :: bytes
  tbs_certificate :: bytes
  raw_serial :: bytes
  raw_serial_as_string :: string
  basic_constraints :: "string + basic_constraints_ext option"
  key_usage_cert_sign :: "string + bool option"
  extensions :: "(string \<times> bytes) list"

record x509_crl =
  crl_issuer :: x509_name
  crl_signature_algorithm :: algorithm_id
  crl_tbs_signature :: algorithm_id
  last_update :: int
  next_update :: "int option"
  crl_signature_value :: bytes
  tbs_cert_list :: bytes
  revoked_serials :: "bytes list"

datatype der_obj = DerObj
  (as_sequence: "string + der_obj list")
  (as_oid: "string option")
  (as_slice: "bytes option")
  (as_u32: "u32 option")

section \<open>The functions\<close>

record ('k, 's) crates =
  hex_decode :: "string \<Rightarrow> string + bytes"
  hex_encode :: "bytes \<Rightarrow> string"
  sha256 :: "bytes \<Rightarrow> bytes"
  key_from_sec1 :: "bytes \<Rightarrow> string + 'k"
  sig_from_slice :: "bytes \<Rightarrow> string + 's"
  sig_from_der :: "bytes \<Rightarrow> string + 's"
  ecdsa_verify :: "'k \<Rightarrow> bytes \<Rightarrow> 's \<Rightarrow> bool"
  pem_parse_many :: "bytes \<Rightarrow> string + pem_block list"
  cert_from_der :: "bytes \<Rightarrow> string + x509_cert"
  crl_from_der :: "bytes \<Rightarrow> string + x509_crl"
  parse_der :: "bytes \<Rightarrow> string + der_obj"

text \<open>
  \<open>key.verify(message, &sig).map_err(...)\<close>: the crate returns a unit result whose error the
  code discards.
\<close>

definition verify_with :: "('k, 's) crates \<Rightarrow> 'k \<Rightarrow> bytes \<Rightarrow> 's \<Rightarrow> 'e \<Rightarrow> 'e + unit" where
  "verify_with C k m s e = (if ecdsa_verify C k m s then Inr () else Inl e)"

lemma verify_with_ok [res_simps]: "verify_with C k m s e = Inr u \<longleftrightarrow> ecdsa_verify C k m s"
  by (simp add: verify_with_def)

lemma verify_with_error: "verify_with C k m s e = Inl e' \<longleftrightarrow> \<not> ecdsa_verify C k m s \<and> e' = e"
  by (auto simp: verify_with_def)

lemma rejects_within_verify_with [rejects_intros]:
  "category e \<in> cs \<Longrightarrow> rejects_within cs (verify_with C k m s e)"
  by (simp add: verify_with_def rejects_within_def)

text \<open>A P-256 signature check on already encoded inputs: the reading every signature theorem uses.\<close>

definition signed_der :: "('k, 's) crates \<Rightarrow> bytes \<Rightarrow> bytes \<Rightarrow> bytes \<Rightarrow> bool" where
  "signed_der C key_sec1 message sig_der \<longleftrightarrow>
     (\<exists>k s. key_from_sec1 C key_sec1 = Inr k \<and> sig_from_der C sig_der = Inr s \<and>
        ecdsa_verify C k message s)"

definition signed_raw :: "('k, 's) crates \<Rightarrow> bytes \<Rightarrow> bytes \<Rightarrow> bytes \<Rightarrow> bool" where
  "signed_raw C key_sec1 message sig_raw \<longleftrightarrow>
     (\<exists>k s. key_from_sec1 C key_sec1 = Inr k \<and> sig_from_slice C sig_raw = Inr s \<and>
        ecdsa_verify C k message s)"

end
