(* ===== verification/Pki.thy ===== *)
theory Pki
  imports Crates
begin

text \<open>
  \<^verbatim>\<open>dcap-verify/src/pki.rs\<close>, first half: the pinned root, PEM chains, path validation.
  CRLs and the PCK extension are in the theories \<open>Crl\<close> and \<open>Pck_Extension\<close>.

  Indexing a parsed chain (\<open>leaf\<close>, \<open>root\<close>) is total here because a chain that came out of
  \<open>from_pem\<close> and \<open>parse\<close> is never empty (\<open>parsed_chain_nonempty\<close>).
\<close>

section \<open>Constants\<close>

definition INTEL_QE_VENDOR_ID :: bytes where
  "INTEL_QE_VENDOR_ID =
     [0x93, 0x9a, 0x72, 0x33, 0xf7, 0x9c, 0x4c, 0xa9, 0x94, 0x0a, 0x0d, 0xb3, 0x95, 0x7f, 0x06, 0x07]"

definition INTEL_TCB_SIGNING_CN :: string where
  "INTEL_TCB_SIGNING_CN = ''Intel SGX TCB Signing''"

abbreviation MAX_CHAIN_LEN :: nat where "MAX_CHAIN_LEN \<equiv> 10"

abbreviation MAX_CHAIN_PEM_LEN :: nat where "MAX_CHAIN_PEM_LEN \<equiv> 64 * 1024"

definition INTEL_SGX_ROOT_CA_PUBLIC_KEY_SEC1 :: bytes where
  "INTEL_SGX_ROOT_CA_PUBLIC_KEY_SEC1 =
     [0x04, 0x0b, 0xa9, 0xc4, 0xc0, 0xc0, 0xc8, 0x61, 0x93, 0xa3, 0xfe, 0x23, 0xd6, 0xb0, 0x2c, 0xda,
      0x10, 0xa8, 0xbb, 0xd4, 0xe8, 0x8e, 0x48, 0xb4, 0x45, 0x85, 0x61, 0xa3, 0x6e, 0x70, 0x55, 0x25,
      0xf5, 0x67, 0x91, 0x8e, 0x2e, 0xdc, 0x88, 0xe4, 0x0d, 0x86, 0x0b, 0xd0, 0xcc, 0x4e, 0xe2, 0x6a,
      0xac, 0xc9, 0x88, 0xe5, 0x05, 0xa9, 0x53, 0x55, 0x8c, 0x45, 0x3f, 0x6b, 0x09, 0x04, 0xae, 0x73,
      0x94]"

definition OID_SIG_ECDSA_WITH_SHA256 :: string where
  "OID_SIG_ECDSA_WITH_SHA256 = ''1.2.840.10045.4.3.2''"

definition OID_KEY_TYPE_EC_PUBLIC_KEY :: string where
  "OID_KEY_TYPE_EC_PUBLIC_KEY = ''1.2.840.10045.2.1''"

definition OID_EC_P256 :: string where
  "OID_EC_P256 = ''1.2.840.10045.3.1.7''"

text \<open>
  The trust anchor. A build of the crate's own tests has a thread-local cell that can override it
  (\<open>TEST_ROOT_ANCHOR\<close>); its content \<open>ov\<close> is an argument of the operations that read the anchor,
  named \<open>..._under\<close>. Every other build has no cell: its operations, under their plain names, are
  those at \<open>None\<close>.
\<close>

type_synonym root_anchor = "bytes option"

definition anchor_sec1_under :: "root_anchor \<Rightarrow> bytes" where
  "anchor_sec1_under ov =
     (case ov of Some key \<Rightarrow> key | None \<Rightarrow> INTEL_SGX_ROOT_CA_PUBLIC_KEY_SEC1)"

definition anchor_sec1 :: bytes where
  "anchor_sec1 = anchor_sec1_under None"

lemma anchor_sec1_intel: "anchor_sec1 = INTEL_SGX_ROOT_CA_PUBLIC_KEY_SEC1"
  by (simp add: anchor_sec1_def anchor_sec1_under_def)

text \<open>The pinned key, decoded once; \<open>None\<close> is the panic of \<open>expect\<close>.\<close>

definition PINNED_ROOT_KEY :: "('k, 's) crates \<Rightarrow> 'k option" where
  "PINNED_ROOT_KEY C = result_ok (key_from_sec1 C INTEL_SGX_ROOT_CA_PUBLIC_KEY_SEC1)"

definition pinned_root_key_under :: "root_anchor \<Rightarrow> ('k, 's) crates \<Rightarrow> 'k option" where
  "pinned_root_key_under ov C =
     (case ov of
        Some key \<Rightarrow> result_ok (key_from_sec1 C key)
      | None \<Rightarrow> PINNED_ROOT_KEY C)"

definition pinned_root_key :: "('k, 's) crates \<Rightarrow> 'k option" where
  "pinned_root_key C = pinned_root_key_under None C"

lemma pinned_root_key_intel:
  "pinned_root_key C = result_ok (key_from_sec1 C INTEL_SGX_ROOT_CA_PUBLIC_KEY_SEC1)"
  by (simp add: pinned_root_key_def pinned_root_key_under_def PINNED_ROOT_KEY_def)

section \<open>Chains\<close>

datatype chain_kind = TcbInfoIssuer | PckCrlIssuer | QeIdentityIssuer | QuotePck

fun chain_kind_label :: "chain_kind \<Rightarrow> string" where
  "chain_kind_label TcbInfoIssuer = ''TCB info issuer chain''"
| "chain_kind_label PckCrlIssuer = ''PCK CRL issuer chain''"
| "chain_kind_label QeIdentityIssuer = ''QE identity issuer chain''"
| "chain_kind_label QuotePck = ''PCK chain embedded in the quote''"

definition chain_parse_error :: "chain_kind \<Rightarrow> string \<Rightarrow> verify_error" where
  "chain_parse_error kind d =
     (let msg = chain_kind_label kind @ '': '' @ d in
      case kind of
        QuotePck \<Rightarrow> verify_error_new QuoteParse msg
      | _ \<Rightarrow> verify_error_new CollateralParse msg)"

record cert_chain =
  cc_kind :: chain_kind
  ders :: "bytes list"

record parsed_chain =
  pc_kind :: chain_kind
  certs :: "x509_cert list"

definition is_ascii_whitespace :: "byte \<Rightarrow> bool" where
  "is_ascii_whitespace b \<longleftrightarrow> b = 32 \<or> b = 9 \<or> b = 10 \<or> b = 12 \<or> b = 13"

definition trailing_junk :: "byte \<Rightarrow> bool" where
  "trailing_junk b \<longleftrightarrow> b = 0 \<or> is_ascii_whitespace b"

text \<open>The loop of \<open>trim_trailing_junk\<close>: the final value of \<open>end\<close>.\<close>

fun trim_end :: "bytes \<Rightarrow> nat \<Rightarrow> nat" where
  "trim_end data 0 = 0"
| "trim_end data (Suc k) = (if trailing_junk (data ! k) then trim_end data k else Suc k)"

definition trim_trailing_junk :: "bytes \<Rightarrow> bytes" where
  "trim_trailing_junk data = take (trim_end data (length data)) data"

definition chain_bytes_detail :: "nat \<Rightarrow> string" where
  "chain_bytes_detail n =
     ''chain is '' @ dec_nat n @ '' bytes, more than the accepted maximum of '' @
     dec_nat MAX_CHAIN_PEM_LEN"

definition chain_count_detail :: "nat \<Rightarrow> string" where
  "chain_count_detail n =
     ''chain holds '' @ dec_nat n @ '' certificates, more than the accepted maximum of '' @
     dec_nat MAX_CHAIN_LEN"

definition from_pem :: "('k, 's) crates \<Rightarrow> chain_kind \<Rightarrow> bytes \<Rightarrow> cert_chain res" where
  "from_pem C kind data =
     (if length data > MAX_CHAIN_PEM_LEN
      then Inl (chain_parse_error kind (chain_bytes_detail (length data)))
      else
      and_then (map_err (\<lambda>e. chain_parse_error kind (''PEM decoding failed: '' @ e))
                 (pem_parse_many C (trim_trailing_junk data))) (\<lambda>blocks.
      let ders' = map pem_contents (filter (\<lambda>b. pem_tag b = ''CERTIFICATE'') blocks) in
      if ders' = [] then Inl (chain_parse_error kind ''no certificates present'')
      else if length ders' > MAX_CHAIN_LEN
      then Inl (chain_parse_error kind (chain_count_detail (length ders')))
      else Inr \<lparr>cc_kind = kind, ders = ders'\<rparr>))"

definition cert_der_detail :: "nat \<Rightarrow> string \<Rightarrow> string" where
  "cert_der_detail i e = ''certificate '' @ dec_nat i @ '' is not valid DER: '' @ e"

definition chain_parse :: "('k, 's) crates \<Rightarrow> cert_chain \<Rightarrow> parsed_chain res" where
  "chain_parse C chain =
     and_then (collect_res (map (\<lambda>(i, der).
         map_err (\<lambda>e. chain_parse_error (cc_kind chain) (cert_der_detail i e))
           (cert_from_der C der)) (enumerate 0 (ders chain)))) (\<lambda>certs'.
     Inr \<lparr>pc_kind = cc_kind chain, certs = certs'\<rparr>)"

definition leaf :: "parsed_chain \<Rightarrow> x509_cert" where
  "leaf chain = certs chain ! 0"

definition root :: "parsed_chain \<Rightarrow> x509_cert" where
  "root chain = certs chain ! (length (certs chain) - 1)"

section \<open>Checks on one certificate\<close>

definition untrusted :: "string \<Rightarrow> verify_error" where
  "untrusted d = verify_error_new RootCaUntrusted d"

definition require_ca_msg :: "string \<Rightarrow> nat \<Rightarrow> x509_cert \<Rightarrow> string \<Rightarrow> string \<Rightarrow> string" where
  "require_ca_msg label index cert noun tail =
     label @ '': '' @ noun @ dec_nat index @ '' ('' @ quoted (name_display (subject cert)) @
     '')'' @ tail"

definition require_ca :: "string \<Rightarrow> nat \<Rightarrow> x509_cert \<Rightarrow> unit res" where
  "require_ca label index cert =
     and_then (map_err (\<lambda>e. untrusted (require_ca_msg label index cert ''certificate ''
                 ('' has an unparseable basicConstraints extension: '' @ e)))
               (basic_constraints cert)) (\<lambda>bc_opt.
     and_then (ok_or (untrusted (require_ca_msg label index cert ''issuer certificate ''
                 '' lacks a basicConstraints extension'')) bc_opt) (\<lambda>bc.
     if \<not> bc_ca bc
     then Inl (untrusted (require_ca_msg label index cert ''certificate ''
                 '' is used as an issuer but is not a CA (basicConstraints cA=false)''))
     else
     and_then (map_err (\<lambda>e. untrusted (require_ca_msg label index cert ''certificate ''
                 ('' has an unparseable keyUsage extension: '' @ e)))
               (key_usage_cert_sign cert)) (\<lambda>key_usage.
     if key_usage = Some False
     then Inl (untrusted (require_ca_msg label index cert ''issuer certificate ''
                 '' keyUsage does not permit keyCertSign''))
     else Inr ())))"

definition alg_msg :: "string \<Rightarrow> x509_cert \<Rightarrow> string \<Rightarrow> string" where
  "alg_msg label cert tail = label @ '': '' @ quoted (name_display (subject cert)) @ tail"

definition check_p256_sha256_algs :: "string \<Rightarrow> x509_cert \<Rightarrow> unit res" where
  "check_p256_sha256_algs label cert =
     (if signature_algorithm cert \<noteq> tbs_signature cert
      then Inl (untrusted (alg_msg label cert
        '' declares an outer signatureAlgorithm that differs from the signed tbsCertificate.signature field''))
      else if alg_oid (signature_algorithm cert) \<noteq> OID_SIG_ECDSA_WITH_SHA256
      then Inl (untrusted (alg_msg label cert ('' is signed with algorithm '' @
        alg_oid (signature_algorithm cert) @ '' instead of ECDSA-with-SHA256'')))
      else if alg_oid (spki_algorithm cert) \<noteq> OID_KEY_TYPE_EC_PUBLIC_KEY
      then Inl (untrusted (alg_msg label cert ('' holds a non-EC public key ('' @
        alg_oid (spki_algorithm cert) @ '')'')))
      else
      and_then (ok_or (untrusted (alg_msg label cert
          '' does not name an EC curve in its key parameters''))
        (Option.bind (alg_parameters (spki_algorithm cert)) any_as_oid)) (\<lambda>curve.
      if curve \<noteq> OID_EC_P256
      then Inl (untrusted (alg_msg label cert ('' uses curve '' @ curve @
        '' instead of P-256'')))
      else Inr ()))"

definition spki_key_detail :: "string \<Rightarrow> x509_cert \<Rightarrow> string \<Rightarrow> string" where
  "spki_key_detail label cert e =
     label @ '': public key of '' @ quoted (name_display (subject cert)) @
     '' is not a usable P-256 point: '' @ e"

definition spki_verifying_key :: "('k, 's) crates \<Rightarrow> string \<Rightarrow> x509_cert \<Rightarrow> 'k res" where
  "spki_verifying_key C label cert =
     map_err (\<lambda>e. untrusted (spki_key_detail label cert e)) (key_from_sec1 C (spki_data cert))"

definition cert_window_detail :: "string \<Rightarrow> string \<Rightarrow> int \<Rightarrow> int \<Rightarrow> int \<Rightarrow> string" where
  "cert_window_detail label subj lo hi now =
     label @ '': '' @ quoted subj @ '' is valid from unix '' @ dec_int lo @ '' until unix '' @
     dec_int hi @ '', verification time is '' @ dec_int now"

text \<open>The time test inside the certificate loop of \<open>validate\<close>.\<close>

definition check_cert_window :: "string \<Rightarrow> string \<Rightarrow> int \<Rightarrow> int \<Rightarrow> int \<Rightarrow> unit res" where
  "check_cert_window label subj not_before' not_after' now =
     (if now < not_before' \<or> now \<ge> not_after'
      then Inl (verify_error_new CertOrCrlTimeInvalid
             (cert_window_detail label subj not_before' not_after' now))
      else Inr ())"

section \<open>Path validation\<close>

definition anchor_detail :: "string \<Rightarrow> x509_cert \<Rightarrow> string" where
  "anchor_detail label cert =
     label @ '': terminal certificate '' @ quoted (name_display (subject cert)) @
     '' does not hold the pinned Intel SGX Root CA key''"

definition not_issued_detail :: "string \<Rightarrow> nat \<Rightarrow> x509_cert \<Rightarrow> x509_cert \<Rightarrow> string" where
  "not_issued_detail label i child parent =
     label @ '': certificate '' @ dec_nat i @ '' ('' @ quoted (name_display (subject child)) @
     '') was not issued by the next certificate in the chain ('' @
     quoted (name_display (subject parent)) @ '')''"

definition undecodable_sig_detail :: "string \<Rightarrow> nat \<Rightarrow> string \<Rightarrow> string" where
  "undecodable_sig_detail label i e =
     label @ '': certificate '' @ dec_nat i @ '' carries an undecodable signature: '' @ e"

definition bad_sig_detail :: "string \<Rightarrow> nat \<Rightarrow> x509_cert \<Rightarrow> string" where
  "bad_sig_detail label i child =
     label @ '': signature on certificate '' @ dec_nat i @ '' ('' @
     quoted (name_display (subject child)) @ '') does not verify against its issuer''"

text \<open>One round of the issuance loop: certificate \<open>i\<close> against its successor, the last against itself.\<close>

definition check_issued :: "('k, 's) crates \<Rightarrow> string \<Rightarrow> x509_cert list \<Rightarrow> nat \<Rightarrow> unit res" where
  "check_issued C label cs i =
     (let child = cs ! i;
          parent = (if i + 1 < length cs then cs ! (i + 1) else cs ! i) in
      if name_raw (issuer child) \<noteq> name_raw (subject parent)
      then Inl (untrusted (not_issued_detail label i child parent))
      else
      and_then (spki_verifying_key C label parent) (\<lambda>issuer_key.
      and_then (map_err (\<lambda>e. untrusted (undecodable_sig_detail label i e))
                 (sig_from_der C (signature_value child))) (\<lambda>sig.
      verify_with C issuer_key (tbs_certificate child) sig
        (untrusted (bad_sig_detail label i child)))))"

definition chain_validate_under ::
  "root_anchor \<Rightarrow> ('k, 's) crates \<Rightarrow> parsed_chain \<Rightarrow> int \<Rightarrow> unit res" where
  "chain_validate_under ov C chain now =
     (let label = chain_kind_label (pc_kind chain) in
      if spki_data (root chain) \<noteq> anchor_sec1_under ov
      then Inl (untrusted (anchor_detail label (root chain)))
      else
      and_then (for_each_res (\<lambda>cert.
          and_then (check_cert_window label (name_display (subject cert))
                     (not_before cert) (not_after cert) now) (\<lambda>_.
          check_p256_sha256_algs label cert)) (certs chain)) (\<lambda>_.
      and_then (for_each_res (\<lambda>(i, cert). require_ca label i cert)
          (drop 1 (enumerate 0 (certs chain)))) (\<lambda>_.
      for_each_res (check_issued C label (certs chain)) [0..<length (certs chain)])))"

definition chain_validate :: "('k, 's) crates \<Rightarrow> parsed_chain \<Rightarrow> int \<Rightarrow> unit res" where
  "chain_validate C chain now = chain_validate_under None C chain now"

definition leaf_verifying_key :: "('k, 's) crates \<Rightarrow> parsed_chain \<Rightarrow> 'k res" where
  "leaf_verifying_key C chain =
     spki_verifying_key C (chain_kind_label (pc_kind chain)) (leaf chain)"

definition leaf_subject_raw :: "parsed_chain \<Rightarrow> bytes" where
  "leaf_subject_raw chain = name_raw (subject (leaf chain))"

definition leaf_issuer_raw :: "parsed_chain \<Rightarrow> bytes" where
  "leaf_issuer_raw chain = name_raw (issuer (leaf chain))"

definition root_subject_raw :: "parsed_chain \<Rightarrow> bytes" where
  "root_subject_raw chain = name_raw (subject (root chain))"

text \<open>\<open>iter_common_name().next().and_then(as_str)\<close>.\<close>

definition first_common_name :: "x509_name \<Rightarrow> string option" where
  "first_common_name n = (case common_names n of [] \<Rightarrow> None | cn # _ \<Rightarrow> cn)"

definition leaf_common_name :: "parsed_chain \<Rightarrow> string res" where
  "leaf_common_name chain =
     ok_or (chain_parse_error (pc_kind chain) ''leaf certificate has no readable common name'')
       (first_common_name (subject (leaf chain)))"

end
