(* ===== verification/Window.thy ===== *)
theory Window
  imports Errors
begin

text \<open>
  Three places of the code test the verification time against a validity window: every
  certificate of a chain, each CRL, and each signed collateral document. The contract is the
  same: the lower bound is inclusive, the upper bound exclusive, and a time outside rejects
  with one fixed category. The locale states it; \<open>Chain\<close>, \<open>Crl\<close> and \<open>Verify\<close> interpret it on
  the three checks.
\<close>

locale half_open_window =
  fixes gate :: "int \<Rightarrow> int \<Rightarrow> int \<Rightarrow> unit res"
    and stale :: error_category
  assumes gate_inside: "lo \<le> now \<Longrightarrow> now < hi \<Longrightarrow> gate lo hi now = Inr ()"
    and gate_outside: "now < lo \<or> hi \<le> now \<Longrightarrow>
      \<exists>d. gate lo hi now = Inl (verify_error_new stale d)"
begin

lemma gate_ok: "gate lo hi now = Inr u \<longleftrightarrow> lo \<le> now \<and> now < hi"
  using gate_inside [of lo now hi] gate_outside [of now lo hi]
  by (cases "lo \<le> now \<and> now < hi") auto

lemma gate_rejects: "rejects_within {stale} (gate lo hi now)"
  using gate_inside [of lo now hi] gate_outside [of now lo hi]
  by (cases "lo \<le> now \<and> now < hi") (auto simp: rejects_within_def)

lemma gate_at_start: "lo < hi \<Longrightarrow> gate lo hi lo = Inr ()"
  by (simp add: gate_inside)

lemma gate_at_expiry: "\<exists>d. gate lo hi hi = Inl (verify_error_new stale d)"
  by (simp add: gate_outside)

lemma gate_last_second: "lo < hi \<Longrightarrow> gate lo hi (hi - 1) = Inr ()"
  by (simp add: gate_inside)

lemma gate_convex:
  "gate lo hi s = Inr u \<Longrightarrow> gate lo hi t = Inr v \<Longrightarrow> s \<le> now \<Longrightarrow> now \<le> t \<Longrightarrow>
   gate lo hi now = Inr ()"
  by (simp add: gate_ok)

end

end
