(* ===== verification/Chain.thy ===== *)
theory Chain
  imports Pki Window
begin

text \<open>
  What path validation guarantees. \<open>trusted_path\<close> is the property a certificate list must
  have, stated without reference to the order in which the code tests it; \<open>chain_validate_ok\<close>
  says that the code accepts exactly the trusted paths.
\<close>

section \<open>Trimming\<close>

lemma take_trim_end:
  "k \<le> length data \<Longrightarrow>
     take (trim_end data k) data = rev (dropWhile trailing_junk (rev (take k data)))"
proof (induction k)
  case 0
  then show ?case by simp
next
  case (Suc k)
  then have "take (Suc k) data = take k data @ [data ! k]"
    by (simp add: take_Suc_conv_app_nth)
  with Suc show ?case by simp
qed

lemma trim_trailing_junk_alt:
  "trim_trailing_junk data = rev (dropWhile trailing_junk (rev data))"
  by (simp add: trim_trailing_junk_def take_trim_end)

lemma trim_trailing_junk_append:
  "\<forall>b\<in>set junk. trailing_junk b \<Longrightarrow> trim_trailing_junk (data @ junk) = trim_trailing_junk data"
  by (simp add: trim_trailing_junk_alt dropWhile_append2 [of "rev junk", simplified])

lemma trim_trailing_junk_split:
  "\<exists>junk. data = trim_trailing_junk data @ junk \<and> (\<forall>b\<in>set junk. trailing_junk b)"
proof -
  have "data = rev (takeWhile trailing_junk (rev data) @ dropWhile trailing_junk (rev data))"
    by (simp only: takeWhile_dropWhile_id rev_rev_ident)
  then have "data = trim_trailing_junk data @ rev (takeWhile trailing_junk (rev data))"
    by (simp only: rev_append trim_trailing_junk_alt)
  moreover have "\<forall>b\<in>set (rev (takeWhile trailing_junk (rev data))). trailing_junk b"
    using set_takeWhileD by fastforce
  ultimately show ?thesis by blast
qed

lemma trim_trailing_junk_last:
  "trim_trailing_junk data \<noteq> [] \<Longrightarrow> \<not> trailing_junk (last (trim_trailing_junk data))"
  by (simp add: trim_trailing_junk_alt last_rev hd_dropWhile)

section \<open>Chains out of PEM\<close>

lemma category_chain_parse_error [simp]:
  "category (chain_parse_error kind d) =
     (if kind = QuotePck then QuoteParse else CollateralParse)"
  by (cases kind) (simp_all add: chain_parse_error_def)

lemma from_pem_ok:
  "from_pem C kind data = Inr chain \<longleftrightarrow>
     (\<exists>blocks. length data \<le> MAX_CHAIN_PEM_LEN \<and>
        pem_parse_many C (trim_trailing_junk data) = Inr blocks \<and>
        chain = \<lparr>cc_kind = kind,
                 ders = map pem_contents (filter (\<lambda>b. pem_tag b = ''CERTIFICATE'') blocks)\<rparr> \<and>
        ders chain \<noteq> [] \<and> length (ders chain) \<le> MAX_CHAIN_LEN)"
  by (auto simp: from_pem_def res_simps Let_def)

lemma from_pem_bounds:
  "from_pem C kind data = Inr chain \<Longrightarrow>
     cc_kind chain = kind \<and> 1 \<le> length (ders chain) \<and> length (ders chain) \<le> MAX_CHAIN_LEN"
  by (auto simp: from_pem_ok Suc_le_eq)

lemma from_pem_ignores_trailing_junk:
  assumes "\<forall>b\<in>set junk. trailing_junk b" and "length (data @ junk) \<le> MAX_CHAIN_PEM_LEN"
  shows "from_pem C kind (data @ junk) = from_pem C kind data"
  using assms by (simp add: from_pem_def trim_trailing_junk_append)

lemma map_snd_enumerate_map: "map (\<lambda>(i, x). f i x) (enumerate n xs) = ys \<Longrightarrow> length ys = length xs"
  by auto

lemma collect_map_err_enumerate:
  "collect_res (map (\<lambda>(i, d). map_err (g i) (f d)) (enumerate n ds)) = Inr cs \<longleftrightarrow>
     map f ds = map Inr cs"
  by (induction ds arbitrary: n cs) (auto simp: res_simps Cons_eq_map_conv)

lemma chain_parse_ok:
  "chain_parse C chain = Inr p \<longleftrightarrow>
     pc_kind p = cc_kind chain \<and> map (cert_from_der C) (ders chain) = map Inr (certs p)"
proof -
  have "chain_parse C chain = Inr p \<longleftrightarrow>
      (\<exists>cs. map (cert_from_der C) (ders chain) = map Inr cs \<and>
         p = \<lparr>pc_kind = cc_kind chain, certs = cs\<rparr>)"
    by (auto simp: chain_parse_def res_simps collect_map_err_enumerate)
  then show ?thesis by (cases p) auto
qed

lemma chain_parse_length:
  "chain_parse C chain = Inr p \<Longrightarrow> length (certs p) = length (ders chain)"
  by (metis chain_parse_ok length_map)

definition load_chain :: "('k, 's) crates \<Rightarrow> chain_kind \<Rightarrow> bytes \<Rightarrow> parsed_chain \<Rightarrow> bool" where
  "load_chain C kind data p \<longleftrightarrow>
     (\<exists>chain. from_pem C kind data = Inr chain \<and> chain_parse C chain = Inr p)"

lemma parsed_chain_bounds:
  assumes "load_chain C kind data p"
  shows "pc_kind p = kind" and "certs p \<noteq> []" and "length (certs p) \<le> MAX_CHAIN_LEN"
proof -
  from assms obtain chain where "from_pem C kind data = Inr chain" "chain_parse C chain = Inr p"
    by (auto simp: load_chain_def)
  then show "pc_kind p = kind" and "certs p \<noteq> []" and "length (certs p) \<le> MAX_CHAIN_LEN"
    using from_pem_bounds [of C kind data chain] chain_parse_length [of C chain p]
    by (auto simp: chain_parse_ok)
qed

lemma load_chain_unique: "load_chain C kind data p \<Longrightarrow> load_chain C kind data p' \<Longrightarrow> p = p'"
  by (auto simp: load_chain_def)

lemma from_pem_rejects [rejects_intros]:
  "(if kind = QuotePck then QuoteParse else CollateralParse) \<in> cs \<Longrightarrow>
   rejects_within cs (from_pem C kind data)"
  unfolding from_pem_def Let_def
  by (intro rejects_intros) (simp_all add: rejects_within_def)

lemma collect_res_rejects:
  "(\<And>r. r \<in> set rs \<Longrightarrow> rejects_within cs r) \<Longrightarrow> rejects_within cs (collect_res rs)"
  by (induction rs) (auto intro!: rejects_intros)

lemma chain_parse_rejects [rejects_intros]:
  assumes "(if cc_kind chain = QuotePck then QuoteParse else CollateralParse) \<in> cs"
  shows "rejects_within cs (chain_parse C chain)"
proof -
  have "rejects_within cs (map_err (\<lambda>e. chain_parse_error (cc_kind chain) (cert_der_detail i e))
      (cert_from_der C der))" for i der
    using assms by (intro rejects_intros) simp
  then show ?thesis
    unfolding chain_parse_def by (intro rejects_intros collect_res_rejects) auto
qed

section \<open>Trusted paths\<close>

text \<open>Algorithm profile of a certificate.\<close>

definition p256_sha256 :: "x509_cert \<Rightarrow> bool" where
  "p256_sha256 c \<longleftrightarrow>
     signature_algorithm c = tbs_signature c \<and>
     alg_oid (signature_algorithm c) = OID_SIG_ECDSA_WITH_SHA256 \<and>
     alg_oid (spki_algorithm c) = OID_KEY_TYPE_EC_PUBLIC_KEY \<and>
     (\<exists>p. alg_parameters (spki_algorithm c) = Some p \<and> any_as_oid p = Some OID_EC_P256)"

text \<open>May sign other certificates: a CA, and where keyUsage is present it allows signing.\<close>

definition may_issue :: "x509_cert \<Rightarrow> bool" where
  "may_issue c \<longleftrightarrow>
     (\<exists>bc. basic_constraints c = Inr (Some bc) \<and> bc_ca bc) \<and>
     (key_usage_cert_sign c = Inr None \<or> key_usage_cert_sign c = Inr (Some True))"

definition issued_by :: "('k, 's) crates \<Rightarrow> x509_cert \<Rightarrow> x509_cert \<Rightarrow> bool" where
  "issued_by C child parent \<longleftrightarrow>
     name_raw (issuer child) = name_raw (subject parent) \<and>
     signed_der C (spki_data parent) (tbs_certificate child) (signature_value child)"

definition valid_at :: "int \<Rightarrow> x509_cert \<Rightarrow> bool" where
  "valid_at now c \<longleftrightarrow> not_before c \<le> now \<and> now < not_after c"

text \<open>Everything \<open>validate\<close> asks of a path but its anchor.\<close>

definition sound_path :: "('k, 's) crates \<Rightarrow> int \<Rightarrow> x509_cert list \<Rightarrow> bool" where
  "sound_path C now cs \<longleftrightarrow>
     (\<forall>c\<in>set cs. valid_at now c \<and> p256_sha256 c) \<and>
     (\<forall>c\<in>set (tl cs). may_issue c) \<and>
     (\<forall>i. Suc i < length cs \<longrightarrow> issued_by C (cs ! i) (cs ! Suc i)) \<and>
     issued_by C (last cs) (last cs)"

definition trusted_path :: "('k, 's) crates \<Rightarrow> int \<Rightarrow> x509_cert list \<Rightarrow> bool" where
  "trusted_path C now cs \<longleftrightarrow>
     cs \<noteq> [] \<and> spki_data (last cs) = INTEL_SGX_ROOT_CA_PUBLIC_KEY_SEC1 \<and> sound_path C now cs"

lemmas trusted_path_simps = trusted_path_def sound_path_def

lemma check_algs_ok: "check_p256_sha256_algs label c = Inr u \<longleftrightarrow> p256_sha256 c"
  by (auto simp: check_p256_sha256_algs_def p256_sha256_def res_simps bind_eq_Some_conv)

lemma require_ca_ok: "require_ca label i c = Inr u \<longleftrightarrow> may_issue c"
  by (auto simp: require_ca_def may_issue_def res_simps not_Some_False_iff)

lemma spki_verifying_key_ok:
  "spki_verifying_key C label c = Inr k \<longleftrightarrow> key_from_sec1 C (spki_data c) = Inr k"
  by (simp add: spki_verifying_key_def res_simps)

lemma check_issued_ok:
  "check_issued C label cs i = Inr u \<longleftrightarrow>
     issued_by C (cs ! i) (if i + 1 < length cs then cs ! (i + 1) else cs ! i)"
  by (auto simp: check_issued_def issued_by_def signed_der_def res_simps spki_verifying_key_ok
      Let_def)

interpretation cert_window: half_open_window "check_cert_window label subj" CertOrCrlTimeInvalid
  for label subj
  by unfold_locales (auto simp: check_cert_window_def)

lemma set_drop_enumerate: "snd ` set (drop 1 (enumerate 0 xs)) = set (tl xs)"
proof -
  have "map snd (drop 1 (enumerate 0 xs)) = drop 1 xs"
    by (simp only: drop_map [symmetric] map_snd_enumerate)
  then have "set (map snd (drop 1 (enumerate 0 xs))) = set (tl xs)"
    by (simp only: drop_Suc One_nat_def drop_0)
  then show ?thesis by (simp only: list.set_map)
qed

lemma for_each_require_ca_ok:
  "for_each_res (\<lambda>(i, c). require_ca label i c) (drop 1 (enumerate 0 cs)) = Inr u \<longleftrightarrow>
     (\<forall>c\<in>set (tl cs). may_issue c)"
proof -
  have "for_each_res (\<lambda>(i, c). require_ca label i c) (drop 1 (enumerate 0 cs)) = Inr u \<longleftrightarrow>
      (\<forall>p\<in>set (drop 1 (enumerate 0 cs)). may_issue (snd p))"
    by (auto simp: for_each_res_ok require_ca_ok split_def)
  also have "\<dots> \<longleftrightarrow> (\<forall>c\<in>snd ` set (drop 1 (enumerate 0 cs)). may_issue c)" by blast
  finally show ?thesis by (simp only: set_drop_enumerate)
qed

lemma for_each_check_issued_ok:
  assumes "cs \<noteq> []"
  shows "for_each_res (check_issued C label cs) [0..<length cs] = Inr u \<longleftrightarrow>
     (\<forall>i. Suc i < length cs \<longrightarrow> issued_by C (cs ! i) (cs ! Suc i)) \<and>
     issued_by C (last cs) (last cs)"
proof -
  have "(\<forall>i\<in>{0..<length cs}. issued_by C (cs ! i)
        (if i + 1 < length cs then cs ! (i + 1) else cs ! i)) \<longleftrightarrow>
      (\<forall>i. Suc i < length cs \<longrightarrow> issued_by C (cs ! i) (cs ! Suc i)) \<and>
      issued_by C (last cs) (last cs)" (is "?L \<longleftrightarrow> ?R")
  proof
    assume L: ?L
    have "issued_by C (cs ! (length cs - 1)) (cs ! (length cs - 1))"
      using L [rule_format, of "length cs - 1"] assms by simp
    moreover have "issued_by C (cs ! i) (cs ! Suc i)" if "Suc i < length cs" for i
      using L [rule_format, of i] that by simp
    ultimately show ?R by (simp add: last_conv_nth assms)
  next
    assume R: ?R
    show ?L
    proof
      fix i assume "i \<in> {0..<length cs}"
      then show "issued_by C (cs ! i) (if i + 1 < length cs then cs ! (i + 1) else cs ! i)"
        using R by (cases "i = length cs - 1") (auto simp: last_conv_nth assms)
    qed
  qed
  then show ?thesis by (simp only: for_each_res_ok check_issued_ok set_upt)
qed

lemma root_last: "certs chain \<noteq> [] \<Longrightarrow> root chain = last (certs chain)"
  by (simp add: root_def last_conv_nth)

lemma chain_validate_under_ok:
  assumes "certs chain \<noteq> []"
  shows "chain_validate_under ov C chain now = Inr u \<longleftrightarrow>
     spki_data (last (certs chain)) = anchor_sec1_under ov \<and> sound_path C now (certs chain)"
proof -
  have dates: "for_each_res (\<lambda>cert. and_then (check_cert_window label
        (name_display (subject cert)) (not_before cert) (not_after cert) now)
        (\<lambda>_. check_p256_sha256_algs label cert)) (certs chain) = Inr v \<longleftrightarrow>
      (\<forall>c\<in>set (certs chain). valid_at now c \<and> p256_sha256 c)" for label v
    by (simp add: for_each_res_ok and_then_eq_Inr check_algs_ok cert_window.gate_ok valid_at_def)
  show ?thesis
    by (auto simp only: chain_validate_under_def Let_def if_Inl_eq_Inr and_then_eq_Inr dates
        for_each_require_ca_ok for_each_check_issued_ok [OF assms] sound_path_def
        root_last [OF assms] not_not)
qed

lemma chain_validate_ok:
  assumes "certs chain \<noteq> []"
  shows "chain_validate C chain now = Inr u \<longleftrightarrow> trusted_path C now (certs chain)"
  by (simp add: chain_validate_def chain_validate_under_ok [OF assms] trusted_path_def assms
      anchor_sec1_under_def)

lemma chain_validate_rejects [rejects_intros]:
  "{RootCaUntrusted, CertOrCrlTimeInvalid} \<subseteq> cs \<Longrightarrow>
     rejects_within cs (chain_validate C chain now)"
  unfolding chain_validate_def chain_validate_under_def check_issued_def require_ca_def check_p256_sha256_algs_def
    check_cert_window_def spki_verifying_key_def untrusted_def Let_def split_def
  by (intro rejects_intros) simp_all

section \<open>Properties\<close>

text \<open>C6. Path validation accepts a loaded chain iff it is a trusted path: it ends in the pinned root
  key, every certificate is inside its validity period and uses P-256 with SHA-256, every issuer
  is a CA that may sign, every certificate is signed by its successor and the last by itself.\<close>

theorem validate_iff_trusted_path:
  assumes "load_chain C kind data chain"
  shows "chain_validate C chain now = Inr () \<longleftrightarrow> trusted_path C now (certs chain)"
  using parsed_chain_bounds(2) [OF assms] by (rule chain_validate_ok)

text \<open>A chain is read iff its text is at most 64 KiB and, trimmed, decodes as PEM with between one
  and ten certificate blocks; the chain holds their contents in order.\<close>

theorem from_pem_iff:
  "from_pem C kind data = Inr chain \<longleftrightarrow>
     (\<exists>blocks. length data \<le> MAX_CHAIN_PEM_LEN \<and>
        pem_parse_many C (trim_trailing_junk data) = Inr blocks \<and>
        chain = \<lparr>cc_kind = kind,
                 ders = map pem_contents (filter (\<lambda>b. pem_tag b = ''CERTIFICATE'') blocks)\<rparr> \<and>
        ders chain \<noteq> [] \<and> length (ders chain) \<le> MAX_CHAIN_LEN)"
  by (rule from_pem_ok)

text \<open>Bytes 0 and ASCII white space after the PEM text do not change how a chain is read, as long
  as the whole stays within the size limit.\<close>

theorem trailing_junk_ignored:
  assumes "\<forall>b\<in>set junk. trailing_junk b" and "length (data @ junk) \<le> MAX_CHAIN_PEM_LEN"
  shows "from_pem C kind (data @ junk) = from_pem C kind data"
  using assms by (rule from_pem_ignores_trailing_junk)

end
