(* ===== verification/Crl.thy ===== *)
theory Crl
  imports Chain
begin

text \<open>
  \<^verbatim>\<open>dcap-verify/src/pki.rs\<close>: serial normalisation, CRL checking and the revocation gate.
  A serial number is compared by value: \<open>normalized_serial\<close> maps two big-endian encodings to
  the same bytes exactly when they denote the same number.
\<close>

record revoked_entry =
  re_issuer_raw :: bytes
  re_serial :: bytes

text \<open>The stripping loop of \<open>normalized_serial\<close>.\<close>

fun strip_leading_zeros :: "bytes \<Rightarrow> bytes" where
  "strip_leading_zeros [] = []"
| "strip_leading_zeros (b # bs) = (if b = 0 then strip_leading_zeros bs else b # bs)"

definition normalized_serial :: "bytes \<Rightarrow> bytes" where
  "normalized_serial raw =
     (let stripped = strip_leading_zeros raw in if stripped = [] then [0] else stripped)"

definition crl_error :: "string \<Rightarrow> verify_error" where
  "crl_error d = verify_error_new CrlInvalid d"

definition crl_time_detail :: "string \<Rightarrow> string \<Rightarrow> int \<Rightarrow> int \<Rightarrow> string" where
  "crl_time_detail label what t now =
     label @ '': '' @ what @ '' at unix '' @ dec_int t @ '', verification time is '' @ dec_int now"

text \<open>The two time tests of \<open>check_crl\<close>; a CRL without \<open>nextUpdate\<close> never expires.\<close>

definition check_crl_window :: "string \<Rightarrow> int \<Rightarrow> int option \<Rightarrow> int \<Rightarrow> unit res" where
  "check_crl_window label this_update next_update' now =
     (if now < this_update
      then Inl (verify_error_new CertOrCrlTimeInvalid
             (crl_time_detail label ''takes effect'' this_update now))
      else case next_update' of
        Some next \<Rightarrow>
          if now \<ge> next
          then Inl (verify_error_new CertOrCrlTimeInvalid
                 (crl_time_detail label ''superseded'' next now))
          else Inr ()
      | None \<Rightarrow> Inr ())"

definition check_crl ::
  "('k, 's) crates \<Rightarrow> string \<Rightarrow> bytes \<Rightarrow> bytes \<Rightarrow> 'k \<Rightarrow> int \<Rightarrow> revoked_entry list res" where
  "check_crl C label pem_data expected_issuer_raw issuer_key now =
     and_then (map_err (\<lambda>e. crl_error (label @ '': PEM decoding failed: '' @ e))
                (pem_parse_many C (trim_trailing_junk pem_data))) (\<lambda>blocks.
     and_then (ok_or (crl_error (label @ '': no CRL block present''))
                (map_option pem_contents
                  (List.find (\<lambda>b. str_contains (pem_tag b) ''CRL'') blocks))) (\<lambda>der.
     and_then (map_err (\<lambda>e. crl_error (label @ '': not valid DER: '' @ e))
                (crl_from_der C der)) (\<lambda>crl.
     if crl_signature_algorithm crl \<noteq> crl_tbs_signature crl
     then Inl (crl_error (label @
       '': declares an outer signatureAlgorithm that differs from the signed tbsCertList.signature field''))
     else if alg_oid (crl_signature_algorithm crl) \<noteq> OID_SIG_ECDSA_WITH_SHA256
     then Inl (crl_error (label @ '': signed with algorithm '' @
       alg_oid (crl_signature_algorithm crl) @ '' instead of ECDSA-with-SHA256''))
     else if name_raw (crl_issuer crl) \<noteq> expected_issuer_raw
     then Inl (crl_error (label @ '': issued by '' @ quoted (name_display (crl_issuer crl)) @
       '', which is not the expected authority''))
     else
     and_then (check_crl_window label (last_update crl) (next_update crl) now) (\<lambda>_.
     and_then (map_err (\<lambda>e. crl_error (label @ '': undecodable signature: '' @ e))
                (sig_from_der C (crl_signature_value crl))) (\<lambda>sig.
     and_then (verify_with C issuer_key (tbs_cert_list crl) sig
                (crl_error (label @ '': signature does not verify against the issuing key''))) (\<lambda>_.
     Inr (map (\<lambda>serial. \<lparr>re_issuer_raw = name_raw (crl_issuer crl),
                            re_serial = normalized_serial serial\<rparr>)
            (revoked_serials crl))))))))"

definition revoked_detail :: "parsed_chain \<Rightarrow> x509_cert \<Rightarrow> string" where
  "revoked_detail chain cert =
     chain_kind_label (pc_kind chain) @ '': certificate '' @
     quoted (name_display (subject cert)) @ '' (serial '' @ raw_serial_as_string cert @
     '') is revoked by its issuer''"

definition ensure_none_revoked :: "parsed_chain list \<Rightarrow> revoked_entry list \<Rightarrow> unit res" where
  "ensure_none_revoked pcs revoked =
     for_each_res (\<lambda>chain.
       for_each_res (\<lambda>cert.
         let serial = normalized_serial (raw_serial cert) in
         if list_ex (\<lambda>r. re_issuer_raw r = name_raw (issuer cert) \<and> re_serial r = serial) revoked
         then Inl (crl_error (revoked_detail chain cert))
         else Inr ()) (certs chain)) pcs"

section \<open>Serial numbers by value\<close>

fun be_nat_acc :: "nat \<Rightarrow> bytes \<Rightarrow> nat" where
  "be_nat_acc acc [] = acc"
| "be_nat_acc acc (b # bs) = be_nat_acc (256 * acc + unat b) bs"

definition be_nat :: "bytes \<Rightarrow> nat" where
  "be_nat bs = be_nat_acc 0 bs"

lemma be_nat_eq_le_nat: "be_nat bs = le_nat (rev bs)"
proof -
  have le_append: "le_nat (xs @ ys) = le_nat xs + 256 ^ length xs * le_nat ys" for xs ys
    by (induction xs) (simp_all add: algebra_simps)
  have "be_nat_acc acc bs = 256 ^ length bs * acc + le_nat (rev bs)" for acc
    by (induction bs arbitrary: acc) (simp_all add: le_append algebra_simps)
  then show ?thesis by (simp add: be_nat_def)
qed

lemma strip_leading_zeros_split: "\<exists>n. bs = replicate n 0 @ strip_leading_zeros bs"
proof (induction bs)
  case Nil
  then show ?case by simp
next
  case (Cons b bs)
  then obtain n where "bs = replicate n 0 @ strip_leading_zeros bs" by blast
  then show ?case
    by (cases "b = 0") (auto intro: exI [of _ "Suc n"] exI [of _ 0])
qed

lemma strip_leading_zeros_hd:
  "strip_leading_zeros bs = b # cs \<Longrightarrow> b \<noteq> 0"
  by (induction bs) (auto split: if_splits)

lemma le_nat_append: "le_nat (xs @ ys) = le_nat xs + 256 ^ length xs * le_nat ys"
  by (induction xs) (simp_all add: algebra_simps)

lemma le_nat_replicate_zero: "le_nat (replicate n 0) = 0"
  by (induction n) simp_all

lemma be_nat_strip: "be_nat (strip_leading_zeros bs) = be_nat bs"
proof -
  obtain n where "bs = replicate n 0 @ strip_leading_zeros bs"
    using strip_leading_zeros_split by blast
  then have "rev bs = rev (strip_leading_zeros bs) @ replicate n 0"
    by (metis rev_append rev_replicate)
  then have "le_nat (rev bs) = le_nat (rev (strip_leading_zeros bs))"
    by (simp add: le_nat_append le_nat_replicate_zero)
  then show ?thesis by (simp add: be_nat_eq_le_nat)
qed

lemma be_nat_normalized: "be_nat (normalized_serial bs) = be_nat bs"
  using be_nat_strip [of bs] by (auto simp: normalized_serial_def Let_def be_nat_def)

lemma le_nat_inj: "length xs = length ys \<Longrightarrow> le_nat xs = le_nat ys \<Longrightarrow> xs = ys"
  by (metis le_bytes_le_nat)

lemma be_nat_lower: "b \<noteq> 0 \<Longrightarrow> 256 ^ length bs \<le> be_nat (b # bs)"
proof -
  assume "b \<noteq> 0"
  then have "1 \<le> unat b" by (simp add: Suc_le_eq unat_gt_0)
  then have "256 ^ length bs * 1 \<le> 256 ^ length bs * unat b" by (rule mult_le_mono2)
  then have "256 ^ length bs \<le> le_nat (rev bs) + 256 ^ length bs * unat b"
    by (simp add: trans_le_add2)
  then show ?thesis by (simp add: be_nat_eq_le_nat le_nat_append)
qed

lemma be_nat_upper: "be_nat bs < 256 ^ length bs"
  using le_nat_less [of "rev bs"] by (simp add: be_nat_eq_le_nat)

text \<open>Minimal encodings with the same value are the same bytes.\<close>

lemma minimal_inj:
  assumes "be_nat (a # as) = be_nat (b # bs)" and "a \<noteq> 0" and "b \<noteq> 0"
  shows "a # as = b # bs"
proof -
  have "length as = length bs"
  proof (rule ccontr)
    assume "length as \<noteq> length bs"
    then consider "length (a # as) \<le> length bs" | "length (b # bs) \<le> length as" by fastforce
    then show False
    proof cases
      case 1
      then have "(256::nat) ^ length (a # as) \<le> 256 ^ length bs" by (intro power_increasing) auto
      then show ?thesis
        using be_nat_upper [of "a # as"] be_nat_lower [OF assms(3), of bs] assms(1) by linarith
    next
      case 2
      then have "(256::nat) ^ length (b # bs) \<le> 256 ^ length as" by (intro power_increasing) auto
      then show ?thesis
        using be_nat_upper [of "b # bs"] be_nat_lower [OF assms(2), of as] assms(1) by linarith
    qed
  qed
  then have "rev (a # as) = rev (b # bs)"
    using assms(1) by (intro le_nat_inj) (simp_all only: be_nat_eq_le_nat length_rev length_Cons)
  then show ?thesis by simp
qed

lemma normalized_serial_cases:
  "(normalized_serial bs = [0] \<and> be_nat bs = 0) \<or>
   (\<exists>b cs. normalized_serial bs = b # cs \<and> b \<noteq> 0)"
proof (cases "strip_leading_zeros bs")
  case Nil
  then show ?thesis
    using be_nat_strip [of bs] by (simp add: normalized_serial_def be_nat_def)
next
  case (Cons b cs)
  then show ?thesis
    using strip_leading_zeros_hd [OF Cons] by (simp add: normalized_serial_def)
qed

lemma normalized_serial_eq_iff:
  "normalized_serial xs = normalized_serial ys \<longleftrightarrow> be_nat xs = be_nat ys"
proof
  assume "normalized_serial xs = normalized_serial ys"
  then show "be_nat xs = be_nat ys"
    using be_nat_normalized by metis
next
  assume eq: "be_nat xs = be_nat ys"
  have pos: "0 < be_nat (b # cs)" if "b \<noteq> 0" for b cs
    using be_nat_lower [OF that, of cs] by (meson less_le_trans zero_less_numeral zero_less_power)
  show "normalized_serial xs = normalized_serial ys"
    using normalized_serial_cases [of xs] normalized_serial_cases [of ys] eq
      be_nat_normalized [of xs] be_nat_normalized [of ys] minimal_inj pos
    by (metis less_numeral_extra(3))
qed

section \<open>What an accepted CRL is\<close>

interpretation crl_window:
  half_open_window "\<lambda>lo hi. check_crl_window label lo (Some hi)" CertOrCrlTimeInvalid for label
  by unfold_locales (auto simp: check_crl_window_def)

definition current_crl :: "int \<Rightarrow> x509_crl \<Rightarrow> bool" where
  "current_crl now crl \<longleftrightarrow>
     last_update crl \<le> now \<and> (\<forall>u. next_update crl = Some u \<longrightarrow> now < u)"

lemma check_crl_window_ok:
  "check_crl_window label (last_update crl) (next_update crl) now = Inr u \<longleftrightarrow>
     current_crl now crl"
  by (auto simp: check_crl_window_def current_crl_def split: option.splits)

text \<open>The CRL that a PEM text carries: the first block whose tag contains \<open>CRL\<close>.\<close>

definition crl_in_pem :: "('k, 's) crates \<Rightarrow> bytes \<Rightarrow> x509_crl \<Rightarrow> bool" where
  "crl_in_pem C pem_data crl \<longleftrightarrow>
     (\<exists>blocks b. pem_parse_many C (trim_trailing_junk pem_data) = Inr blocks \<and>
        List.find (\<lambda>b. str_contains (pem_tag b) ''CRL'') blocks = Some b \<and>
        crl_from_der C (pem_contents b) = Inr crl)"

definition authentic_crl ::
  "('k, 's) crates \<Rightarrow> bytes \<Rightarrow> 'k \<Rightarrow> int \<Rightarrow> x509_crl \<Rightarrow> bool" where
  "authentic_crl C issuer_raw key now crl \<longleftrightarrow>
     crl_signature_algorithm crl = crl_tbs_signature crl \<and>
     alg_oid (crl_signature_algorithm crl) = OID_SIG_ECDSA_WITH_SHA256 \<and>
     name_raw (crl_issuer crl) = issuer_raw \<and> current_crl now crl \<and>
     (\<exists>s. sig_from_der C (crl_signature_value crl) = Inr s \<and>
        ecdsa_verify C key (tbs_cert_list crl) s)"

definition crl_entries :: "x509_crl \<Rightarrow> revoked_entry list" where
  "crl_entries crl =
     map (\<lambda>serial. \<lparr>re_issuer_raw = name_raw (crl_issuer crl),
                     re_serial = normalized_serial serial\<rparr>) (revoked_serials crl)"

lemma check_crl_ok:
  "check_crl C label pem_data issuer_raw key now = Inr entries \<longleftrightarrow>
     (\<exists>crl. crl_in_pem C pem_data crl \<and> authentic_crl C issuer_raw key now crl \<and>
        entries = crl_entries crl)"
  by (auto simp: check_crl_def res_simps check_crl_window_ok crl_in_pem_def authentic_crl_def
      crl_entries_def)

lemma check_crl_rejects [rejects_intros]:
  "{CrlInvalid, CertOrCrlTimeInvalid} \<subseteq> cs \<Longrightarrow>
     rejects_within cs (check_crl C label pem_data issuer_raw key now)"
  unfolding check_crl_def crl_error_def
  by (intro rejects_intros)
    (auto simp: check_crl_window_def rejects_within_def split: option.splits)

text \<open>A certificate that a CRL lists: same issuer bytes, same serial number.\<close>

definition listed_in :: "x509_crl \<Rightarrow> x509_cert \<Rightarrow> bool" where
  "listed_in crl c \<longleftrightarrow>
     name_raw (crl_issuer crl) = name_raw (issuer c) \<and>
     (\<exists>s\<in>set (revoked_serials crl). be_nat s = be_nat (raw_serial c))"

lemma matches_crl_entries:
  "list_ex (\<lambda>r. re_issuer_raw r = name_raw (issuer c) \<and>
       re_serial r = normalized_serial (raw_serial c)) (crl_entries crl) \<longleftrightarrow> listed_in crl c"
  by (auto simp: crl_entries_def list_ex_iff listed_in_def normalized_serial_eq_iff)

lemma ensure_none_revoked_ok:
  "ensure_none_revoked pcs (crl_entries crl1 @ crl_entries crl2) = Inr u \<longleftrightarrow>
     (\<forall>chain\<in>set pcs. \<forall>c\<in>set (certs chain). \<not> listed_in crl1 c \<and> \<not> listed_in crl2 c)"
  by (auto simp: ensure_none_revoked_def for_each_res_ok Let_def matches_crl_entries
      simp del: list_ex_iff)

lemma ensure_none_revoked_rejects [rejects_intros]:
  "CrlInvalid \<in> cs \<Longrightarrow> rejects_within cs (ensure_none_revoked pcs revoked)"
  unfolding ensure_none_revoked_def crl_error_def Let_def
  by (intro rejects_intros) simp_all

section \<open>Properties\<close>

text \<open>C19. Normalised serial numbers are equal iff the encoded numbers are: leading zero octets neither
  hide a revocation nor create one.\<close>

theorem serials_compared_by_value:
  "normalized_serial xs = normalized_serial ys \<longleftrightarrow> be_nat xs = be_nat ys"
  by (rule normalized_serial_eq_iff)

text \<open>C18. A CRL is accepted iff its PEM text carries a CRL that is signed with ECDSA-SHA256 under the
  given key, names the expected issuer and is current; the entries are its revoked serials under
  that issuer.\<close>

theorem crl_accepted_iff:
  "check_crl C label pem_data issuer_raw key now = Inr entries \<longleftrightarrow>
     (\<exists>crl. crl_in_pem C pem_data crl \<and> authentic_crl C issuer_raw key now crl \<and>
        entries = crl_entries crl)"
  by (rule check_crl_ok)

end
