(* ===== verification/Reader.thy ===== *)
theory Reader
  imports Errors
begin

text \<open>
  \<^verbatim>\<open>dcap-verify/src/types.rs\<close>: the cursor over untrusted bytes that every quote parser
  reads through. A reader is the bytes not yet consumed; an operation returns the value read
  and the advanced reader, or a \<open>QuoteParse\<close> rejection that leaves no reader behind.

  The locale \<open>fixed_parser\<close> is the contract the parsers rely on: an operation that consumes
  exactly \<open>width\<close> bytes, decodes nothing but those, and fails only when fewer remain. The four
  reader operations are its instances.
\<close>

record byte_reader =
  rest :: bytes

definition byte_reader_new :: "bytes \<Rightarrow> byte_reader" where
  "byte_reader_new data = \<lparr>rest = data\<rparr>"

definition reader_rest :: "byte_reader \<Rightarrow> bytes" where
  "reader_rest r = rest r"

definition take_detail :: "string \<Rightarrow> nat \<Rightarrow> nat \<Rightarrow> string" where
  "take_detail what n remaining =
     what @ '' needs '' @ dec_nat n @ '' bytes but only '' @ dec_nat remaining @ '' remain''"

definition reader_take :: "nat \<Rightarrow> string \<Rightarrow> byte_reader \<Rightarrow> (bytes \<times> byte_reader) res" where
  "reader_take n what r =
     (if n > length (rest r)
      then Inl (verify_error_new QuoteParse (take_detail what n (length (rest r))))
      else Inr (take n (rest r), r\<lparr>rest := drop n (rest r)\<rparr>))"

text \<open>\<open>array::<N>\<close> copies the taken bytes into a fixed-size array, here a list of that length.\<close>

definition reader_array :: "nat \<Rightarrow> string \<Rightarrow> byte_reader \<Rightarrow> (bytes \<times> byte_reader) res" where
  "reader_array n what r = and_then (reader_take n what r) (\<lambda>(bytes, r). Inr (bytes, r))"

definition reader_u16_le :: "string \<Rightarrow> byte_reader \<Rightarrow> (u16 \<times> byte_reader) res" where
  "reader_u16_le what r =
     and_then (reader_array 2 what r) (\<lambda>(bytes, r). Inr (u16_from_le bytes, r))"

definition reader_u32_le :: "string \<Rightarrow> byte_reader \<Rightarrow> (u32 \<times> byte_reader) res" where
  "reader_u32_le what r =
     and_then (reader_array 4 what r) (\<lambda>(bytes, r). Inr (u32_from_le bytes, r))"

section \<open>The contract of a fixed-width parser\<close>

locale fixed_parser =
  fixes run :: "byte_reader \<Rightarrow> ('a \<times> byte_reader) res"
    and width :: nat
    and decode :: "bytes \<Rightarrow> 'a"
  assumes run_enough: "width \<le> length (rest r) \<Longrightarrow>
      run r = Inr (decode (take width (rest r)), r\<lparr>rest := drop width (rest r)\<rparr>)"
    and run_short: "length (rest r) < width \<Longrightarrow>
      \<exists>d. run r = Inl (verify_error_new QuoteParse d)"
begin

lemma run_eq_Inr:
  "run r = Inr (x, r') \<longleftrightarrow>
     width \<le> length (rest r) \<and> x = decode (take width (rest r)) \<and>
     r' = r\<lparr>rest := drop width (rest r)\<rparr>"
  using run_enough [of r] run_short [of r] by (cases "width \<le> length (rest r)") auto

lemma run_consumes:
  "run r = Inr (x, r') \<Longrightarrow>
     \<exists>bs. length bs = width \<and> rest r = bs @ rest r' \<and> x = decode bs"
  by (rule exI [of _ "take width (rest r)"]) (auto simp: run_eq_Inr)

lemma run_on_encoding:
  "length bs = width \<Longrightarrow> run \<lparr>rest = bs @ ys\<rparr> = Inr (decode bs, \<lparr>rest = ys\<rparr>)"
  by (simp add: run_enough)

lemma run_on_exact_encoding:
  "length bs = width \<Longrightarrow> run \<lparr>rest = bs\<rparr> = Inr (decode bs, \<lparr>rest = []\<rparr>)"
  using run_on_encoding [of bs "[]"] by simp

lemma run_eq_split:
  "run r = Inr (x, r') \<longleftrightarrow>
     (\<exists>bs ys. length bs = width \<and> r = \<lparr>rest = bs @ ys\<rparr> \<and> x = decode bs \<and> r' = \<lparr>rest = ys\<rparr>)"
proof (cases r)
  case (fields xs)
  show ?thesis
  proof
    assume "run r = Inr (x, r')"
    then show "\<exists>bs ys. length bs = width \<and> r = \<lparr>rest = bs @ ys\<rparr> \<and> x = decode bs \<and>
        r' = \<lparr>rest = ys\<rparr>"
      by (intro exI [of _ "take width xs"] exI [of _ "drop width xs"])
        (auto simp: run_eq_Inr fields)
  qed (auto simp: run_on_encoding)
qed

lemma run_frame:
  "run \<lparr>rest = xs\<rparr> = Inr (x, \<lparr>rest = ys\<rparr>) \<Longrightarrow>
     run \<lparr>rest = xs @ zs\<rparr> = Inr (x, \<lparr>rest = ys @ zs\<rparr>)"
  by (simp add: run_eq_Inr)

lemma run_rejects: "rejects_within {QuoteParse} (run r)"
proof (cases "width \<le> length (rest r)")
  case True
  then show ?thesis by (simp add: run_enough rejects_within_Inr)
next
  case False
  then obtain d where "run r = Inl (verify_error_new QuoteParse d)"
    using run_short [of r] by auto
  then show ?thesis by (simp add: rejects_within_Inl)
qed

end

text \<open>Sequencing two fixed-width parsers gives a fixed-width parser of the summed width.\<close>

lemma fixed_parser_return: "fixed_parser (\<lambda>r. Inr (x, r)) 0 (\<lambda>_. x)"
  by unfold_locales simp_all

lemma fixed_parser_seq:
  assumes p: "fixed_parser p w d" and q: "\<And>x. fixed_parser (q x) v (e x)"
  shows "fixed_parser (\<lambda>r. and_then (p r) (\<lambda>(x, r'). q x r')) (w + v)
           (\<lambda>bs. e (d (take w bs)) (drop w bs))"
proof (unfold_locales, goal_cases)
  case (1 r)
  then show ?case
    by (simp add: fixed_parser.run_enough [OF p] fixed_parser.run_enough [OF q]
        drop_take add.commute [of w v])
next
  case (2 r)
  show ?case
  proof (cases "w \<le> length (rest r)")
    case True
    with 2 have "length (rest (r\<lparr>rest := drop w (rest r)\<rparr>)) < v" by simp
    from fixed_parser.run_short [OF q this] True show ?thesis
      by (simp add: fixed_parser.run_enough [OF p])
  next
    case False
    then have "length (rest r) < w" by simp
    from fixed_parser.run_short [OF p this] show ?thesis by auto
  qed
qed

lemma fixed_parser_map:
  assumes p: "fixed_parser p w d"
  shows "fixed_parser (\<lambda>r. and_then (p r) (\<lambda>(x, r'). Inr (f x, r'))) w (\<lambda>bs. f (d bs))"
proof -
  have "fixed_parser (\<lambda>r. and_then (p r) (\<lambda>(x, r'). Inr (f x, r'))) (w + 0)
           (\<lambda>bs. (\<lambda>_. f (d (take w bs))) (drop w bs))"
    by (rule fixed_parser_seq [OF p]) (rule fixed_parser_return)
  then have seq: "fixed_parser (\<lambda>r. and_then (p r) (\<lambda>(x, r'). Inr (f x, r'))) w
      (\<lambda>bs. f (d (take w bs)))" by simp
  show ?thesis
  proof (unfold_locales, goal_cases)
    case (1 r)
    then show ?case by (simp add: fixed_parser.run_enough [OF p])
  next
    case (2 r)
    then show ?case by (rule fixed_parser.run_short [OF seq])
  qed
qed

section \<open>The reader's operations satisfy it\<close>

interpretation rd_take: fixed_parser "reader_take n what" n "\<lambda>bs. bs" for n what
  by unfold_locales (auto simp: reader_take_def)

interpretation rd_array: fixed_parser "reader_array n what" n "\<lambda>bs. bs" for n what
  by unfold_locales (auto simp: reader_array_def reader_take_def)

interpretation rd_u16: fixed_parser "reader_u16_le what" 2 u16_from_le for what
  by unfold_locales (auto simp: reader_u16_le_def reader_array_def reader_take_def)

interpretation rd_u32: fixed_parser "reader_u32_le what" 4 u32_from_le for what
  by unfold_locales (auto simp: reader_u32_le_def reader_array_def reader_take_def)

lemmas reader_enough = rd_take.run_enough rd_array.run_enough rd_u16.run_enough rd_u32.run_enough

lemmas reader_eq_Inr = rd_take.run_eq_Inr rd_array.run_eq_Inr rd_u16.run_eq_Inr rd_u32.run_eq_Inr

lemmas reader_on_encoding = rd_take.run_on_encoding rd_array.run_on_encoding
  rd_u16.run_on_encoding rd_u32.run_on_encoding

lemmas reader_on_exact_encoding = rd_take.run_on_exact_encoding rd_array.run_on_exact_encoding
  rd_u16.run_on_exact_encoding rd_u32.run_on_exact_encoding

lemmas reader_eq_split = rd_take.run_eq_split rd_array.run_eq_split
  rd_u16.run_eq_split rd_u32.run_eq_split

lemmas reader_rejects [rejects_intros] = rd_take.run_rejects rd_array.run_rejects
  rd_u16.run_rejects rd_u32.run_rejects

lemma reader_take_never_overruns:
  "reader_take n what r = Inr (bs, r') \<Longrightarrow> length bs = n \<and> rest r = bs @ rest r'"
  by (auto simp: reader_eq_Inr)

section \<open>Property\<close>

text \<open>The integer reads are exactly little-endian: a read succeeds with \<open>x\<close> and reader \<open>r'\<close>
  iff the bytes at the cursor are the little-endian encoding of \<open>x\<close> followed by those of \<open>r'\<close>.\<close>

theorem integer_reads_little_endian:
  "(reader_u16_le what r = Inr (x, r') \<longleftrightarrow> rest r = le_bytes 2 (unat x) @ rest r') \<and>
   (reader_u32_le what r = Inr (y, r') \<longleftrightarrow> rest r = le_bytes 4 (unat y) @ rest r')"
proof -
  have "reader_u16_le what r = Inr (x, r') \<longleftrightarrow> rest r = le_bytes 2 (unat x) @ rest r'"
    by (cases r; cases r') (auto simp: rd_u16.run_eq_split intro!: exI [of _ "le_bytes 2 (unat x)"])
  moreover have "reader_u32_le what r = Inr (y, r') \<longleftrightarrow> rest r = le_bytes 4 (unat y) @ rest r'"
    by (cases r; cases r') (auto simp: rd_u32.run_eq_split intro!: exI [of _ "le_bytes 4 (unat y)"])
  ultimately show ?thesis by simp
qed

end
