(* ===== verification/Report.thy ===== *)
theory Report
  imports Reader
begin

text \<open>
  \<^verbatim>\<open>dcap-verify/src/types/report.rs\<close>: the 384-byte SGX report body. \<open>report_parse\<close> is the
  code's field-by-field reader; \<open>encode_report\<close> is the layout it promises to read (the four
  reserved areas, which the code drops, are an argument). The two are inverse to each other.
\<close>

abbreviation REPORT_BODY_LEN :: nat where
  "REPORT_BODY_LEN \<equiv> 384"

definition ATTRIBUTE_FLAG_DEBUG :: u64 where
  "ATTRIBUTE_FLAG_DEBUG = push_bit 1 1"

record sgx_report_body =
  cpu_svn :: bytes
  misc_select :: bytes
  isv_ext_prod_id :: bytes
  attributes :: bytes
  mrenclave :: bytes
  mrsigner :: bytes
  config_id :: bytes
  isv_prod_id :: u16
  isv_svn :: u16
  config_svn :: u16
  isv_family_id :: bytes
  sgx_report_data_bytes :: bytes

definition report_len_detail :: "nat \<Rightarrow> string" where
  "report_len_detail n =
     ''report body must be '' @ dec_nat REPORT_BODY_LEN @ '' bytes, got '' @ dec_nat n"

definition report_parse :: "bytes \<Rightarrow> sgx_report_body res" where
  "report_parse raw =
     (if length raw \<noteq> REPORT_BODY_LEN
      then Inl (verify_error_new QuoteParse (report_len_detail (length raw)))
      else
        let r = byte_reader_new raw in
        and_then (reader_array 16 ''cpu_svn'' r) (\<lambda>(cpu_svn', r).
        and_then (reader_array 4 ''misc_select'' r) (\<lambda>(misc_select', r).
        and_then (reader_take 12 ''report reserved1'' r) (\<lambda>(_, r).
        and_then (reader_array 16 ''isv_ext_prod_id'' r) (\<lambda>(isv_ext_prod_id', r).
        and_then (reader_array 16 ''attributes'' r) (\<lambda>(attributes', r).
        and_then (reader_array 32 ''mrenclave'' r) (\<lambda>(mrenclave', r).
        and_then (reader_take 32 ''report reserved2'' r) (\<lambda>(_, r).
        and_then (reader_array 32 ''mrsigner'' r) (\<lambda>(mrsigner', r).
        and_then (reader_take 32 ''report reserved3'' r) (\<lambda>(_, r).
        and_then (reader_array 64 ''config_id'' r) (\<lambda>(config_id', r).
        and_then (reader_u16_le ''isv_prod_id'' r) (\<lambda>(isv_prod_id', r).
        and_then (reader_u16_le ''isv_svn'' r) (\<lambda>(isv_svn', r).
        and_then (reader_u16_le ''config_svn'' r) (\<lambda>(config_svn', r).
        and_then (reader_take 42 ''report reserved4'' r) (\<lambda>(_, r).
        and_then (reader_array 16 ''isv_family_id'' r) (\<lambda>(isv_family_id', r).
        and_then (reader_array 64 ''report_data'' r) (\<lambda>(report_data', r).
        Inr \<lparr>cpu_svn = cpu_svn', misc_select = misc_select',
             isv_ext_prod_id = isv_ext_prod_id', attributes = attributes',
             mrenclave = mrenclave', mrsigner = mrsigner', config_id = config_id',
             isv_prod_id = isv_prod_id', isv_svn = isv_svn', config_svn = config_svn',
             isv_family_id = isv_family_id', sgx_report_data_bytes = report_data'\<rparr>)))))))))))))))))"

definition attribute_flags :: "sgx_report_body \<Rightarrow> u64" where
  "attribute_flags b = u64_from_le (take 8 (attributes b))"

definition is_debug :: "sgx_report_body \<Rightarrow> bool" where
  "is_debug b \<longleftrightarrow> attribute_flags b AND ATTRIBUTE_FLAG_DEBUG \<noteq> 0"

section \<open>The layout\<close>

definition slice :: "nat \<Rightarrow> nat \<Rightarrow> bytes \<Rightarrow> bytes" where
  "slice off n bs = take n (drop off bs)"

lemma length_slice [simp]: "off + n \<le> length bs \<Longrightarrow> length (slice off n bs) = n"
  by (simp add: slice_def)

text \<open>The fields of a report body at the offsets of the SGX report structure.\<close>

definition report_at_offsets :: "bytes \<Rightarrow> sgx_report_body" where
  "report_at_offsets raw =
     \<lparr>cpu_svn = slice 0 16 raw, misc_select = slice 16 4 raw,
      isv_ext_prod_id = slice 32 16 raw, attributes = slice 48 16 raw,
      mrenclave = slice 64 32 raw, mrsigner = slice 128 32 raw,
      config_id = slice 192 64 raw, isv_prod_id = u16_from_le (slice 256 2 raw),
      isv_svn = u16_from_le (slice 258 2 raw), config_svn = u16_from_le (slice 260 2 raw),
      isv_family_id = slice 304 16 raw, sgx_report_data_bytes = slice 320 64 raw\<rparr>"

lemma report_parse_ok: "length raw = 384 \<Longrightarrow> report_parse raw = Inr (report_at_offsets raw)"
  by (simp add: report_parse_def byte_reader_new_def reader_enough report_at_offsets_def slice_def)

lemma report_parse_wrong_length:
  "length raw \<noteq> 384 \<Longrightarrow>
     report_parse raw = Inl (verify_error_new QuoteParse (report_len_detail (length raw)))"
  by (simp add: report_parse_def)

lemma report_parse_eq_Inr:
  "report_parse raw = Inr b \<longleftrightarrow> length raw = 384 \<and> b = report_at_offsets raw"
  by (cases "length raw = 384") (auto simp: report_parse_ok report_parse_wrong_length)

lemma report_parse_rejects [rejects_intros]: "rejects_within {QuoteParse} (report_parse raw)"
  by (cases "length raw = 384")
    (auto simp: report_parse_ok report_parse_wrong_length intro: rejects_intros)

definition wf_report :: "sgx_report_body \<Rightarrow> bool" where
  "wf_report b \<longleftrightarrow>
     length (cpu_svn b) = 16 \<and> length (misc_select b) = 4 \<and> length (isv_ext_prod_id b) = 16 \<and>
     length (attributes b) = 16 \<and> length (mrenclave b) = 32 \<and> length (mrsigner b) = 32 \<and>
     length (config_id b) = 64 \<and> length (isv_family_id b) = 16 \<and>
     length (sgx_report_data_bytes b) = 64"

lemma wf_report_at_offsets: "length raw = 384 \<Longrightarrow> wf_report (report_at_offsets raw)"
  by (simp add: wf_report_def report_at_offsets_def)

text \<open>
  A report body written out, with the reserved areas \<open>r1\<close> to \<open>r4\<close> (12, 32, 32 and 42 bytes).
\<close>

definition encode_report :: "bytes \<Rightarrow> bytes \<Rightarrow> bytes \<Rightarrow> bytes \<Rightarrow> sgx_report_body \<Rightarrow> bytes" where
  "encode_report r1 r2 r3 r4 b =
     cpu_svn b @ misc_select b @ r1 @ isv_ext_prod_id b @ attributes b @ mrenclave b @ r2 @
     mrsigner b @ r3 @ config_id b @ le_bytes 2 (unat (isv_prod_id b)) @
     le_bytes 2 (unat (isv_svn b)) @ le_bytes 2 (unat (config_svn b)) @ r4 @
     isv_family_id b @ sgx_report_data_bytes b"

definition wf_reserved :: "bytes \<Rightarrow> bytes \<Rightarrow> bytes \<Rightarrow> bytes \<Rightarrow> bool" where
  "wf_reserved r1 r2 r3 r4 \<longleftrightarrow>
     length r1 = 12 \<and> length r2 = 32 \<and> length r3 = 32 \<and> length r4 = 42"

lemma length_encode_report:
  "wf_report b \<Longrightarrow> wf_reserved r1 r2 r3 r4 \<Longrightarrow> length (encode_report r1 r2 r3 r4 b) = 384"
  by (simp add: encode_report_def wf_report_def wf_reserved_def)

lemma report_at_offsets_encode:
  "wf_report b \<Longrightarrow> wf_reserved r1 r2 r3 r4 \<Longrightarrow>
   report_at_offsets (encode_report r1 r2 r3 r4 b) = b"
  by (simp add: report_at_offsets_def encode_report_def wf_report_def wf_reserved_def slice_def)

section \<open>The DEBUG flag\<close>

lemma le_nat_bit_1:
  assumes "bs \<noteq> []"
  shows "bit (le_nat bs) 1 \<longleftrightarrow> bit (bs ! 0) 1"
proof -
  obtain b cs where bs: "bs = b # cs" using assms by (cases bs) auto
  have "le_nat bs div 2 = unat b div 2 + 128 * le_nat cs" by (simp add: bs)
  then have "odd (le_nat bs div 2) \<longleftrightarrow> odd (unat b div 2)" by simp
  also have "\<dots> \<longleftrightarrow> bit (unat b) 1" by (simp add: bit_iff_odd)
  also have "\<dots> \<longleftrightarrow> bit b 1" by (simp add: bit_unsigned_iff)
  finally show ?thesis by (simp add: bs bit_iff_odd)
qed

lemma is_debug_bit:
  assumes "attributes b \<noteq> []"
  shows "is_debug b \<longleftrightarrow> bit (attributes b ! 0) 1"
proof -
  let ?n = "le_nat (take 8 (attributes b))"
  have flag: "ATTRIBUTE_FLAG_DEBUG = push_bit 1 (1 :: u64)"
    by (rule ATTRIBUTE_FLAG_DEBUG_def)
  have "is_debug b \<longleftrightarrow> bit (of_nat ?n :: u64) 1"
    unfolding is_debug_def attribute_flags_def u64_from_le_def flag
    by (simp only: push_bit_of_1 and_exp_eq_0_iff_not_bit not_not)
  also have "\<dots> \<longleftrightarrow> bit ?n 1" by (simp add: bit_of_nat_iff)
  also have "\<dots> \<longleftrightarrow> bit (take 8 (attributes b) ! 0) 1"
    using assms by (intro le_nat_bit_1) simp
  finally show ?thesis by simp
qed

section \<open>Properties\<close>

text \<open>A report body parses iff it is 384 bytes long, and then every field is read at its offset
  in the SGX report structure; the reserved areas are ignored.\<close>

theorem report_parse_layout:
  "report_parse raw = Inr b \<longleftrightarrow> length raw = 384 \<and> b = report_at_offsets raw"
  by (rule report_parse_eq_Inr)

text \<open>On a parsed report the DEBUG test is bit 1 of the first attribute byte.\<close>

theorem debug_is_attribute_bit:
  assumes "wf_report b"
  shows "is_debug b \<longleftrightarrow> bit (attributes b ! 0) 1"
  using assms by (intro is_debug_bit) (auto simp: wf_report_def)

text \<open>C17. Writing a well-formed report body out, whatever the reserved areas hold, and parsing it
  gives it back.\<close>

theorem report_round_trip:
  assumes "wf_report b" and "wf_reserved r1 r2 r3 r4"
  shows "report_parse (encode_report r1 r2 r3 r4 b) = Inr b"
  by (simp add: report_parse_eq_Inr length_encode_report report_at_offsets_encode assms)

end
