(* ===== verification/Quote.thy ===== *)
theory Quote
  imports Report
begin

text \<open>
  \<^verbatim>\<open>dcap-verify/src/types/quote.rs\<close>: the DCAP v3 quote, its parser and the two peek helpers.
  \<open>encode_quote\<close> is the wire format, and \<open>read_quote_eq_Inr\<close> says that the parser accepts
  exactly the encodings of well-formed quotes and leaves exactly the trailing bytes.
\<close>

abbreviation QUOTE_SIGNED_LEN :: nat where
  "QUOTE_SIGNED_LEN \<equiv> 432"

definition QUOTE_VERSION_3 :: u16 where "QUOTE_VERSION_3 = 3"

definition ATT_KEY_TYPE_ECDSA_P256 :: u16 where "ATT_KEY_TYPE_ECDSA_P256 = 2"

definition CERT_DATA_TYPE_PCK_CHAIN :: u16 where "CERT_DATA_TYPE_PCK_CHAIN = 5"

record sgx_quote_header =
  version :: u16
  att_key_type :: u16
  reserved :: u32
  qe_svn :: u16
  pce_svn :: u16
  qe_vendor_id :: bytes
  user_data :: bytes

record sgx_ecdsa_signature =
  isv_signature :: bytes
  attestation_pub_key :: bytes
  qe_report :: sgx_report_body
  qe_report_raw :: bytes
  qe_report_signature :: bytes
  qe_auth_data :: bytes
  cert_data_type :: u16
  cert_data :: bytes

record sgx_quote =
  header :: sgx_quote_header
  report_body :: sgx_report_body
  signature :: sgx_ecdsa_signature
  signed_bytes :: bytes

section \<open>Rejection details\<close>

definition quote_version_detail :: "u16 \<Rightarrow> string" where
  "quote_version_detail v =
     ''only quote structure version '' @ dec_word QUOTE_VERSION_3 @
     '' is supported, header says '' @ dec_word v"

definition att_key_type_detail :: "u16 \<Rightarrow> string" where
  "att_key_type_detail t =
     ''only ECDSA-P256 attestation keys (type '' @ dec_word ATT_KEY_TYPE_ECDSA_P256 @
     '') are supported, header says '' @ dec_word t"

definition cert_data_type_detail :: "u16 \<Rightarrow> string" where
  "cert_data_type_detail t =
     ''certification data type '' @ dec_word t @
     '' is not supported; expected an embedded PCK chain (type '' @
     dec_word CERT_DATA_TYPE_PCK_CHAIN @ '')''"

definition slack_detail :: "nat \<Rightarrow> string" where
  "slack_detail n =
     ''signature section declares '' @ dec_nat n @
     '' unconsumed bytes after the certification data''"

section \<open>The parser\<close>

definition read_signature :: "bytes \<Rightarrow> sgx_ecdsa_signature res" where
  "read_signature raw =
     (let r = byte_reader_new raw in
      and_then (reader_array 64 ''quote body signature'' r) (\<lambda>(isv_signature', r).
      and_then (reader_array 64 ''attestation public key'' r) (\<lambda>(attestation_pub_key', r).
      and_then (reader_array 384 ''QE report'' r) (\<lambda>(qe_report_raw', r).
      and_then (report_parse qe_report_raw') (\<lambda>qe_report'.
      and_then (reader_array 64 ''QE report signature'' r) (\<lambda>(qe_report_signature', r).
      and_then (reader_u16_le ''QE authentication data length'' r) (\<lambda>(auth_len, r).
      and_then (reader_take (unat auth_len) ''QE authentication data'' r)
        (\<lambda>(qe_auth_data', r).
      and_then (reader_u16_le ''certification data type'' r) (\<lambda>(cert_data_type', r).
      if cert_data_type' \<noteq> CERT_DATA_TYPE_PCK_CHAIN
      then Inl (verify_error_new QuoteParse (cert_data_type_detail cert_data_type'))
      else
      and_then (reader_u32_le ''certification data length'' r) (\<lambda>(cert_len, r).
      and_then (reader_take (unat cert_len) ''certification data'' r) (\<lambda>(cert_data', r).
      if reader_rest r \<noteq> []
      then Inl (verify_error_new QuoteParse (slack_detail (length (reader_rest r))))
      else Inr \<lparr>isv_signature = isv_signature', attestation_pub_key = attestation_pub_key',
                qe_report = qe_report', qe_report_raw = qe_report_raw',
                qe_report_signature = qe_report_signature', qe_auth_data = qe_auth_data',
                cert_data_type = cert_data_type', cert_data = cert_data'\<rparr>)))))))))))"

text \<open>The body of \<open>SgxQuote::read\<close>: the quote and the input left after it.\<close>

definition read_quote :: "bytes \<Rightarrow> (sgx_quote \<times> bytes) res" where
  "read_quote input =
     (let r = byte_reader_new input in
      and_then (reader_u16_le ''quote version'' r) (\<lambda>(version', r).
      if version' \<noteq> QUOTE_VERSION_3
      then Inl (verify_error_new QuoteParse (quote_version_detail version'))
      else
      and_then (reader_u16_le ''attestation key type'' r) (\<lambda>(att_key_type', r).
      if att_key_type' \<noteq> ATT_KEY_TYPE_ECDSA_P256
      then Inl (verify_error_new QuoteParse (att_key_type_detail att_key_type'))
      else
      and_then (reader_u32_le ''header reserved field'' r) (\<lambda>(reserved', r).
      and_then (reader_u16_le ''QE SVN'' r) (\<lambda>(qe_svn', r).
      and_then (reader_u16_le ''PCE SVN'' r) (\<lambda>(pce_svn', r).
      and_then (reader_array 16 ''QE vendor id'' r) (\<lambda>(qe_vendor_id', r).
      and_then (reader_array 20 ''header user data'' r) (\<lambda>(user_data', r).
      let header' = \<lparr>version = version', att_key_type = att_key_type', reserved = reserved',
                     qe_svn = qe_svn', pce_svn = pce_svn', qe_vendor_id = qe_vendor_id',
                     user_data = user_data'\<rparr> in
      and_then (reader_take 384 ''report body'' r) (\<lambda>(body_raw, r).
      and_then (report_parse body_raw) (\<lambda>report_body'.
      if length input < QUOTE_SIGNED_LEN
      then Inl (verify_error_new QuoteParse ''quote shorter than its signed portion'')
      else let signed_bytes' = take QUOTE_SIGNED_LEN input in
      and_then (reader_u32_le ''signature section length'' r) (\<lambda>(sig_len, r).
      and_then (reader_take (unat sig_len) ''signature section'' r) (\<lambda>(sig_raw, r).
      and_then (read_signature sig_raw) (\<lambda>signature'.
      Inr (\<lparr>header = header', report_body = report_body', signature = signature',
            signed_bytes = signed_bytes'\<rparr>, reader_rest r))))))))))))))"

text \<open>
  \<open>SgxQuote::read(bytes: &mut &[u8])\<close>: the result together with the caller's cursor, advanced
  on success and left where it was on failure.
\<close>

definition sgx_quote_read :: "bytes \<Rightarrow> sgx_quote res \<times> bytes" where
  "sgx_quote_read input =
     (case read_quote input of
        Inl e \<Rightarrow> (Inl e, input)
      | Inr (q, remaining) \<Rightarrow> (Inr q, remaining))"

section \<open>Peeking\<close>

definition PEEK_MRENCLAVE_OFFSET :: nat where "PEEK_MRENCLAVE_OFFSET = 48 + 64"

definition PEEK_REPORT_DATA_OFFSET :: nat where "PEEK_REPORT_DATA_OFFSET = 48 + 320"

text \<open>\<open>get(lo..hi)\<close> on a slice: the subrange, or \<open>None\<close> when it is out of bounds.\<close>

definition slice_get :: "bytes \<Rightarrow> nat \<Rightarrow> nat \<Rightarrow> bytes option" where
  "slice_get bs lo hi =
     (if lo \<le> hi \<and> hi \<le> length bs then Some (take (hi - lo) (drop lo bs)) else None)"

definition peek_mrenclave :: "bytes \<Rightarrow> bytes option" where
  "peek_mrenclave quote = slice_get quote PEEK_MRENCLAVE_OFFSET (PEEK_MRENCLAVE_OFFSET + 32)"

definition peek_report_data :: "bytes \<Rightarrow> bytes option" where
  "peek_report_data quote =
     slice_get quote PEEK_REPORT_DATA_OFFSET (PEEK_REPORT_DATA_OFFSET + 64)"

section \<open>The wire format\<close>

definition encode_signature :: "sgx_ecdsa_signature \<Rightarrow> bytes" where
  "encode_signature s =
     isv_signature s @ attestation_pub_key s @ qe_report_raw s @ qe_report_signature s @
     le_bytes 2 (length (qe_auth_data s)) @ qe_auth_data s @
     le_bytes 2 (unat (cert_data_type s)) @ le_bytes 4 (length (cert_data s)) @ cert_data s"

definition wf_signature :: "sgx_ecdsa_signature \<Rightarrow> bool" where
  "wf_signature s \<longleftrightarrow>
     length (isv_signature s) = 64 \<and> length (attestation_pub_key s) = 64 \<and>
     length (qe_report_raw s) = 384 \<and> qe_report s = report_at_offsets (qe_report_raw s) \<and>
     length (qe_report_signature s) = 64 \<and> length (qe_auth_data s) < 2 ^ 16 \<and>
     cert_data_type s = CERT_DATA_TYPE_PCK_CHAIN \<and> length (cert_data s) < 2 ^ 32"

lemma read_signature_encode:
  "wf_signature s \<Longrightarrow> read_signature (encode_signature s) = Inr s"
  by (simp add: read_signature_def encode_signature_def wf_signature_def byte_reader_new_def
      reader_on_encoding reader_on_exact_encoding report_parse_ok reader_rest_def)

lemma read_signature_only_encodings:
  "read_signature raw = Inr s \<Longrightarrow> wf_signature s \<and> raw = encode_signature s"
  by (auto simp: read_signature_def byte_reader_new_def res_simps reader_eq_split
      report_parse_eq_Inr reader_rest_def wf_signature_def encode_signature_def
      unat_u16_from_le_less unat_u32_from_le_less intro: le_bytes_u16I)

lemma read_signature_eq_Inr:
  "read_signature raw = Inr s \<longleftrightarrow> wf_signature s \<and> raw = encode_signature s"
  using read_signature_encode read_signature_only_encodings by blast

definition header_at_offsets :: "bytes \<Rightarrow> sgx_quote_header" where
  "header_at_offsets raw =
     \<lparr>version = u16_from_le (slice 0 2 raw), att_key_type = u16_from_le (slice 2 2 raw),
      reserved = u32_from_le (slice 4 4 raw), qe_svn = u16_from_le (slice 8 2 raw),
      pce_svn = u16_from_le (slice 10 2 raw), qe_vendor_id = slice 12 16 raw,
      user_data = slice 28 20 raw\<rparr>"

definition wf_quote :: "sgx_quote \<Rightarrow> bool" where
  "wf_quote q \<longleftrightarrow>
     length (signed_bytes q) = QUOTE_SIGNED_LEN \<and>
     header q = header_at_offsets (signed_bytes q) \<and>
     report_body q = report_at_offsets (drop 48 (signed_bytes q)) \<and>
     version (header q) = QUOTE_VERSION_3 \<and>
     att_key_type (header q) = ATT_KEY_TYPE_ECDSA_P256 \<and>
     wf_signature (signature q) \<and> length (encode_signature (signature q)) < 2 ^ 32"

definition encode_quote :: "sgx_quote \<Rightarrow> bytes" where
  "encode_quote q =
     signed_bytes q @ le_bytes 4 (length (encode_signature (signature q))) @
     encode_signature (signature q)"

lemma read_quote_split:
  "read_quote input = Inr (q, ys) \<longleftrightarrow>
     (\<exists>signed len sig_raw s. length signed = 432 \<and> length len = 4 \<and>
        input = signed @ len @ sig_raw @ ys \<and> length sig_raw = unat (u32_from_le len) \<and>
        version (header_at_offsets signed) = QUOTE_VERSION_3 \<and>
        att_key_type (header_at_offsets signed) = ATT_KEY_TYPE_ECDSA_P256 \<and>
        read_signature sig_raw = Inr s \<and>
        q = \<lparr>header = header_at_offsets signed, report_body = report_at_offsets (drop 48 signed),
             signature = s, signed_bytes = signed\<rparr>)" (is "?L \<longleftrightarrow> ?R")
proof
  assume ?L
  then obtain v a r4 s1 s2 ven ud body len sig_raw s where
    len: "length v = 2" "length a = 2" "length r4 = 4" "length s1 = 2" "length s2 = 2"
      "length ven = 16" "length ud = 20" "length body = 384" "length len = 4"
      "length sig_raw = unat (u32_from_le len)"
    and inp: "input = v @ a @ r4 @ s1 @ s2 @ ven @ ud @ body @ len @ sig_raw @ ys"
    and vers: "u16_from_le v = QUOTE_VERSION_3" "u16_from_le a = ATT_KEY_TYPE_ECDSA_P256"
    and s: "read_signature sig_raw = Inr s"
    and q: "q = \<lparr>header = \<lparr>version = u16_from_le v, att_key_type = u16_from_le a,
                 reserved = u32_from_le r4, qe_svn = u16_from_le s1, pce_svn = u16_from_le s2,
                 qe_vendor_id = ven, user_data = ud\<rparr>,
               report_body = report_at_offsets body, signature = s,
               signed_bytes = take 432 input\<rparr>"
    by (auto simp: read_quote_def byte_reader_new_def res_simps reader_eq_split
        report_parse_eq_Inr reader_rest_def Let_def)
  let ?signed = "v @ a @ r4 @ s1 @ s2 @ ven @ ud @ body"
  have "take 432 input = ?signed" and "drop 48 ?signed = body"
    using len by (simp_all add: inp)
  moreover have "header_at_offsets ?signed = header q"
    using len by (simp add: header_at_offsets_def slice_def q)
  ultimately show ?R
    using len inp vers s q
    by (intro exI [of _ ?signed] exI [of _ len] exI [of _ sig_raw] exI [of _ s]) simp
next
  assume ?R
  then obtain signed len sig_raw s where
    len: "length signed = 432" "length len = 4" "length sig_raw = unat (u32_from_le len)"
    and inp: "input = signed @ len @ sig_raw @ ys"
    and vers: "version (header_at_offsets signed) = QUOTE_VERSION_3"
      "att_key_type (header_at_offsets signed) = ATT_KEY_TYPE_ECDSA_P256"
    and s: "read_signature sig_raw = Inr s"
    and q: "q = \<lparr>header = header_at_offsets signed,
               report_body = report_at_offsets (drop 48 signed),
               signature = s, signed_bytes = signed\<rparr>"
    by blast
  show ?L
    using len vers s
    by (simp add: read_quote_def byte_reader_new_def reader_enough inp q report_parse_ok
        header_at_offsets_def slice_def reader_rest_def Let_def)
qed

lemma read_quote_eq_Inr:
  "read_quote input = Inr (q, ys) \<longleftrightarrow> wf_quote q \<and> input = encode_quote q @ ys"
proof
  assume "read_quote input = Inr (q, ys)"
  then show "wf_quote q \<and> input = encode_quote q @ ys"
    by (auto simp: read_quote_split read_signature_eq_Inr wf_quote_def encode_quote_def
        unat_u32_from_le_less)
next
  assume "wf_quote q \<and> input = encode_quote q @ ys"
  then show "read_quote input = Inr (q, ys)"
    unfolding read_quote_split read_signature_eq_Inr
    by (intro exI [of _ "signed_bytes q"]
        exI [of _ "le_bytes 4 (length (encode_signature (signature q)))"]
        exI [of _ "encode_signature (signature q)"] exI [of _ "signature q"])
      (auto simp: wf_quote_def encode_quote_def)
qed

lemma read_signature_rejects [rejects_intros]: "rejects_within {QuoteParse} (read_signature raw)"
  unfolding read_signature_def Let_def split_def by (intro rejects_intros) simp_all

lemma read_quote_rejects [rejects_intros]: "rejects_within {QuoteParse} (read_quote input)"
  unfolding read_quote_def Let_def split_def by (intro rejects_intros) simp_all

lemma length_encode_signature:
  "wf_signature s \<Longrightarrow>
     length (encode_signature s) = 584 + length (qe_auth_data s) + length (cert_data s)"
  by (simp add: wf_signature_def encode_signature_def)

lemma length_encode_quote:
  "wf_quote q \<Longrightarrow>
     length (encode_quote q) = 1020 + length (qe_auth_data (signature q)) +
       length (cert_data (signature q))"
  by (simp add: wf_quote_def encode_quote_def length_encode_signature)

lemma wf_quote_bodies:
  "wf_quote q \<Longrightarrow> wf_report (report_body q) \<and> wf_report (qe_report (signature q))"
  by (simp add: wf_quote_def wf_signature_def wf_report_at_offsets)

lemma peek_mrenclave_encode:
  "wf_quote q \<Longrightarrow> peek_mrenclave (encode_quote q @ ys) = Some (mrenclave (report_body q))"
  by (simp add: wf_quote_def encode_quote_def peek_mrenclave_def slice_get_def
      PEEK_MRENCLAVE_OFFSET_def report_at_offsets_def slice_def)

lemma peek_report_data_encode:
  "wf_quote q \<Longrightarrow>
     peek_report_data (encode_quote q @ ys) = Some (sgx_report_data_bytes (report_body q))"
  by (simp add: wf_quote_def encode_quote_def peek_report_data_def slice_get_def
      PEEK_REPORT_DATA_OFFSET_def report_at_offsets_def slice_def)

lemma sgx_quote_read_ok:
  "fst (sgx_quote_read input) = Inr q \<longleftrightarrow> (\<exists>left. wf_quote q \<and> input = encode_quote q @ left)"
proof -
  have "fst (sgx_quote_read input) = Inr q \<longleftrightarrow> (\<exists>left. read_quote input = Inr (q, left))"
    by (auto simp: sgx_quote_read_def split: sum.splits)
  then show ?thesis by (simp only: read_quote_eq_Inr)
qed

section \<open>Properties\<close>

text \<open>C15. The quote parser accepts exactly the encodings of well-formed quotes followed by any bytes,
  and leaves exactly those bytes to the caller. A rejection is a quote parse error and leaves the
  caller's cursor where it was.\<close>

theorem quote_read_iff_encoding:
  "(sgx_quote_read input = (Inr q, remaining) \<longleftrightarrow>
      wf_quote q \<and> input = encode_quote q @ remaining) \<and>
   (fst (sgx_quote_read input) = Inl e \<longleftrightarrow>
      read_quote input = Inl e \<and> snd (sgx_quote_read input) = input \<and> category e = QuoteParse)"
proof -
  have "sgx_quote_read input = (Inr q, remaining) \<longleftrightarrow> read_quote input = Inr (q, remaining)"
    by (auto simp: sgx_quote_read_def split: sum.splits)
  moreover have "fst (sgx_quote_read input) = Inl e \<longleftrightarrow>
      read_quote input = Inl e \<and> snd (sgx_quote_read input) = input \<and> category e = QuoteParse"
    using read_quote_rejects [of input]
    by (auto simp: sgx_quote_read_def rejects_within_def split: sum.splits)
  ultimately show ?thesis by (simp add: read_quote_eq_Inr)
qed

text \<open>C16. On every quote the parser accepts, the two peek helpers return what the parser read: the
  measurement and the report data of the report body.\<close>

theorem peek_agrees_with_parser:
  assumes "fst (sgx_quote_read input) = Inr q"
  shows "peek_mrenclave input = Some (mrenclave (report_body q)) \<and>
     peek_report_data input = Some (sgx_report_data_bytes (report_body q))"
proof -
  obtain remaining where "wf_quote q" and "input = encode_quote q @ remaining"
    using assms by (auto simp: sgx_quote_read_def read_quote_eq_Inr split: sum.splits)
  then show ?thesis by (simp add: peek_mrenclave_encode peek_report_data_encode)
qed

end
