(* ===== verification/Pck_Extension.thy ===== *)
theory Pck_Extension
  imports Chain Quote
begin

text \<open>
  \<^verbatim>\<open>dcap-verify/src/pki.rs\<close>: the platform identity read out of the PCK leaf's SGX extension,
  and the two selectors a collateral fetch needs. The accumulator record holds the four local
  variables of \<open>extract_pck_platform_tcb\<close>; the two nested loops are folds over it, and an
  entry of the wrong shape is skipped, as \<open>continue\<close> does.
\<close>

definition SGX_PCK_EXTENSION_OID :: string where
  "SGX_PCK_EXTENSION_OID = ''1.2.840.113741.1.13.1''"

record pck_platform_tcb =
  pck_fmspc :: bytes
  pck_pce_id :: bytes
  comp_svns :: "u32 list"
  pck_pcesvn :: u32

record pck_acc =
  acc_fmspc :: "bytes option"
  acc_pce_id :: "bytes option"
  acc_comp_svns :: "u32 option list"
  acc_pcesvn :: "u32 option"

definition pck_acc_init :: pck_acc where
  "pck_acc_init =
     \<lparr>acc_fmspc = None, acc_pce_id = None, acc_comp_svns = replicate 16 None, acc_pcesvn = None\<rparr>"

definition bad_extension :: "string \<Rightarrow> verify_error" where
  "bad_extension what = verify_error_new QuoteParse (''SGX platform extension: '' @ what)"

text \<open>The guards at the head of both loops: an (OID, value) pair, or nothing.\<close>

definition oid_value_pair :: "der_obj \<Rightarrow> (string \<times> der_obj) option" where
  "oid_value_pair entry =
     (case as_sequence entry of
        Inl _ \<Rightarrow> None
      | Inr pair \<Rightarrow>
          (case pair of
             oid_obj # val # _ \<Rightarrow>
               (case as_oid oid_obj of None \<Rightarrow> None | Some oid \<Rightarrow> Some (oid, val))
           | _ \<Rightarrow> None))"

definition fixed_bytes :: "string \<Rightarrow> string \<Rightarrow> nat \<Rightarrow> der_obj \<Rightarrow> bytes res" where
  "fixed_bytes not_bytes wrong_len n val =
     and_then (ok_or (bad_extension not_bytes) (as_slice val)) (\<lambda>bs.
     if length bs = n then Inr bs else Inl (bad_extension wrong_len))"

text \<open>One entry of the TCB sequence.\<close>

definition tcb_component_step :: "der_obj \<Rightarrow> pck_acc \<Rightarrow> pck_acc res" where
  "tcb_component_step tcb_entry acc =
     (case oid_value_pair tcb_entry of
        None \<Rightarrow> Inr acc
      | Some (tcb_oid, tcb_value) \<Rightarrow>
      (case strip_prefix ''1.2.840.113741.1.13.1.2.'' tcb_oid of
        None \<Rightarrow> Inr acc
      | Some component \<Rightarrow>
      (case parse_usize component of
        None \<Rightarrow> Inr acc
      | Some index \<Rightarrow>
          if 1 \<le> index \<and> index \<le> 16 then
            and_then (ok_or (bad_extension ''a TCB component SVN is not a small integer'')
                        (as_u32 tcb_value)) (\<lambda>svn.
            Inr (acc\<lparr>acc_comp_svns := (acc_comp_svns acc)[index - 1 := Some svn]\<rparr>))
          else if index = 17 then
            and_then (ok_or (bad_extension ''PCESVN is not a small integer'')
                        (as_u32 tcb_value)) (\<lambda>svn.
            Inr (acc\<lparr>acc_pcesvn := Some svn\<rparr>))
          else Inr acc)))"

text \<open>One entry of the extension's top-level sequence.\<close>

definition extension_step :: "der_obj \<Rightarrow> pck_acc \<Rightarrow> pck_acc res" where
  "extension_step entry acc =
     (case oid_value_pair entry of
        None \<Rightarrow> Inr acc
      | Some (oid, val) \<Rightarrow>
          let field = strip_prefix ''1.2.840.113741.1.13.1.'' oid in
          if field = Some ''3'' then
            and_then (fixed_bytes ''PCE-ID is not a byte string'' ''PCE-ID is not 2 bytes'' 2 val)
              (\<lambda>bs. Inr (acc\<lparr>acc_pce_id := Some bs\<rparr>))
          else if field = Some ''4'' then
            and_then (fixed_bytes ''FMSPC is not a byte string'' ''FMSPC is not 6 bytes'' 6 val)
              (\<lambda>bs. Inr (acc\<lparr>acc_fmspc := Some bs\<rparr>))
          else if field = Some ''2'' then
            and_then (map_err (\<lambda>_. bad_extension ''TCB field is not a sequence'')
                        (as_sequence val)) (\<lambda>tcb_entries.
            fold_res tcb_component_step tcb_entries acc)
          else Inr acc)"

definition extract_pck_platform_tcb ::
  "('k, 's) crates \<Rightarrow> parsed_chain \<Rightarrow> pck_platform_tcb res" where
  "extract_pck_platform_tcb C chain =
     and_then (ok_or (verify_error_new QuoteParse
                 ''PCK leaf certificate lacks the SGX platform extension'')
               (List.find (\<lambda>e. fst e = SGX_PCK_EXTENSION_OID) (extensions (leaf chain)))) (\<lambda>ext.
     and_then (map_err (\<lambda>e. verify_error_new QuoteParse
                 (''SGX platform extension is not parseable DER: '' @ e))
               (parse_der C (snd ext))) (\<lambda>top.
     and_then (map_err (\<lambda>e. verify_error_new QuoteParse
                 (''SGX platform extension is not a sequence: '' @ e))
               (as_sequence top)) (\<lambda>entries.
     and_then (fold_res extension_step entries pck_acc_init) (\<lambda>acc.
     and_then (ok_or (bad_extension ''FMSPC missing'') (acc_fmspc acc)) (\<lambda>fmspc.
     and_then (ok_or (bad_extension ''PCE-ID missing'') (acc_pce_id acc)) (\<lambda>pce_id.
     and_then (ok_or (bad_extension ''PCESVN missing'') (acc_pcesvn acc)) (\<lambda>pcesvn.
     and_then (collect_res (map (ok_or (bad_extension ''a TCB component SVN is missing''))
                (acc_comp_svns acc))) (\<lambda>svns.
     Inr \<lparr>pck_fmspc = fmspc, pck_pce_id = pce_id, comp_svns = svns, pck_pcesvn = pcesvn\<rparr>))))))))"

section \<open>Collateral selectors\<close>

datatype pck_ca = Processor | Platform

fun pck_ca_as_str :: "pck_ca \<Rightarrow> string" where
  "pck_ca_as_str Processor = ''processor''"
| "pck_ca_as_str Platform = ''platform''"

definition PCK_PROCESSOR_CA_CN :: string where
  "PCK_PROCESSOR_CA_CN = ''Intel SGX PCK Processor CA''"

definition PCK_PLATFORM_CA_CN :: string where
  "PCK_PLATFORM_CA_CN = ''Intel SGX PCK Platform CA''"

definition pck_collateral_params ::
  "('k, 's) crates \<Rightarrow> sgx_quote \<Rightarrow> (bytes \<times> pck_ca) res" where
  "pck_collateral_params C quote =
     and_then (from_pem C QuotePck (cert_data (signature quote))) (\<lambda>chain.
     and_then (chain_parse C chain) (\<lambda>parsed.
     and_then (extract_pck_platform_tcb C parsed) (\<lambda>platform.
     and_then (ok_or (verify_error_new QuoteParse ''PCK leaf issuer has no readable common name'')
               (first_common_name (issuer (leaf parsed)))) (\<lambda>issuer_cn.
     and_then (if issuer_cn = PCK_PROCESSOR_CA_CN then Inr Processor
               else if issuer_cn = PCK_PLATFORM_CA_CN then Inr Platform
               else Inl (verify_error_new QuoteParse (''PCK leaf issuer CN '' @
                 quoted issuer_cn @ '' is not an Intel SGX PCK CA''))) (\<lambda>pck_ca.
     Inr (pck_fmspc platform, pck_ca))))))"

section \<open>Well-formedness\<close>

definition wf_platform :: "pck_platform_tcb \<Rightarrow> bool" where
  "wf_platform p \<longleftrightarrow>
     length (pck_fmspc p) = 6 \<and> length (pck_pce_id p) = 2 \<and> length (comp_svns p) = 16"

definition wf_acc :: "pck_acc \<Rightarrow> bool" where
  "wf_acc acc \<longleftrightarrow>
     (\<forall>bs. acc_fmspc acc = Some bs \<longrightarrow> length bs = 6) \<and>
     (\<forall>bs. acc_pce_id acc = Some bs \<longrightarrow> length bs = 2) \<and>
     length (acc_comp_svns acc) = 16"

lemma wf_acc_init: "wf_acc pck_acc_init"
  by (simp add: wf_acc_def pck_acc_init_def)

lemma tcb_component_step_wf:
  "tcb_component_step entry acc = Inr acc' \<Longrightarrow> wf_acc acc \<Longrightarrow> wf_acc acc'"
  by (auto simp: tcb_component_step_def wf_acc_def res_simps split: option.splits if_splits)

lemma extension_step_wf:
  assumes "extension_step entry acc = Inr acc'" and "wf_acc acc"
  shows "wf_acc acc'"
proof -
  have "wf_acc acc'" if "fold_res tcb_component_step es acc = Inr acc'" for es
    using fold_res_invariant [of tcb_component_step es acc acc' wf_acc] that assms(2)
      tcb_component_step_wf by blast
  then show ?thesis
    using assms
    by (auto simp: extension_step_def fixed_bytes_def Let_def res_simps wf_acc_def
        split: option.splits if_splits prod.splits)
qed

lemma collect_ok_or:
  "collect_res (map (ok_or e) opts) = Inr xs \<longleftrightarrow> opts = map Some xs"
  by (induction opts arbitrary: xs) (auto simp: res_simps Cons_eq_map_conv)

lemma extract_pck_platform_tcb_wf:
  assumes "extract_pck_platform_tcb C chain = Inr p"
  shows "wf_platform p"
proof -
  from assms obtain entries acc where
    fold: "fold_res extension_step entries pck_acc_init = Inr acc" and
    fields: "acc_fmspc acc = Some (pck_fmspc p)" "acc_pce_id acc = Some (pck_pce_id p)"
      "acc_comp_svns acc = map Some (comp_svns p)"
    by (auto simp: extract_pck_platform_tcb_def res_simps collect_ok_or)
  have "wf_acc acc"
    using fold_res_invariant [OF fold, of wf_acc] wf_acc_init extension_step_wf by blast
  then show ?thesis using fields by (auto simp: wf_acc_def wf_platform_def)
qed

lemma category_bad_extension [simp]: "category (bad_extension what) = QuoteParse"
  by (simp add: bad_extension_def)

lemma fold_res_rejects:
  "(\<And>x s. rejects_within cs (f x s)) \<Longrightarrow> rejects_within cs (fold_res f xs s)"
  by (induction xs arbitrary: s) (auto intro!: rejects_intros)

lemma rejects_within_bad_extension [rejects_intros]:
  "QuoteParse \<in> cs \<Longrightarrow> rejects_within cs (Inl (bad_extension what))"
  by (simp add: rejects_within_def)

lemma tcb_component_step_rejects: "rejects_within {QuoteParse} (tcb_component_step entry acc)"
  by (auto simp: tcb_component_step_def split: option.splits intro!: rejects_intros)

lemma extension_step_rejects: "rejects_within {QuoteParse} (extension_step entry acc)"
  by (auto simp: extension_step_def fixed_bytes_def Let_def split: option.splits
      intro!: rejects_intros fold_res_rejects tcb_component_step_rejects)

lemma extract_rejects [rejects_intros]:
  assumes "QuoteParse \<in> cs"
  shows "rejects_within cs (extract_pck_platform_tcb C chain)"
proof -
  have "rejects_within {QuoteParse} (extract_pck_platform_tcb C chain)"
    unfolding extract_pck_platform_tcb_def
    by (auto intro!: rejects_intros fold_res_rejects extension_step_rejects collect_res_rejects)
  then show ?thesis by (rule rejects_within_mono) (use assms in simp)
qed

section \<open>Property\<close>


end
