(* ===== verification/Collateral.thy ===== *)
theory Collateral
  imports Errors
begin

text \<open>
  \<^verbatim>\<open>dcap-verify/src/types/{tcb_info,qe_identity,collateral}.rs\<close> and the standing of
  \<^verbatim>\<open>lib.rs\<close>: the collateral documents. The derived deserialisers of the plain structs are
  generated code; the hand-written one, \<open>Signed<T>\<close>, is modelled with its map visitor. A
  \<open>DateTime<Utc>\<close> is its \<open>timestamp()\<close>, in unix seconds.
\<close>

section \<open>tcbInfo\<close>

record tcb_component =
  svn :: u32

record tcb_platform =
  sgxtcbcomponents :: "tcb_component list"
  pcesvn :: u32

record tcb_level =
  tcb :: tcb_platform
  tcb_date :: int
  tcb_status :: string
  advisory_ids :: "string list"

record tcb_info =
  ti_id :: string
  ti_version :: u32
  ti_issue_date :: int
  ti_next_update :: int
  fmspc :: string
  pce_id :: string
  tcb_type :: u32
  ti_tcb_evaluation_data_number :: u32
  ti_tcb_levels :: "tcb_level list"

section \<open>enclaveIdentity\<close>

record qe_tcb =
  isvsvn :: u16

record qe_tcb_level =
  qtcb :: qe_tcb
  qtcb_date :: int
  qtcb_status :: string
  qadvisory_ids :: "string list"

record qe_identity =
  qi_id :: string
  qi_version :: u32
  qi_issue_date :: int
  qi_next_update :: int
  qi_tcb_evaluation_data_number :: u32
  miscselect :: string
  miscselect_mask :: string
  qi_attributes :: string
  attributes_mask :: string
  qi_mrsigner :: string
  isvprodid :: u16
  qi_tcb_levels :: "qe_tcb_level list"

section \<open>Signed documents and the collateral envelope\<close>

record 'b signed_doc =
  body_json :: string
  body :: 'b
  signature_hex :: string

record sgx_collateral =
  coll_version :: u32
  root_ca_crl :: string
  pck_crl :: string
  tcb_info_issuer_chain :: string
  pck_crl_issuer_chain :: string
  qe_identity_issuer_chain :: string
  coll_tcb_info :: "tcb_info signed_doc"
  coll_qe_identity :: "qe_identity signed_doc"

definition WIRE_FIELD_tcb_info :: string where "WIRE_FIELD_tcb_info = ''tcbInfo''"

definition WIRE_FIELD_qe_identity :: string where "WIRE_FIELD_qe_identity = ''enclaveIdentity''"

text \<open>
  The visitor walks serde's \<open>MapAccess\<close>, a parameter: each entry is what \<open>next_key\<close> returns
  and, for each type the visitor may ask for, what \<open>next_value\<close> returns (raw JSON text for
  the body, a string for the signature, nothing for an ignored key). Errors are the text
  serde builds.
\<close>

record map_entry =
  entry_key :: "string + string"
  value_raw :: "string + string"
  value_string :: "string + string"
  value_ignored :: "string + unit"

definition duplicate_field :: "string \<Rightarrow> string" where
  "duplicate_field f = ''duplicate field `'' @ f @ ''`''"

definition missing_field :: "string \<Rightarrow> string" where
  "missing_field f = ''missing field `'' @ f @ ''`''"

fun visit_entries ::
  "string \<Rightarrow> string option \<Rightarrow> string option \<Rightarrow> map_entry list \<Rightarrow>
     string + (string option \<times> string option)" where
  "visit_entries wire body_raw sig_hex [] = Inr (body_raw, sig_hex)"
| "visit_entries wire body_raw sig_hex (e # es) =
     and_then (entry_key e) (\<lambda>key.
       if key = wire then
         (if body_raw \<noteq> None then Inl (duplicate_field wire)
          else and_then (value_raw e) (\<lambda>v. visit_entries wire (Some v) sig_hex es))
       else if key = ''signature'' then
         (if sig_hex \<noteq> None then Inl (duplicate_field ''signature'')
          else and_then (value_string e) (\<lambda>v. visit_entries wire body_raw (Some v) es))
       else and_then (value_ignored e) (\<lambda>_. visit_entries wire body_raw sig_hex es))"

definition visit_map ::
  "string \<Rightarrow> (string \<Rightarrow> string + 'b) \<Rightarrow> map_entry list \<Rightarrow> string + 'b signed_doc" where
  "visit_map wire from_str entries =
     and_then (visit_entries wire None None entries) (\<lambda>(body_raw, sig_hex).
     and_then (ok_or (missing_field wire) body_raw) (\<lambda>body_raw.
     and_then (ok_or (missing_field ''signature'') sig_hex) (\<lambda>sig_hex.
     and_then (from_str body_raw) (\<lambda>parsed.
     Inr \<lparr>body_json = body_raw, body = parsed, signature_hex = sig_hex\<rparr>))))"

text \<open>
  \<open>deserialize_map\<close> hands the visitor a map, or calls one of its other methods, whose defaults
  refuse with serde's \<open>invalid_type\<close>: what was found, and the text of \<open>expecting\<close>.
\<close>

datatype wire_value = Wire_Map "map_entry list" | Wire_Other string

definition expecting :: "string \<Rightarrow> string" where
  "expecting wire = ''a signed '' @ wire @ '' document''"

definition invalid_type :: "string \<Rightarrow> string \<Rightarrow> string" where
  "invalid_type unexpected expected' = ''invalid type: '' @ unexpected @ '', expected '' @ expected'"

definition deserialize_signed ::
  "string \<Rightarrow> (string \<Rightarrow> string + 'b) \<Rightarrow> wire_value \<Rightarrow> string + 'b signed_doc" where
  "deserialize_signed wire from_str v =
     (case v of
        Wire_Map entries \<Rightarrow> visit_map wire from_str entries
      | Wire_Other unexpected \<Rightarrow> Inl (invalid_type unexpected (expecting wire)))"

section \<open>Standing\<close>

datatype tcb_standing =
    UpToDate
  | SWHardeningNeeded "string list"
  | ConfigurationAndSWHardeningNeeded "string list"

section \<open>What the visitor accepts\<close>

definition entries_with :: "string \<Rightarrow> map_entry list \<Rightarrow> map_entry list" where
  "entries_with k es = filter (\<lambda>e. entry_key e = Inr k) es"

text \<open>
  The content \<open>v\<close> of a field before the entries \<open>es\<close> that carry its key, and \<open>v'\<close> after them: a
  field is filled at most once.
\<close>

definition field_slot ::
  "(map_entry \<Rightarrow> string + string) \<Rightarrow> string option \<Rightarrow> map_entry list \<Rightarrow> string option \<Rightarrow> bool" where
  "field_slot val v es v' \<longleftrightarrow>
     (es = [] \<and> v' = v) \<or>
     (\<exists>e w. v = None \<and> es = [e] \<and> val e = Inr w \<and> v' = Some w)"

definition entry_readable :: "string \<Rightarrow> map_entry \<Rightarrow> bool" where
  "entry_readable wire e \<longleftrightarrow>
     (\<exists>k. entry_key e = Inr k \<and>
        (k \<noteq> wire \<longrightarrow> k \<noteq> ''signature'' \<longrightarrow> value_ignored e = Inr ()))"

lemma visit_entries_ok:
  assumes "wire \<noteq> ''signature''"
  shows "visit_entries wire b s es = Inr (b', s') \<longleftrightarrow>
     (\<forall>e\<in>set es. entry_readable wire e) \<and>
     field_slot value_raw b (entries_with wire es) b' \<and>
     field_slot value_string s (entries_with ''signature'' es) s'"
proof (induction es arbitrary: b s)
  case Nil
  then show ?case by (auto simp: field_slot_def entries_with_def)
next
  case (Cons e es)
  show ?case
  proof (cases "entry_key e")
    case (Inl err)
    then show ?thesis by (simp add: entry_readable_def)
  next
    case (Inr k)
    consider "k = wire" | "k = ''signature''" "k \<noteq> wire" | "k \<noteq> wire" "k \<noteq> ''signature''" by blast
    then show ?thesis
      using Inr assms
      by cases (auto simp: res_simps Cons.IH entry_readable_def entries_with_def field_slot_def)
  qed
qed

lemma visit_map_ok:
  assumes "wire \<noteq> ''signature''"
  shows "visit_map wire from_str es = Inr doc \<longleftrightarrow>
     (\<forall>e\<in>set es. entry_readable wire e) \<and>
     (\<exists>e. entries_with wire es = [e] \<and> value_raw e = Inr (body_json doc)) \<and>
     (\<exists>e. entries_with ''signature'' es = [e] \<and> value_string e = Inr (signature_hex doc)) \<and>
     from_str (body_json doc) = Inr (body doc)"
proof -
  have "visit_map wire from_str es = Inr doc \<longleftrightarrow>
      visit_entries wire None None es = Inr (Some (body_json doc), Some (signature_hex doc)) \<and>
      from_str (body_json doc) = Inr (body doc)"
    by (cases doc) (auto simp: visit_map_def res_simps)
  also have "\<dots> \<longleftrightarrow> (\<forall>e\<in>set es. entry_readable wire e) \<and>
     (\<exists>e. entries_with wire es = [e] \<and> value_raw e = Inr (body_json doc)) \<and>
     (\<exists>e. entries_with ''signature'' es = [e] \<and> value_string e = Inr (signature_hex doc)) \<and>
     from_str (body_json doc) = Inr (body doc)"
    by (auto simp: visit_entries_ok [OF assms] field_slot_def)
  finally show ?thesis .
qed

section \<open>Property\<close>

text \<open>C22. A signed document deserialises iff every entry is readable, the body field and the signature
  occur exactly once, and the body parsed is the text kept as \<open>body_json\<close>: what is verified
  later and what is used are the same bytes.\<close>

theorem signed_document_iff:
  assumes "wire \<noteq> ''signature''"
  shows "visit_map wire from_str es = Inr doc \<longleftrightarrow>
     (\<forall>e\<in>set es. entry_readable wire e) \<and>
     (\<exists>e. entries_with wire es = [e] \<and> value_raw e = Inr (body_json doc)) \<and>
     (\<exists>e. entries_with ''signature'' es = [e] \<and> value_string e = Inr (signature_hex doc)) \<and>
     from_str (body_json doc) = Inr (body doc)"
  by (rule visit_map_ok [OF assms])

end
