(* ===== verification/Tcb.thy ===== *)
theory Tcb
  imports Pck_Extension Collateral
begin

text \<open>
  \<^verbatim>\<open>dcap-verify/src/tcb.rs\<close>: the platform's standing against tcbInfo, and the QE identity
  check.
\<close>

section \<open>Hex fields and masks\<close>

definition hex_field_detail :: "string \<Rightarrow> string \<Rightarrow> string \<Rightarrow> string" where
  "hex_field_detail what value' e =
     what @ '' is not valid hex ('' @ quoted value' @ ''): '' @ e"

definition hex_len_detail :: "string \<Rightarrow> nat \<Rightarrow> string \<Rightarrow> string" where
  "hex_len_detail what n value' =
     what @ '' must be '' @ dec_nat n @ '' bytes, got '' @ dec_nat (length value' div 2) @
     '' ('' @ quoted value' @ '')''"

definition decode_hex_field ::
  "('k, 's) crates \<Rightarrow> nat \<Rightarrow> string \<Rightarrow> string \<Rightarrow> bytes res" where
  "decode_hex_field C n what value' =
     and_then (map_err (\<lambda>e. verify_error_new CollateralParse (hex_field_detail what value' e))
                (hex_decode C value')) (\<lambda>bs.
     if length bs = n then Inr bs
     else Inl (verify_error_new CollateralParse (hex_len_detail what n value')))"

definition masked_eq :: "bytes \<Rightarrow> bytes \<Rightarrow> bytes \<Rightarrow> bool" where
  "masked_eq actual expected mask' =
     list_all (\<lambda>((a, e), m). a AND m = e AND m) (zip (zip actual expected) mask')"

section \<open>Platform standing\<close>

definition level_satisfied :: "tcb_level \<Rightarrow> pck_platform_tcb \<Rightarrow> bool" where
  "level_satisfied level pck \<longleftrightarrow>
     length (sgxtcbcomponents (tcb level)) = 16 \<and>
     list_all (\<lambda>(component, platform). platform \<ge> svn component)
       (zip (sgxtcbcomponents (tcb level)) (comp_svns pck)) \<and>
     pck_pcesvn pck \<ge> pcesvn (tcb level)"

definition fmspc_detail :: "('k, 's) crates \<Rightarrow> tcb_info \<Rightarrow> pck_platform_tcb \<Rightarrow> string" where
  "fmspc_detail C info pck =
     ''TCB info describes platform family '' @ fmspc info @
     '', the quote's PCK certificate belongs to '' @ hex_encode C (pck_fmspc pck)"

definition pce_id_detail :: "('k, 's) crates \<Rightarrow> tcb_info \<Rightarrow> pck_platform_tcb \<Rightarrow> string" where
  "pce_id_detail C info pck =
     ''TCB info describes PCE '' @ pce_id info @
     '', the quote's PCK certificate belongs to PCE '' @ hex_encode C (pck_pce_id pck)"

definition no_level_detail :: "tcb_info \<Rightarrow> pck_platform_tcb \<Rightarrow> string" where
  "no_level_detail info pck =
     ''platform TCB (components '' @ debug_list dec_word (comp_svns pck) @ '', pcesvn '' @
     dec_word (pck_pcesvn pck) @ '') meets none of the '' @
     dec_nat (length (ti_tcb_levels info)) @ '' levels in the TCB info''"

definition status_detail :: "string \<Rightarrow> string" where
  "status_detail other =
     ''the platform's TCB level carries status '' @ quoted other @ '', which is not accepted''"

definition unsupported :: "string \<Rightarrow> verify_error" where
  "unsupported d = verify_error_new TcbLevelUnsupported d"

text \<open>The final match of \<open>platform_standing\<close>, on the status of the selected level.\<close>

definition standing_of_level :: "tcb_level \<Rightarrow> tcb_standing res" where
  "standing_of_level selected =
     (if tcb_status selected = ''UpToDate'' then Inr UpToDate
      else if tcb_status selected = ''SWHardeningNeeded''
      then Inr (SWHardeningNeeded (advisory_ids selected))
      else if tcb_status selected = ''ConfigurationAndSWHardeningNeeded''
      then Inr (ConfigurationAndSWHardeningNeeded (advisory_ids selected))
      else Inl (unsupported (status_detail (tcb_status selected))))"

definition platform_standing ::
  "('k, 's) crates \<Rightarrow> tcb_info \<Rightarrow> pck_platform_tcb \<Rightarrow> tcb_standing res" where
  "platform_standing C info pck =
     and_then (decode_hex_field C 6 ''TCB info fmspc'' (fmspc info)) (\<lambda>fmspc'.
     if fmspc' \<noteq> pck_fmspc pck then Inl (unsupported (fmspc_detail C info pck))
     else
     and_then (decode_hex_field C 2 ''TCB info pceId'' (pce_id info)) (\<lambda>pce_id'.
     if pce_id' \<noteq> pck_pce_id pck then Inl (unsupported (pce_id_detail C info pck))
     else
     case List.find (\<lambda>level. level_satisfied level pck) (ti_tcb_levels info) of
       None \<Rightarrow> Inl (unsupported (no_level_detail info pck))
     | Some selected \<Rightarrow> standing_of_level selected))"

section \<open>QE identity\<close>

text \<open>
  \<open>Iterator::max_by_key\<close>: the element with the greatest key, the last one among equals.
\<close>

fun max_by_key_from :: "('a \<Rightarrow> 'b::linorder) \<Rightarrow> 'a \<Rightarrow> 'a list \<Rightarrow> 'a" where
  "max_by_key_from f acc [] = acc"
| "max_by_key_from f acc (y # ys) = max_by_key_from f (if f acc > f y then acc else y) ys"

definition max_by_key :: "('a \<Rightarrow> 'b::linorder) \<Rightarrow> 'a list \<Rightarrow> 'a option" where
  "max_by_key f xs = (case xs of [] \<Rightarrow> None | x # ys \<Rightarrow> Some (max_by_key_from f x ys))"

definition identity_mismatch :: "string \<Rightarrow> verify_error" where
  "identity_mismatch d = verify_error_new QeIdentityMismatch d"

definition qe_id_detail :: "qe_identity \<Rightarrow> string" where
  "qe_id_detail identity =
     ''identity document describes enclave '' @ quoted (qi_id identity) @
     '', expected the SGX QE''"

definition qe_mrsigner_detail ::
  "('k, 's) crates \<Rightarrow> qe_identity \<Rightarrow> sgx_report_body \<Rightarrow> string" where
  "qe_mrsigner_detail C identity qe_report' =
     ''QE report is signed by '' @ hex_encode C (mrsigner qe_report') @
     '', identity requires '' @ qi_mrsigner identity"

definition qe_prodid_detail :: "qe_identity \<Rightarrow> sgx_report_body \<Rightarrow> string" where
  "qe_prodid_detail identity qe_report' =
     ''QE report carries product id '' @ dec_word (isv_prod_id qe_report') @
     '', identity requires '' @ dec_word (isvprodid identity)"

definition qe_miscselect_detail ::
  "('k, 's) crates \<Rightarrow> qe_identity \<Rightarrow> sgx_report_body \<Rightarrow> string" where
  "qe_miscselect_detail C identity qe_report' =
     ''QE report miscselect '' @ hex_encode C (misc_select qe_report') @
     '' does not match identity value '' @ miscselect identity @
     '' under mask '' @ miscselect_mask identity"

definition qe_attributes_detail ::
  "('k, 's) crates \<Rightarrow> qe_identity \<Rightarrow> sgx_report_body \<Rightarrow> string" where
  "qe_attributes_detail C identity qe_report' =
     ''QE report attributes '' @ hex_encode C (attributes qe_report') @
     '' do not match identity value '' @ qi_attributes identity @
     '' under mask '' @ attributes_mask identity"

definition qe_level_detail :: "sgx_report_body \<Rightarrow> qe_tcb_level \<Rightarrow> string" where
  "qe_level_detail qe_report' l =
     ''QE at isvsvn '' @ dec_word (isv_svn qe_report') @ '' sits at TCB status '' @
     quoted (qtcb_status l) @ '' (level isvsvn '' @ dec_word (isvsvn (qtcb l)) @
     ''), which is not current''"

definition qe_below_detail :: "sgx_report_body \<Rightarrow> string" where
  "qe_below_detail qe_report' =
     ''QE isvsvn '' @ dec_word (isv_svn qe_report') @
     '' is below every TCB level in the identity document''"

definition check_qe_identity ::
  "('k, 's) crates \<Rightarrow> qe_identity \<Rightarrow> sgx_report_body \<Rightarrow> unit res" where
  "check_qe_identity C identity qe_report' =
     (if qi_id identity \<noteq> ''QE'' then Inl (identity_mismatch (qe_id_detail identity))
      else
      and_then (decode_hex_field C 32 ''QE identity mrsigner'' (qi_mrsigner identity))
        (\<lambda>mrsigner'.
      if mrsigner' \<noteq> mrsigner qe_report'
      then Inl (identity_mismatch (qe_mrsigner_detail C identity qe_report'))
      else if isvprodid identity \<noteq> isv_prod_id qe_report'
      then Inl (identity_mismatch (qe_prodid_detail identity qe_report'))
      else
      and_then (decode_hex_field C 4 ''QE identity miscselect'' (miscselect identity))
        (\<lambda>miscselect'.
      and_then (decode_hex_field C 4 ''QE identity miscselectMask'' (miscselect_mask identity))
        (\<lambda>miscselect_mask'.
      if \<not> masked_eq (misc_select qe_report') miscselect' miscselect_mask'
      then Inl (identity_mismatch (qe_miscselect_detail C identity qe_report'))
      else
      and_then (decode_hex_field C 16 ''QE identity attributes'' (qi_attributes identity))
        (\<lambda>attributes'.
      and_then (decode_hex_field C 16 ''QE identity attributesMask'' (attributes_mask identity))
        (\<lambda>attributes_mask'.
      if \<not> masked_eq (attributes qe_report') attributes' attributes_mask'
      then Inl (identity_mismatch (qe_attributes_detail C identity qe_report'))
      else
      let level = max_by_key (\<lambda>l. isvsvn (qtcb l))
                    (filter (\<lambda>l. isvsvn (qtcb l) \<le> isv_svn qe_report') (qi_tcb_levels identity)) in
      case level of
        Some l \<Rightarrow>
          if qtcb_status l = ''UpToDate'' then Inr ()
          else Inl (identity_mismatch (qe_level_detail qe_report' l))
      | None \<Rightarrow> Inl (identity_mismatch (qe_below_detail qe_report'))))))))"

section \<open>Facts about the parts\<close>

definition hex_field :: "('k, 's) crates \<Rightarrow> nat \<Rightarrow> string \<Rightarrow> bytes \<Rightarrow> bool" where
  "hex_field C n value' bs \<longleftrightarrow> hex_decode C value' = Inr bs \<and> length bs = n"

lemma decode_hex_field_ok:
  "decode_hex_field C n what value' = Inr bs \<longleftrightarrow> hex_field C n value' bs"
  by (auto simp: decode_hex_field_def hex_field_def res_simps)

lemma decode_hex_field_rejects [rejects_intros]:
  "CollateralParse \<in> cs \<Longrightarrow> rejects_within cs (decode_hex_field C n what value')"
  unfolding decode_hex_field_def by (intro rejects_intros) simp_all

lemma masked_eq_nth:
  assumes "length actual = n" and "length expected = n" and "length mask' = n"
  shows "masked_eq actual expected mask' \<longleftrightarrow>
    (\<forall>i<n. actual ! i AND mask' ! i = expected ! i AND mask' ! i)"
  using assms by (auto simp: masked_eq_def list_all_length)

lemma max_by_key_from_mem: "max_by_key_from f acc xs \<in> set (acc # xs)"
proof (induction xs arbitrary: acc)
  case Nil
  then show ?case by simp
next
  case (Cons x xs)
  from Cons.IH [of "if f acc > f x then acc else x"] show ?case by (auto split: if_splits)
qed

lemma max_by_key_from_ge: "y \<in> set (acc # xs) \<Longrightarrow> f y \<le> f (max_by_key_from f acc xs)"
proof (induction xs arbitrary: acc y)
  case Nil
  then show ?case by simp
next
  case (Cons x xs)
  let ?a = "if f acc > f x then acc else x"
  have "f ?a \<le> f (max_by_key_from f ?a xs)" by (rule Cons.IH) simp
  moreover have "f x \<le> f ?a" and "f acc \<le> f ?a" by auto
  moreover have "f y \<le> f (max_by_key_from f ?a xs)" if "y \<in> set xs"
    by (rule Cons.IH) (use that in simp)
  ultimately have "f y \<le> f (max_by_key_from f ?a xs)"
    using Cons.prems by (metis order_trans set_ConsD)
  then show ?case by simp
qed

lemma max_by_key_from_last:
  "\<exists>ys zs. acc # xs = ys @ max_by_key_from f acc xs # zs \<and>
     (\<forall>z\<in>set zs. f z < f (max_by_key_from f acc xs))"
proof (induction xs arbitrary: acc)
  case Nil
  show ?case by (rule exI [of _ "[]"], rule exI [of _ "[]"]) simp
next
  case (Cons x xs)
  let ?a = "if f acc > f x then acc else x"
  let ?m = "max_by_key_from f ?a xs"
  obtain ys zs where split: "?a # xs = ys @ ?m # zs" and zs: "\<forall>z\<in>set zs. f z < f ?m"
    using Cons.IH [of ?a] by blast
  have ge: "f ?a \<le> f ?m" by (rule max_by_key_from_ge) simp
  have "\<exists>ys zs. acc # x # xs = ys @ ?m # zs \<and> (\<forall>z\<in>set zs. f z < f ?m)"
  proof (cases "f acc > f x")
    case False
    then have "acc # x # xs = (acc # ys) @ ?m # zs" using split by simp
    with zs show ?thesis by blast
  next
    case True
    show ?thesis
    proof (cases ys)
      case Nil
      then have "?m = acc" and "zs = xs" using split True by auto
      then have "acc # x # xs = [] @ ?m # x # xs" and "\<forall>z\<in>set (x # xs). f z < f ?m"
        using zs True by auto
      then show ?thesis by blast
    next
      case (Cons y ys')
      then have "acc # x # xs = (acc # x # ys') @ ?m # zs" using split True by auto
      with zs show ?thesis by blast
    qed
  qed
  then show ?case by simp
qed

text \<open>The level \<open>max_by_key\<close> picks: of maximal key, and the last such in list order.\<close>

lemma max_by_key_Some:
  assumes "max_by_key f xs = Some m"
  shows "\<exists>ys zs. xs = ys @ m # zs \<and> (\<forall>y\<in>set ys. f y \<le> f m) \<and> (\<forall>z\<in>set zs. f z < f m)"
proof -
  from assms obtain acc rest where xs: "xs = acc # rest" and m: "m = max_by_key_from f acc rest"
    by (auto simp: max_by_key_def split: list.splits)
  obtain ys zs where split: "xs = ys @ m # zs" and zs: "\<forall>z\<in>set zs. f z < f m"
    using max_by_key_from_last [of acc rest f] xs m by blast
  have "set ys \<subseteq> set (acc # rest)" using split xs by (metis set_append sup_ge1)
  then have "\<forall>y\<in>set ys. f y \<le> f m"
    using max_by_key_from_ge [of _ acc rest f] m by blast
  with split zs show ?thesis by blast
qed

lemma max_by_key_None: "max_by_key f xs = None \<longleftrightarrow> xs = []"
  by (simp add: max_by_key_def split: list.splits)

lemma last_max_unique:
  fixes f :: "'a \<Rightarrow> 'b::linorder"
  assumes "ys @ m # zs = ys' @ m' # zs'"
    and "\<forall>y\<in>set ys. f y \<le> f m" and "\<forall>z\<in>set zs. f z < f m"
    and "\<forall>y\<in>set ys'. f y \<le> f m'" and "\<forall>z\<in>set zs'. f z < f m'"
  shows "m = m'"
proof -
  from assms(1) consider "ys = ys' \<and> m = m'" | us where "ys = ys' @ m' # us" |
      us where "ys' = ys @ m # us"
    by (auto simp: append_eq_append_conv2 append_eq_Cons_conv Cons_eq_append_conv)
  then show ?thesis
  proof cases
    case 1
    then show ?thesis by simp
  next
    case 2
    then have "m \<in> set zs'" using assms(1) by auto
    then show ?thesis using 2 assms(2,5) by fastforce
  next
    case 3
    then have "m' \<in> set zs" using assms(1) by auto
    then show ?thesis using 3 assms(3,4) by fastforce
  qed
qed

lemma max_by_key_eq_Some:
  "max_by_key f xs = Some m \<longleftrightarrow>
     (\<exists>ys zs. xs = ys @ m # zs \<and> (\<forall>y\<in>set ys. f y \<le> f m) \<and> (\<forall>z\<in>set zs. f z < f m))"
proof
  assume "\<exists>ys zs. xs = ys @ m # zs \<and> (\<forall>y\<in>set ys. f y \<le> f m) \<and> (\<forall>z\<in>set zs. f z < f m)"
  then obtain ys zs where sel: "xs = ys @ m # zs" "\<forall>y\<in>set ys. f y \<le> f m" "\<forall>z\<in>set zs. f z < f m"
    by blast
  then obtain m' where m': "max_by_key f xs = Some m'"
    by (cases "max_by_key f xs") (auto simp: max_by_key_None)
  from max_by_key_Some [OF this] obtain ys' zs' where sel':
    "xs = ys' @ m' # zs'" "\<forall>y\<in>set ys'. f y \<le> f m'" "\<forall>z\<in>set zs'. f z < f m'"
    by blast
  have "m = m'"
    using last_max_unique [OF _ sel(2,3) sel'(2,3)] sel(1) sel'(1) by simp
  with m' show "max_by_key f xs = Some m" by simp
qed (rule max_by_key_Some)

lemma level_satisfied_nth:
  assumes "length (comp_svns pck) = 16"
  shows "level_satisfied l pck \<longleftrightarrow>
     length (sgxtcbcomponents (tcb l)) = 16 \<and>
     (\<forall>i<16. svn (sgxtcbcomponents (tcb l) ! i) \<le> comp_svns pck ! i) \<and>
     pcesvn (tcb l) \<le> pck_pcesvn pck"
  using assms by (auto simp: level_satisfied_def list_all_length)

text \<open>Component-wise order of platforms.\<close>

definition platform_le :: "pck_platform_tcb \<Rightarrow> pck_platform_tcb \<Rightarrow> bool" where
  "platform_le p q \<longleftrightarrow>
     list_all2 (\<le>) (comp_svns p) (comp_svns q) \<and> pck_pcesvn p \<le> pck_pcesvn q"

lemma level_satisfied_mono:
  assumes "platform_le p q" and "length (comp_svns p) = 16" and "level_satisfied l p"
  shows "level_satisfied l q"
proof -
  have len: "length (comp_svns q) = 16"
    using assms(1,2) by (auto simp: platform_le_def dest: list_all2_lengthD)
  have "comp_svns p ! i \<le> comp_svns q ! i" if "i < 16" for i
    using assms(1,2) that by (auto simp: platform_le_def list_all2_conv_all_nth)
  then show ?thesis
    using assms len unfolding level_satisfied_nth [OF assms(2)] level_satisfied_nth [OF len]
    by (auto simp: platform_le_def intro: order_trans)
qed

lemma masked_byte: "a AND m = e AND m \<longleftrightarrow> (\<forall>k. bit m k \<longrightarrow> bit a k = bit e k)" for m :: byte
proof
  assume "a AND m = e AND m"
  then have "bit (a AND m) k = bit (e AND m) k" for k by simp
  then show "\<forall>k. bit m k \<longrightarrow> bit a k = bit e k" by (auto simp: bit_and_iff)
qed (auto intro!: bit_eqI simp: bit_and_iff)

definition last_greatest ::
  "('a \<Rightarrow> 'b::linorder) \<Rightarrow> 'a list \<Rightarrow> 'a list \<Rightarrow> 'a \<Rightarrow> 'a list \<Rightarrow> bool" where
  "last_greatest f xs ys m zs \<longleftrightarrow>
     xs = ys @ m # zs \<and> (\<forall>y\<in>set ys. f y \<le> f m) \<and> (\<forall>z\<in>set zs. f z < f m)"

section \<open>Properties\<close>

text \<open>A masked comparison holds iff actual and expected agree in every bit the mask selects.\<close>

theorem masked_eq_bitwise:
  assumes "length actual = n" and "length expected = n" and "length mask' = n"
  shows "masked_eq actual expected mask' \<longleftrightarrow>
    (\<forall>i<n. \<forall>k. bit (mask' ! i) k \<longrightarrow> bit (actual ! i) k = bit (expected ! i) k)"
  by (simp add: masked_eq_nth [OF assms] masked_byte)

text \<open>A platform that is at least as new in every component and in the PCE satisfies every TCB
  level the older one satisfies.\<close>

theorem newer_platform_satisfies_more:
  assumes "platform_le p q" and "length (comp_svns p) = 16" and "level_satisfied l p"
  shows "level_satisfied l q"
  by (rule level_satisfied_mono [OF assms])

text \<open>\<open>max_by_key\<close>, which selects the QE's TCB level, returns an element of greatest key and, among
  several, the last.\<close>

theorem max_by_key_selects_last_greatest:
  "max_by_key f xs = Some m \<longleftrightarrow> (\<exists>ys zs. last_greatest f xs ys m zs)"
  unfolding last_greatest_def by (rule max_by_key_eq_Some)

end
