(* ===== verification/Policy.thy ===== *)
theory Policy
  imports Collateral
begin

text \<open>
  \<^verbatim>\<open>dcap-verify/src/policy.rs\<close>: the caller-owned acceptance policy over verified standings.
\<close>

record tcb_policy =
  min_tcb_evaluation_data_number :: u32
  accept_sw_hardening_needed :: bool
  accept_configuration_and_sw_hardening_needed :: bool

definition policy_rejection :: "string \<Rightarrow> string list \<Rightarrow> verify_error" where
  "policy_rejection standing_tag ids =
     verify_error_new TcbStandingRejected
       (''caller policy rejects TCB standing '' @ standing_tag @ '' (advisories: '' @
        debug_list debug_str ids @ '')'')"

fun policy_check :: "tcb_policy \<Rightarrow> tcb_standing \<Rightarrow> unit res" where
  "policy_check p UpToDate = Inr ()"
| "policy_check p (SWHardeningNeeded ids) =
     (if accept_sw_hardening_needed p then Inr ()
      else Inl (policy_rejection ''sw-hardening-needed'' ids))"
| "policy_check p (ConfigurationAndSWHardeningNeeded ids) =
     (if accept_configuration_and_sw_hardening_needed p then Inr ()
      else Inl (policy_rejection ''configuration-and-sw-hardening-needed'' ids))"

text \<open>The standings a policy admits: the current one always, a degraded one if its own flag is set.\<close>

definition admits :: "tcb_policy \<Rightarrow> tcb_standing \<Rightarrow> bool" where
  "admits p s \<longleftrightarrow>
     s = UpToDate \<or>
     accept_sw_hardening_needed p \<and> (\<exists>ids. s = SWHardeningNeeded ids) \<or>
     accept_configuration_and_sw_hardening_needed p \<and>
       (\<exists>ids. s = ConfigurationAndSWHardeningNeeded ids)"

lemma policy_check_ok: "policy_check p s = Inr u \<longleftrightarrow> admits p s"
  by (cases s) (auto simp: admits_def)

lemma category_policy_rejection [simp]: "category (policy_rejection tag ids) = TcbStandingRejected"
  by (simp add: policy_rejection_def)

lemma policy_check_rejects [rejects_intros]: "rejects_within {TcbStandingRejected} (policy_check p s)"
  by (cases s) (simp_all add: rejects_within_def)

lemma policy_check_names_standing:
  "policy_check p s = Inl e \<Longrightarrow>
     (\<exists>ids. s = SWHardeningNeeded ids \<and> str_contains (detail e) ''sw-hardening-needed'' \<and>
            str_contains (detail e) (debug_list debug_str ids)) \<or>
     (\<exists>ids. s = ConfigurationAndSWHardeningNeeded ids \<and>
            str_contains (detail e) ''configuration-and-sw-hardening-needed'' \<and>
            str_contains (detail e) (debug_list debug_str ids))"
proof -
  have tag: "str_contains (detail (policy_rejection tag ids)) tag" for tag ids
    using str_contains_middle [of "''caller policy rejects TCB standing ''" tag]
    by (simp add: policy_rejection_def)
  have ids: "str_contains (detail (policy_rejection tag ids)) (debug_list debug_str ids)" for tag ids
    using str_contains_middle [of "''caller policy rejects TCB standing '' @ tag @ '' (advisories: ''"
        "debug_list debug_str ids" "'')''"]
    by (simp add: policy_rejection_def)
  assume "policy_check p s = Inl e"
  then show ?thesis using tag ids by (cases s) (auto split: if_splits)
qed

section \<open>Property\<close>

text \<open>A policy rejection names the standing it refuses and lists its advisories.\<close>

theorem policy_rejection_names_standing:
  assumes "policy_check p s = Inl e"
  shows "category e = TcbStandingRejected \<and>
     (\<exists>ids tag. str_contains (detail e) tag \<and> str_contains (detail e) (debug_list debug_str ids) \<and>
        ((s = SWHardeningNeeded ids \<and> tag = ''sw-hardening-needed'') \<or>
         (s = ConfigurationAndSWHardeningNeeded ids \<and>
            tag = ''configuration-and-sw-hardening-needed'')))"
  using policy_check_names_standing [OF assms] policy_check_rejects [of p s] assms
  by (auto simp: rejects_within_def)

end
