(* ===== verification/Verify.thy ===== *)
theory Verify
  imports Crl Tcb Policy
begin

text \<open>
  \<^verbatim>\<open>dcap-verify/src/verify.rs\<close>: the verification pipeline, gate by gate in the order of the
  code. \<open>verify_remote_attestation\<close> returns \<open>None\<close> for the one panic it could reach, the
  \<open>expect\<close> in \<open>pinned_root_key\<close>; the theory \<open>Pipeline\<close> shows that it is never reached.

  A \<open>SystemTime\<close> is a signed number of nanoseconds from the unix epoch.
\<close>

section \<open>Time\<close>

type_synonym system_time = int

definition I64_MAX :: int where "I64_MAX = 2 ^ 63 - 1"

definition I64_MIN :: int where "I64_MIN = - (2 ^ 63)"

text \<open>\<open>i64::try_from(secs).unwrap_or(i64::MAX)\<close> for a \<open>u64\<close> number of seconds.\<close>

definition i64_from_secs :: "int \<Rightarrow> int" where
  "i64_from_secs secs = (if secs \<le> I64_MAX then secs else I64_MAX)"

definition unix_seconds :: "system_time \<Rightarrow> int" where
  "unix_seconds t =
     (if t \<ge> 0 then i64_from_secs (t div 10 ^ 9) else - i64_from_secs ((- t) div 10 ^ 9))"

section \<open>Gates\<close>

definition vendor_detail :: "('k, 's) crates \<Rightarrow> sgx_quote \<Rightarrow> string" where
  "vendor_detail C quote =
     ''quote names QE vendor '' @ hex_encode C (qe_vendor_id (header quote)) @
     '', only Intel's QE ('' @ hex_encode C INTEL_QE_VENDOR_ID @ '') is accepted''"

definition check_qe_vendor :: "('k, 's) crates \<Rightarrow> sgx_quote \<Rightarrow> unit res" where
  "check_qe_vendor C quote =
     (if qe_vendor_id (header quote) \<noteq> INTEL_QE_VENDOR_ID
      then Inl (verify_error_new QeVendorInvalid (vendor_detail C quote))
      else Inr ())"

definition mrenclave_detail :: "('k, 's) crates \<Rightarrow> sgx_quote \<Rightarrow> bytes \<Rightarrow> string" where
  "mrenclave_detail C quote expected =
     ''report measures '' @ hex_encode C (mrenclave (report_body quote)) @
     '', caller pinned '' @ hex_encode C expected"

definition check_mrenclave :: "('k, 's) crates \<Rightarrow> sgx_quote \<Rightarrow> bytes \<Rightarrow> unit res" where
  "check_mrenclave C quote expected =
     (if mrenclave (report_body quote) \<noteq> expected
      then Inl (verify_error_new MrenclaveMismatch (mrenclave_detail C quote expected))
      else Inr ())"

definition collateral_version_detail :: "u32 \<Rightarrow> string" where
  "collateral_version_detail v =
     ''collateral is version '' @ dec_word v @ '', only version 3 is supported''"

definition tcb_version_detail :: "u32 \<Rightarrow> string" where
  "tcb_version_detail v = ''tcbInfo is version '' @ dec_word v @ '', only version 3 is supported''"

definition qe_version_detail :: "u32 \<Rightarrow> string" where
  "qe_version_detail v =
     ''enclaveIdentity is version '' @ dec_word v @ '', only version 2 is supported''"

definition tcb_type_detail :: "u32 \<Rightarrow> string" where
  "tcb_type_detail t =
     ''tcbInfo declares tcbType '' @ dec_word t @
     ''; only type 0 (the component-wise SVN comparison) is supported''"

definition check_document_formats :: "sgx_collateral \<Rightarrow> unit res" where
  "check_document_formats collateral =
     (if coll_version collateral \<noteq> 3
      then Inl (verify_error_new CollateralParse
             (collateral_version_detail (coll_version collateral)))
      else
      let tcb_version = ti_version (body (coll_tcb_info collateral)) in
      if tcb_version \<noteq> 3
      then Inl (verify_error_new CollateralParse (tcb_version_detail tcb_version))
      else
      let qe_version = qi_version (body (coll_qe_identity collateral)) in
      if qe_version \<noteq> 2
      then Inl (verify_error_new CollateralParse (qe_version_detail qe_version))
      else
      let tcb_type' = tcb_type (body (coll_tcb_info collateral)) in
      if tcb_type' \<noteq> 0
      then Inl (verify_error_new CollateralParse (tcb_type_detail tcb_type'))
      else Inr ())"

text \<open>The four chains, in the order tcbInfo issuer, PCK CRL issuer, QE identity issuer, quote.\<close>

record loaded_chains =
  tcb_info_chain :: parsed_chain
  pck_crl_chain :: parsed_chain
  qe_identity_chain :: parsed_chain
  pck_chain :: parsed_chain

definition all_chains :: "loaded_chains \<Rightarrow> parsed_chain list" where
  "all_chains ch = [tcb_info_chain ch, pck_crl_chain ch, qe_identity_chain ch, pck_chain ch]"

definition load_chains ::
  "('k, 's) crates \<Rightarrow> sgx_collateral \<Rightarrow> sgx_quote \<Rightarrow> loaded_chains res" where
  "load_chains C collateral quote =
     and_then (from_pem C TcbInfoIssuer (str_bytes (tcb_info_issuer_chain collateral))) (\<lambda>tc.
     and_then (from_pem C PckCrlIssuer (str_bytes (pck_crl_issuer_chain collateral))) (\<lambda>cc.
     and_then (from_pem C QeIdentityIssuer (str_bytes (qe_identity_issuer_chain collateral))) (\<lambda>qc.
     and_then (from_pem C QuotePck (cert_data (signature quote))) (\<lambda>pc.
     and_then (chain_parse C tc) (\<lambda>tc.
     and_then (chain_parse C cc) (\<lambda>cc.
     and_then (chain_parse C qc) (\<lambda>qc.
     and_then (chain_parse C pc) (\<lambda>pc.
     Inr \<lparr>tcb_info_chain = tc, pck_crl_chain = cc, qe_identity_chain = qc,
          pck_chain = pc\<rparr>))))))))"

definition signer_detail :: "string \<Rightarrow> string \<Rightarrow> string" where
  "signer_detail document cn =
     document @ '' is signed by a leaf named '' @ quoted cn @ '', not Intel's dedicated '' @
     quoted INTEL_TCB_SIGNING_CN @ '' certificate''"

definition require_tcb_signing_leaf :: "parsed_chain \<Rightarrow> string \<Rightarrow> unit res" where
  "require_tcb_signing_leaf chain document =
     and_then (leaf_common_name chain) (\<lambda>cn.
     if cn \<noteq> INTEL_TCB_SIGNING_CN
     then Inl (verify_error_new RootCaUntrusted (signer_detail document cn))
     else Inr ())"

definition check_crl_scope :: "loaded_chains \<Rightarrow> unit res" where
  "check_crl_scope ch =
     (if leaf_subject_raw (pck_crl_chain ch) \<noteq> leaf_issuer_raw (pck_chain ch)
      then Inl (verify_error_new CrlInvalid
        ''PCK CRL issuer chain does not terminate at the CA that issued the quote's PCK certificate'')
      else Inr ())"

text \<open>Both CRLs, then the revocation gate over every certificate of every chain.\<close>

definition check_revocation ::
  "('k, 's) crates \<Rightarrow> int \<Rightarrow> sgx_collateral \<Rightarrow> 'k \<Rightarrow> loaded_chains \<Rightarrow> unit res" where
  "check_revocation C now collateral root_key ch =
     and_then (check_crl C ''root CA CRL'' (str_bytes (root_ca_crl collateral))
                (root_subject_raw (pck_chain ch)) root_key now) (\<lambda>revoked.
     and_then (leaf_verifying_key C (pck_crl_chain ch)) (\<lambda>crl_key.
     and_then (check_crl C ''PCK CRL'' (str_bytes (pck_crl collateral))
                (leaf_issuer_raw (pck_chain ch)) crl_key now) (\<lambda>pck_revoked.
     ensure_none_revoked (all_chains ch) (revoked @ pck_revoked))))"

definition verify_raw_hex_signature ::
  "('k, 's) crates \<Rightarrow> 'k \<Rightarrow> bytes \<Rightarrow> string \<Rightarrow> string + unit" where
  "verify_raw_hex_signature C key message sig_hex =
     and_then (map_err (\<lambda>e. ''signature is not valid hex: '' @ e) (hex_decode C sig_hex))
       (\<lambda>sig_bytes.
     and_then (map_err (\<lambda>e. ''signature is not a 64-byte P-256 signature: '' @ e)
                (sig_from_slice C sig_bytes)) (\<lambda>sig.
     verify_with C key message sig ''signature does not match the signed document body''))"

definition expired_detail :: "string \<Rightarrow> int \<Rightarrow> int \<Rightarrow> string" where
  "expired_detail document next_upd now =
     document @ '' expired at unix '' @ dec_int next_upd @ '', verification time is '' @ dec_int now"

definition not_yet_detail :: "string \<Rightarrow> int \<Rightarrow> int \<Rightarrow> string" where
  "not_yet_detail document issue_date now =
     document @ '' is not valid until unix '' @ dec_int issue_date @
     '', verification time is '' @ dec_int now"

definition check_validity_window ::
  "string \<Rightarrow> error_category \<Rightarrow> int \<Rightarrow> int \<Rightarrow> int \<Rightarrow> unit res" where
  "check_validity_window document stale issue_date next_upd now =
     (if next_upd \<le> now then Inl (verify_error_new stale (expired_detail document next_upd now))
      else if issue_date > now
      then Inl (verify_error_new stale (not_yet_detail document issue_date now))
      else Inr ())"

definition round_detail :: "string \<Rightarrow> u32 \<Rightarrow> u32 \<Rightarrow> string" where
  "round_detail document rnd minimum =
     document @ '' is from TCB evaluation round '' @ dec_word rnd @
     '', caller requires at least '' @ dec_word minimum"

definition check_evaluation_round :: "string \<Rightarrow> u32 \<Rightarrow> u32 \<Rightarrow> error_category \<Rightarrow> unit res" where
  "check_evaluation_round document rnd minimum stale =
     (if rnd < minimum then Inl (verify_error_new stale (round_detail document rnd minimum))
      else Inr ())"

definition check_tcb_info_document ::
  "('k, 's) crates \<Rightarrow> int \<Rightarrow> u32 \<Rightarrow> parsed_chain \<Rightarrow> tcb_info signed_doc \<Rightarrow> unit res" where
  "check_tcb_info_document C now minimum chain doc =
     and_then (leaf_verifying_key C chain) (\<lambda>key.
     and_then (map_err (\<lambda>d. verify_error_new TcbInfoSignatureInvalid d)
                (verify_raw_hex_signature C key (str_bytes (body_json doc)) (signature_hex doc)))
       (\<lambda>_.
     if ti_id (body doc) \<noteq> ''SGX''
     then Inl (verify_error_new CollateralParse
            (''TCB info is for '' @ quoted (ti_id (body doc)) @ '', expected SGX''))
     else
     and_then (check_validity_window ''TCB info'' TcbInfoStale (ti_issue_date (body doc))
                (ti_next_update (body doc)) now) (\<lambda>_.
     check_evaluation_round ''TCB info'' (ti_tcb_evaluation_data_number (body doc)) minimum
       TcbInfoStale)))"

definition check_qe_identity_document ::
  "('k, 's) crates \<Rightarrow> int \<Rightarrow> u32 \<Rightarrow> parsed_chain \<Rightarrow> qe_identity signed_doc \<Rightarrow>
     sgx_report_body \<Rightarrow> unit res" where
  "check_qe_identity_document C now minimum chain doc qe_report' =
     and_then (leaf_verifying_key C chain) (\<lambda>key.
     and_then (map_err (\<lambda>d. verify_error_new QeIdentitySignatureInvalid d)
                (verify_raw_hex_signature C key (str_bytes (body_json doc)) (signature_hex doc)))
       (\<lambda>_.
     and_then (check_validity_window ''QE identity'' QeIdentityStale (qi_issue_date (body doc))
                (qi_next_update (body doc)) now) (\<lambda>_.
     and_then (check_evaluation_round ''QE identity''
                (qi_tcb_evaluation_data_number (body doc)) minimum QeIdentityStale) (\<lambda>_.
     check_qe_identity C (body doc) qe_report'))))"

definition check_qe_report_signature ::
  "('k, 's) crates \<Rightarrow> parsed_chain \<Rightarrow> sgx_quote \<Rightarrow> unit res" where
  "check_qe_report_signature C chain quote =
     and_then (leaf_verifying_key C chain) (\<lambda>pck_leaf_key.
     and_then (map_err (\<lambda>e. verify_error_new QeReportSignatureInvalid
                  (''undecodable signature: '' @ e))
                (sig_from_slice C (qe_report_signature (signature quote)))) (\<lambda>sig.
     verify_with C pck_leaf_key (qe_report_raw (signature quote)) sig
       (verify_error_new QeReportSignatureInvalid
          ''QE report was not signed by the platform's PCK key'')))"

definition check_qe_binding :: "('k, 's) crates \<Rightarrow> sgx_quote \<Rightarrow> unit res" where
  "check_qe_binding C quote =
     (let binding = sha256 C (attestation_pub_key (signature quote) @
                      qe_auth_data (signature quote));
          qe_report_data = sgx_report_data_bytes (qe_report (signature quote)) in
      if take 32 qe_report_data \<noteq> binding \<or> drop 32 qe_report_data \<noteq> replicate 32 0
      then Inl (verify_error_new QeBindingInvalid
             ''QE report data does not commit to the attestation key and auth data'')
      else Inr ())"

definition check_quote_signature :: "('k, 's) crates \<Rightarrow> sgx_quote \<Rightarrow> unit res" where
  "check_quote_signature C quote =
     and_then (map_err (\<lambda>e. verify_error_new QuoteSignatureInvalid
                  (''attestation public key is not a usable P-256 point: '' @ e))
                (key_from_sec1 C (0x04 # attestation_pub_key (signature quote)))) (\<lambda>key.
     and_then (map_err (\<lambda>e. verify_error_new QuoteSignatureInvalid
                  (''undecodable signature: '' @ e))
                (sig_from_slice C (isv_signature (signature quote)))) (\<lambda>sig.
     verify_with C key (signed_bytes quote) sig
       (verify_error_new QuoteSignatureInvalid
          ''quote header and report body were not signed by the attestation key'')))"

definition debug_detail :: "('k, 's) crates \<Rightarrow> sgx_quote \<Rightarrow> string" where
  "debug_detail C quote =
     ''report attributes '' @ hex_encode C (attributes (report_body quote)) @
     '' carry the DEBUG flag''"

definition check_debug :: "('k, 's) crates \<Rightarrow> sgx_quote \<Rightarrow> unit res" where
  "check_debug C quote =
     (if is_debug (report_body quote)
      then Inl (verify_error_new DebugEnclaveRejected (debug_detail C quote))
      else Inr ())"

section \<open>The pipeline\<close>

text \<open>Everything before the pinned key is first used.\<close>

definition verify_chains_under ::
  "root_anchor \<Rightarrow> ('k, 's) crates \<Rightarrow> int \<Rightarrow> sgx_collateral \<Rightarrow> sgx_quote \<Rightarrow> bytes \<Rightarrow>
     loaded_chains res" where
  "verify_chains_under ov C now collateral quote expected_mrenclave =
     and_then (check_qe_vendor C quote) (\<lambda>_.
     and_then (check_mrenclave C quote expected_mrenclave) (\<lambda>_.
     and_then (check_document_formats collateral) (\<lambda>_.
     and_then (load_chains C collateral quote) (\<lambda>ch.
     and_then (for_each_res (\<lambda>chain. chain_validate_under ov C chain now) (all_chains ch)) (\<lambda>_.
     and_then (require_tcb_signing_leaf (tcb_info_chain ch) ''TCB info'') (\<lambda>_.
     and_then (require_tcb_signing_leaf (qe_identity_chain ch) ''QE identity'') (\<lambda>_.
     and_then (check_crl_scope ch) (\<lambda>_.
     Inr ch))))))))"

definition verify_chains ::
  "('k, 's) crates \<Rightarrow> int \<Rightarrow> sgx_collateral \<Rightarrow> sgx_quote \<Rightarrow> bytes \<Rightarrow> loaded_chains res" where
  "verify_chains C now collateral quote expected_mrenclave =
     verify_chains_under None C now collateral quote expected_mrenclave"

text \<open>Everything after it.\<close>

definition verify_evidence ::
  "('k, 's) crates \<Rightarrow> int \<Rightarrow> sgx_collateral \<Rightarrow> sgx_quote \<Rightarrow> u32 \<Rightarrow> 'k \<Rightarrow> loaded_chains \<Rightarrow>
     (tcb_standing \<times> sgx_report_body) res" where
  "verify_evidence C now collateral quote minimum root_key ch =
     and_then (check_revocation C now collateral root_key ch) (\<lambda>_.
     and_then (check_tcb_info_document C now minimum (tcb_info_chain ch)
                (coll_tcb_info collateral)) (\<lambda>_.
     and_then (check_qe_identity_document C now minimum (qe_identity_chain ch)
                (coll_qe_identity collateral) (qe_report (signature quote))) (\<lambda>_.
     and_then (check_qe_report_signature C (pck_chain ch) quote) (\<lambda>_.
     and_then (check_qe_binding C quote) (\<lambda>_.
     and_then (check_quote_signature C quote) (\<lambda>_.
     and_then (check_debug C quote) (\<lambda>_.
     and_then (extract_pck_platform_tcb C (pck_chain ch)) (\<lambda>platform_tcb.
     and_then (platform_standing C (body (coll_tcb_info collateral)) platform_tcb) (\<lambda>standing.
     Inr (standing, report_body quote))))))))))"

definition verify_remote_attestation_under ::
  "root_anchor \<Rightarrow> ('k, 's) crates \<Rightarrow> system_time \<Rightarrow> sgx_collateral \<Rightarrow> sgx_quote \<Rightarrow> bytes \<Rightarrow> u32 \<Rightarrow>
     (tcb_standing \<times> sgx_report_body) res option" where
  "verify_remote_attestation_under ov C current_time collateral quote expected_mrenclave minimum =
     (let now = unix_seconds current_time in
      case verify_chains_under ov C now collateral quote expected_mrenclave of
        Inl e \<Rightarrow> Some (Inl e)
      | Inr ch \<Rightarrow>
          (case pinned_root_key_under ov C of
             None \<Rightarrow> None
           | Some root_key \<Rightarrow>
               Some (verify_evidence C now collateral quote minimum root_key ch)))"

definition verify_remote_attestation ::
  "('k, 's) crates \<Rightarrow> system_time \<Rightarrow> sgx_collateral \<Rightarrow> sgx_quote \<Rightarrow> bytes \<Rightarrow> u32 \<Rightarrow>
     (tcb_standing \<times> sgx_report_body) res option" where
  "verify_remote_attestation C current_time collateral quote expected_mrenclave minimum =
     verify_remote_attestation_under None C current_time collateral quote expected_mrenclave minimum"

text \<open>The shipped operations in terms of each other.\<close>

lemmas verify_chains_unfold =
  verify_chains_def [unfolded verify_chains_under_def, folded chain_validate_def]

lemmas verify_remote_attestation_unfold =
  verify_remote_attestation_def
    [unfolded verify_remote_attestation_under_def, folded verify_chains_def pinned_root_key_def]

definition verify_remote_attestation_with_policy ::
  "('k, 's) crates \<Rightarrow> system_time \<Rightarrow> sgx_collateral \<Rightarrow> sgx_quote \<Rightarrow> bytes \<Rightarrow> tcb_policy \<Rightarrow>
     (tcb_standing \<times> sgx_report_body) res option" where
  "verify_remote_attestation_with_policy C current_time collateral quote expected_mrenclave policy =
     map_option (\<lambda>r.
       and_then r (\<lambda>(standing, report_body').
       and_then (policy_check policy standing) (\<lambda>_.
       Inr (standing, report_body'))))
     (verify_remote_attestation C current_time collateral quote expected_mrenclave
        (min_tcb_evaluation_data_number policy))"

end
