(* ===== verification/Pipeline.thy ===== *)
theory Pipeline
  imports Verify
begin

text \<open>
  What acceptance means. Each gate gets a declarative reading (\<open>..._ok\<close> lemmas), and
  \<open>attested\<close> collects them without reference to the order of the code;
  \<open>verify_remote_attestation_ok\<close> says that the verifier accepts exactly the attested quotes.
\<close>

section \<open>Gates, read declaratively\<close>

interpretation doc_window: half_open_window "check_validity_window document stale" stale
  for document stale
  by unfold_locales (auto simp: check_validity_window_def)

lemma check_evaluation_round_ok:
  "check_evaluation_round document rnd minimum stale = Inr u \<longleftrightarrow> minimum \<le> rnd"
  by (auto simp: check_evaluation_round_def)

definition supported_formats :: "sgx_collateral \<Rightarrow> bool" where
  "supported_formats coll \<longleftrightarrow>
     coll_version coll = 3 \<and> ti_version (body (coll_tcb_info coll)) = 3 \<and>
     qi_version (body (coll_qe_identity coll)) = 2 \<and> tcb_type (body (coll_tcb_info coll)) = 0"

lemma check_document_formats_ok: "check_document_formats coll = Inr u \<longleftrightarrow> supported_formats coll"
  by (auto simp: check_document_formats_def supported_formats_def Let_def)

definition chains_of ::
  "('k, 's) crates \<Rightarrow> sgx_collateral \<Rightarrow> sgx_quote \<Rightarrow> loaded_chains \<Rightarrow> bool" where
  "chains_of C coll quote ch \<longleftrightarrow>
     load_chain C TcbInfoIssuer (str_bytes (tcb_info_issuer_chain coll)) (tcb_info_chain ch) \<and>
     load_chain C PckCrlIssuer (str_bytes (pck_crl_issuer_chain coll)) (pck_crl_chain ch) \<and>
     load_chain C QeIdentityIssuer (str_bytes (qe_identity_issuer_chain coll))
       (qe_identity_chain ch) \<and>
     load_chain C QuotePck (cert_data (signature quote)) (pck_chain ch)"

lemma load_chains_ok: "load_chains C coll quote = Inr ch \<longleftrightarrow> chains_of C coll quote ch"
  by (cases ch) (auto simp: load_chains_def chains_of_def load_chain_def res_simps)

lemma chains_of_nonempty:
  "chains_of C coll quote ch \<Longrightarrow> chain \<in> set (all_chains ch) \<Longrightarrow> certs chain \<noteq> []"
  by (auto simp: chains_of_def all_chains_def dest: parsed_chain_bounds)

lemma validate_all_under_ok:
  assumes "chains_of C coll quote ch"
  shows "for_each_res (\<lambda>chain. chain_validate_under ov C chain now) (all_chains ch) = Inr u \<longleftrightarrow>
    (\<forall>chain\<in>set (all_chains ch).
       spki_data (last (certs chain)) = anchor_sec1_under ov \<and> sound_path C now (certs chain))"
  using chains_of_nonempty [OF assms]
  by (simp add: for_each_res_ok chain_validate_under_ok cong: ball_cong)

lemma validate_all_ok:
  assumes "chains_of C coll quote ch"
  shows "for_each_res (\<lambda>chain. chain_validate C chain now) (all_chains ch) = Inr u \<longleftrightarrow>
    (\<forall>chain\<in>set (all_chains ch). trusted_path C now (certs chain))"
  using chains_of_nonempty [OF assms]
  by (simp add: for_each_res_ok chain_validate_ok cong: ball_cong)

definition tcb_signer :: "parsed_chain \<Rightarrow> bool" where
  "tcb_signer chain \<longleftrightarrow>
     first_common_name (subject (leaf chain)) = Some INTEL_TCB_SIGNING_CN"

lemma require_tcb_signing_leaf_ok: "require_tcb_signing_leaf chain document = Inr u \<longleftrightarrow> tcb_signer chain"
  by (auto simp: require_tcb_signing_leaf_def leaf_common_name_def tcb_signer_def res_simps)

lemma leaf_verifying_key_ok:
  "leaf_verifying_key C chain = Inr k \<longleftrightarrow> key_from_sec1 C (spki_data (leaf chain)) = Inr k"
  by (simp add: leaf_verifying_key_def spki_verifying_key_ok)

text \<open>The CRLs supplied with the collateral are authentic and current and list no certificate.\<close>

definition unrevoked ::
  "('k, 's) crates \<Rightarrow> int \<Rightarrow> sgx_collateral \<Rightarrow> loaded_chains \<Rightarrow> bool" where
  "unrevoked C now coll ch \<longleftrightarrow>
     (\<exists>root_key root_crl crl_key leaf_crl.
        key_from_sec1 C INTEL_SGX_ROOT_CA_PUBLIC_KEY_SEC1 = Inr root_key \<and>
        crl_in_pem C (str_bytes (root_ca_crl coll)) root_crl \<and>
        authentic_crl C (root_subject_raw (pck_chain ch)) root_key now root_crl \<and>
        key_from_sec1 C (spki_data (leaf (pck_crl_chain ch))) = Inr crl_key \<and>
        crl_in_pem C (str_bytes (pck_crl coll)) leaf_crl \<and>
        authentic_crl C (leaf_issuer_raw (pck_chain ch)) crl_key now leaf_crl \<and>
        (\<forall>chain\<in>set (all_chains ch). \<forall>c\<in>set (certs chain).
           \<not> listed_in root_crl c \<and> \<not> listed_in leaf_crl c))"

lemma check_revocation_eq:
  "check_revocation C now coll root_key ch = Inr u \<longleftrightarrow>
     (\<exists>root_crl crl_key leaf_crl.
        crl_in_pem C (str_bytes (root_ca_crl coll)) root_crl \<and>
        authentic_crl C (root_subject_raw (pck_chain ch)) root_key now root_crl \<and>
        key_from_sec1 C (spki_data (leaf (pck_crl_chain ch))) = Inr crl_key \<and>
        crl_in_pem C (str_bytes (pck_crl coll)) leaf_crl \<and>
        authentic_crl C (leaf_issuer_raw (pck_chain ch)) crl_key now leaf_crl \<and>
        (\<forall>chain\<in>set (all_chains ch). \<forall>c\<in>set (certs chain).
           \<not> listed_in root_crl c \<and> \<not> listed_in leaf_crl c))"
proof -
  have "check_revocation C now coll root_key ch = Inr u \<longleftrightarrow>
      (\<exists>root_crl crl_key leaf_crl.
        crl_in_pem C (str_bytes (root_ca_crl coll)) root_crl \<and>
        authentic_crl C (root_subject_raw (pck_chain ch)) root_key now root_crl \<and>
        key_from_sec1 C (spki_data (leaf (pck_crl_chain ch))) = Inr crl_key \<and>
        crl_in_pem C (str_bytes (pck_crl coll)) leaf_crl \<and>
        authentic_crl C (leaf_issuer_raw (pck_chain ch)) crl_key now leaf_crl \<and>
        ensure_none_revoked (all_chains ch) (crl_entries root_crl @ crl_entries leaf_crl) =
          Inr u)"
    unfolding check_revocation_def and_then_eq_Inr check_crl_ok leaf_verifying_key_ok
    by (simp only: ex_simps [symmetric] conj_assoc) metis
  then show ?thesis by (simp only: ensure_none_revoked_ok)
qed

lemma check_revocation_ok:
  assumes "key_from_sec1 C INTEL_SGX_ROOT_CA_PUBLIC_KEY_SEC1 = Inr root_key"
  shows "check_revocation C now coll root_key ch = Inr u \<longleftrightarrow> unrevoked C now coll ch"
proof -
  have "unrevoked C now coll ch \<longleftrightarrow>
     (\<exists>root_crl crl_key leaf_crl.
        crl_in_pem C (str_bytes (root_ca_crl coll)) root_crl \<and>
        authentic_crl C (root_subject_raw (pck_chain ch)) root_key now root_crl \<and>
        key_from_sec1 C (spki_data (leaf (pck_crl_chain ch))) = Inr crl_key \<and>
        crl_in_pem C (str_bytes (pck_crl coll)) leaf_crl \<and>
        authentic_crl C (leaf_issuer_raw (pck_chain ch)) crl_key now leaf_crl \<and>
        (\<forall>chain\<in>set (all_chains ch). \<forall>c\<in>set (certs chain).
           \<not> listed_in root_crl c \<and> \<not> listed_in leaf_crl c))"
    by (simp only: unrevoked_def assms sum.inject simp_thms ex_simps)
  then show ?thesis by (simp only: check_revocation_eq)
qed

text \<open>The bytes of a document are signed by the leaf of its issuer chain.\<close>

definition doc_signed :: "('k, 's) crates \<Rightarrow> parsed_chain \<Rightarrow> 'b signed_doc \<Rightarrow> bool" where
  "doc_signed C chain doc \<longleftrightarrow>
     (\<exists>sig. hex_decode C (signature_hex doc) = Inr sig \<and>
        signed_raw C (spki_data (leaf chain)) (str_bytes (body_json doc)) sig)"

lemma verify_raw_hex_signature_ok:
  "verify_raw_hex_signature C key message sig_hex = Inr u \<longleftrightarrow>
     (\<exists>sig s. hex_decode C sig_hex = Inr sig \<and> sig_from_slice C sig = Inr s \<and>
        ecdsa_verify C key message s)"
  by (auto simp: verify_raw_hex_signature_def res_simps)

definition tcb_info_accepted ::
  "('k, 's) crates \<Rightarrow> int \<Rightarrow> u32 \<Rightarrow> parsed_chain \<Rightarrow> tcb_info signed_doc \<Rightarrow> bool" where
  "tcb_info_accepted C now minimum chain doc \<longleftrightarrow>
     doc_signed C chain doc \<and> ti_id (body doc) = ''SGX'' \<and>
     ti_issue_date (body doc) \<le> now \<and> now < ti_next_update (body doc) \<and>
     minimum \<le> ti_tcb_evaluation_data_number (body doc)"

lemma check_tcb_info_document_ok:
  "check_tcb_info_document C now minimum chain doc = Inr u \<longleftrightarrow>
     tcb_info_accepted C now minimum chain doc"
  by (auto simp: check_tcb_info_document_def tcb_info_accepted_def doc_signed_def signed_raw_def
      res_simps leaf_verifying_key_ok verify_raw_hex_signature_ok doc_window.gate_ok
      check_evaluation_round_ok)

text \<open>The level of the QE identity that the QE's ISV SVN reaches: the highest, last among equals.\<close>

definition qe_level :: "qe_identity \<Rightarrow> u16 \<Rightarrow> qe_tcb_level \<Rightarrow> bool" where
  "qe_level identity isv l \<longleftrightarrow>
     (\<exists>ys zs. qi_tcb_levels identity = ys @ l # zs \<and> isvsvn (qtcb l) \<le> isv \<and>
        (\<forall>y\<in>set ys. isvsvn (qtcb y) \<le> isv \<longrightarrow> isvsvn (qtcb y) \<le> isvsvn (qtcb l)) \<and>
        (\<forall>z\<in>set zs. isvsvn (qtcb z) \<le> isv \<longrightarrow> isvsvn (qtcb z) < isvsvn (qtcb l)))"

lemma filter_max_by_key:
  "max_by_key f (filter (\<lambda>x. f x \<le> b) xs) = Some m \<longleftrightarrow>
     (\<exists>ys zs. xs = ys @ m # zs \<and> f m \<le> b \<and> (\<forall>y\<in>set ys. f y \<le> b \<longrightarrow> f y \<le> f m) \<and>
        (\<forall>z\<in>set zs. f z \<le> b \<longrightarrow> f z < f m))"
proof
  assume "max_by_key f (filter (\<lambda>x. f x \<le> b) xs) = Some m"
  then obtain us vs where uv: "filter (\<lambda>x. f x \<le> b) xs = us @ m # vs"
    "\<forall>y\<in>set us. f y \<le> f m" "\<forall>z\<in>set vs. f z < f m"
    unfolding max_by_key_eq_Some by blast
  from filter_eq_middleD [OF uv(1)] obtain ys zs where xs: "xs = ys @ m # zs"
    "filter (\<lambda>x. f x \<le> b) ys = us" "filter (\<lambda>x. f x \<le> b) zs = vs" "f m \<le> b"
    by blast
  have "\<forall>y\<in>set ys. f y \<le> b \<longrightarrow> f y \<le> f m" and "\<forall>z\<in>set zs. f z \<le> b \<longrightarrow> f z < f m"
    using uv(2,3) xs(2,3) by auto
  with xs(1,4) show "\<exists>ys zs. xs = ys @ m # zs \<and> f m \<le> b \<and>
      (\<forall>y\<in>set ys. f y \<le> b \<longrightarrow> f y \<le> f m) \<and> (\<forall>z\<in>set zs. f z \<le> b \<longrightarrow> f z < f m)"
    by blast
next
  assume "\<exists>ys zs. xs = ys @ m # zs \<and> f m \<le> b \<and> (\<forall>y\<in>set ys. f y \<le> b \<longrightarrow> f y \<le> f m) \<and>
        (\<forall>z\<in>set zs. f z \<le> b \<longrightarrow> f z < f m)"
  then obtain ys zs where "xs = ys @ m # zs" "f m \<le> b" "\<forall>y\<in>set ys. f y \<le> b \<longrightarrow> f y \<le> f m"
    "\<forall>z\<in>set zs. f z \<le> b \<longrightarrow> f z < f m" by blast
  then show "max_by_key f (filter (\<lambda>x. f x \<le> b) xs) = Some m"
    unfolding max_by_key_eq_Some
    by (intro exI [of _ "filter (\<lambda>x. f x \<le> b) ys"] exI [of _ "filter (\<lambda>x. f x \<le> b) zs"]) auto
qed

definition qe_matches :: "('k, 's) crates \<Rightarrow> qe_identity \<Rightarrow> sgx_report_body \<Rightarrow> bool" where
  "qe_matches C identity qe \<longleftrightarrow>
     qi_id identity = ''QE'' \<and> hex_field C 32 (qi_mrsigner identity) (mrsigner qe) \<and>
     isvprodid identity = isv_prod_id qe \<and>
     (\<exists>v m. hex_field C 4 (miscselect identity) v \<and> hex_field C 4 (miscselect_mask identity) m \<and>
        masked_eq (misc_select qe) v m) \<and>
     (\<exists>v m. hex_field C 16 (qi_attributes identity) v \<and>
        hex_field C 16 (attributes_mask identity) m \<and> masked_eq (attributes qe) v m) \<and>
     (\<exists>l. qe_level identity (isv_svn qe) l \<and> qtcb_status l = ''UpToDate'')"

lemma qe_level_selected:
  "max_by_key (\<lambda>l. isvsvn (qtcb l))
      (filter (\<lambda>l. isvsvn (qtcb l) \<le> isv) (qi_tcb_levels identity)) = Some l \<longleftrightarrow>
     qe_level identity isv l"
  by (simp add: filter_max_by_key qe_level_def)

lemma check_qe_identity_ok: "check_qe_identity C identity qe = Inr u \<longleftrightarrow> qe_matches C identity qe"
proof -
  let ?sel = "max_by_key (\<lambda>l. isvsvn (qtcb l))
      (filter (\<lambda>l. isvsvn (qtcb l) \<le> isv_svn qe) (qi_tcb_levels identity))"
  have "(case ?sel of Some l \<Rightarrow> if qtcb_status l = ''UpToDate'' then Inr ()
            else Inl (identity_mismatch (qe_level_detail qe l))
          | None \<Rightarrow> Inl (identity_mismatch (qe_below_detail qe))) = Inr u \<longleftrightarrow>
      (\<exists>l. qe_level identity (isv_svn qe) l \<and> qtcb_status l = ''UpToDate'')" for u
    unfolding qe_level_selected [symmetric] by (cases ?sel) auto
  then show ?thesis
    unfolding check_qe_identity_def qe_matches_def if_Inl_eq_Inr and_then_eq_Inr
      decode_hex_field_ok Let_def
    by blast
qed

definition qe_identity_accepted ::
  "('k, 's) crates \<Rightarrow> int \<Rightarrow> u32 \<Rightarrow> parsed_chain \<Rightarrow> qe_identity signed_doc \<Rightarrow>
     sgx_report_body \<Rightarrow> bool" where
  "qe_identity_accepted C now minimum chain doc qe \<longleftrightarrow>
     doc_signed C chain doc \<and> qi_issue_date (body doc) \<le> now \<and>
     now < qi_next_update (body doc) \<and> minimum \<le> qi_tcb_evaluation_data_number (body doc) \<and>
     qe_matches C (body doc) qe"

lemma check_qe_identity_document_ok:
  "check_qe_identity_document C now minimum chain doc qe = Inr u \<longleftrightarrow>
     qe_identity_accepted C now minimum chain doc qe"
  by (auto simp: check_qe_identity_document_def qe_identity_accepted_def doc_signed_def
      signed_raw_def res_simps leaf_verifying_key_ok verify_raw_hex_signature_ok
      doc_window.gate_ok check_evaluation_round_ok check_qe_identity_ok)

text \<open>
  The quote's own evidence: PCK leaf signs the QE report, the QE report commits to the
  attestation key, the attestation key signs header and report body.
\<close>

definition quote_authentic :: "('k, 's) crates \<Rightarrow> parsed_chain \<Rightarrow> sgx_quote \<Rightarrow> bool" where
  "quote_authentic C chain quote \<longleftrightarrow>
     (let s = signature quote in
      signed_raw C (spki_data (leaf chain)) (qe_report_raw s) (qe_report_signature s) \<and>
      take 32 (sgx_report_data_bytes (qe_report s)) =
        sha256 C (attestation_pub_key s @ qe_auth_data s) \<and>
      drop 32 (sgx_report_data_bytes (qe_report s)) = replicate 32 0 \<and>
      signed_raw C (0x04 # attestation_pub_key s) (signed_bytes quote) (isv_signature s))"

lemma quote_authentic_ok:
  "check_qe_report_signature C chain quote = Inr () \<and> check_qe_binding C quote = Inr () \<and>
   check_quote_signature C quote = Inr () \<longleftrightarrow> quote_authentic C chain quote"
  by (auto simp: check_qe_report_signature_def check_qe_binding_def check_quote_signature_def
      quote_authentic_def signed_raw_def res_simps leaf_verifying_key_ok Let_def)

text \<open>The first level, in document order, that the platform satisfies.\<close>

definition first_level :: "tcb_info \<Rightarrow> pck_platform_tcb \<Rightarrow> tcb_level \<Rightarrow> bool" where
  "first_level info pck l \<longleftrightarrow>
     (\<exists>ys zs. ti_tcb_levels info = ys @ l # zs \<and> level_satisfied l pck \<and>
        (\<forall>y\<in>set ys. \<not> level_satisfied y pck))"

definition standing_granted ::
  "('k, 's) crates \<Rightarrow> tcb_info \<Rightarrow> pck_platform_tcb \<Rightarrow> tcb_standing \<Rightarrow> bool" where
  "standing_granted C info pck standing \<longleftrightarrow>
     hex_field C 6 (fmspc info) (pck_fmspc pck) \<and> hex_field C 2 (pce_id info) (pck_pce_id pck) \<and>
     (\<exists>l. first_level info pck l \<and>
        (tcb_status l = ''UpToDate'' \<and> standing = UpToDate \<or>
         tcb_status l = ''SWHardeningNeeded'' \<and> standing = SWHardeningNeeded (advisory_ids l) \<or>
         tcb_status l = ''ConfigurationAndSWHardeningNeeded'' \<and>
           standing = ConfigurationAndSWHardeningNeeded (advisory_ids l)))"

lemma find_first: "List.find P xs = Some x \<longleftrightarrow> (\<exists>ys zs. xs = ys @ x # zs \<and> P x \<and> (\<forall>y\<in>set ys. \<not> P y))"
proof
  assume "List.find P xs = Some x"
  then show "\<exists>ys zs. xs = ys @ x # zs \<and> P x \<and> (\<forall>y\<in>set ys. \<not> P y)"
  proof (induction xs)
    case Nil
    then show ?case by simp
  next
    case (Cons a xs)
    show ?case
    proof (cases "P a")
      case True
      with Cons.prems have "a # xs = [] @ x # xs" and "P x" by auto
      then show ?thesis by fastforce
    next
      case False
      with Cons obtain ys zs where "xs = ys @ x # zs" "P x" "\<forall>y\<in>set ys. \<not> P y" by auto
      with False show ?thesis by (intro exI [of _ "a # ys"] exI [of _ zs]) auto
    qed
  qed
next
  assume "\<exists>ys zs. xs = ys @ x # zs \<and> P x \<and> (\<forall>y\<in>set ys. \<not> P y)"
  then obtain ys zs where "xs = ys @ x # zs" "P x" "\<forall>y\<in>set ys. \<not> P y" by blast
  then show "List.find P xs = Some x" by (induction ys arbitrary: xs) auto
qed

lemma first_level_find:
  "first_level info pck l \<longleftrightarrow>
     List.find (\<lambda>level. level_satisfied level pck) (ti_tcb_levels info) = Some l"
  by (simp add: first_level_def find_first)

lemma standing_of_level_ok:
  "standing_of_level l = Inr standing \<longleftrightarrow>
     tcb_status l = ''UpToDate'' \<and> standing = UpToDate \<or>
     tcb_status l = ''SWHardeningNeeded'' \<and> standing = SWHardeningNeeded (advisory_ids l) \<or>
     tcb_status l = ''ConfigurationAndSWHardeningNeeded'' \<and>
       standing = ConfigurationAndSWHardeningNeeded (advisory_ids l)"
  by (auto simp: standing_of_level_def)

lemma platform_standing_ok:
  "platform_standing C info pck = Inr standing \<longleftrightarrow> standing_granted C info pck standing"
proof -
  let ?sel = "List.find (\<lambda>level. level_satisfied level pck) (ti_tcb_levels info)"
  have "(case ?sel of None \<Rightarrow> Inl (unsupported (no_level_detail info pck))
          | Some selected \<Rightarrow> standing_of_level selected) = Inr standing \<longleftrightarrow>
      (\<exists>l. first_level info pck l \<and> standing_of_level l = Inr standing)"
    by (cases ?sel) (auto simp: first_level_find)
  then show ?thesis
    by (auto simp: platform_standing_def standing_granted_def res_simps decode_hex_field_ok
        standing_of_level_ok)
qed

section \<open>Properties\<close>

text \<open>C8. A standing is granted iff tcbInfo is for the platform's family and PCE, the first level in
  document order that the platform satisfies exists, and its status is one of the three accepted
  ones; the standing is that status with that level's advisories.\<close>

theorem platform_standing_iff:
  "platform_standing C info pck = Inr standing \<longleftrightarrow> standing_granted C info pck standing"
  by (rule platform_standing_ok)

text \<open>C9. The QE report passes the identity check iff it matches the identity document: enclave id,
  signer, product id, the masked MISCSELECT and attributes, and the highest level its SVN reaches
  (the last listed among equals) is up to date.\<close>

theorem qe_identity_check_iff:
  "check_qe_identity C identity qe = Inr () \<longleftrightarrow> qe_matches C identity qe"
  by (rule check_qe_identity_ok)

text \<open>C7. The revocation gate passes iff both CRLs are authentic and current, the root one under the
  pinned key and the other under the CRL issuer's leaf, and neither lists any certificate of any of
  the four chains.\<close>

theorem revocation_gate_iff:
  assumes "pinned_root_key C = Some root_key"
  shows "check_revocation C now coll root_key ch = Inr () \<longleftrightarrow> unrevoked C now coll ch"
  using assms by (intro check_revocation_ok) (simp add: pinned_root_key_intel)

end
