(* ===== verification/Attestation.thy ===== *)
theory Attestation
  imports Pipeline
begin

text \<open>
  The contract of \<open>verify_remote_attestation\<close>: what an accepted quote is (\<open>attested\<close>), that the
  verifier accepts exactly those, that it never panics, and what acceptance does not depend on.
\<close>

section \<open>The specification\<close>

text \<open>The four chains are read, trusted, of the required purpose and of the quote's CA.\<close>

definition chains_trusted ::
  "('k, 's) crates \<Rightarrow> int \<Rightarrow> sgx_collateral \<Rightarrow> sgx_quote \<Rightarrow> loaded_chains \<Rightarrow> bool" where
  "chains_trusted C now coll quote ch \<longleftrightarrow>
     chains_of C coll quote ch \<and>
     (\<forall>chain\<in>set (all_chains ch). trusted_path C now (certs chain)) \<and>
     tcb_signer (tcb_info_chain ch) \<and> tcb_signer (qe_identity_chain ch) \<and>
     leaf_subject_raw (pck_crl_chain ch) = leaf_issuer_raw (pck_chain ch)"

text \<open>The evidence under trusted chains, with the platform the PCK leaf describes.\<close>

definition evidence_holds ::
  "('k, 's) crates \<Rightarrow> int \<Rightarrow> sgx_collateral \<Rightarrow> sgx_quote \<Rightarrow> u32 \<Rightarrow> loaded_chains \<Rightarrow>
     pck_platform_tcb \<Rightarrow> bool" where
  "evidence_holds C now coll quote minimum ch platform \<longleftrightarrow>
     unrevoked C now coll ch \<and>
     tcb_info_accepted C now minimum (tcb_info_chain ch) (coll_tcb_info coll) \<and>
     qe_identity_accepted C now minimum (qe_identity_chain ch) (coll_qe_identity coll)
       (qe_report (signature quote)) \<and>
     quote_authentic C (pck_chain ch) quote \<and> \<not> is_debug (report_body quote) \<and>
     extract_pck_platform_tcb C (pck_chain ch) = Inr platform"

definition attested ::
  "('k, 's) crates \<Rightarrow> int \<Rightarrow> sgx_collateral \<Rightarrow> sgx_quote \<Rightarrow> bytes \<Rightarrow> u32 \<Rightarrow> tcb_standing \<Rightarrow>
     bool" where
  "attested C now coll quote expected minimum standing \<longleftrightarrow>
     qe_vendor_id (header quote) = INTEL_QE_VENDOR_ID \<and>
     mrenclave (report_body quote) = expected \<and> supported_formats coll \<and>
     (\<exists>ch platform. chains_trusted C now coll quote ch \<and>
        evidence_holds C now coll quote minimum ch platform \<and>
        standing_granted C (body (coll_tcb_info coll)) platform standing)"

section \<open>The two halves of the pipeline\<close>

lemma check_qe_vendor_ok:
  "check_qe_vendor C quote = Inr u \<longleftrightarrow> qe_vendor_id (header quote) = INTEL_QE_VENDOR_ID"
  by (simp add: check_qe_vendor_def)

lemma check_mrenclave_ok:
  "check_mrenclave C quote expected = Inr u \<longleftrightarrow> mrenclave (report_body quote) = expected"
  by (simp add: check_mrenclave_def)

lemma check_crl_scope_ok:
  "check_crl_scope ch = Inr u \<longleftrightarrow>
     leaf_subject_raw (pck_crl_chain ch) = leaf_issuer_raw (pck_chain ch)"
  by (simp add: check_crl_scope_def)

lemma verify_chains_under_ok:
  "verify_chains_under ov C now coll quote expected = Inr ch \<longleftrightarrow>
     qe_vendor_id (header quote) = INTEL_QE_VENDOR_ID \<and>
     mrenclave (report_body quote) = expected \<and> supported_formats coll \<and>
     chains_of C coll quote ch \<and>
     (\<forall>chain\<in>set (all_chains ch).
        spki_data (last (certs chain)) = anchor_sec1_under ov \<and> sound_path C now (certs chain)) \<and>
     tcb_signer (tcb_info_chain ch) \<and> tcb_signer (qe_identity_chain ch) \<and>
     leaf_subject_raw (pck_crl_chain ch) = leaf_issuer_raw (pck_chain ch)"
  by (auto simp: verify_chains_under_def and_then_eq_Inr check_qe_vendor_ok check_mrenclave_ok
      check_document_formats_ok load_chains_ok validate_all_under_ok require_tcb_signing_leaf_ok
      check_crl_scope_ok simp del: for_each_res_ok)

lemma verify_chains_ok:
  "verify_chains C now coll quote expected = Inr ch \<longleftrightarrow>
     qe_vendor_id (header quote) = INTEL_QE_VENDOR_ID \<and>
     mrenclave (report_body quote) = expected \<and> supported_formats coll \<and>
     chains_trusted C now coll quote ch"
  by (auto simp: verify_chains_unfold and_then_eq_Inr check_qe_vendor_ok check_mrenclave_ok
      check_document_formats_ok load_chains_ok validate_all_ok require_tcb_signing_leaf_ok
      check_crl_scope_ok chains_trusted_def simp del: for_each_res_ok)

lemma trusted_anchor_decodes:
  assumes "trusted_path C now cs"
  obtains k where "key_from_sec1 C INTEL_SGX_ROOT_CA_PUBLIC_KEY_SEC1 = Inr k"
  using assms by (auto simp: trusted_path_simps issued_by_def signed_der_def)

lemma chains_trusted_anchor:
  assumes "chains_trusted C now coll quote ch"
  obtains k where "pinned_root_key C = Some k"
    and "key_from_sec1 C INTEL_SGX_ROOT_CA_PUBLIC_KEY_SEC1 = Inr k"
proof -
  have "trusted_path C now (certs (pck_chain ch))"
    using assms by (simp add: chains_trusted_def all_chains_def)
  then obtain k where "key_from_sec1 C INTEL_SGX_ROOT_CA_PUBLIC_KEY_SEC1 = Inr k"
    by (rule trusted_anchor_decodes)
  then show thesis by (intro that) (simp_all add: pinned_root_key_intel)
qed

lemma check_debug_ok: "check_debug C quote = Inr u \<longleftrightarrow> \<not> is_debug (report_body quote)"
  by (simp add: check_debug_def)

lemma verify_evidence_ok:
  assumes "key_from_sec1 C INTEL_SGX_ROOT_CA_PUBLIC_KEY_SEC1 = Inr k"
  shows "verify_evidence C now coll quote minimum k ch = Inr (standing, rb) \<longleftrightarrow>
     rb = report_body quote \<and>
     (\<exists>platform. evidence_holds C now coll quote minimum ch platform \<and>
        standing_granted C (body (coll_tcb_info coll)) platform standing)"
proof -
  have authentic: "quote_authentic C (pck_chain ch) quote \<longleftrightarrow>
      check_qe_report_signature C (pck_chain ch) quote = Inr () \<and> check_qe_binding C quote = Inr () \<and>
      check_quote_signature C quote = Inr ()"
    by (simp only: quote_authentic_ok)
  show ?thesis
    by (auto simp: verify_evidence_def and_then_eq_Inr check_revocation_ok [OF assms]
        check_tcb_info_document_ok check_qe_identity_document_ok check_debug_ok
        platform_standing_ok evidence_holds_def authentic)
qed

lemma verify_ok:
  "verify_remote_attestation C t coll quote expected minimum = Some (Inr (standing, rb)) \<longleftrightarrow>
     rb = report_body quote \<and> attested C (unix_seconds t) coll quote expected minimum standing"
proof (cases "verify_chains C (unix_seconds t) coll quote expected")
  case (Inl e)
  then have "\<not> attested C (unix_seconds t) coll quote expected minimum standing"
    using verify_chains_ok [of C "unix_seconds t" coll quote expected] by (auto simp: attested_def)
  with Inl show ?thesis by (simp add: verify_remote_attestation_unfold)
next
  case (Inr ch)
  then have pre: "qe_vendor_id (header quote) = INTEL_QE_VENDOR_ID"
    "mrenclave (report_body quote) = expected" "supported_formats coll"
    and trusted: "chains_trusted C (unix_seconds t) coll quote ch"
    by (simp_all add: verify_chains_ok)
  have same: "chains_trusted C (unix_seconds t) coll quote ch' \<longleftrightarrow> ch' = ch" for ch'
    using Inr verify_chains_ok [of C "unix_seconds t" coll quote expected ch'] pre by auto
  from trusted obtain k where k: "pinned_root_key C = Some k"
    "key_from_sec1 C INTEL_SGX_ROOT_CA_PUBLIC_KEY_SEC1 = Inr k"
    by (rule chains_trusted_anchor)
  then show ?thesis
    by (simp add: verify_remote_attestation_unfold Inr verify_evidence_ok [OF k(2)] attested_def pre
        same)
qed

lemma verify_never_panics: "verify_remote_attestation C t coll quote expected minimum \<noteq> None"
proof (cases "verify_chains C (unix_seconds t) coll quote expected")
  case (Inl e)
  then show ?thesis by (simp add: verify_remote_attestation_unfold)
next
  case (Inr ch)
  then have "chains_trusted C (unix_seconds t) coll quote ch" by (simp add: verify_chains_ok)
  then obtain k where "pinned_root_key C = Some k" by (rule chains_trusted_anchor)
  with Inr show ?thesis by (simp add: verify_remote_attestation_unfold)
qed

section \<open>What acceptance depends on\<close>

lemma chains_of_unique: "chains_of C coll quote ch \<Longrightarrow> chains_of C coll quote ch' \<Longrightarrow> ch = ch'"
  by (cases ch; cases ch') (auto simp: chains_of_def dest: load_chain_unique)

lemma chains_trusted_unique:
  "chains_trusted C now coll quote ch \<Longrightarrow> chains_trusted C now' coll quote ch' \<Longrightarrow> ch = ch'"
  by (auto simp: chains_trusted_def dest: chains_of_unique)

lemma crl_in_pem_unique: "crl_in_pem C data crl \<Longrightarrow> crl_in_pem C data crl' \<Longrightarrow> crl = crl'"
  by (auto simp: crl_in_pem_def)

lemma trusted_path_convex:
  "trusted_path C s cs \<Longrightarrow> trusted_path C t cs \<Longrightarrow> s \<le> now \<Longrightarrow> now \<le> t \<Longrightarrow> trusted_path C now cs"
  by (auto simp: trusted_path_simps valid_at_def)

lemma authentic_crl_convex:
  "authentic_crl C i k s crl \<Longrightarrow> authentic_crl C i k t crl \<Longrightarrow> s \<le> now \<Longrightarrow> now \<le> t \<Longrightarrow>
     authentic_crl C i k now crl"
  by (auto simp: authentic_crl_def current_crl_def)

lemma chains_trusted_convex:
  "chains_trusted C s coll quote ch \<Longrightarrow> chains_trusted C t coll quote ch \<Longrightarrow> s \<le> now \<Longrightarrow> now \<le> t \<Longrightarrow>
     chains_trusted C now coll quote ch"
  by (auto simp: chains_trusted_def intro: trusted_path_convex [of C s _ t now])

lemma unrevoked_convex:
  assumes "unrevoked C s coll ch" and "unrevoked C t coll ch" and "s \<le> now" and "now \<le> t"
  shows "unrevoked C now coll ch"
proof -
  from assms(1) obtain k root_crl k' leaf_crl where
    at_s: "key_from_sec1 C INTEL_SGX_ROOT_CA_PUBLIC_KEY_SEC1 = Inr k"
      "crl_in_pem C (str_bytes (root_ca_crl coll)) root_crl"
      "authentic_crl C (root_subject_raw (pck_chain ch)) k s root_crl"
      "key_from_sec1 C (spki_data (leaf (pck_crl_chain ch))) = Inr k'"
      "crl_in_pem C (str_bytes (pck_crl coll)) leaf_crl"
      "authentic_crl C (leaf_issuer_raw (pck_chain ch)) k' s leaf_crl"
    and unlisted: "\<forall>chain\<in>set (all_chains ch). \<forall>c\<in>set (certs chain).
        \<not> listed_in root_crl c \<and> \<not> listed_in leaf_crl c"
    unfolding unrevoked_def by (elim exE conjE) (rule that)
  from assms(2) have at_t: "authentic_crl C (root_subject_raw (pck_chain ch)) k t root_crl"
    "authentic_crl C (leaf_issuer_raw (pck_chain ch)) k' t leaf_crl"
    unfolding unrevoked_def using at_s crl_in_pem_unique by (metis sum.inject(2))+
  from authentic_crl_convex [OF at_s(3) at_t(1) assms(3,4)]
    authentic_crl_convex [OF at_s(6) at_t(2) assms(3,4)]
  show ?thesis
    unfolding unrevoked_def using at_s unlisted by (intro exI conjI)
qed

lemma evidence_holds_convex:
  "evidence_holds C s coll quote m ch p \<Longrightarrow> evidence_holds C t coll quote m ch p' \<Longrightarrow>
     s \<le> now \<Longrightarrow> now \<le> t \<Longrightarrow> evidence_holds C now coll quote m ch p"
  unfolding evidence_holds_def using unrevoked_convex
  by (auto simp: tcb_info_accepted_def qe_identity_accepted_def)

lemma attested_convex:
  assumes "attested C s coll quote e m standing" and "attested C t coll quote e m standing'"
    and "s \<le> now" and "now \<le> t"
  shows "attested C now coll quote e m standing"
proof -
  from assms(1) obtain ch p where at_s: "chains_trusted C s coll quote ch"
      "evidence_holds C s coll quote m ch p"
      "standing_granted C (body (coll_tcb_info coll)) p standing"
    and pre: "qe_vendor_id (header quote) = INTEL_QE_VENDOR_ID"
      "mrenclave (report_body quote) = e" "supported_formats coll"
    by (auto simp: attested_def)
  from assms(2) obtain ch' p' where at_t: "chains_trusted C t coll quote ch'"
      "evidence_holds C t coll quote m ch' p'"
    by (auto simp: attested_def)
  have "ch' = ch" using at_t(1) at_s(1) by (rule chains_trusted_unique)
  with at_s at_t have "chains_trusted C now coll quote ch" "evidence_holds C now coll quote m ch p"
    using chains_trusted_convex evidence_holds_convex assms(3,4) by blast+
  with pre at_s(3) show ?thesis by (auto simp: attested_def)
qed

lemma attested_floor:
  "attested C now coll quote e m standing \<longleftrightarrow>
     attested C now coll quote e 0 standing \<and>
     m \<le> ti_tcb_evaluation_data_number (body (coll_tcb_info coll)) \<and>
     m \<le> qi_tcb_evaluation_data_number (body (coll_qe_identity coll))"
  by (auto simp: attested_def evidence_holds_def tcb_info_accepted_def qe_identity_accepted_def)

lemma attested_unique:
  "attested C now coll quote e m standing \<Longrightarrow> attested C now coll quote e m standing' \<Longrightarrow>
     standing = standing'"
  using verify_ok [of C "now * 10 ^ 9" coll quote e m] verify_chains_ok [of C now coll quote e]
    verify_evidence_ok [of C _ now coll quote m]
  by (auto simp: attested_def evidence_holds_def platform_standing_ok [symmetric]
      dest: chains_trusted_unique)

text \<open>A fetch by the selectors of the quote gets collateral for the platform that is judged.\<close>

lemma attested_fmspc:
  assumes "attested C now coll quote e m standing"
    and "pck_collateral_params C quote = Inr (f, ca)"
  shows "hex_field C 6 (fmspc (body (coll_tcb_info coll))) f"
proof -
  from assms(1) obtain ch p where ch: "chains_of C coll quote ch"
    and p: "extract_pck_platform_tcb C (pck_chain ch) = Inr p"
    and f: "hex_field C 6 (fmspc (body (coll_tcb_info coll))) (pck_fmspc p)"
    by (auto simp: attested_def chains_trusted_def evidence_holds_def standing_granted_def)
  have "load_chain C QuotePck (cert_data (signature quote)) (pck_chain ch)"
    using ch by (simp add: chains_of_def)
  then have "f = pck_fmspc p"
    using assms(2) p by (auto simp: pck_collateral_params_def res_simps load_chain_def)
  with f show ?thesis by simp
qed

text \<open>A chain may repeat its root.\<close>

lemma trusted_path_repeat_root:
  assumes "trusted_path C now cs" and "2 \<le> length cs"
  shows "trusted_path C now (cs @ [last cs])"
proof -
  have last: "last cs \<in> set (tl cs)"
    using assms(2) by (cases cs) (auto simp: Suc_le_eq)
  have links: "issued_by C ((cs @ [last cs]) ! i) ((cs @ [last cs]) ! Suc i)"
    if "Suc i < length (cs @ [last cs])" for i
  proof (cases "Suc i < length cs")
    case True
    then show ?thesis using assms(1) by (simp add: trusted_path_simps nth_append)
  next
    case False
    then have "Suc i = length cs" using that by simp
    then have "i = length cs - 1" by simp
    moreover have "cs \<noteq> []" and "cs ! (length cs - 1) = last cs"
      using assms(2) last_conv_nth [of cs] by force+
    ultimately have "(cs @ [last cs]) ! i = last cs" and "(cs @ [last cs]) ! Suc i = last cs"
      by (simp_all add: nth_append)
    then show ?thesis using assms(1) by (simp add: trusted_path_simps)
  qed
  show ?thesis
    using assms last links by (auto simp: trusted_path_simps)
qed

section \<open>Property\<close>

text \<open>A chain that validates and contains an issuer still validates with its root certificate
  repeated at the end: path validation does not reject a duplicated root.\<close>

theorem repeated_root_stays_trusted:
  assumes "chain_validate C chain now = Inr ()" and "2 \<le> length (certs chain)"
  shows "chain_validate C (chain\<lparr>certs := certs chain @ [last (certs chain)]\<rparr>) now = Inr ()"
proof -
  have "certs chain \<noteq> []" using assms(2) by auto
  from iffD1 [OF chain_validate_ok [OF this] assms(1)]
  have "trusted_path C now (certs chain)" .
  from trusted_path_repeat_root [OF this assms(2)] show ?thesis
    by (subst chain_validate_ok) simp_all
qed

end
