(* ===== verification/Rejection.thy ===== *)
theory Rejection
  imports Attestation
begin

text \<open>
  Which rejection means what. \<open>rejects_as c r\<close> says that a result is a rejection of category
  \<open>c\<close>. Gate by gate, the categories a check can reject with are bounded; a category that only
  one gate uses then names that gate exactly, together with everything checked before it.
\<close>

definition rejects_as :: "error_category \<Rightarrow> 'a res \<Rightarrow> bool" where
  "rejects_as c r \<longleftrightarrow> (\<exists>e. r = Inl e \<and> category e = c)"

named_theorems rejects_as_simps \<open>when a check rejects with a given category\<close>

lemma rejects_as_basic [rejects_as_simps]:
  "rejects_as c (Inr x) \<longleftrightarrow> False"
  "rejects_as c (Inl e) \<longleftrightarrow> category e = c"
  by (auto simp: rejects_as_def)

lemma rejects_as_and_then [rejects_as_simps]:
  "rejects_as c (and_then r f) \<longleftrightarrow> rejects_as c r \<or> (\<exists>x. r = Inr x \<and> rejects_as c (f x))"
  by (auto simp: rejects_as_def and_then_eq_Inl)

lemma not_rejects_as: "rejects_within cs r \<Longrightarrow> c \<notin> cs \<Longrightarrow> \<not> rejects_as c r"
  by (auto simp: rejects_as_def rejects_within_def)

lemma rejects_as_single: "rejects_within {c} r \<Longrightarrow> rejects_as c r \<longleftrightarrow> \<not> (\<exists>x. r = Inr x)"
  by (cases r) (auto simp: rejects_as_def rejects_within_def)

lemma rejects_as_within: "rejects_within cs r \<longleftrightarrow> (\<forall>c. rejects_as c r \<longrightarrow> c \<in> cs)"
  by (auto simp: rejects_as_def rejects_within_def)

section \<open>The categories of each gate\<close>

lemma check_qe_vendor_rejects [rejects_intros]:
  "QeVendorInvalid \<in> cs \<Longrightarrow> rejects_within cs (check_qe_vendor C quote)"
  unfolding check_qe_vendor_def by (intro rejects_intros)

lemma check_mrenclave_rejects [rejects_intros]:
  "MrenclaveMismatch \<in> cs \<Longrightarrow> rejects_within cs (check_mrenclave C quote expected)"
  unfolding check_mrenclave_def by (intro rejects_intros)

lemma check_document_formats_rejects [rejects_intros]:
  "CollateralParse \<in> cs \<Longrightarrow> rejects_within cs (check_document_formats coll)"
  unfolding check_document_formats_def Let_def by (intro rejects_intros)

lemma from_pem_kind: "from_pem C kind data = Inr chain \<Longrightarrow> cc_kind chain = kind"
  by (simp add: from_pem_bounds)

lemma load_chains_rejects [rejects_intros]:
  "{CollateralParse, QuoteParse} \<subseteq> cs \<Longrightarrow> rejects_within cs (load_chains C coll quote)"
  unfolding load_chains_def by (intro rejects_intros) (auto dest: from_pem_kind)

lemma require_tcb_signing_leaf_rejects [rejects_intros]:
  "{CollateralParse, QuoteParse, RootCaUntrusted} \<subseteq> cs \<Longrightarrow>
     rejects_within cs (require_tcb_signing_leaf chain document)"
  unfolding require_tcb_signing_leaf_def leaf_common_name_def
  by (intro rejects_intros) auto

lemma check_crl_scope_rejects [rejects_intros]:
  "CrlInvalid \<in> cs \<Longrightarrow> rejects_within cs (check_crl_scope ch)"
  unfolding check_crl_scope_def by (intro rejects_intros)

lemma leaf_verifying_key_rejects [rejects_intros]:
  "RootCaUntrusted \<in> cs \<Longrightarrow> rejects_within cs (leaf_verifying_key C chain)"
  unfolding leaf_verifying_key_def spki_verifying_key_def untrusted_def
  by (intro rejects_intros) simp

lemma check_revocation_rejects [rejects_intros]:
  "{CrlInvalid, CertOrCrlTimeInvalid, RootCaUntrusted} \<subseteq> cs \<Longrightarrow>
     rejects_within cs (check_revocation C now coll key ch)"
  unfolding check_revocation_def by (intro rejects_intros) auto

lemma check_validity_window_rejects [rejects_intros]:
  "stale \<in> cs \<Longrightarrow> rejects_within cs (check_validity_window document stale lo hi now)"
  by (rule rejects_within_mono [OF doc_window.gate_rejects]) simp

lemma check_evaluation_round_rejects [rejects_intros]:
  "stale \<in> cs \<Longrightarrow> rejects_within cs (check_evaluation_round document rnd minimum stale)"
  unfolding check_evaluation_round_def by (intro rejects_intros)

lemma check_tcb_info_document_rejects [rejects_intros]:
  "{RootCaUntrusted, TcbInfoSignatureInvalid, CollateralParse, TcbInfoStale} \<subseteq> cs \<Longrightarrow>
     rejects_within cs (check_tcb_info_document C now minimum chain doc)"
  unfolding check_tcb_info_document_def by (intro rejects_intros) auto

lemma check_qe_identity_rejects [rejects_intros]:
  assumes "{QeIdentityMismatch, CollateralParse} \<subseteq> cs"
  shows "rejects_within cs (check_qe_identity C identity qe)"
proof -
  have "rejects_within cs (case sel of
        Some l \<Rightarrow> if qtcb_status l = ''UpToDate'' then Inr () else Inl (identity_mismatch (d l))
      | None \<Rightarrow> Inl (identity_mismatch d'))" for sel d d'
    using assms by (cases sel) (auto simp: identity_mismatch_def intro!: rejects_intros)
  then show ?thesis
    using assms unfolding check_qe_identity_def Let_def
    by (intro rejects_intros) (auto simp: identity_mismatch_def rejects_within_def)
qed

lemma check_qe_identity_document_rejects [rejects_intros]:
  "{RootCaUntrusted, QeIdentitySignatureInvalid, QeIdentityStale, QeIdentityMismatch,
    CollateralParse} \<subseteq> cs \<Longrightarrow>
     rejects_within cs (check_qe_identity_document C now minimum chain doc qe)"
  unfolding check_qe_identity_document_def by (intro rejects_intros) auto

lemma check_qe_report_signature_rejects [rejects_intros]:
  "{RootCaUntrusted, QeReportSignatureInvalid} \<subseteq> cs \<Longrightarrow>
     rejects_within cs (check_qe_report_signature C chain quote)"
  unfolding check_qe_report_signature_def by (intro rejects_intros) auto

lemma check_qe_binding_rejects [rejects_intros]:
  "QeBindingInvalid \<in> cs \<Longrightarrow> rejects_within cs (check_qe_binding C quote)"
  unfolding check_qe_binding_def Let_def by (intro rejects_intros)

lemma check_quote_signature_rejects [rejects_intros]:
  "QuoteSignatureInvalid \<in> cs \<Longrightarrow> rejects_within cs (check_quote_signature C quote)"
  unfolding check_quote_signature_def by (intro rejects_intros) auto

lemma check_debug_rejects [rejects_intros]:
  "DebugEnclaveRejected \<in> cs \<Longrightarrow> rejects_within cs (check_debug C quote)"
  unfolding check_debug_def by (intro rejects_intros)

lemma platform_standing_rejects [rejects_intros]:
  assumes "{TcbLevelUnsupported, CollateralParse} \<subseteq> cs"
  shows "rejects_within cs (platform_standing C info pck)"
proof -
  have "rejects_within cs (case sel of
        None \<Rightarrow> Inl (unsupported d) | Some l \<Rightarrow> standing_of_level l)" for sel d
    using assms
    by (cases sel) (auto simp: unsupported_def standing_of_level_def intro!: rejects_intros)
  then show ?thesis
    using assms unfolding platform_standing_def
    by (intro rejects_intros) (auto simp: unsupported_def intro!: rejects_intros)
qed

section \<open>The two halves\<close>

definition chain_categories :: "error_category set" where
  "chain_categories =
     {QeVendorInvalid, MrenclaveMismatch, CollateralParse, QuoteParse, RootCaUntrusted,
      CertOrCrlTimeInvalid, CrlInvalid}"

definition evidence_categories :: "error_category set" where
  "evidence_categories =
     {RootCaUntrusted, CrlInvalid, CertOrCrlTimeInvalid, CollateralParse, QuoteParse,
      TcbInfoSignatureInvalid, TcbInfoStale, QeIdentitySignatureInvalid, QeIdentityStale,
      QeIdentityMismatch, QeReportSignatureInvalid, QeBindingInvalid, QuoteSignatureInvalid,
      DebugEnclaveRejected, TcbLevelUnsupported}"

lemma verify_chains_rejects: "rejects_within chain_categories (verify_chains C now coll quote expected)"
  unfolding verify_chains_unfold chain_categories_def by (intro rejects_intros) auto

lemma verify_evidence_rejects:
  "rejects_within evidence_categories (verify_evidence C now coll quote minimum k ch)"
  unfolding verify_evidence_def evidence_categories_def by (intro rejects_intros) auto

lemma verify_rejects:
  assumes "verify_remote_attestation C t coll quote expected minimum = Some r"
  shows "rejects_within (chain_categories \<union> evidence_categories) r"
proof (cases "verify_chains C (unix_seconds t) coll quote expected")
  case (Inl e)
  then show ?thesis
    using assms verify_chains_rejects [of C "unix_seconds t" coll quote expected]
    by (auto simp: verify_remote_attestation_unfold rejects_within_def)
next
  case (Inr ch)
  then obtain k where "r = verify_evidence C (unix_seconds t) coll quote minimum k ch"
    using assms by (auto simp: verify_remote_attestation_unfold split: option.splits)
  then show ?thesis
    by (simp only:) (rule rejects_within_mono [OF verify_evidence_rejects], simp)
qed

text \<open>A category of the second half only: the rejection comes after the chains were trusted.\<close>

lemma verify_rejects_as_evidence:
  assumes "c \<notin> chain_categories"
  shows "map_option (rejects_as c) (verify_remote_attestation C t coll quote expected minimum) =
       Some True \<longleftrightarrow>
     qe_vendor_id (header quote) = INTEL_QE_VENDOR_ID \<and>
     mrenclave (report_body quote) = expected \<and> supported_formats coll \<and>
     (\<exists>ch k. chains_trusted C (unix_seconds t) coll quote ch \<and>
        key_from_sec1 C INTEL_SGX_ROOT_CA_PUBLIC_KEY_SEC1 = Inr k \<and>
        rejects_as c (verify_evidence C (unix_seconds t) coll quote minimum k ch))"
proof (cases "verify_chains C (unix_seconds t) coll quote expected")
  case (Inl e)
  have "\<not> rejects_as c (verify_chains C (unix_seconds t) coll quote expected)"
    using not_rejects_as [OF verify_chains_rejects assms] .
  then have "map_option (rejects_as c)
      (verify_remote_attestation C t coll quote expected minimum) \<noteq> Some True"
    by (simp add: verify_remote_attestation_unfold Inl rejects_as_basic)
  moreover have "\<not> (qe_vendor_id (header quote) = INTEL_QE_VENDOR_ID \<and>
      mrenclave (report_body quote) = expected \<and> supported_formats coll \<and>
      chains_trusted C (unix_seconds t) coll quote ch)" for ch
    by (simp only: verify_chains_ok [symmetric] Inl) simp
  ultimately show ?thesis by blast
next
  case (Inr ch)
  then have pre: "qe_vendor_id (header quote) = INTEL_QE_VENDOR_ID"
    "mrenclave (report_body quote) = expected" "supported_formats coll"
    and trusted: "chains_trusted C (unix_seconds t) coll quote ch"
    by (simp_all add: verify_chains_ok)
  have same: "chains_trusted C (unix_seconds t) coll quote ch' \<longleftrightarrow> ch' = ch" for ch'
    using Inr verify_chains_ok [of C "unix_seconds t" coll quote expected ch'] pre by auto
  from trusted obtain k where k: "pinned_root_key C = Some k"
    "key_from_sec1 C INTEL_SGX_ROOT_CA_PUBLIC_KEY_SEC1 = Inr k"
    by (rule chains_trusted_anchor)
  show ?thesis
    by (simp add: verify_remote_attestation_unfold Inr k pre same)
qed

text \<open>The evidence gates up to the quote's own signatures have all passed.\<close>

definition authenticated ::
  "('k, 's) crates \<Rightarrow> int \<Rightarrow> sgx_collateral \<Rightarrow> sgx_quote \<Rightarrow> bytes \<Rightarrow> u32 \<Rightarrow> loaded_chains \<Rightarrow>
     bool" where
  "authenticated C now coll quote expected minimum ch \<longleftrightarrow>
     qe_vendor_id (header quote) = INTEL_QE_VENDOR_ID \<and>
     mrenclave (report_body quote) = expected \<and> supported_formats coll \<and>
     chains_trusted C now coll quote ch \<and> unrevoked C now coll ch \<and>
     tcb_info_accepted C now minimum (tcb_info_chain ch) (coll_tcb_info coll) \<and>
     qe_identity_accepted C now minimum (qe_identity_chain ch) (coll_qe_identity coll)
       (qe_report (signature quote)) \<and>
     quote_authentic C (pck_chain ch) quote"

lemma not_late:
  "c = DebugEnclaveRejected \<or> c = TcbLevelUnsupported \<Longrightarrow>
     rejects_within (- {DebugEnclaveRejected, TcbLevelUnsupported}) r \<Longrightarrow> \<not> rejects_as c r"
  by (rule not_rejects_as) auto

lemma evidence_rejects_late:
  assumes k: "key_from_sec1 C INTEL_SGX_ROOT_CA_PUBLIC_KEY_SEC1 = Inr k"
    and c: "c = DebugEnclaveRejected \<or> c = TcbLevelUnsupported"
  shows "rejects_as c (verify_evidence C now coll quote minimum k ch) \<longleftrightarrow>
     unrevoked C now coll ch \<and>
     tcb_info_accepted C now minimum (tcb_info_chain ch) (coll_tcb_info coll) \<and>
     qe_identity_accepted C now minimum (qe_identity_chain ch) (coll_qe_identity coll)
       (qe_report (signature quote)) \<and>
     quote_authentic C (pck_chain ch) quote \<and>
     (if is_debug (report_body quote) then c = DebugEnclaveRejected
      else \<exists>platform. extract_pck_platform_tcb C (pck_chain ch) = Inr platform \<and>
             rejects_as c (platform_standing C (body (coll_tcb_info coll)) platform))"
proof -
  have no: "\<not> rejects_as c (check_revocation C now coll k ch)"
    "\<not> rejects_as c (check_tcb_info_document C now minimum chain tdoc)"
    "\<not> rejects_as c (check_qe_identity_document C now minimum chain qdoc qe)"
    "\<not> rejects_as c (check_qe_report_signature C chain quote)"
    "\<not> rejects_as c (check_qe_binding C quote)" "\<not> rejects_as c (check_quote_signature C quote)"
    "\<not> rejects_as c (extract_pck_platform_tcb C chain)" for chain tdoc qdoc qe
    by (rule not_late [OF c]; intro rejects_intros; simp)+
  have debug: "rejects_as c (check_debug C quote) \<longleftrightarrow>
      is_debug (report_body quote) \<and> c = DebugEnclaveRejected"
    by (auto simp: check_debug_def rejects_as_def)
  have authentic: "quote_authentic C (pck_chain ch) quote \<longleftrightarrow>
      check_qe_report_signature C (pck_chain ch) quote = Inr () \<and> check_qe_binding C quote = Inr () \<and>
      check_quote_signature C quote = Inr ()"
    by (simp only: quote_authentic_ok)
  show ?thesis
    by (auto simp: verify_evidence_def rejects_as_simps no debug authentic
        check_revocation_ok [OF k] check_tcb_info_document_ok check_qe_identity_document_ok
        check_debug_ok)
qed

lemma verify_rejects_late:
  assumes c: "c = DebugEnclaveRejected \<or> c = TcbLevelUnsupported"
  shows "map_option (rejects_as c) (verify_remote_attestation C t coll quote expected minimum) =
       Some True \<longleftrightarrow>
     (\<exists>ch. authenticated C (unix_seconds t) coll quote expected minimum ch \<and>
        (if is_debug (report_body quote) then c = DebugEnclaveRejected
         else \<exists>platform. extract_pck_platform_tcb C (pck_chain ch) = Inr platform \<and>
                rejects_as c (platform_standing C (body (coll_tcb_info coll)) platform)))"
proof -
  have late: "c \<notin> chain_categories" using c by (auto simp: chain_categories_def)
  have step: "(\<exists>k. chains_trusted C now coll quote ch \<and>
        key_from_sec1 C INTEL_SGX_ROOT_CA_PUBLIC_KEY_SEC1 = Inr k \<and> P k) \<longleftrightarrow>
      chains_trusted C now coll quote ch \<and> Q"
    if "\<And>k. key_from_sec1 C INTEL_SGX_ROOT_CA_PUBLIC_KEY_SEC1 = Inr k \<Longrightarrow> P k \<longleftrightarrow> Q"
    for now ch P Q
    using that chains_trusted_anchor [of C now coll quote ch] by blast
  show ?thesis
    unfolding verify_rejects_as_evidence [OF late] authenticated_def
    by (subst step [OF evidence_rejects_late [OF _ c]], assumption) blast
qed

section \<open>A refused standing\<close>

text \<open>tcbInfo is readable but is for another platform, or no level fits, or the level is bad.\<close>

definition accepted_statuses :: "string list" where
  "accepted_statuses =
     [''UpToDate'', ''SWHardeningNeeded'', ''ConfigurationAndSWHardeningNeeded'']"

definition standing_refused :: "('k, 's) crates \<Rightarrow> tcb_info \<Rightarrow> pck_platform_tcb \<Rightarrow> bool" where
  "standing_refused C info pck \<longleftrightarrow>
     (\<exists>f. hex_field C 6 (fmspc info) f \<and>
        (f \<noteq> pck_fmspc pck \<or>
         (\<exists>p. hex_field C 2 (pce_id info) p \<and>
            (p \<noteq> pck_pce_id pck \<or>
             (\<forall>l\<in>set (ti_tcb_levels info). \<not> level_satisfied l pck) \<or>
             (\<exists>l. first_level info pck l \<and> tcb_status l \<notin> set accepted_statuses)))))"

lemma find_none: "List.find P xs = None \<longleftrightarrow> (\<forall>x\<in>set xs. \<not> P x)"
  by (induction xs) auto

lemma platform_standing_refuses:
  "rejects_as TcbLevelUnsupported (platform_standing C info pck) \<longleftrightarrow> standing_refused C info pck"
proof -
  have hex: "\<not> rejects_as TcbLevelUnsupported (decode_hex_field C n what v)" for n what v
    by (rule not_rejects_as [where cs = "{CollateralParse}"]) (intro rejects_intros, simp_all)
  let ?sel = "List.find (\<lambda>level. level_satisfied level pck) (ti_tcb_levels info)"
  have "rejects_as TcbLevelUnsupported (case ?sel of None \<Rightarrow> Inl (unsupported (no_level_detail info pck))
          | Some selected \<Rightarrow> standing_of_level selected) \<longleftrightarrow>
      (\<forall>l\<in>set (ti_tcb_levels info). \<not> level_satisfied l pck) \<or>
      (\<exists>l. first_level info pck l \<and> tcb_status l \<notin> set accepted_statuses)"
  proof (cases ?sel)
    case None
    then have "\<forall>l\<in>set (ti_tcb_levels info). \<not> level_satisfied l pck" by (simp only: find_none)
    then show ?thesis
      unfolding None by (simp add: rejects_as_basic unsupported_def)
  next
    case (Some l)
    then have "\<exists>l\<in>set (ti_tcb_levels info). level_satisfied l pck"
      by (auto simp: find_first)
    then show ?thesis
      using Some
      by (auto simp: rejects_as_basic unsupported_def standing_of_level_def first_level_find
          accepted_statuses_def)
  qed
  then show ?thesis
    by (auto simp: platform_standing_def standing_refused_def rejects_as_simps hex
        decode_hex_field_ok unsupported_def)
qed

section \<open>The identity gates\<close>

lemma verify_identity_rejections:
  "map_option (rejects_as QeVendorInvalid)
        (verify_remote_attestation C t coll quote expected minimum) = Some True \<longleftrightarrow>
      qe_vendor_id (header quote) \<noteq> INTEL_QE_VENDOR_ID"
  "map_option (rejects_as MrenclaveMismatch)
        (verify_remote_attestation C t coll quote expected minimum) = Some True \<longleftrightarrow>
      qe_vendor_id (header quote) = INTEL_QE_VENDOR_ID \<and>
      mrenclave (report_body quote) \<noteq> expected"
proof -
  let ?now = "unix_seconds t"
  define rest_of where "rest_of =
     and_then (check_document_formats coll) (\<lambda>_.
     and_then (load_chains C coll quote) (\<lambda>ch.
     and_then (for_each_res (\<lambda>chain. chain_validate C chain ?now) (all_chains ch)) (\<lambda>_.
     and_then (require_tcb_signing_leaf (tcb_info_chain ch) ''TCB info'') (\<lambda>_.
     and_then (require_tcb_signing_leaf (qe_identity_chain ch) ''QE identity'') (\<lambda>_.
     and_then (check_crl_scope ch) (\<lambda>_.
     Inr ch))))))"
  have chains: "verify_chains C ?now coll quote expected =
      and_then (check_qe_vendor C quote) (\<lambda>_. and_then (check_mrenclave C quote expected) (\<lambda>_.
        rest_of))"
    by (simp add: verify_chains_unfold rest_of_def)
  have later: "rejects_within (- {QeVendorInvalid, MrenclaveMismatch}) rest_of"
    unfolding rest_of_def by (intro rejects_intros) auto
  have as: "map_option (rejects_as c)
        (verify_remote_attestation C t coll quote expected minimum) = Some True \<longleftrightarrow>
      rejects_as c (verify_chains C ?now coll quote expected)"
    if "c = QeVendorInvalid \<or> c = MrenclaveMismatch" for c
  proof -
    have "\<not> rejects_as c (verify_evidence C ?now coll quote minimum k ch)" for k ch
      using that by (intro not_rejects_as [OF verify_evidence_rejects])
        (auto simp: evidence_categories_def)
    then show ?thesis
      by (auto simp: verify_remote_attestation_unfold rejects_as_basic Let_def
          split: sum.splits option.splits)
  qed
  have no: "\<not> rejects_as QeVendorInvalid rest_of" "\<not> rejects_as MrenclaveMismatch rest_of"
    using later by (auto dest: not_rejects_as)
  show "map_option (rejects_as QeVendorInvalid)
        (verify_remote_attestation C t coll quote expected minimum) = Some True \<longleftrightarrow>
      qe_vendor_id (header quote) \<noteq> INTEL_QE_VENDOR_ID"
    unfolding as [OF disjI1 [OF refl]] chains
    by (auto simp: rejects_as_simps no check_qe_vendor_def check_mrenclave_def)
  show "map_option (rejects_as MrenclaveMismatch)
        (verify_remote_attestation C t coll quote expected minimum) = Some True \<longleftrightarrow>
      qe_vendor_id (header quote) = INTEL_QE_VENDOR_ID \<and>
      mrenclave (report_body quote) \<noteq> expected"
    unfolding as [OF disjI2 [OF refl]] chains
    by (auto simp: rejects_as_simps no check_qe_vendor_def check_mrenclave_def)
qed

end
