(* ===== verification/Example.thy ===== *)
theory Example
  imports Rejection
begin

text \<open>
  A complete concrete run: small stand-ins for the third-party crates, one platform with its
  chains, CRLs and collateral, and a quote that is attested. It shows that the hypotheses of the
  development's theorems hold together, and the theory \<open>Witnesses\<close> applies the theorems to it.

  A PEM text of the example has one block per byte, a DER blob is one byte, and a signature of
  message \<open>m\<close> under key \<open>k\<close> is the first byte of \<open>m\<close> and the last byte of \<open>k\<close>.
\<close>

section \<open>A hex codec\<close>

definition nibble :: "char \<Rightarrow> nat option" where
  "nibble c =
     (let n = (of_char c :: nat) in
      if 48 \<le> n \<and> n \<le> 57 then Some (n - 48)
      else if 97 \<le> n \<and> n \<le> 102 then Some (n - 87)
      else if 65 \<le> n \<and> n \<le> 70 then Some (n - 55)
      else None)"

fun unhex :: "string \<Rightarrow> string + bytes" where
  "unhex [] = Inr []"
| "unhex [c] = Inl ''odd number of digits''"
| "unhex (c # d # cs) =
     (case (nibble c, nibble d) of
        (Some h, Some l) \<Rightarrow> and_then (unhex cs) (\<lambda>bs. Inr (of_nat (16 * h + l) # bs))
      | _ \<Rightarrow> Inl ''invalid character'')"

fun hex :: "bytes \<Rightarrow> string" where
  "hex [] = []"
| "hex (b # bs) = hex_digit (unat b div 16) # hex_digit (unat b mod 16) # hex bs"

section \<open>Certificates and CRLs\<close>

definition toy_name :: "byte \<Rightarrow> string \<Rightarrow> x509_name" where
  "toy_name b cn = \<lparr>name_raw = [b], common_names = [Some cn], name_display = cn\<rparr>"

definition sig_alg :: algorithm_id where
  "sig_alg = \<lparr>alg_oid = OID_SIG_ECDSA_WITH_SHA256, alg_parameters = None\<rparr>"

definition ec_alg :: algorithm_id where
  "ec_alg = \<lparr>alg_oid = OID_KEY_TYPE_EC_PUBLIC_KEY,
             alg_parameters = Some \<lparr>any_value = [], any_as_oid = Some OID_EC_P256\<rparr>\<rparr>"

definition toy_cert ::
  "byte \<Rightarrow> x509_name \<Rightarrow> x509_name \<Rightarrow> bytes \<Rightarrow> byte \<Rightarrow> bool \<Rightarrow> (string \<times> bytes) list \<Rightarrow> x509_cert" where
  "toy_cert b subj iss key issuer_key_end ca exts =
     \<lparr>subject = subj, issuer = iss, not_before = 0, not_after = 1000,
      signature_algorithm = sig_alg, tbs_signature = sig_alg, spki_algorithm = ec_alg,
      spki_data = key, signature_value = [b, issuer_key_end], tbs_certificate = [b],
      raw_serial = [0, b], raw_serial_as_string = ''00'',
      basic_constraints = Inr (if ca then Some \<lparr>bc_ca = True, bc_path_len = None\<rparr> else None),
      key_usage_cert_sign = Inr (if ca then Some True else None), extensions = exts\<rparr>"

definition root_name :: x509_name where "root_name = toy_name 0x52 ''Intel SGX Root CA''"

definition pck_ca_name :: x509_name where "pck_ca_name = toy_name 0x50 ''Intel SGX PCK Platform CA''"

definition root_cert :: x509_cert where
  "root_cert = toy_cert 0x52 root_name root_name INTEL_SGX_ROOT_CA_PUBLIC_KEY_SEC1 0x94 True []"

definition signing_cert :: x509_cert where
  "signing_cert =
     toy_cert 0x54 (toy_name 0x54 ''Intel SGX TCB Signing'') root_name [4, 1] 0x94 False []"

definition pck_ca_cert :: x509_cert where
  "pck_ca_cert = toy_cert 0x50 pck_ca_name root_name [4, 2] 0x94 True []"

definition pck_cert :: x509_cert where
  "pck_cert = toy_cert 0x4C (toy_name 0x4C ''PCK'') pck_ca_name [4, 3] 2 False
     [(SGX_PCK_EXTENSION_OID, [1])]"

definition toy_crl :: "byte \<Rightarrow> x509_name \<Rightarrow> byte \<Rightarrow> x509_crl" where
  "toy_crl b iss issuer_key_end =
     \<lparr>crl_issuer = iss, crl_signature_algorithm = sig_alg, crl_tbs_signature = sig_alg,
      last_update = 0, next_update = Some 1000, crl_signature_value = [b, issuer_key_end],
      tbs_cert_list = [b], revoked_serials = [[9]]\<rparr>"

section \<open>The PCK extension\<close>

definition der_seq :: "der_obj list \<Rightarrow> der_obj" where
  "der_seq xs = DerObj (Inr xs) None None None"

definition der_oid :: "string \<Rightarrow> der_obj" where
  "der_oid oid = DerObj (Inl ''not a sequence'') (Some oid) None None"

definition der_bytes :: "bytes \<Rightarrow> der_obj" where
  "der_bytes bs = DerObj (Inl ''not a sequence'') None (Some bs) None"

definition der_int :: "u32 \<Rightarrow> der_obj" where
  "der_int n = DerObj (Inl ''not a sequence'') None None (Some n)"

definition tcb_entry :: "nat \<Rightarrow> u32 \<Rightarrow> der_obj" where
  "tcb_entry i n =
     der_seq [der_oid (''1.2.840.113741.1.13.1.2.'' @ dec_nat i), der_int n]"

definition toy_extension :: der_obj where
  "toy_extension = der_seq
     [der_seq [der_oid ''1.2.840.113741.1.13.1.2'',
        der_seq (map (\<lambda>i. tcb_entry i 1) [1, 2, 3, 4, 5, 6, 7, 8, 9, 10, 11, 12, 13, 14, 15, 16] @
                 [tcb_entry 17 5])],
      der_seq [der_oid ''1.2.840.113741.1.13.1.3'', der_bytes [0, 0]],
      der_seq [der_oid ''1.2.840.113741.1.13.1.4'', der_bytes [1, 2, 3, 4, 5, 6]]]"

definition toy_platform :: pck_platform_tcb where
  "toy_platform =
     \<lparr>pck_fmspc = [1, 2, 3, 4, 5, 6], pck_pce_id = [0, 0],
      comp_svns = [1, 1, 1, 1, 1, 1, 1, 1, 1, 1, 1, 1, 1, 1, 1, 1], pck_pcesvn = 5\<rparr>"

section \<open>The crates\<close>

definition toy :: "(bytes, bytes) crates" where
  "toy =
     \<lparr>hex_decode = unhex, hex_encode = hex,
      sha256 = (\<lambda>m. hd m # replicate 31 0),
      key_from_sec1 = (\<lambda>bs. if bs = [] then Inl ''empty key'' else Inr bs),
      sig_from_slice = (\<lambda>bs. if bs = [] then Inl ''empty signature'' else Inr bs),
      sig_from_der = (\<lambda>bs. if bs = [] then Inl ''empty signature'' else Inr bs),
      ecdsa_verify = (\<lambda>k m s. take 2 s = [hd m, last k]),
      pem_parse_many = (\<lambda>bs. Inr (map (\<lambda>b.
        \<lparr>pem_tag = (if b = 0x63 \<or> b = 0x64 then ''X509 CRL'' else ''CERTIFICATE''),
         pem_contents = [b]\<rparr>) bs)),
      cert_from_der = (\<lambda>der.
        if der = [0x52] then Inr root_cert else if der = [0x54] then Inr signing_cert
        else if der = [0x50] then Inr pck_ca_cert else if der = [0x4C] then Inr pck_cert
        else Inl ''not a certificate''),
      crl_from_der = (\<lambda>der.
        if der = [0x63] then Inr (toy_crl 0x63 root_name 0x94)
        else if der = [0x64] then Inr (toy_crl 0x64 pck_ca_name 2)
        else Inl ''not a CRL''),
      parse_der = (\<lambda>der. if der = [1] then Inr toy_extension else Inl ''not DER'')\<rparr>"

section \<open>The collateral\<close>

definition toy_level :: "u32 \<Rightarrow> string \<Rightarrow> string list \<Rightarrow> tcb_level" where
  "toy_level n status ids =
     \<lparr>tcb = \<lparr>sgxtcbcomponents = replicate 16 \<lparr>svn = n\<rparr>, pcesvn = 5\<rparr>, tcb_date = 0,
      tcb_status = status, advisory_ids = ids\<rparr>"

definition toy_tcb_info :: tcb_info where
  "toy_tcb_info =
     \<lparr>ti_id = ''SGX'', ti_version = 3, ti_issue_date = 0, ti_next_update = 1000,
      fmspc = ''010203040506'', pce_id = ''0000'', tcb_type = 0,
      ti_tcb_evaluation_data_number = 17,
      ti_tcb_levels = [toy_level 9 ''UpToDate'' [],
        toy_level 1 ''SWHardeningNeeded'' [''INTEL-SA-00334'']]\<rparr>"

definition toy_qe_level :: "u16 \<Rightarrow> string \<Rightarrow> qe_tcb_level" where
  "toy_qe_level n status =
     \<lparr>qtcb = \<lparr>isvsvn = n\<rparr>, qtcb_date = 0, qtcb_status = status, qadvisory_ids = []\<rparr>"

definition zeros :: string where
  "zeros = ''00000000000000000000000000000000''"

definition toy_qe_identity :: qe_identity where
  "toy_qe_identity =
     \<lparr>qi_id = ''QE'', qi_version = 2, qi_issue_date = 0, qi_next_update = 1000,
      qi_tcb_evaluation_data_number = 17, miscselect = ''00000000'',
      miscselect_mask = ''FFFFFFFF'', qi_attributes = zeros, attributes_mask = zeros,
      qi_mrsigner = zeros @ zeros, isvprodid = 1,
      qi_tcb_levels = [toy_qe_level 2 ''UpToDate'', toy_qe_level 9 ''OutOfDate'']\<rparr>"

definition toy_collateral :: sgx_collateral where
  "toy_collateral =
     \<lparr>coll_version = 3, root_ca_crl = ''c'', pck_crl = ''d'', tcb_info_issuer_chain = ''TR'',
      pck_crl_issuer_chain = ''PR'', qe_identity_issuer_chain = ''TR'',
      coll_tcb_info = \<lparr>body_json = ''{t}'', body = toy_tcb_info, signature_hex = ''7b01''\<rparr>,
      coll_qe_identity = \<lparr>body_json = ''{q}'', body = toy_qe_identity, signature_hex = ''7b01''\<rparr>\<rparr>"

section \<open>The quote\<close>

definition toy_body :: sgx_report_body where
  "toy_body =
     \<lparr>cpu_svn = replicate 16 0, misc_select = replicate 4 0, isv_ext_prod_id = replicate 16 0,
      attributes = 5 # replicate 15 0, mrenclave = replicate 32 7, mrsigner = replicate 32 8,
      config_id = replicate 64 0, isv_prod_id = 0, isv_svn = 0, config_svn = 0,
      isv_family_id = replicate 16 0, sgx_report_data_bytes = replicate 64 3\<rparr>"

definition toy_qe_report :: sgx_report_body where
  "toy_qe_report =
     \<lparr>cpu_svn = replicate 16 0, misc_select = replicate 4 0, isv_ext_prod_id = replicate 16 0,
      attributes = replicate 16 0, mrenclave = replicate 32 0, mrsigner = replicate 32 0,
      config_id = replicate 64 0, isv_prod_id = 1, isv_svn = 3, config_svn = 0,
      isv_family_id = replicate 16 0,
      sgx_report_data_bytes = 6 # replicate 63 0\<rparr>"

definition encode_plain :: "sgx_report_body \<Rightarrow> bytes" where
  "encode_plain b =
     encode_report (replicate 12 0) (replicate 32 0) (replicate 32 0) (replicate 42 0) b"

definition toy_header :: sgx_quote_header where
  "toy_header =
     \<lparr>version = 3, att_key_type = 2, reserved = 0, qe_svn = 0, pce_svn = 0,
      qe_vendor_id = INTEL_QE_VENDOR_ID, user_data = replicate 20 0\<rparr>"

definition toy_signed :: bytes where
  "toy_signed =
     [3, 0, 2, 0, 0, 0, 0, 0, 0, 0, 0, 0] @ INTEL_QE_VENDOR_ID @ replicate 20 0 @
     encode_plain toy_body"

definition toy_signature :: sgx_ecdsa_signature where
  "toy_signature =
     \<lparr>isv_signature = [3, 0] @ replicate 62 0, attestation_pub_key = 6 # replicate 63 0,
      qe_report = toy_qe_report, qe_report_raw = encode_plain toy_qe_report,
      qe_report_signature = [0, 3] @ replicate 62 0, qe_auth_data = [],
      cert_data_type = 5, cert_data = [0x4C, 0x50, 0x52, 0]\<rparr>"

definition toy_quote :: sgx_quote where
  "toy_quote =
     \<lparr>header = toy_header, report_body = toy_body, signature = toy_signature,
      signed_bytes = toy_signed\<rparr>"

section \<open>It is well-formed\<close>

lemma toy_bodies_wf: "wf_report toy_body" "wf_report toy_qe_report"
  by (simp_all add: wf_report_def toy_body_def toy_qe_report_def)

lemma plain_reserved: "wf_reserved (replicate 12 0) (replicate 32 0) (replicate 32 0) (replicate 42 0)"
  by (simp add: wf_reserved_def)

lemma length_encode_plain: "wf_report b \<Longrightarrow> length (encode_plain b) = 384"
  by (simp add: encode_plain_def length_encode_report plain_reserved)

lemma decode_plain: "wf_report b \<Longrightarrow> report_at_offsets (encode_plain b) = b"
  by (simp add: encode_plain_def report_at_offsets_encode plain_reserved)

lemma toy_signature_wf: "wf_signature toy_signature"
  by (simp add: wf_signature_def toy_signature_def length_encode_plain decode_plain toy_bodies_wf
      CERT_DATA_TYPE_PCK_CHAIN_def)

lemma toy_signed_split:
  "length toy_signed = 432" "drop 48 toy_signed = encode_plain toy_body"
  by (simp_all add: toy_signed_def INTEL_QE_VENDOR_ID_def length_encode_plain toy_bodies_wf)

lemma toy_header_at: "header_at_offsets toy_signed = toy_header"
  by (simp add: header_at_offsets_def toy_signed_def toy_header_def slice_def
      INTEL_QE_VENDOR_ID_def u16_from_le_def u32_from_le_def)

lemma toy_quote_wf: "wf_quote toy_quote"
  using length_encode_signature [OF toy_signature_wf]
  by (simp add: wf_quote_def toy_quote_def toy_signed_split toy_header_at decode_plain
      toy_bodies_wf toy_signature_wf toy_header_def QUOTE_VERSION_3_def
      ATT_KEY_TYPE_ECDSA_P256_def)
    (simp add: toy_signature_def)

section \<open>It is attested\<close>

definition toy_chains :: loaded_chains where
  "toy_chains =
     \<lparr>tcb_info_chain = \<lparr>pc_kind = TcbInfoIssuer, certs = [signing_cert, root_cert]\<rparr>,
      pck_crl_chain = \<lparr>pc_kind = PckCrlIssuer, certs = [pck_ca_cert, root_cert]\<rparr>,
      qe_identity_chain = \<lparr>pc_kind = QeIdentityIssuer, certs = [signing_cert, root_cert]\<rparr>,
      pck_chain = \<lparr>pc_kind = QuotePck, certs = [pck_cert, pck_ca_cert, root_cert]\<rparr>\<rparr>"

lemmas toy_cert_defs = root_cert_def signing_cert_def pck_ca_cert_def pck_cert_def toy_cert_def
  root_name_def pck_ca_name_def toy_name_def

lemmas toy_alg_defs = sig_alg_def ec_alg_def

lemma toy_pem:
  "pem_parse_many toy bs = Inr (map (\<lambda>b.
     \<lparr>pem_tag = (if b = 0x63 \<or> b = 0x64 then ''X509 CRL'' else ''CERTIFICATE''),
      pem_contents = [b]\<rparr>) bs)"
  by (simp add: toy_def)

lemma toy_chain_bytes:
  "trim_trailing_junk (str_bytes ''TR'') = [0x54, 0x52]"
  "trim_trailing_junk (str_bytes ''PR'') = [0x50, 0x52]"
  "trim_trailing_junk (str_bytes ''c'') = [0x63]"
  "trim_trailing_junk (str_bytes ''d'') = [0x64]"
  "trim_trailing_junk [0x4C, 0x50, 0x52, 0] = [0x4C, 0x50, 0x52]"
  by (simp_all add: trim_trailing_junk_alt str_bytes_def trailing_junk_def is_ascii_whitespace_def)

lemma toy_load:
  "load_chain toy kind (str_bytes ''TR'') \<lparr>pc_kind = kind, certs = [signing_cert, root_cert]\<rparr>"
  "load_chain toy kind (str_bytes ''PR'') \<lparr>pc_kind = kind, certs = [pck_ca_cert, root_cert]\<rparr>"
  "load_chain toy kind [0x4C, 0x50, 0x52, 0]
     \<lparr>pc_kind = kind, certs = [pck_cert, pck_ca_cert, root_cert]\<rparr>"
  by (simp_all add: load_chain_def from_pem_ok chain_parse_ok toy_pem toy_chain_bytes)
    (simp_all add: toy_def)

lemma toy_chains_of: "chains_of toy toy_collateral toy_quote toy_chains"
  by (simp add: chains_of_def toy_chains_def toy_collateral_def toy_quote_def toy_signature_def
      toy_load)

lemma toy_issued:
  "issued_by toy root_cert root_cert" "issued_by toy signing_cert root_cert"
  "issued_by toy pck_ca_cert root_cert" "issued_by toy pck_cert pck_ca_cert"
  by (simp_all add: issued_by_def signed_der_def toy_cert_defs toy_def
      INTEL_SGX_ROOT_CA_PUBLIC_KEY_SEC1_def)

lemma toy_certs_fine:
  "c \<in> {root_cert, signing_cert, pck_ca_cert, pck_cert} \<Longrightarrow>
     valid_at now c = (0 \<le> now \<and> now < 1000) \<and> p256_sha256 c"
  by (auto simp: valid_at_def p256_sha256_def toy_cert_defs toy_alg_defs)

lemma toy_issuers: "may_issue root_cert" "may_issue pck_ca_cert"
  by (simp_all add: may_issue_def toy_cert_defs)

lemma toy_trusted:
  assumes "0 \<le> now" and "now < 1000"
  shows "trusted_path toy now [signing_cert, root_cert]"
    and "trusted_path toy now [pck_ca_cert, root_cert]"
    and "trusted_path toy now [pck_cert, pck_ca_cert, root_cert]"
proof -
  have root: "spki_data root_cert = INTEL_SGX_ROOT_CA_PUBLIC_KEY_SEC1"
    by (simp add: toy_cert_defs)
  show "trusted_path toy now [signing_cert, root_cert]"
    "trusted_path toy now [pck_ca_cert, root_cert]"
    "trusted_path toy now [pck_cert, pck_ca_cert, root_cert]"
    using assms
    by (auto simp: trusted_path_simps root toy_certs_fine toy_issuers toy_issued less_Suc_eq)
qed

lemma toy_chains_trusted:
  assumes "0 \<le> now" and "now < 1000"
  shows "chains_trusted toy now toy_collateral toy_quote toy_chains"
proof -
  have names: "tcb_signer (tcb_info_chain toy_chains)" "tcb_signer (qe_identity_chain toy_chains)"
    "leaf_subject_raw (pck_crl_chain toy_chains) = leaf_issuer_raw (pck_chain toy_chains)"
    by (simp_all add: tcb_signer_def leaf_def leaf_subject_raw_def leaf_issuer_raw_def
        toy_chains_def first_common_name_def INTEL_TCB_SIGNING_CN_def toy_cert_defs)
  have "\<forall>chain\<in>set (all_chains toy_chains). trusted_path toy now (certs chain)"
    using toy_trusted [OF assms] by (simp add: all_chains_def toy_chains_def)
  then show ?thesis
    using names toy_chains_of by (simp add: chains_trusted_def)
qed

lemma toy_crls_found:
  "crl_in_pem toy (str_bytes ''c'') (toy_crl 0x63 root_name 0x94)"
  "crl_in_pem toy (str_bytes ''d'') (toy_crl 0x64 pck_ca_name 2)"
  using str_contains_middle [of "''X509 ''" "''CRL''" "[]"]
  by (simp_all add: crl_in_pem_def toy_pem toy_chain_bytes)
    (simp_all add: toy_def)

lemma toy_unlisted:
  "c \<in> {root_cert, signing_cert, pck_ca_cert, pck_cert} \<Longrightarrow> \<not> listed_in (toy_crl b iss e) c"
  by (auto simp: listed_in_def toy_crl_def toy_cert_defs be_nat_def)

lemma toy_unrevoked:
  assumes "0 \<le> now" and "now < 1000"
  shows "unrevoked toy now toy_collateral toy_chains"
proof -
  have keys: "key_from_sec1 toy INTEL_SGX_ROOT_CA_PUBLIC_KEY_SEC1 =
      Inr INTEL_SGX_ROOT_CA_PUBLIC_KEY_SEC1"
    "key_from_sec1 toy (spki_data (leaf (pck_crl_chain toy_chains))) = Inr [4, 2]"
    by (simp_all add: toy_def INTEL_SGX_ROOT_CA_PUBLIC_KEY_SEC1_def leaf_def toy_chains_def
        toy_cert_defs)
  have auth: "authentic_crl toy (root_subject_raw (pck_chain toy_chains))
      INTEL_SGX_ROOT_CA_PUBLIC_KEY_SEC1 now (toy_crl 0x63 root_name 0x94)"
    "authentic_crl toy (leaf_issuer_raw (pck_chain toy_chains)) [4, 2] now
      (toy_crl 0x64 pck_ca_name 2)"
    using assms
    by (simp_all add: authentic_crl_def current_crl_def toy_crl_def toy_alg_defs toy_def
        root_subject_raw_def leaf_issuer_raw_def root_def leaf_def toy_chains_def toy_cert_defs
        INTEL_SGX_ROOT_CA_PUBLIC_KEY_SEC1_def)
  have crls: "crl_in_pem toy (str_bytes (root_ca_crl toy_collateral)) (toy_crl 0x63 root_name 0x94)"
    "crl_in_pem toy (str_bytes (pck_crl toy_collateral)) (toy_crl 0x64 pck_ca_name 2)"
    using toy_crls_found by (simp_all add: toy_collateral_def)
  have "\<forall>chain\<in>set (all_chains toy_chains). \<forall>c\<in>set (certs chain).
      \<not> listed_in (toy_crl 0x63 root_name 0x94) c \<and> \<not> listed_in (toy_crl 0x64 pck_ca_name 2) c"
    by (simp add: all_chains_def toy_chains_def toy_unlisted)
  with keys auth crls show ?thesis
    unfolding unrevoked_def by (intro exI conjI)
qed

lemma toy_tcb_info_accepted:
  assumes "0 \<le> now" and "now < 1000" and "m \<le> 17"
  shows "tcb_info_accepted toy now m (tcb_info_chain toy_chains) (coll_tcb_info toy_collateral)"
  using assms
  by (simp add: tcb_info_accepted_def doc_signed_def signed_raw_def toy_def leaf_def
      toy_chains_def toy_cert_defs toy_collateral_def toy_tcb_info_def nibble_def str_bytes_def)

lemma toy_qe_matches: "qe_matches toy toy_qe_identity toy_qe_report"
proof -
  have fields: "hex_field toy 32 (zeros @ zeros) (replicate 32 0)"
    "hex_field toy 4 ''00000000'' (replicate 4 0)" "hex_field toy 4 ''FFFFFFFF'' (replicate 4 0xFF)"
    "hex_field toy 16 zeros (replicate 16 0)"
    by (simp_all add: hex_field_def toy_def zeros_def nibble_def numeral_eq_Suc)
  have masks: "masked_eq (replicate n 0) (replicate n 0) m" for n m
    by (auto simp: masked_eq_def list_all_length)
  have "toy_qe_level 2 ''UpToDate'' # [toy_qe_level 9 ''OutOfDate''] =
      [] @ toy_qe_level 2 ''UpToDate'' # [toy_qe_level 9 ''OutOfDate'']" by simp
  then have "qe_level toy_qe_identity 3 (toy_qe_level 2 ''UpToDate'')"
    unfolding qe_level_def
    by (intro exI [of _ "[]"] exI [of _ "[toy_qe_level 9 ''OutOfDate'']"])
      (simp add: toy_qe_identity_def toy_qe_level_def)
  moreover have "qtcb_status (toy_qe_level 2 ''UpToDate'') = ''UpToDate''"
    by (simp add: toy_qe_level_def)
  moreover have "isv_svn toy_qe_report = 3" by (simp add: toy_qe_report_def)
  ultimately have "\<exists>l. qe_level toy_qe_identity (isv_svn toy_qe_report) l \<and>
      qtcb_status l = ''UpToDate''" by metis
  with fields masks show ?thesis
    unfolding qe_matches_def by (auto simp: toy_qe_identity_def toy_qe_report_def)
qed

lemma toy_qe_identity_accepted:
  assumes "0 \<le> now" and "now < 1000" and "m \<le> 17"
  shows "qe_identity_accepted toy now m (qe_identity_chain toy_chains)
    (coll_qe_identity toy_collateral) (qe_report (signature toy_quote))"
proof -
  have "doc_signed toy (qe_identity_chain toy_chains) (coll_qe_identity toy_collateral)"
    by (simp add: doc_signed_def signed_raw_def toy_def leaf_def toy_chains_def toy_cert_defs
        toy_collateral_def nibble_def str_bytes_def)
  moreover have "body (coll_qe_identity toy_collateral) = toy_qe_identity"
    "qe_report (signature toy_quote) = toy_qe_report"
    by (simp_all add: toy_collateral_def toy_quote_def toy_signature_def)
  ultimately show ?thesis
    using assms toy_qe_matches
    by (simp add: qe_identity_accepted_def) (simp add: toy_qe_identity_def)
qed

lemma hd_toy_encodings: "hd (encode_plain toy_qe_report) = 0" "hd toy_signed = 3"
  by (simp_all add: encode_plain_def encode_report_def toy_qe_report_def toy_signed_def)

lemma toy_quote_authentic: "quote_authentic toy (pck_chain toy_chains) toy_quote"
proof -
  have "signed_raw toy [4, 3] (encode_plain toy_qe_report) ([0, 3] @ replicate 62 0)"
    "signed_raw toy (4 # 6 # replicate 63 0) toy_signed ([3, 0] @ replicate 62 0)"
    using hd_toy_encodings by (simp_all add: signed_raw_def toy_def)
  moreover have "spki_data (leaf (pck_chain toy_chains)) = [4, 3]"
    by (simp add: leaf_def toy_chains_def toy_cert_defs)
  ultimately show ?thesis
    by (simp add: quote_authentic_def toy_quote_def toy_signature_def Let_def)
      (simp add: toy_def toy_qe_report_def)
qed

lemma toy_pair: "oid_value_pair (der_seq [der_oid oid, v]) = Some (oid, v)"
  by (simp add: oid_value_pair_def der_seq_def der_oid_def)

lemma strip_prefix_append: "strip_prefix ps (ps @ xs) = Some xs"
  by (simp add: strip_prefix_eq_Some)

lemma toy_tcb_step:
  assumes "parse_usize (dec_nat i) = Some i"
  shows "tcb_component_step (tcb_entry i n) acc =
     (if 1 \<le> i \<and> i \<le> 16 then Inr (acc\<lparr>acc_comp_svns := (acc_comp_svns acc)[i - 1 := Some n]\<rparr>)
      else if i = 17 then Inr (acc\<lparr>acc_pcesvn := Some n\<rparr>) else Inr acc)"
  using assms strip_prefix_append [of "''1.2.840.113741.1.13.1.2.''" "dec_nat i"]
  by (simp add: tcb_component_step_def tcb_entry_def toy_pair der_int_def)

lemma replicate_16: "replicate 16 x = [x, x, x, x, x, x, x, x, x, x, x, x, x, x, x, x]"
  by (simp add: numeral_eq_Suc)

lemma toy_svn_fold:
  "fold_res tcb_component_step
     (map (\<lambda>i. tcb_entry i 1) [1, 2, 3, 4, 5, 6, 7, 8, 9, 10, 11, 12, 13, 14, 15, 16] @
        [tcb_entry 17 5]) pck_acc_init =
   Inr (pck_acc_init\<lparr>acc_comp_svns := map Some (comp_svns toy_platform), acc_pcesvn := Some 5\<rparr>)"
  by (simp add: toy_tcb_step parse_usize_dec_nat pck_acc_init_def toy_platform_def replicate_16)

lemma toy_fields:
  "strip_prefix ''1.2.840.113741.1.13.1.'' ''1.2.840.113741.1.13.1.2'' = Some ''2''"
  "strip_prefix ''1.2.840.113741.1.13.1.'' ''1.2.840.113741.1.13.1.3'' = Some ''3''"
  "strip_prefix ''1.2.840.113741.1.13.1.'' ''1.2.840.113741.1.13.1.4'' = Some ''4''"
  by simp_all

lemma toy_extract: "extract_pck_platform_tcb toy (pck_chain toy_chains) = Inr toy_platform"
proof -
  have ext: "List.find (\<lambda>e. fst e = SGX_PCK_EXTENSION_OID) (extensions (leaf (pck_chain toy_chains))) =
      Some (SGX_PCK_EXTENSION_OID, [1])"
    by (simp add: leaf_def toy_chains_def toy_cert_defs)
  have der: "parse_der toy [1] = Inr toy_extension" by (simp add: toy_def)
  have svns: "extension_step (der_seq [der_oid ''1.2.840.113741.1.13.1.2'', der_seq es]) acc =
      fold_res tcb_component_step es acc" for es acc
    unfolding extension_step_def toy_pair by (simp add: toy_fields der_seq_def)
  have pce: "extension_step (der_seq [der_oid ''1.2.840.113741.1.13.1.3'', der_bytes [0, 0]]) acc =
      Inr (acc\<lparr>acc_pce_id := Some [0, 0]\<rparr>)" for acc
    unfolding extension_step_def toy_pair by (simp add: toy_fields der_bytes_def fixed_bytes_def)
  have fms: "extension_step (der_seq [der_oid ''1.2.840.113741.1.13.1.4'',
        der_bytes [1, 2, 3, 4, 5, 6]]) acc =
      Inr (acc\<lparr>acc_fmspc := Some [1, 2, 3, 4, 5, 6]\<rparr>)" for acc
    unfolding extension_step_def toy_pair by (simp add: toy_fields der_bytes_def fixed_bytes_def)
  have fold: "fold_res extension_step
     [der_seq [der_oid ''1.2.840.113741.1.13.1.2'',
        der_seq (map (\<lambda>i. tcb_entry i 1) [1, 2, 3, 4, 5, 6, 7, 8, 9, 10, 11, 12, 13, 14, 15, 16] @
                 [tcb_entry 17 5])],
      der_seq [der_oid ''1.2.840.113741.1.13.1.3'', der_bytes [0, 0]],
      der_seq [der_oid ''1.2.840.113741.1.13.1.4'', der_bytes [1, 2, 3, 4, 5, 6]]] pck_acc_init =
    Inr (pck_acc_init\<lparr>acc_comp_svns := map Some (comp_svns toy_platform), acc_pcesvn := Some 5,
      acc_pce_id := Some [0, 0], acc_fmspc := Some [1, 2, 3, 4, 5, 6]\<rparr>)"
    by (simp only: fold_res.simps svns toy_svn_fold and_then_simps pce fms)
  have svn_list: "collect_res (map (ok_or e) (map Some xs)) = Inr xs" for e :: verify_error and xs :: "u32 list"
    by (simp only: collect_ok_or)
  show ?thesis
    unfolding extract_pck_platform_tcb_def ext
    by (simp only: ok_or_simps and_then_simps snd_conv der map_err_simps)
      (simp only: toy_extension_def, subst der_seq_def,
        simp only: der_obj.sel map_err_simps and_then_simps fold,
        simp add: svn_list, simp add: toy_platform_def pck_acc_init_def)
qed

lemma toy_standing:
  "standing_granted toy toy_tcb_info toy_platform (SWHardeningNeeded [''INTEL-SA-00334''])"
proof -
  have "\<not> level_satisfied (toy_level 9 ''UpToDate'' []) toy_platform"
    "level_satisfied (toy_level 1 ''SWHardeningNeeded'' [''INTEL-SA-00334'']) toy_platform"
    by (simp_all add: level_satisfied_def toy_level_def toy_platform_def replicate_16
        word_le_nat_alt)
  then have "first_level toy_tcb_info toy_platform
      (toy_level 1 ''SWHardeningNeeded'' [''INTEL-SA-00334''])"
    unfolding first_level_def
    by (intro exI [of _ "[toy_level 9 ''UpToDate'' []]"] exI [of _ "[]"])
      (simp add: toy_tcb_info_def)
  moreover have "hex_field toy 6 (fmspc toy_tcb_info) (pck_fmspc toy_platform)"
    "hex_field toy 2 (pce_id toy_tcb_info) (pck_pce_id toy_platform)"
    by (simp_all add: hex_field_def toy_def toy_tcb_info_def toy_platform_def nibble_def)
  ultimately show ?thesis
    unfolding standing_granted_def
    by (intro conjI exI [of _ "toy_level 1 ''SWHardeningNeeded'' [''INTEL-SA-00334'']"])
      (simp_all add: toy_level_def)
qed

lemma toy_evidence:
  assumes "0 \<le> now" and "now < 1000" and "m \<le> 17"
  shows "evidence_holds toy now toy_collateral toy_quote m toy_chains toy_platform"
proof -
  have "\<not> is_debug (report_body toy_quote)"
    by (simp add: is_debug_bit toy_quote_def toy_body_def bit_iff_odd)
  with assms show ?thesis
    by (simp add: evidence_holds_def toy_unrevoked toy_tcb_info_accepted toy_qe_identity_accepted
        toy_quote_authentic toy_extract)
qed

lemma toy_attested:
  assumes "0 \<le> now" and "now < 1000" and "m \<le> 17"
  shows "attested toy now toy_collateral toy_quote (replicate 32 7) m
    (SWHardeningNeeded [''INTEL-SA-00334''])"
proof -
  have "qe_vendor_id (header toy_quote) = INTEL_QE_VENDOR_ID"
    "mrenclave (report_body toy_quote) = replicate 32 7" "supported_formats toy_collateral"
    "body (coll_tcb_info toy_collateral) = toy_tcb_info"
    by (simp_all add: toy_quote_def toy_header_def toy_body_def supported_formats_def
        toy_collateral_def) (simp_all add: toy_tcb_info_def toy_qe_identity_def)
  with toy_chains_trusted [OF assms(1,2)] toy_evidence [OF assms] toy_standing
  show ?thesis unfolding attested_def by metis
qed

end
