(* ===== verification/Differ_Pipeline.thy ===== *)
theory Differ_Pipeline
  imports Rejection
begin

text \<open>
  \<^verbatim>\<open>dcap-differ/src/pipeline.rs\<close>: one differential case. The verifier and Intel's QVL run on the
  same bytes, \<open>classify\<close> puts the pair of outcomes in a bucket, and \<open>tally\<close> collapses the
  buckets of a run to an exit code.

  Not in the repository, so fields of the \<open>harness\<close> record: the JSON deserialisers, \<open>pem::parse\<close>,
  the QVL with its result and error types and their \<open>Debug\<close> texts, and the text the panic hook
  captured. A \<open>panic\<close> of the verifier is the value \<open>None\<close> that \<open>catch_unwind\<close> turns into an
  outcome. A \<open>c_char\<close> is a byte.
\<close>

section \<open>Outcomes\<close>

datatype dcap_outcome =
    Accept tcb_standing
  | Reject error_category string
  | Panic string

fun standing_slug :: "tcb_standing \<Rightarrow> string" where
  "standing_slug UpToDate = ''up-to-date''"
| "standing_slug (SWHardeningNeeded _) = ''sw-hardening-needed''"
| "standing_slug (ConfigurationAndSWHardeningNeeded _) =
     ''configuration-and-sw-hardening-needed''"

fun dcap_label :: "dcap_outcome \<Rightarrow> string" where
  "dcap_label (Accept standing) = ''accept('' @ standing_slug standing @ '')''"
| "dcap_label (Reject c _) = ''reject('' @ error_category_as_str c @ '')''"
| "dcap_label (Panic _) = ''panic''"

datatype ('r, 'e) qvl_outcome =
    NotRun string
  | QvlError 'e
  | Verdict u32 'r

section \<open>Marshalling\<close>

datatype crl_form = Pem | Der

fun crl_form_label :: "crl_form \<Rightarrow> string" where
  "crl_form_label Pem = ''pem''"
| "crl_form_label Der = ''der''"

record marshal_config =
  major :: u16
  minor :: u16
  tee_type :: u32
  mc_crl_form :: crl_form

definition marshal_label :: "marshal_config \<Rightarrow> string" where
  "marshal_label cfg =
     ''version='' @ dec_word (major cfg) @ ''.'' @ dec_word (minor cfg) @ '' tee_type='' @
     dec_word (tee_type cfg) @ '' crl='' @ crl_form_label (mc_crl_form cfg)"

definition DEFAULT_MARSHAL :: marshal_config where
  "DEFAULT_MARSHAL = \<lparr>major = 3, minor = 1, tee_type = 0, mc_crl_form = Pem\<rparr>"

record raw_collateral =
  raw_version :: u32
  raw_root_ca_crl :: string
  raw_pck_crl :: string
  raw_tcb_info_issuer_chain :: string
  raw_pck_crl_issuer_chain :: string
  raw_qe_identity_issuer_chain :: string
  raw_tcb_info :: string
  raw_qe_identity :: string

record quote_collateral =
  qc_major_version :: u16
  qc_minor_version :: u16
  qc_tee_type :: u32
  qc_pck_crl_issuer_chain :: bytes
  qc_root_ca_crl :: bytes
  qc_pck_crl :: bytes
  qc_tcb_info_issuer_chain :: bytes
  qc_tcb_info :: bytes
  qc_qe_identity_issuer_chain :: bytes
  qc_qe_identity :: bytes

record ('k, 's, 'r, 'e) harness =
  crates_of :: "('k, 's) crates"
  parse_collateral :: "bytes \<Rightarrow> string + sgx_collateral"
  parse_raw_collateral :: "bytes \<Rightarrow> string + raw_collateral"
  pem_parse :: "string \<Rightarrow> string + bytes"
  QV_RESULT_OK :: 'r
  QV_RESULT_SW_HARDENING_NEEDED :: 'r
  QV_RESULT_CONFIG_AND_SW_HARDENING_NEEDED :: 'r
  show_result :: "'r \<Rightarrow> string"
  show_error :: "'e \<Rightarrow> string"
  tee_verify_quote :: "bytes \<Rightarrow> quote_collateral \<Rightarrow> int \<Rightarrow> 'e + u32 \<times> 'r"
  last_panic :: "string option"

definition qvl_label :: "('k, 's, 'r, 'e) harness \<Rightarrow> ('r, 'e) qvl_outcome \<Rightarrow> string" where
  "qvl_label H q =
     (case q of
        NotRun reason \<Rightarrow> ''not-run('' @ reason @ '')''
      | QvlError code \<Rightarrow> ''err('' @ show_error H code @ '')''
      | Verdict exp_status result \<Rightarrow> ''exp='' @ dec_word exp_status @ '' '' @ show_result H result)"

definition blob :: "bytes \<Rightarrow> bytes" where
  "blob bs = bs @ [0]"

definition crl_blob ::
  "('k, 's, 'r, 'e) harness \<Rightarrow> string \<Rightarrow> crl_form \<Rightarrow> string + bytes" where
  "crl_blob H pem_text form =
     (case form of
        Pem \<Rightarrow> Inr (blob (str_bytes pem_text))
      | Der \<Rightarrow> map_err (\<lambda>e. ''CRL PEM decode: '' @ e) (pem_parse H pem_text))"

definition build_quote_collateral ::
  "('k, 's, 'r, 'e) harness \<Rightarrow> raw_collateral \<Rightarrow> marshal_config \<Rightarrow> string + quote_collateral"
where
  "build_quote_collateral H raw cfg =
     and_then (crl_blob H (raw_root_ca_crl raw) (mc_crl_form cfg)) (\<lambda>root_crl.
     and_then (crl_blob H (raw_pck_crl raw) (mc_crl_form cfg)) (\<lambda>leaf_crl.
     Inr \<lparr>qc_major_version = major cfg, qc_minor_version = minor cfg,
          qc_tee_type = tee_type cfg,
          qc_pck_crl_issuer_chain = blob (str_bytes (raw_pck_crl_issuer_chain raw)),
          qc_root_ca_crl = root_crl, qc_pck_crl = leaf_crl,
          qc_tcb_info_issuer_chain = blob (str_bytes (raw_tcb_info_issuer_chain raw)),
          qc_tcb_info = blob (str_bytes (raw_tcb_info raw)),
          qc_qe_identity_issuer_chain = blob (str_bytes (raw_qe_identity_issuer_chain raw)),
          qc_qe_identity = blob (str_bytes (raw_qe_identity raw))\<rparr>))"

section \<open>Running both verifiers\<close>

text \<open>\<open>UNIX_EPOCH\<close> plus or minus a number of seconds.\<close>

definition system_time :: "int \<Rightarrow> system_time" where
  "system_time unix =
     (if unix \<ge> 0 then 0 + unix * 10 ^ 9 else 0 - \<bar>unix\<bar> * 10 ^ 9)"

definition run_dcap ::
  "('k, 's, 'r, 'e) harness \<Rightarrow> bytes \<Rightarrow> bytes \<Rightarrow> int \<Rightarrow> dcap_outcome" where
  "run_dcap H quote_bytes collateral_json current_time =
     (case parse_collateral H collateral_json of
        Inl e \<Rightarrow> Reject CollateralParse (''collateral JSON: '' @ e)
      | Inr collateral \<Rightarrow>
      (case fst (sgx_quote_read quote_bytes) of
        Inl e \<Rightarrow> Reject (category e) (detail e)
      | Inr quote \<Rightarrow>
          let expected = (case peek_mrenclave quote_bytes of
                Some m \<Rightarrow> m | None \<Rightarrow> replicate 32 0) in
          (case verify_remote_attestation (crates_of H) (system_time current_time) collateral
                 quote expected 0 of
            Some (Inr (standing, _)) \<Rightarrow> Accept standing
          | Some (Inl e) \<Rightarrow> Reject (category e) (detail e)
          | None \<Rightarrow> Panic (case last_panic H of
                Some msg \<Rightarrow> msg | None \<Rightarrow> ''panic (no message captured)''))))"

definition run_qvl ::
  "('k, 's, 'r, 'e) harness \<Rightarrow> bytes \<Rightarrow> bytes \<Rightarrow> int \<Rightarrow> marshal_config \<Rightarrow>
     ('r, 'e) qvl_outcome" where
  "run_qvl H quote_bytes collateral_json current_time cfg =
     (case parse_raw_collateral H collateral_json of
        Inl e \<Rightarrow> NotRun (''marshal-failed: '' @ e)
      | Inr raw \<Rightarrow>
      (case build_quote_collateral H raw cfg of
        Inl e \<Rightarrow> NotRun (''marshal-failed: '' @ e)
      | Inr collateral \<Rightarrow>
      (case tee_verify_quote H quote_bytes collateral current_time of
        Inr (exp_status, result) \<Rightarrow> Verdict exp_status result
      | Inl code \<Rightarrow> QvlError code)))"

section \<open>Buckets\<close>

datatype bucket =
    AgreeAccept
  | AgreeReject
  | StandingMismatch
  | Dangerous string
  | KnownDelta string
  | UnexplainedSafe
  | DcapPanic

fun bucket_label :: "bucket \<Rightarrow> string" where
  "bucket_label AgreeAccept = ''agree-accept''"
| "bucket_label AgreeReject = ''agree-reject''"
| "bucket_label StandingMismatch = ''standing-mismatch''"
| "bucket_label (Dangerous kind) = ''DANGEROUS('' @ kind @ '')''"
| "bucket_label (KnownDelta kind) = ''known-delta('' @ kind @ '')''"
| "bucket_label UnexplainedSafe = ''unexplained-safe''"
| "bucket_label DcapPanic = ''dcap-panic''"

fun is_agreement :: "bucket \<Rightarrow> bool" where
  "is_agreement AgreeAccept = True"
| "is_agreement AgreeReject = True"
| "is_agreement _ = False"

fun is_finding :: "bucket \<Rightarrow> bool" where
  "is_finding StandingMismatch = True"
| "is_finding (Dangerous _) = True"
| "is_finding UnexplainedSafe = True"
| "is_finding DcapPanic = True"
| "is_finding _ = False"

definition qvl_accepts :: "('k, 's, 'r, 'e) harness \<Rightarrow> 'r \<Rightarrow> bool" where
  "qvl_accepts H result \<longleftrightarrow>
     result = QV_RESULT_OK H \<or> result = QV_RESULT_SW_HARDENING_NEEDED H \<or>
     result = QV_RESULT_CONFIG_AND_SW_HARDENING_NEEDED H"

definition standing_matches :: "('k, 's, 'r, 'e) harness \<Rightarrow> 'r \<Rightarrow> tcb_standing \<Rightarrow> bool" where
  "standing_matches H result standing \<longleftrightarrow>
     (case standing of
        UpToDate \<Rightarrow> result = QV_RESULT_OK H
      | SWHardeningNeeded _ \<Rightarrow> result = QV_RESULT_SW_HARDENING_NEEDED H
      | ConfigurationAndSWHardeningNeeded _ \<Rightarrow>
          result = QV_RESULT_CONFIG_AND_SW_HARDENING_NEEDED H)"

definition FORMAT_GATE_MARKERS :: "string list" where
  "FORMAT_GATE_MARKERS =
     [''only version 3 is supported'', ''only versions 2 and 3 are supported'',
      ''only version 2 is supported'', ''tcbType'']"

definition STALENESS_CATEGORIES :: "error_category list" where
  "STALENESS_CATEGORIES = [TcbInfoStale, QeIdentityStale, CertOrCrlTimeInvalid]"

datatype qvl_class = QAccept | QAcceptExpired | QReject

definition qvl_classify ::
  "('k, 's, 'r, 'e) harness \<Rightarrow> ('r, 'e) qvl_outcome \<Rightarrow> qvl_class \<times> u32" where
  "qvl_classify H qvl =
     (case qvl of
        Verdict exp_status result \<Rightarrow>
          (if qvl_accepts H result
           then if exp_status = 0 then QAccept else QAcceptExpired
           else QReject, exp_status)
      | _ \<Rightarrow> (QReject, 0))"

text \<open>The rejection arm of \<open>classify\<close>, where the QVL accepted.\<close>

definition classify_stricter :: "error_category \<Rightarrow> string \<Rightarrow> u32 \<Rightarrow> bucket" where
  "classify_stricter c d exp_status =
     (if c = DebugEnclaveRejected then KnownDelta ''debug-gate''
      else if c = CollateralParse \<and> list_ex (str_contains d) FORMAT_GATE_MARKERS
      then KnownDelta ''format-gate''
      else if c \<in> set STALENESS_CATEGORIES \<and> exp_status \<noteq> 0 then KnownDelta ''expiry-model''
      else UnexplainedSafe)"

text \<open>\<open>None\<close> stands for the two \<open>unreachable!\<close> arms.\<close>

definition classify ::
  "('k, 's, 'r, 'e) harness \<Rightarrow> dcap_outcome \<Rightarrow> ('r, 'e) qvl_outcome \<Rightarrow> bucket option" where
  "classify H dcap qvl =
     (case dcap of
        Panic _ \<Rightarrow> Some DcapPanic
      | _ \<Rightarrow>
      (let (class, exp_status) = qvl_classify H qvl in
      case (dcap, class) of
        (Accept standing, QAccept) \<Rightarrow>
          (case qvl of
             Verdict _ result \<Rightarrow>
               Some (if standing_matches H result standing then AgreeAccept
                     else StandingMismatch)
           | _ \<Rightarrow> None)
      | (Accept _, QAcceptExpired) \<Rightarrow> Some (Dangerous ''qvl-accept-expired'')
      | (Accept _, QReject) \<Rightarrow>
          Some (case qvl of NotRun _ \<Rightarrow> Dangerous ''qvl-not-run'' | _ \<Rightarrow> Dangerous ''qvl-rejects'')
      | (Reject _ _, QReject) \<Rightarrow> Some AgreeReject
      | (Reject c d, _) \<Rightarrow> Some (classify_stricter c d exp_status)
      | (Panic _, _) \<Rightarrow> None))"

record ('r, 'e) comparison_record =
  cr_dcap :: dcap_outcome
  cr_qvl :: "('r, 'e) qvl_outcome"
  cr_bucket :: bucket

definition run_case ::
  "('k, 's, 'r, 'e) harness \<Rightarrow> bytes \<Rightarrow> bytes \<Rightarrow> int \<Rightarrow> marshal_config \<Rightarrow>
     ('r, 'e) comparison_record option" where
  "run_case H quote_bytes collateral_json current_time cfg =
     (let dcap = run_dcap H quote_bytes collateral_json current_time;
          qvl = run_qvl H quote_bytes collateral_json current_time cfg in
      map_option (\<lambda>b. \<lparr>cr_dcap = dcap, cr_qvl = qvl, cr_bucket = b\<rparr>) (classify H dcap qvl))"

section \<open>Tally\<close>

definition EXIT_CLEAN :: int where "EXIT_CLEAN = 0"

definition EXIT_REVIEW :: int where "EXIT_REVIEW = 10"

definition EXIT_FAIL :: int where "EXIT_FAIL = 20"

record tally =
  t_agree_accept :: nat
  t_agree_reject :: nat
  t_known_delta :: nat
  t_unexplained_safe :: nat
  t_dangerous :: nat
  t_dangerous_known :: nat
  t_vanished :: nat
  t_standing_mismatch :: nat
  t_dcap_panic :: nat

definition tally_default :: tally where
  "tally_default =
     \<lparr>t_agree_accept = 0, t_agree_reject = 0, t_known_delta = 0, t_unexplained_safe = 0,
      t_dangerous = 0, t_dangerous_known = 0, t_vanished = 0, t_standing_mismatch = 0,
      t_dcap_panic = 0\<rparr>"

fun tally_add :: "bucket \<Rightarrow> tally \<Rightarrow> tally" where
  "tally_add AgreeAccept t = t\<lparr>t_agree_accept := t_agree_accept t + 1\<rparr>"
| "tally_add AgreeReject t = t\<lparr>t_agree_reject := t_agree_reject t + 1\<rparr>"
| "tally_add (KnownDelta _) t = t\<lparr>t_known_delta := t_known_delta t + 1\<rparr>"
| "tally_add UnexplainedSafe t = t\<lparr>t_unexplained_safe := t_unexplained_safe t + 1\<rparr>"
| "tally_add (Dangerous _) t = t\<lparr>t_dangerous := t_dangerous t + 1\<rparr>"
| "tally_add StandingMismatch t = t\<lparr>t_standing_mismatch := t_standing_mismatch t + 1\<rparr>"
| "tally_add DcapPanic t = t\<lparr>t_dcap_panic := t_dcap_panic t + 1\<rparr>"

definition exit_code :: "tally \<Rightarrow> int" where
  "exit_code t =
     (if t_dcap_panic t > 0 \<or> t_standing_mismatch t > 0 then EXIT_FAIL
      else if t_dangerous t > 0 \<or> t_vanished t > 0 then EXIT_REVIEW
      else EXIT_CLEAN)"

section \<open>Classification\<close>

lemma classify_total: "classify H dcap qvl \<noteq> None"
  by (auto simp: classify_def qvl_classify_def split: dcap_outcome.splits qvl_outcome.splits
      qvl_class.splits if_splits)

text \<open>The QVL accepts unexpired collateral: the only verdict that backs an acceptance.\<close>

definition qvl_backs :: "('k, 's, 'r, 'e) harness \<Rightarrow> ('r, 'e) qvl_outcome \<Rightarrow> bool" where
  "qvl_backs H qvl \<longleftrightarrow> (\<exists>result. qvl = Verdict 0 result \<and> qvl_accepts H result)"

lemma classify_dangerous:
  "(\<exists>kind. classify H dcap qvl = Some (Dangerous kind)) \<longleftrightarrow>
     (\<exists>standing. dcap = Accept standing) \<and> \<not> qvl_backs H qvl"
  by (cases dcap; cases qvl)
    (auto simp: classify_def qvl_classify_def qvl_backs_def classify_stricter_def)

lemma classify_agree_accept:
  "classify H dcap qvl = Some AgreeAccept \<longleftrightarrow>
     (\<exists>standing result. dcap = Accept standing \<and> qvl = Verdict 0 result \<and>
        standing_matches H result standing)"
  by (cases dcap; cases qvl)
    (auto simp: classify_def qvl_classify_def classify_stricter_def standing_matches_def
      qvl_accepts_def split: tcb_standing.splits)

lemma classify_panic: "classify H dcap qvl = Some DcapPanic \<longleftrightarrow> (\<exists>msg. dcap = Panic msg)"
  by (cases dcap; cases qvl)
    (auto simp: classify_def qvl_classify_def classify_stricter_def)

lemma finding_iff_not_explained:
  "is_finding b \<longleftrightarrow> \<not> is_agreement b \<and> \<not> (\<exists>kind. b = KnownDelta kind)"
  by (cases b) simp_all

section \<open>The verifier under the harness\<close>

lemma own_mrenclave:
  "fst (sgx_quote_read bs) = Inr q \<Longrightarrow> peek_mrenclave bs = Some (mrenclave (report_body q))"
  by (auto simp: sgx_quote_read_ok peek_mrenclave_encode)

lemma run_dcap_accept_iff:
  "run_dcap H bs json now = Accept standing \<longleftrightarrow>
     (\<exists>coll q. parse_collateral H json = Inr coll \<and> fst (sgx_quote_read bs) = Inr q \<and>
        attested (crates_of H) (unix_seconds (system_time now)) coll q
          (mrenclave (report_body q)) 0 standing)"
proof -
  have "(case verify_remote_attestation (crates_of H) (system_time now) coll q m 0 of
            Some (Inr (standing, _)) \<Rightarrow> Accept standing
          | Some (Inl e) \<Rightarrow> Reject (category e) (detail e)
          | None \<Rightarrow> Panic msg) = Accept standing \<longleftrightarrow>
      (\<exists>rb. verify_remote_attestation (crates_of H) (system_time now) coll q m 0 =
         Some (Inr (standing, rb)))" for coll q m msg
    by (auto split: option.splits sum.splits)
  then show ?thesis
    by (auto simp: run_dcap_def own_mrenclave Let_def verify_ok split: sum.splits)
qed

lemma run_dcap_no_panic: "run_dcap H bs json now \<noteq> Panic msg"
proof -
  have "(case verify_remote_attestation C t coll q m 0 of
            Some (Inr (standing, _)) \<Rightarrow> Accept standing
          | Some (Inl e) \<Rightarrow> Reject (category e) (detail e)
          | None \<Rightarrow> Panic p) \<noteq> Panic msg" for C :: "('a, 'b) crates" and t coll q m p
    using verify_never_panics [of C t coll q m 0] by (auto split: option.splits sum.splits)
  then show ?thesis by (auto simp: run_dcap_def Let_def split: sum.splits)
qed

lemma mrenclave_gate_passes:
  assumes "verify_remote_attestation C t coll q (mrenclave (report_body q)) m = Some (Inl e)"
  shows "category e \<noteq> MrenclaveMismatch"
proof
  assume "category e = MrenclaveMismatch"
  then have as: "map_option (rejects_as MrenclaveMismatch)
      (verify_remote_attestation C t coll q (mrenclave (report_body q)) m) = Some True"
    by (simp add: assms rejects_as_basic)
  have no: "\<not> rejects_as MrenclaveMismatch (check_qe_vendor C q)"
    "\<not> rejects_as MrenclaveMismatch (check_mrenclave C q (mrenclave (report_body q)))"
    "\<not> rejects_as MrenclaveMismatch (check_document_formats coll)"
    "\<not> rejects_as MrenclaveMismatch (load_chains C coll q)"
    "\<not> rejects_as MrenclaveMismatch (for_each_res (\<lambda>c. chain_validate C c now) chs)"
    "\<not> rejects_as MrenclaveMismatch (require_tcb_signing_leaf c d)"
    "\<not> rejects_as MrenclaveMismatch (check_crl_scope ch)" for now chs c d ch
    by (simp add: check_mrenclave_def rejects_as_basic |
        (rule not_rejects_as [where cs = "- {MrenclaveMismatch}"]; (intro rejects_intros; simp)?;
         simp))+
  have "\<not> rejects_as MrenclaveMismatch
      (verify_chains C now coll q (mrenclave (report_body q)))" for now
    by (auto simp: verify_chains_unfold rejects_as_simps no)
  moreover have "\<not> rejects_as MrenclaveMismatch (verify_evidence C now coll q m k ch)" for now k ch
    by (rule not_rejects_as [OF verify_evidence_rejects]) (simp add: evidence_categories_def)
  ultimately show False
    using as by (auto simp: verify_remote_attestation_unfold rejects_as_def Let_def
        split: sum.splits option.splits)
qed

lemma run_dcap_reject_cases:
  assumes "run_dcap H bs json now = Reject c d"
  obtains "c = CollateralParse" and "\<exists>e. parse_collateral H json = Inl e"
  | e where "fst (sgx_quote_read bs) = Inl e" and "c = category e"
  | coll q e where "parse_collateral H json = Inr coll" and "fst (sgx_quote_read bs) = Inr q"
      and "verify_remote_attestation (crates_of H) (system_time now) coll q
             (mrenclave (report_body q)) 0 = Some (Inl e)"
      and "c = category e" and "d = detail e"
proof (cases "parse_collateral H json")
  case (Inl e)
  then show ?thesis using assms that(1) by (auto simp: run_dcap_def)
next
  case coll: (Inr coll)
  show ?thesis
  proof (cases "fst (sgx_quote_read bs)")
    case (Inl e)
    then show ?thesis using assms coll that(2) by (auto simp: run_dcap_def)
  next
    case (Inr q)
    then have "run_dcap H bs json now =
        (case verify_remote_attestation (crates_of H) (system_time now) coll q
               (mrenclave (report_body q)) 0 of
          Some (Inr (standing, _)) \<Rightarrow> Accept standing
        | Some (Inl e) \<Rightarrow> Reject (category e) (detail e)
        | None \<Rightarrow> Panic (case last_panic H of
              Some msg \<Rightarrow> msg | None \<Rightarrow> ''panic (no message captured)''))"
      using coll own_mrenclave [OF Inr] by (simp add: run_dcap_def Let_def)
    then show ?thesis
      using assms coll Inr that(3) by (auto split: option.splits sum.splits)
  qed
qed

lemma sgx_quote_read_rejects: "fst (sgx_quote_read bs) = Inl e \<Longrightarrow> category e = QuoteParse"
  using read_quote_rejects [of bs]
  by (auto simp: sgx_quote_read_def rejects_within_def split: sum.splits)

lemma run_dcap_reject_categories:
  assumes "run_dcap H bs json now = Reject c d"
  shows "c \<noteq> MrenclaveMismatch \<and> c \<noteq> TcbStandingRejected"
  using assms
proof (cases rule: run_dcap_reject_cases)
  case 1
  then show ?thesis by simp
next
  case (2 e)
  then show ?thesis by (simp add: sgx_quote_read_rejects)
next
  case (3 coll q e)
  then show ?thesis
    using mrenclave_gate_passes [OF 3(3)] verify_rejects [OF 3(3)]
    by (auto simp: rejects_within_def chain_categories_def evidence_categories_def)
qed

section \<open>The format gate under the harness\<close>

definition has_format_marker :: "string \<Rightarrow> bool" where
  "has_format_marker d \<longleftrightarrow> list_ex (str_contains d) FORMAT_GATE_MARKERS"

lemma has_format_markerI: "m \<in> set FORMAT_GATE_MARKERS \<Longrightarrow> has_format_marker (xs @ m @ ys)"
  by (auto simp: has_format_marker_def list_ex_iff intro: str_contains_middle)

lemma format_details_marked:
  "has_format_marker (collateral_version_detail v)"
  "has_format_marker (tcb_version_detail v)"
  "has_format_marker (qe_version_detail v)"
  "has_format_marker (tcb_type_detail v)"
proof -
  show "has_format_marker (collateral_version_detail v)"
    using has_format_markerI [of "''only version 3 is supported''"
        "''collateral is version '' @ dec_word v @ '', ''" "[]"]
    by (simp add: collateral_version_detail_def FORMAT_GATE_MARKERS_def)
  show "has_format_marker (tcb_version_detail v)"
    using has_format_markerI [of "''only version 3 is supported''"
        "''tcbInfo is version '' @ dec_word v @ '', ''" "[]"]
    by (simp add: tcb_version_detail_def FORMAT_GATE_MARKERS_def)
  show "has_format_marker (qe_version_detail v)"
    using has_format_markerI [of "''only version 2 is supported''"
        "''enclaveIdentity is version '' @ dec_word v @ '', ''" "[]"]
    by (simp add: qe_version_detail_def FORMAT_GATE_MARKERS_def)
  show "has_format_marker (tcb_type_detail v)"
    using has_format_markerI [of "''tcbType''" "''tcbInfo declares ''"
        "'' '' @ dec_word v @ ''; only type 0 (the component-wise SVN comparison) is supported''"]
    by (simp add: tcb_type_detail_def FORMAT_GATE_MARKERS_def)
qed

lemma check_document_formats_marked:
  "check_document_formats coll = Inl e \<Longrightarrow>
     category e = CollateralParse \<and> has_format_marker (detail e)"
  by (auto simp: check_document_formats_def format_details_marked Let_def split: if_splits)

section \<open>The verdict of a run\<close>

definition tally_of :: "bucket list \<Rightarrow> tally" where
  "tally_of bs = fold tally_add bs tally_default"

definition tally_total :: "tally \<Rightarrow> nat" where
  "tally_total t =
     t_agree_accept t + t_agree_reject t + t_known_delta t + t_unexplained_safe t +
     t_dangerous t + t_dangerous_known t + t_standing_mismatch t + t_dcap_panic t"

lemma tally_total_add: "tally_total (tally_add b t) = tally_total t + 1"
  by (cases b) (simp_all add: tally_total_def)

lemma tally_add_fields:
  "0 < t_dcap_panic (tally_add b t) \<longleftrightarrow> b = DcapPanic \<or> 0 < t_dcap_panic t"
  "0 < t_standing_mismatch (tally_add b t) \<longleftrightarrow> b = StandingMismatch \<or> 0 < t_standing_mismatch t"
  "0 < t_dangerous (tally_add b t) \<longleftrightarrow> (\<exists>kind. b = Dangerous kind) \<or> 0 < t_dangerous t"
  "t_vanished (tally_add b t) = t_vanished t"
  "t_dangerous_known (tally_add b t) = t_dangerous_known t"
  by (cases b; simp)+

lemma fold_tally_fields:
  "0 < t_dcap_panic (fold tally_add bs t) \<longleftrightarrow> DcapPanic \<in> set bs \<or> 0 < t_dcap_panic t"
  "0 < t_standing_mismatch (fold tally_add bs t) \<longleftrightarrow>
     StandingMismatch \<in> set bs \<or> 0 < t_standing_mismatch t"
  "0 < t_dangerous (fold tally_add bs t) \<longleftrightarrow>
     (\<exists>kind. Dangerous kind \<in> set bs) \<or> 0 < t_dangerous t"
  "t_vanished (fold tally_add bs t) = t_vanished t"
  by (induction bs arbitrary: t) (auto simp: tally_add_fields)

lemma exit_code_cases:
  "exit_code t = EXIT_FAIL \<longleftrightarrow> 0 < t_dcap_panic t \<or> 0 < t_standing_mismatch t"
  "exit_code t = EXIT_REVIEW \<longleftrightarrow>
     \<not> (0 < t_dcap_panic t \<or> 0 < t_standing_mismatch t) \<and>
     (0 < t_dangerous t \<or> 0 < t_vanished t)"
  "exit_code t = EXIT_CLEAN \<longleftrightarrow>
     t_dcap_panic t = 0 \<and> t_standing_mismatch t = 0 \<and> t_dangerous t = 0 \<and> t_vanished t = 0"
  by (auto simp: exit_code_def EXIT_CLEAN_def EXIT_REVIEW_def EXIT_FAIL_def)

section \<open>Properties\<close>

text \<open>The verification time handed to the verifier is the one the case names: converting a 64-bit
  unix time to a \<open>SystemTime\<close> and back gives it unchanged, except that the least value is off by
  one second.\<close>

theorem unix_time_round_trip:
  assumes "I64_MIN \<le> t" and "t \<le> I64_MAX"
  shows "unix_seconds (system_time t) = (if t = I64_MIN then I64_MIN + 1 else t)"
  using assms
  by (auto simp: unix_seconds_def system_time_def i64_from_secs_def I64_MIN_def I64_MAX_def)

text \<open>C28. Under the harness the verifier accepts a case iff the collateral and the quote parse and the
  quote is attested for its own measurement with no floor on the evaluation round.\<close>

theorem harness_accepts_iff:
  "run_dcap H bs json now = Accept standing \<longleftrightarrow>
     (\<exists>coll q. parse_collateral H json = Inr coll \<and> fst (sgx_quote_read bs) = Inr q \<and>
        attested (crates_of H) (unix_seconds (system_time now)) coll q
          (mrenclave (report_body q)) 0 standing)"
  by (rule run_dcap_accept_iff)

text \<open>Under the harness the measurement gate and the policy never fire and the verifier does not
  panic: a run is an acceptance or a rejection of another category.\<close>

theorem harness_outcomes:
  "case run_dcap H bs json now of
     Accept _ \<Rightarrow> True
   | Reject c _ \<Rightarrow> c \<noteq> MrenclaveMismatch \<and> c \<noteq> TcbStandingRejected
   | Panic _ \<Rightarrow> False"
  using run_dcap_no_panic [of H bs json now] run_dcap_reject_categories [of H bs json now]
  by (auto split: dcap_outcome.splits)

text \<open>C27. Every pair of outcomes gets a bucket, and it is a dangerous one iff the verifier accepts
  while the QVL does not back it with an accepting verdict on unexpired collateral.\<close>

theorem classify_dangerous_iff:
  "\<exists>b. classify H dcap qvl = Some b \<and>
     ((\<exists>kind. b = Dangerous kind) \<longleftrightarrow> (\<exists>standing. dcap = Accept standing) \<and> \<not> qvl_backs H qvl)"
  using classify_total [of H dcap qvl] classify_dangerous [of H dcap qvl] by auto

text \<open>Both verifiers are recorded as accepting alike iff the verifier accepts and the QVL's
  unexpired verdict is the one for the same standing.\<close>

theorem classify_agree_accept_iff:
  "classify H dcap qvl = Some AgreeAccept \<longleftrightarrow>
     (\<exists>standing result. dcap = Accept standing \<and> qvl = Verdict 0 result \<and>
        standing_matches H result standing)"
  by (rule classify_agree_accept)

text \<open>A rejection by the format gate is recognised as such: whenever the QVL accepts, the pair is a
  known format-gate delta.\<close>

theorem format_gate_is_known_delta:
  assumes "check_document_formats coll = Inl e" and "qvl = Verdict exp_status result"
    and "qvl_accepts H result"
  shows "classify H (Reject (category e) (detail e)) qvl = Some (KnownDelta ''format-gate'')"
  using check_document_formats_marked [OF assms(1)] assms(2,3)
  by (simp add: classify_def qvl_classify_def classify_stricter_def has_format_marker_def)

end
