(* ===== verification/Differ_Verdict.thy ===== *)
theory Differ_Verdict
  imports Differ_Pipeline
begin

text \<open>
  The verdict of a run against an allowlist. Both commands of the harness count a record either
  as known (a dangerous record the allowlist names) or by its bucket, collect the reproduced
  keys, and add the allowlisted keys of the run that were not reproduced. The locale states the
  contract for any run over items with a bucket and a known flag; the sweep and the fixture run
  interpret it.
\<close>

definition tally_record :: "bool \<Rightarrow> bucket \<Rightarrow> tally \<Rightarrow> tally" where
  "tally_record known b t =
     (if known then t\<lparr>t_dangerous_known := t_dangerous_known t + 1\<rparr> else tally_add b t)"

lemma tally_record_fields:
  "0 < t_dcap_panic (tally_record known b t) \<longleftrightarrow> (\<not> known \<and> b = DcapPanic) \<or> 0 < t_dcap_panic t"
  "0 < t_standing_mismatch (tally_record known b t) \<longleftrightarrow>
     (\<not> known \<and> b = StandingMismatch) \<or> 0 < t_standing_mismatch t"
  "0 < t_dangerous (tally_record known b t) \<longleftrightarrow>
     (\<not> known \<and> (\<exists>kind. b = Dangerous kind)) \<or> 0 < t_dangerous t"
  "t_vanished (tally_record known b t) = t_vanished t"
  "tally_total (tally_record known b t) = tally_total t + 1"
  by (simp_all add: tally_record_def tally_add_fields tally_total_add)
    (simp_all add: tally_total_def)

definition run_tally :: "('i \<Rightarrow> bucket) \<Rightarrow> ('i \<Rightarrow> bool) \<Rightarrow> 'i list \<Rightarrow> tally \<Rightarrow> tally" where
  "run_tally bucket_of known is t = fold (\<lambda>i. tally_record (known i) (bucket_of i)) is t"

locale allowlisted_run =
  fixes bucket_of :: "'i \<Rightarrow> bucket" and known :: "'i \<Rightarrow> bool"
  assumes known_dangerous: "known i \<Longrightarrow> \<exists>kind. bucket_of i = Dangerous kind"
begin

lemma run_tally_fields:
  "0 < t_dcap_panic (run_tally bucket_of known is t) \<longleftrightarrow>
     (\<exists>i\<in>set is. bucket_of i = DcapPanic) \<or> 0 < t_dcap_panic t"
  "0 < t_standing_mismatch (run_tally bucket_of known is t) \<longleftrightarrow>
     (\<exists>i\<in>set is. bucket_of i = StandingMismatch) \<or> 0 < t_standing_mismatch t"
  "0 < t_dangerous (run_tally bucket_of known is t) \<longleftrightarrow>
     (\<exists>i\<in>set is. \<not> known i \<and> (\<exists>kind. bucket_of i = Dangerous kind)) \<or> 0 < t_dangerous t"
  "t_vanished (run_tally bucket_of known is t) = t_vanished t"
proof -
  have bad: "known i \<Longrightarrow> bucket_of i \<noteq> DcapPanic \<and> bucket_of i \<noteq> StandingMismatch" for i
    using known_dangerous [of i] by auto
  show "0 < t_dcap_panic (run_tally bucket_of known is t) \<longleftrightarrow>
      (\<exists>i\<in>set is. bucket_of i = DcapPanic) \<or> 0 < t_dcap_panic t"
    "0 < t_standing_mismatch (run_tally bucket_of known is t) \<longleftrightarrow>
      (\<exists>i\<in>set is. bucket_of i = StandingMismatch) \<or> 0 < t_standing_mismatch t"
    using bad
    by (induction "is" arbitrary: t) (auto simp: run_tally_def tally_record_fields)
  show "0 < t_dangerous (run_tally bucket_of known is t) \<longleftrightarrow>
      (\<exists>i\<in>set is. \<not> known i \<and> (\<exists>kind. bucket_of i = Dangerous kind)) \<or> 0 < t_dangerous t"
    "t_vanished (run_tally bucket_of known is t) = t_vanished t"
    by (induction "is" arbitrary: t) (auto simp: run_tally_def tally_record_fields)
qed

lemma run_tally_total: "tally_total (run_tally bucket_of known is t) = tally_total t + length is"
  by (induction "is" arbitrary: t) (auto simp: run_tally_def tally_record_fields)

lemma run_exit_code:
  assumes "t = run_tally bucket_of known is tally_default" and "v = t\<lparr>t_vanished := n\<rparr>"
  shows "exit_code v = EXIT_FAIL \<longleftrightarrow>
      (\<exists>i\<in>set is. bucket_of i = DcapPanic \<or> bucket_of i = StandingMismatch)"
    and "exit_code v = EXIT_CLEAN \<longleftrightarrow>
      (\<forall>i\<in>set is. bucket_of i \<noteq> DcapPanic \<and> bucket_of i \<noteq> StandingMismatch \<and>
         ((\<exists>kind. bucket_of i = Dangerous kind) \<longrightarrow> known i)) \<and> n = 0"
  using run_tally_fields [of "is" tally_default]
  by (auto simp: exit_code_cases assms tally_default_def)

end

end
