(* ===== verification/Differ_Rng.thy ===== *)
theory Differ_Rng
  imports Prelude
begin

text \<open>
  \<^verbatim>\<open>dcap-differ/src/rng.rs\<close>: the SplitMix64 generator that drives the sweep. A draw returns the
  value and the advanced state. \<open>below\<close> takes a remainder, so it panics (\<open>None\<close>) for a bound of
  zero.
\<close>

definition GAMMA :: u64 where "GAMMA = 0x9E3779B97F4A7C15"

datatype split_mix64 = SplitMix64 (state: u64)

definition rng_new :: "u64 \<Rightarrow> split_mix64" where
  "rng_new seed = SplitMix64 seed"

definition mix :: "u64 \<Rightarrow> u64" where
  "mix z0 =
     (let z = (z0 XOR drop_bit 30 z0) * 0xBF58476D1CE4E5B9;
          z = (z XOR drop_bit 27 z) * 0x94D049BB133111EB in
      z XOR drop_bit 31 z)"

definition rng_next :: "split_mix64 \<Rightarrow> u64 \<times> split_mix64" where
  "rng_next g = (let s = state g + GAMMA in (mix s, SplitMix64 s))"

definition rng_below :: "u64 \<Rightarrow> split_mix64 \<Rightarrow> (u64 \<times> split_mix64) option" where
  "rng_below n g =
     (if n = 0 then None else (let (v, g') = rng_next g in Some (v mod n, g')))"

text \<open>The seed of iteration \<open>i\<close> in \<open>sweep::run\<close>.\<close>

definition iteration_rng :: "u64 \<Rightarrow> u64 \<Rightarrow> split_mix64" where
  "iteration_rng seed i = rng_new (seed XOR (i * GAMMA))"

section \<open>The finaliser loses nothing\<close>

lemma xor_zeroD: "a XOR b = 0 \<Longrightarrow> a = (b :: u64)"
  by (auto simp: bit_eq_iff bit_xor_iff)

lemma drop_bit_fixpoint:
  assumes "d = drop_bit k d" and "0 < k"
  shows "d = (0 :: u64)"
proof -
  have "unat (drop_bit k d) = drop_bit k (take_bit 64 (unat d))"
    by (simp add: unsigned_drop_bit_eq)
  also have "take_bit 64 (unat d) = unat d"
    using unsigned_less [of d, where ?'a = nat] by (simp add: take_bit_nat_eq_self)
  finally have "unat d = unat d div 2 ^ k"
    using assms(1) by (simp add: drop_bit_eq_div)
  moreover have "unat d div 2 ^ k < unat d" if "unat d \<noteq> 0"
    using that assms(2) one_less_power [of "2 :: nat" k] by (intro div_less_dividend) auto
  ultimately have "unat d = 0" by linarith
  then show ?thesis by (simp only: unat_eq_0)
qed

lemma xorshift_inj:
  assumes "0 < k"
  shows "inj (\<lambda>z :: u64. z XOR drop_bit k z)"
proof (rule injI)
  fix z w :: u64
  assume eq: "z XOR drop_bit k z = w XOR drop_bit k w"
  have "(z XOR w) XOR drop_bit k (z XOR w) = (z XOR drop_bit k z) XOR (w XOR drop_bit k w)"
    by (simp add: drop_bit_xor ac_simps)
  also have "\<dots> = 0" by (simp add: eq)
  finally have "z XOR w = drop_bit k (z XOR w)" by (simp only: xor_zeroD)
  then have "z XOR w = 0" using assms by (rule drop_bit_fixpoint)
  then show "z = w" by (rule xor_zeroD)
qed

lemma mult_inj:
  assumes "c * c' = (1 :: u64)"
  shows "inj (\<lambda>z. z * c)"
proof (rule injI)
  fix z w :: u64
  assume "z * c = w * c"
  then have "z * (c * c') = w * (c * c')" by (simp only: mult.assoc [symmetric])
  then show "z = w" using assms by simp
qed

lemma mix_eq:
  "mix = (\<lambda>z. z XOR drop_bit 31 z) \<circ> (\<lambda>z. z * 0x94D049BB133111EB) \<circ>
     (\<lambda>z. z XOR drop_bit 27 z) \<circ> (\<lambda>z. z * 0xBF58476D1CE4E5B9) \<circ> (\<lambda>z. z XOR drop_bit 30 z)"
  by (rule ext) (simp add: mix_def Let_def)

lemma mix_inj: "inj mix"
  unfolding mix_eq
  by (intro inj_compose xorshift_inj mult_inj [of _ "0x96DE1B173F119089"]
      mult_inj [of _ "0x319642B2D24D8EC3"]) simp_all

lemma GAMMA_inj: "inj (\<lambda>i. i * GAMMA)"
  by (rule mult_inj [of _ "0xF1DE83E19937733D"]) (simp add: GAMMA_def)

section \<open>Draws\<close>

fun draws :: "nat \<Rightarrow> split_mix64 \<Rightarrow> u64 list" where
  "draws 0 g = []"
| "draws (Suc n) g = (let (v, g') = rng_next g in v # draws n g')"

lemma draws_closed:
  "draws n (SplitMix64 s) = map (\<lambda>k. mix (s + of_nat (Suc k) * GAMMA)) [0..<n]"
proof (induction n arbitrary: s)
  case 0
  then show ?case by simp
next
  case (Suc n)
  have shift: "s + GAMMA + of_nat (Suc k) * GAMMA = s + of_nat (Suc (Suc k)) * GAMMA" for k
    by (simp add: algebra_simps)
  have "[0..<Suc n] = 0 # map Suc [0..<n]"
    by (simp only: upt_conv_Cons map_Suc_upt zero_less_Suc)
  then have "map (\<lambda>k. mix (s + of_nat (Suc k) * GAMMA)) [0..<Suc n] =
      mix (s + GAMMA) # map (\<lambda>k. mix (s + of_nat (Suc (Suc k)) * GAMMA)) [0..<n]"
    by (simp only: list.map map_map comp_def of_nat_Suc semiring_1_class.of_nat_0 add_0_right mult_1)
  also have "\<dots> = mix (s + GAMMA) # draws n (SplitMix64 (s + GAMMA))"
    by (simp only: Suc.IH shift)
  finally show ?case by (simp only: draws.simps rng_next_def Let_def split_mix64.sel prod.case)
qed

lemma of_nat_u64_inj: "i < 2 ^ 64 \<Longrightarrow> j < 2 ^ 64 \<Longrightarrow> (of_nat i :: u64) = of_nat j \<Longrightarrow> i = j"
  using word_of_nat_eq_iff [where ?'a = 64, of i j] by (simp add: take_bit_nat_eq_self)

lemma draws_distinct_aux: "n \<le> 2 ^ 64 - 1 \<Longrightarrow> distinct (draws n (SplitMix64 s))"
  unfolding draws_closed distinct_map
proof (intro conjI inj_onI)
  fix i j
  assume n: "n \<le> 2 ^ 64 - 1" "i \<in> set [0..<n]" "j \<in> set [0..<n]"
    and eq: "mix (s + of_nat (Suc i) * GAMMA) = mix (s + of_nat (Suc j) * GAMMA)"
  have "s + of_nat (Suc i) * GAMMA = s + of_nat (Suc j) * GAMMA"
    using injD [OF mix_inj eq] .
  then have "of_nat (Suc i) * GAMMA = of_nat (Suc j) * GAMMA" by simp
  then have "(of_nat (Suc i) :: u64) = of_nat (Suc j)" using injD [OF GAMMA_inj] by blast
  then show "i = j" using of_nat_u64_inj [of "Suc i" "Suc j"] n by simp
qed simp

lemma rng_below_Some: "rng_below n g = Some (v, g') \<Longrightarrow> v < n"
  by (auto simp: rng_below_def word_mod_less_divisor word_gt_0 split: if_splits prod.splits)

lemma rng_below_None: "rng_below n g = None \<longleftrightarrow> n = 0"
  by (simp add: rng_below_def split: prod.splits)

section \<open>Properties\<close>

text \<open>The generator does not repeat itself within its period: any run of fewer than \<open>2^64\<close> draws,
  from any seed, returns pairwise different values.\<close>

theorem draws_do_not_repeat:
  assumes "n \<le> 2 ^ 64 - 1"
  shows "distinct (draws n (rng_new seed))"
  using draws_distinct_aux [OF assms] by (simp add: rng_new_def)

text \<open>Different iterations of a sweep start from different generator states.\<close>

theorem iterations_start_differently:
  "iteration_rng seed i = iteration_rng seed j \<longleftrightarrow> i = j"
proof -
  have "a = b" if "seed XOR a = seed XOR b" for a b
  proof -
    have "a XOR b = (seed XOR a) XOR (seed XOR b)" by (simp add: ac_simps)
    then have "a XOR b = 0" using that by simp
    then show ?thesis by (rule xor_zeroD)
  qed
  then show ?thesis
    using injD [OF GAMMA_inj, of i j] by (auto simp: iteration_rng_def rng_new_def)
qed

end
