(* ===== verification/Differ_Sweep.thy ===== *)
theory Differ_Sweep
  imports Differ_Verdict Differ_Rng
begin

text \<open>
  \<^verbatim>\<open>dcap-differ/src/sweep.rs\<close>: the mutation sweep. Every mutator threads the generator and
  returns \<open>None\<close> where the code panics (a remainder by zero, an index out of range, an
  \<open>unreachable!\<close> arm). Indices and lengths (\<open>usize\<close>) are naturals; the subtractions the code
  makes on them are guarded, so a wrapped difference would show as \<open>None\<close>. The harness is built
  in release mode, so the sum of times wraps in \<open>i64\<close>.

  Reading base cases is in \<open>Differ_Cli\<close>; the lines and files a run writes are in \<open>Differ_Report\<close>.
\<close>

section \<open>Mutating bytes\<close>

record base_case =
  bc_name :: string
  bc_quote :: bytes
  bc_collateral :: bytes
  bc_current_time :: int

record mutated_case =
  mc_quote :: bytes
  mc_collateral :: bytes
  mc_current_time :: int
  mc_desc :: string

definition QUOTE_CERT_TAIL_OFFSET :: nat where "QUOTE_CERT_TAIL_OFFSET = 436"

definition THREE_YEARS_SECS :: nat where "THREE_YEARS_SECS = 3 * 365 * 24 * 3600"

text \<open>\<open>rng.below(n as u64) as usize\<close>.\<close>

definition below :: "nat \<Rightarrow> split_mix64 \<Rightarrow> (nat \<times> split_mix64) option" where
  "below n g = map_option (\<lambda>(v, g'). (unat v, g')) (rng_below (of_nat n) g)"

definition xor_bit :: "bytes \<Rightarrow> nat \<Rightarrow> bytes option" where
  "xor_bit data b =
     (if b div 8 < length data
      then Some (data[b div 8 := data ! (b div 8) XOR push_bit (b mod 8) 1])
      else None)"

text \<open>The loop of \<open>flip_random_bits\<close>: data, generator, positions so far.\<close>

fun flip_loop ::
  "nat \<Rightarrow> nat \<Rightarrow> nat \<Rightarrow> bytes \<Rightarrow> split_mix64 \<Rightarrow> nat list \<Rightarrow>
     (bytes \<times> split_mix64 \<times> nat list) option" where
  "flip_loop 0 bit_lo width data g positions = Some (data, g, positions)"
| "flip_loop (Suc k) bit_lo width data g positions =
     Option.bind (below width g) (\<lambda>(r, g).
     Option.bind (xor_bit data (bit_lo + r)) (\<lambda>data.
     flip_loop k bit_lo width data g (positions @ [bit_lo + r])))"

definition flip_random_bits ::
  "bytes \<Rightarrow> split_mix64 \<Rightarrow> nat \<Rightarrow> nat \<Rightarrow> (bytes \<times> split_mix64 \<times> string) option" where
  "flip_random_bits data g byte_lo byte_hi =
     Option.bind (below 8 g) (\<lambda>(r, g).
     let count = 1 + r;
         bit_lo = byte_lo * 8;
         bit_hi = byte_hi * 8 in
     if bit_hi < bit_lo then None
     else
     Option.bind (flip_loop count bit_lo (bit_hi - bit_lo) data g []) (\<lambda>(data, g, positions).
     Some (data, g, ''flip bits '' @ debug_list dec_nat positions)))"

definition truncate_bytes :: "bytes \<Rightarrow> split_mix64 \<Rightarrow> (bytes \<times> split_mix64 \<times> string) option" where
  "truncate_bytes data g =
     Option.bind (below (length data) g) (\<lambda>(new_len, g).
     Some (take new_len data, g, ''truncate to '' @ dec_nat new_len))"

text \<open>The slots from \<open>offset\<close> on, overwritten by the low bytes of draws.\<close>

fun overwrite_loop :: "nat \<Rightarrow> nat \<Rightarrow> bytes \<Rightarrow> split_mix64 \<Rightarrow> bytes \<times> split_mix64" where
  "overwrite_loop 0 slot data g = (data, g)"
| "overwrite_loop (Suc k) slot data g =
     (if slot < length data
      then (let (v, g') = rng_next g in
            overwrite_loop k (slot + 1) (data[slot := ucast v]) g')
      else (data, g))"

definition overwrite_region ::
  "bytes \<Rightarrow> split_mix64 \<Rightarrow> (bytes \<times> split_mix64 \<times> string) option" where
  "overwrite_region data g =
     Option.bind (below 32 g) (\<lambda>(r, g).
     let count = min (1 + r) (length data) in
     Option.bind (below (length data - count + 1) g) (\<lambda>(offset, g).
     let (data, g) = overwrite_loop count offset data g in
     Some (data, g, ''overwrite '' @ dec_nat count @ '' bytes at '' @ dec_nat offset)))"

section \<open>The tcbLevels array\<close>

definition quote_byte :: byte where "quote_byte = 0x22"

definition backslash_byte :: byte where "backslash_byte = 0x5C"

definition open_bracket :: byte where "open_bracket = 0x5B"

definition close_bracket :: byte where "close_bracket = 0x5D"

definition tcb_levels_needle :: bytes where
  "tcb_levels_needle = [quote_byte] @ str_bytes ''tcbLevels'' @ [quote_byte]"

text \<open>\<open>json.windows(n).position(|w| w == needle)\<close>.\<close>

definition window_position :: "bytes \<Rightarrow> bytes \<Rightarrow> nat option" where
  "window_position needle json =
     List.find (\<lambda>i. take (length needle) (drop i json) = needle)
       [0..<Suc (length json) - length needle]"

text \<open>The first loop: from index \<open>i\<close>, with the bytes from there on, to the opening bracket.\<close>

fun skip_to_open :: "bytes \<Rightarrow> nat \<Rightarrow> nat" where
  "skip_to_open [] i = i"
| "skip_to_open (b # bs) i = (if b = open_bracket then i else skip_to_open bs (i + 1))"

text \<open>
  The second loop, on the bytes from index \<open>i\<close> on. \<open>Some (Some j)\<close> is the index behind the
  matching bracket, \<open>Some None\<close> the end of the input, \<open>None\<close> an underflow of the depth.
\<close>

fun match_brackets :: "bytes \<Rightarrow> nat \<Rightarrow> nat \<Rightarrow> bool \<Rightarrow> bool \<Rightarrow> nat option option" where
  "match_brackets [] i depth in_string escaped = Some None"
| "match_brackets (b # bs) i depth in_string escaped =
     (if in_string then
        (if escaped then match_brackets bs (i + 1) depth True False
         else if b = backslash_byte then match_brackets bs (i + 1) depth True True
         else if b = quote_byte then match_brackets bs (i + 1) depth False escaped
         else match_brackets bs (i + 1) depth True escaped)
      else if b = quote_byte then match_brackets bs (i + 1) depth True escaped
      else if b = open_bracket then match_brackets bs (i + 1) (depth + 1) False escaped
      else if b = close_bracket then
        (if depth = 0 then None
         else if depth - 1 = 0 then Some (Some (i + 1))
         else match_brackets bs (i + 1) (depth - 1) False escaped)
      else match_brackets bs (i + 1) depth False escaped)"

definition tcb_levels_range :: "bytes \<Rightarrow> (nat \<times> nat) option option" where
  "tcb_levels_range json =
     (case window_position tcb_levels_needle json of
        None \<Rightarrow> Some None
      | Some start \<Rightarrow>
          let i = start + length tcb_levels_needle;
              opn = skip_to_open (drop i json) i in
          map_option (map_option (\<lambda>j. (opn, j)))
            (match_brackets (drop opn json) opn 0 False False))"

section \<open>Strategies\<close>

definition with_prefix ::
  "string \<Rightarrow> (bytes \<times> split_mix64 \<times> string) option \<Rightarrow> (bytes \<times> split_mix64 \<times> string) option"
where
  "with_prefix p r = map_option (\<lambda>(data, g, desc). (data, g, p @ desc)) r"

definition mutate_quote ::
  "bytes \<Rightarrow> nat \<Rightarrow> split_mix64 \<Rightarrow> (bytes \<times> split_mix64 \<times> string) option" where
  "mutate_quote quote strategy g =
     (let len = length quote in
      if strategy = 0 then with_prefix ''quote-bitflip: '' (flip_random_bits quote g 0 len)
      else if strategy = 1 then with_prefix ''quote-'' (truncate_bytes quote g)
      else if strategy = 2 then with_prefix ''quote-'' (overwrite_region quote g)
      else if strategy = 3 then
        (let lo = min QUOTE_CERT_TAIL_OFFSET (len - 1) in
         with_prefix ''quote-cert-tail-bitflip: '' (flip_random_bits quote g lo len))
      else None)"

definition levels_prefix :: "nat \<Rightarrow> nat \<Rightarrow> string" where
  "levels_prefix lo hi =
     ''coll-tcblevels-bitflip range='' @ dec_nat lo @ ''..'' @ dec_nat hi @ '': ''"

definition mutate_collateral ::
  "bytes \<Rightarrow> nat \<Rightarrow> split_mix64 \<Rightarrow> (bytes \<times> split_mix64 \<times> string) option" where
  "mutate_collateral collateral strategy g =
     (let len = length collateral in
      if strategy = 4 then with_prefix ''coll-bitflip: '' (flip_random_bits collateral g 0 len)
      else if strategy = 5 then with_prefix ''coll-'' (truncate_bytes collateral g)
      else if strategy = 6 then
        (case tcb_levels_range collateral of
           None \<Rightarrow> None
         | Some (Some (lo, hi)) \<Rightarrow>
             with_prefix (levels_prefix lo hi) (flip_random_bits collateral g lo hi)
         | Some None \<Rightarrow>
             with_prefix ''coll-bitflip (no tcbLevels found): ''
               (flip_random_bits collateral g 0 len))
      else None)"

definition i64_wrap :: "int \<Rightarrow> int" where
  "i64_wrap x = (x + 2 ^ 63) mod 2 ^ 64 - 2 ^ 63"

definition jitter_desc :: "int \<Rightarrow> int \<Rightarrow> string" where
  "jitter_desc delta t = ''time-jitter delta='' @ dec_int delta @ ''s -> '' @ dec_int t"

definition mutate ::
  "base_case \<Rightarrow> nat \<Rightarrow> split_mix64 \<Rightarrow> (mutated_case \<times> split_mix64) option" where
  "mutate base strategy g =
     (let quote = bc_quote base; collateral = bc_collateral base; t = bc_current_time base in
      if strategy \<le> 3 then
        map_option (\<lambda>(quote, g, desc).
            (\<lparr>mc_quote = quote, mc_collateral = collateral, mc_current_time = t, mc_desc = desc\<rparr>, g))
          (mutate_quote quote strategy g)
      else if strategy \<le> 6 then
        map_option (\<lambda>(collateral, g, desc).
            (\<lparr>mc_quote = quote, mc_collateral = collateral, mc_current_time = t, mc_desc = desc\<rparr>, g))
          (mutate_collateral collateral strategy g)
      else if strategy = 7 then
        Option.bind (below (2 * THREE_YEARS_SECS + 1) g) (\<lambda>(r, g).
        let delta = int r - int THREE_YEARS_SECS;
            t = i64_wrap (t + delta) in
        Some (\<lparr>mc_quote = quote, mc_collateral = collateral, mc_current_time = t,
               mc_desc = jitter_desc delta t\<rparr>, g))
      else if strategy = 8 then
        Option.bind (below 4 g) (\<lambda>(quote_strategy, g).
        Option.bind (below 3 g) (\<lambda>(r, g).
        Option.bind (mutate_quote quote quote_strategy g) (\<lambda>(quote, g, quote_desc).
        Option.bind (mutate_collateral collateral (4 + r) g) (\<lambda>(collateral, g, collateral_desc).
        Some (\<lparr>mc_quote = quote, mc_collateral = collateral, mc_current_time = t,
               mc_desc = ''combo: '' @ quote_desc @ ''; '' @ collateral_desc\<rparr>, g)))))
      else None)"

section \<open>The sweep\<close>

record sweep_opts =
  so_iters :: nat
  so_seed :: u64
  so_default_bases :: bool
  so_only_iter :: "nat option"
  so_out :: string
  so_allow_iters :: "(nat \<times> string) list"

record sweep_state =
  ss_counts :: "(nat \<times> string) \<Rightarrow> nat"
  ss_bucket_labels :: "string set"
  ss_tally :: tally
  ss_reproduced :: "nat set"

definition sweep_init :: sweep_state where
  "sweep_init =
     \<lparr>ss_counts = (\<lambda>_. 0), ss_bucket_labels = {}, ss_tally = tally_default, ss_reproduced = {}\<rparr>"

definition sweep_indices :: "sweep_opts \<Rightarrow> nat list" where
  "sweep_indices opts =
     (case so_only_iter opts of Some k \<Rightarrow> [k] | None \<Rightarrow> [0..<so_iters opts])"

definition nth_base :: "base_case list \<Rightarrow> nat \<Rightarrow> base_case option" where
  "nth_base bases i = (if i < length bases then Some (bases ! i) else None)"

definition pick_base ::
  "sweep_opts \<Rightarrow> base_case list \<Rightarrow> split_mix64 \<Rightarrow> (base_case \<times> split_mix64) option" where
  "pick_base opts bases g =
     (if so_default_bases opts then
        Option.bind (below 10 g) (\<lambda>(r, g).
        map_option (\<lambda>b. (b, g)) (nth_base bases (if r < 8 then 0 else 1)))
      else
        Option.bind (below (length bases) g) (\<lambda>(r, g).
        map_option (\<lambda>b. (b, g)) (nth_base bases r)))"

text \<open>What iteration \<open>i\<close> draws: its base case, its strategy and the mutated case.\<close>

definition iteration_draw ::
  "sweep_opts \<Rightarrow> base_case list \<Rightarrow> nat \<Rightarrow> (base_case \<times> nat \<times> mutated_case) option" where
  "iteration_draw opts bases i =
     Option.bind (pick_base opts bases (iteration_rng (so_seed opts) (of_nat i))) (\<lambda>(base, g).
     Option.bind (below 9 g) (\<lambda>(strategy, g).
     Option.bind (mutate base strategy g) (\<lambda>(c, g).
     Some (base, strategy, c))))"

definition iteration_case ::
  "sweep_opts \<Rightarrow> base_case list \<Rightarrow> nat \<Rightarrow> (nat \<times> mutated_case) option" where
  "iteration_case opts bases i = map_option snd (iteration_draw opts bases i)"

definition allowlisted :: "sweep_opts \<Rightarrow> nat \<Rightarrow> bucket \<Rightarrow> bool" where
  "allowlisted opts i b \<longleftrightarrow>
     (case b of Dangerous _ \<Rightarrow> i \<in> fst ` set (so_allow_iters opts) | _ \<Rightarrow> False)"

text \<open>Counting one record.\<close>

definition sweep_count :: "sweep_opts \<Rightarrow> nat \<Rightarrow> nat \<Rightarrow> bucket \<Rightarrow> sweep_state \<Rightarrow> sweep_state" where
  "sweep_count opts i strategy b st =
     (let known = allowlisted opts i b;
          st = (if known
                then st\<lparr>ss_tally := (ss_tally st)\<lparr>t_dangerous_known :=
                            t_dangerous_known (ss_tally st) + 1\<rparr>,
                        ss_reproduced := insert i (ss_reproduced st)\<rparr>
                else st\<lparr>ss_tally := tally_add b (ss_tally st)\<rparr>);
          label = (if known then ''known-dangerous'' else bucket_label b) in
      st\<lparr>ss_bucket_labels := insert label (ss_bucket_labels st),
         ss_counts := (ss_counts st)((strategy, label) := ss_counts st (strategy, label) + 1)\<rparr>)"

definition sweep_step ::
  "('k, 's, 'r, 'e) harness \<Rightarrow> sweep_opts \<Rightarrow> base_case list \<Rightarrow> nat \<Rightarrow> sweep_state \<Rightarrow>
     sweep_state option" where
  "sweep_step H opts bases i st =
     Option.bind (iteration_case opts bases i) (\<lambda>(strategy, c).
     Option.bind (run_case H (mc_quote c) (mc_collateral c) (mc_current_time c) DEFAULT_MARSHAL)
       (\<lambda>rec.
     Some (sweep_count opts i strategy (cr_bucket rec) st)))"

fun sweep_loop ::
  "('k, 's, 'r, 'e) harness \<Rightarrow> sweep_opts \<Rightarrow> base_case list \<Rightarrow> nat list \<Rightarrow> sweep_state \<Rightarrow>
     sweep_state option" where
  "sweep_loop H opts bases [] st = Some st"
| "sweep_loop H opts bases (i # is) st =
     Option.bind (sweep_step H opts bases i st) (sweep_loop H opts bases is)"

definition in_window :: "sweep_opts \<Rightarrow> nat \<Rightarrow> bool" where
  "in_window opts k \<longleftrightarrow> (case so_only_iter opts of Some only \<Rightarrow> k = only | None \<Rightarrow> k < so_iters opts)"

text \<open>The loop over the allowlist after the run.\<close>

fun count_vanished :: "sweep_opts \<Rightarrow> nat set \<Rightarrow> (nat \<times> string) list \<Rightarrow> tally \<Rightarrow> tally" where
  "count_vanished opts reproduced [] t = t"
| "count_vanished opts reproduced ((k, finding) # ks) t =
     count_vanished opts reproduced ks
       (if in_window opts k \<and> k \<notin> reproduced then t\<lparr>t_vanished := t_vanished t + 1\<rparr> else t)"

definition sweep_run ::
  "('k, 's, 'r, 'e) harness \<Rightarrow> sweep_opts \<Rightarrow> base_case list \<Rightarrow> (sweep_state \<times> int) option" where
  "sweep_run H opts bases =
     Option.bind (sweep_loop H opts bases (sweep_indices opts) sweep_init) (\<lambda>st.
     let t = count_vanished opts (ss_reproduced st) (so_allow_iters opts) (ss_tally st) in
     Some (st\<lparr>ss_tally := t\<rparr>, exit_code t))"

section \<open>Mutators stay in range and do not panic\<close>

lemma below_Some: "below n g = Some (v, g') \<Longrightarrow> n < 2 ^ 64 \<Longrightarrow> v < n"
proof -
  assume b: "below n g = Some (v, g')" and n: "n < 2 ^ 64"
  then obtain w where "rng_below (of_nat n) g = Some (w, g')" "v = unat w"
    by (auto simp: below_def)
  then have "v < unat (of_nat n :: u64)"
    using rng_below_Some unat_mono by blast
  then show "v < n"
    using n by (simp add: unat_of_nat)
qed

lemma below_total: "0 < n \<Longrightarrow> n < 2 ^ 64 \<Longrightarrow> \<exists>v g'. below n g = Some (v, g') \<and> v < n"
proof -
  assume n: "0 < n" "n < 2 ^ 64"
  then have "(of_nat n :: u64) \<noteq> 0"
    using of_nat_u64_inj [of n 0] by auto
  then obtain p where "below n g = Some p"
    using rng_below_None [of "of_nat n" g] by (auto simp: below_def)
  then show ?thesis using below_Some [of n g "fst p" "snd p"] n by (cases p) auto
qed

lemma xor_bit_Some:
  assumes "xor_bit data b = Some data'"
  shows "length data' = length data" and "\<And>j. j \<noteq> b div 8 \<Longrightarrow> data' ! j = data ! j"
  using assms by (auto simp: xor_bit_def split: if_splits)

lemma flip_loop_frame:
  assumes "flip_loop k bit_lo width data g ps = Some (data', g', ps')"
    and "width < 2 ^ 64"
  shows "length data' = length data \<and>
     (\<forall>j. j < bit_lo div 8 \<or> (bit_lo + width) \<le> j * 8 \<longrightarrow> data' ! j = data ! j) \<and>
     (\<exists>qs. ps' = ps @ qs \<and> length qs = k \<and> (\<forall>q\<in>set qs. bit_lo \<le> q \<and> q < bit_lo + width))"
  using assms
proof (induction k arbitrary: data g ps)
  case 0
  then show ?case by simp
next
  case (Suc k)
  from Suc.prems(1) obtain r g1 data1 where step: "below width g = Some (r, g1)"
    "xor_bit data (bit_lo + r) = Some data1"
    "flip_loop k bit_lo width data1 g1 (ps @ [bit_lo + r]) = Some (data', g', ps')"
    by (auto simp: bind_eq_Some_conv)
  have r: "r < width" using below_Some [OF step(1) Suc.prems(2)] .
  have keep: "data1 ! j = data ! j"
    if "j < bit_lo div 8 \<or> (bit_lo + width) \<le> j * 8" for j
    using xor_bit_Some(2) [OF step(2)] that r by fastforce
  from Suc.IH [OF step(3) Suc.prems(2)] obtain qs where
    rest: "length data' = length data1"
      "\<forall>j. j < bit_lo div 8 \<or> (bit_lo + width) \<le> j * 8 \<longrightarrow> data' ! j = data1 ! j"
    and qs: "ps' = (ps @ [bit_lo + r]) @ qs" "length qs = k"
      "\<forall>q\<in>set qs. bit_lo \<le> q \<and> q < bit_lo + width"
    by blast
  have "ps' = ps @ ((bit_lo + r) # qs)" and "length ((bit_lo + r) # qs) = Suc k"
    and "\<forall>q\<in>set ((bit_lo + r) # qs). bit_lo \<le> q \<and> q < bit_lo + width"
    using qs r by auto
  then show ?case
    using rest keep xor_bit_Some(1) [OF step(2)] by metis
qed

lemma flip_loop_total:
  "0 < width \<Longrightarrow> width < 2 ^ 64 \<Longrightarrow> bit_lo + width \<le> 8 * length data \<Longrightarrow>
     \<exists>r. flip_loop k bit_lo width data g ps = Some r"
proof (induction k arbitrary: data g ps)
  case 0
  then show ?case by simp
next
  case (Suc k)
  obtain r g1 where r: "below width g = Some (r, g1)" "r < width"
    using below_total Suc.prems(1,2) by blast
  then have "(bit_lo + r) div 8 < length data"
    using Suc.prems(3) by (simp add: less_mult_imp_div_less)
  then obtain data1 where data1: "xor_bit data (bit_lo + r) = Some data1"
    by (simp add: xor_bit_def)
  with Suc show ?case using r by (simp add: xor_bit_Some(1))
qed

lemma flip_random_bits_total:
  assumes "lo < hi" and "hi \<le> length data" and "8 * length data < 2 ^ 64"
  shows "\<exists>data' g' d. flip_random_bits data g lo hi = Some (data', g', d) \<and>
     length data' = length data \<and> (\<forall>j. j < lo \<or> hi \<le> j \<longrightarrow> data' ! j = data ! j)"
proof -
  obtain r g1 where r: "below 8 g = Some (r, g1)" using below_total [of 8 g] by auto
  have width: "0 < hi * 8 - lo * 8" "hi * 8 - lo * 8 < 2 ^ 64"
    "lo * 8 + (hi * 8 - lo * 8) \<le> 8 * length data" "\<not> hi * 8 < lo * 8"
    using assms by auto
  obtain data' g' ps where loop:
    "flip_loop (1 + r) (lo * 8) (hi * 8 - lo * 8) data g1 [] = Some (data', g', ps)"
    using flip_loop_total [OF width(1-3)] by (metis surj_pair)
  have "\<forall>j. j < lo \<or> hi \<le> j \<longrightarrow> data' ! j = data ! j" and "length data' = length data"
    using flip_loop_frame [OF loop width(2)] assms(1) by auto
  then show ?thesis
    using r loop width(4) by (simp add: flip_random_bits_def Let_def del: flip_loop.simps)
qed

lemma truncate_total:
  assumes "data \<noteq> []" and "length data < 2 ^ 64"
  shows "\<exists>n g' d. truncate_bytes data g = Some (take n data, g', d) \<and> n < length data"
proof -
  obtain n g' where "below (length data) g = Some (n, g')" "n < length data"
    using below_total [of "length data" g] assms by auto
  then show ?thesis by (auto simp: truncate_bytes_def)
qed

lemma overwrite_loop_frame:
  "overwrite_loop k slot data g = (data', g') \<Longrightarrow>
     length data' = length data \<and> (\<forall>j. j < slot \<or> slot + k \<le> j \<longrightarrow> data' ! j = data ! j)"
proof (induction k arbitrary: slot data g)
  case 0
  then show ?case by simp
next
  case (Suc k)
  show ?case
  proof (cases "slot < length data")
    case False
    with Suc.prems show ?thesis by simp
  next
    case True
    obtain v g1 where v: "rng_next g = (v, g1)" by (cases "rng_next g")
    with True Suc.prems have
      "overwrite_loop k (slot + 1) (data[slot := ucast v]) g1 = (data', g')" by simp
    from Suc.IH [OF this] show ?thesis by auto
  qed
qed

lemma overwrite_total:
  assumes "length data < 2 ^ 63"
  shows "\<exists>data' g' d. overwrite_region data g = Some (data', g', d) \<and>
     length data' = length data \<and> card {j. j < length data \<and> data' ! j \<noteq> data ! j} \<le> 32"
proof -
  obtain r g1 where r: "below 32 g = Some (r, g1)" "r < 32" using below_total [of 32 g] by auto
  let ?count = "min (1 + r) (length data)"
  have "length data - ?count + 1 \<le> length data + 1" by simp
  then have "0 < length data - ?count + 1" and "length data - ?count + 1 < 2 ^ 64"
    using assms by simp_all
  from below_total [OF this, of g1] obtain offset g2 where
    off: "below (length data - ?count + 1) g1 = Some (offset, g2)" by blast
  obtain data' g' where loop: "overwrite_loop ?count offset data g2 = (data', g')"
    by (cases "overwrite_loop ?count offset data g2")
  have frame: "length data' = length data"
    "\<forall>j. j < offset \<or> offset + ?count \<le> j \<longrightarrow> data' ! j = data ! j"
    using overwrite_loop_frame [OF loop] by auto
  have "{j. j < length data \<and> data' ! j \<noteq> data ! j} \<subseteq> {offset..<offset + ?count}"
    using frame(2) by (auto simp: not_le not_less)
  then have "card {j. j < length data \<and> data' ! j \<noteq> data ! j} \<le> ?count"
    using card_mono [of "{offset..<offset + ?count}"] by simp
  also have "?count \<le> 32" using r(2) by simp
  finally show ?thesis
    using r off loop frame(1) by (simp add: overwrite_region_def Let_def)
qed

section \<open>The tcbLevels range\<close>

lemma skip_to_open_bounds:
  "i \<le> skip_to_open bs i \<and> skip_to_open bs i \<le> i + length bs \<and>
     (drop (skip_to_open bs i - i) bs = [] \<or> bs ! (skip_to_open bs i - i) = open_bracket)"
proof (induction bs i rule: skip_to_open.induct)
  case (1 i)
  then show ?case by simp
next
  case (2 b bs i)
  show ?case
  proof (cases "b = open_bracket")
    case True
    then show ?thesis by simp
  next
    case False
    with 2 have ih: "i + 1 \<le> skip_to_open bs (i + 1)"
      "skip_to_open bs (i + 1) \<le> i + 1 + length bs"
      "drop (skip_to_open bs (i + 1) - (i + 1)) bs = [] \<or>
         bs ! (skip_to_open bs (i + 1) - (i + 1)) = open_bracket" by simp_all
    then obtain m where "skip_to_open bs (i + 1) = i + 1 + m" by (metis le_Suc_ex)
    with ih False show ?thesis by simp
  qed
qed

lemma match_brackets_no_underflow: "0 < depth \<Longrightarrow> match_brackets bs i depth q e \<noteq> None"
proof (induction bs arbitrary: i depth q e)
  case Nil
  then show ?case by simp
next
  case (Cons b bs)
  have "match_brackets bs (i + 1) d q' e' \<noteq> None" if "0 < d" for d q' e'
    using Cons.IH that by blast
  then show ?case using Cons.prems by (simp only: match_brackets.simps split: if_split) simp
qed

lemma match_brackets_end:
  "match_brackets bs i depth q e = Some (Some j) \<Longrightarrow>
     i < j \<and> j \<le> i + length bs \<and> bs ! (j - 1 - i) = close_bracket"
proof (induction bs arbitrary: i depth q e)
  case Nil
  then show ?case by simp
next
  case (Cons b bs)
  have "j = i + 1 \<and> b = close_bracket \<or>
      (\<exists>depth q e. match_brackets bs (i + 1) depth q e = Some (Some j))"
    using Cons.prems by (auto split: if_splits)
  then show ?case
  proof
    assume "j = i + 1 \<and> b = close_bracket"
    then show ?thesis by simp
  next
    assume "\<exists>depth q e. match_brackets bs (i + 1) depth q e = Some (Some j)"
    then have ih: "i + 1 < j" "j \<le> i + 1 + length bs" "bs ! (j - 1 - (i + 1)) = close_bracket"
      using Cons.IH by blast+
    then have "j - 1 - i = Suc (j - 1 - (i + 1))" by simp
    with ih show ?thesis by simp
  qed
qed

lemma window_position_Some:
  assumes "window_position needle json = Some p"
  shows "take (length needle) (drop p json) = needle" and "p + length needle \<le> length json"
proof -
  from assms obtain k where k: "k < Suc (length json) - length needle" "p = k"
    "take (length needle) (drop p json) = needle"
    by (auto simp: window_position_def find_Some_iff)
  then show "take (length needle) (drop p json) = needle" and "p + length needle \<le> length json"
    by auto
qed

lemma tcb_levels_range_cases:
  assumes "window_position tcb_levels_needle json = Some start"
  defines "i \<equiv> start + length tcb_levels_needle"
  defines "opn \<equiv> skip_to_open (drop i json) i"
  shows "i \<le> opn" and "opn \<le> length json" and "opn = length json \<or> json ! opn = open_bracket"
    and "match_brackets (drop opn json) opn 0 False False \<noteq> None"
proof -
  have i: "i \<le> length json" using window_position_Some(2) [OF assms(1)] by (simp add: i_def)
  have bounds: "i \<le> opn \<and> opn \<le> i + length (drop i json) \<and>
      (drop (opn - i) (drop i json) = [] \<or> drop i json ! (opn - i) = open_bracket)"
    unfolding opn_def by (rule skip_to_open_bounds)
  show "i \<le> opn" and "opn \<le> length json" using bounds i by auto
  show at: "opn = length json \<or> json ! opn = open_bracket"
    using bounds i by auto
  show "match_brackets (drop opn json) opn 0 False False \<noteq> None"
  proof (cases "drop opn json")
    case Nil
    then show ?thesis by simp
  next
    case (Cons b bs)
    then have "\<not> length json \<le> opn" using drop_all by force
    moreover have "b = json ! opn" using nth_via_drop [OF Cons] by simp
    ultimately have "opn < length json" and "b = json ! opn" by simp_all
    with at Cons show ?thesis
      by (simp add: open_bracket_def quote_byte_def match_brackets_no_underflow)
  qed
qed

lemma tcb_levels_range_total: "tcb_levels_range json \<noteq> None"
  using tcb_levels_range_cases(4)
  by (auto simp: tcb_levels_range_def Let_def split: option.splits)

lemma tcb_levels_range_bounds:
  assumes "tcb_levels_range json = Some (Some (lo, hi))"
  shows "lo < hi" and "hi \<le> length json" and "json ! lo = open_bracket"
    and "json ! (hi - 1) = close_bracket"
    and "\<exists>p. take (length tcb_levels_needle) (drop p json) = tcb_levels_needle \<and>
             p + length tcb_levels_needle \<le> lo"
proof -
  from assms obtain start where start: "window_position tcb_levels_needle json = Some start"
    by (auto simp: tcb_levels_range_def split: option.splits)
  let ?i = "start + length tcb_levels_needle"
  note cases = tcb_levels_range_cases [OF start]
  from assms start have lo: "lo = skip_to_open (drop ?i json) ?i"
    and m: "match_brackets (drop lo json) lo 0 False False = Some (Some hi)"
    by (auto simp: tcb_levels_range_def Let_def)
  note e = match_brackets_end [OF m]
  show "lo < hi" using e by simp
  show "hi \<le> length json" using e cases(2) lo by auto
  then show "json ! lo = open_bracket" using \<open>lo < hi\<close> cases(3) lo by auto
  have "drop lo json ! (hi - 1 - lo) = json ! (lo + (hi - 1 - lo))"
    using \<open>hi \<le> length json\<close> \<open>lo < hi\<close> by (intro nth_drop) simp
  moreover have "lo + (hi - 1 - lo) = hi - 1" using \<open>lo < hi\<close> by simp
  ultimately show "json ! (hi - 1) = close_bracket" using e by simp
  show "\<exists>p. take (length tcb_levels_needle) (drop p json) = tcb_levels_needle \<and>
             p + length tcb_levels_needle \<le> lo"
    using window_position_Some(1) [OF start] cases(1) lo by blast
qed

section \<open>Every iteration completes\<close>

text \<open>Buffers that fit in memory: their bit length is a \<open>usize\<close>.\<close>

definition sane_base :: "base_case \<Rightarrow> bool" where
  "sane_base b \<longleftrightarrow>
     bc_quote b \<noteq> [] \<and> 8 * length (bc_quote b) < 2 ^ 64 \<and>
     bc_collateral b \<noteq> [] \<and> 8 * length (bc_collateral b) < 2 ^ 64"

lemma flip_whole_total:
  "data \<noteq> [] \<Longrightarrow> 8 * length data < 2 ^ 64 \<Longrightarrow> \<exists>x. flip_random_bits data g 0 (length data) = Some x"
  using flip_random_bits_total [of 0 "length data" data g] by auto

lemma mutate_quote_total:
  assumes "quote \<noteq> []" and "8 * length quote < 2 ^ 64" and "s \<le> 3"
  shows "\<exists>x. mutate_quote quote s g = Some x"
proof -
  have "\<exists>x. flip_random_bits quote g (min QUOTE_CERT_TAIL_OFFSET (length quote - 1)) (length quote) =
      Some x"
  proof -
    have "min QUOTE_CERT_TAIL_OFFSET (length quote - 1) < length quote"
      using assms(1) by (simp add: min_less_iff_disj)
    from flip_random_bits_total [OF this _ assms(2), of g] show ?thesis by blast
  qed
  moreover have "\<exists>x. truncate_bytes quote g = Some x"
    using truncate_total [of quote g] assms by auto
  moreover have "\<exists>x. overwrite_region quote g = Some x"
    using overwrite_total [of quote g] assms by auto
  moreover have "s = 0 \<or> s = 1 \<or> s = 2 \<or> s = 3" using assms(3) by linarith
  ultimately show ?thesis
    using flip_whole_total [OF assms(1,2), of g]
    by (auto simp: mutate_quote_def Let_def with_prefix_def)
qed

lemma mutate_collateral_total:
  assumes "coll \<noteq> []" and "8 * length coll < 2 ^ 64" and "4 \<le> s" and "s \<le> 6"
  shows "\<exists>x. mutate_collateral coll s g = Some x"
proof -
  have "\<exists>x. truncate_bytes coll g = Some x"
    using truncate_total [of coll g] assms by auto
  moreover have "\<exists>x. flip_random_bits coll g lo hi = Some x"
    if "tcb_levels_range coll = Some (Some (lo, hi))" for lo hi
    using flip_random_bits_total [of lo hi coll g] tcb_levels_range_bounds(1,2) [OF that] assms
    by auto
  moreover have "s = 4 \<or> s = 5 \<or> s = 6" using assms(3,4) by linarith
  ultimately show ?thesis
    using flip_whole_total [OF assms(1,2), of g] tcb_levels_range_total [of coll]
    by (auto simp: mutate_collateral_def Let_def with_prefix_def split: option.splits)
qed

lemma THREE_YEARS_draw: "0 < 2 * THREE_YEARS_SECS + 1" "2 * THREE_YEARS_SECS + 1 < 2 ^ 64"
  by (simp_all add: THREE_YEARS_SECS_def)

lemma mutate_combo_total:
  assumes "sane_base b"
  shows "\<exists>x. mutate b 8 g = Some x"
proof -
  obtain qs g1 where qs: "below 4 g = Some (qs, g1)" "qs \<le> 3"
    using below_total [of 4 g] by auto
  obtain r g2 where r: "below 3 g1 = Some (r, g2)" "r \<le> 2"
    using below_total [of 3 g1] by auto
  obtain q g3 d where q: "mutate_quote (bc_quote b) qs g2 = Some (q, g3, d)"
    using mutate_quote_total [of "bc_quote b" qs g2] assms qs by (auto simp: sane_base_def)
  obtain c g4 d' where c: "mutate_collateral (bc_collateral b) (4 + r) g3 = Some (c, g4, d')"
    using mutate_collateral_total [of "bc_collateral b" "4 + r" g3] assms r
    by (auto simp: sane_base_def)
  show ?thesis using qs r q c by (simp add: mutate_def Let_def)
qed

lemma mutate_total:
  assumes "sane_base b" and "s < 9"
  shows "\<exists>x. mutate b s g = Some x"
proof -
  consider "s \<le> 3" | "4 \<le> s" "s \<le> 6" | "s = 7" | "s = 8" using assms(2) by linarith
  then show ?thesis
  proof cases
    case 1
    then obtain x where "mutate_quote (bc_quote b) s g = Some x"
      using mutate_quote_total [of "bc_quote b" s g] assms(1) by (auto simp: sane_base_def)
    with 1 show ?thesis by (simp add: mutate_def Let_def)
  next
    case 2
    then obtain x where "mutate_collateral (bc_collateral b) s g = Some x"
      using mutate_collateral_total [of "bc_collateral b" s g] assms(1)
      by (auto simp: sane_base_def)
    with 2 show ?thesis by (simp add: mutate_def Let_def)
  next
    case 3
    obtain r g1 where "below (2 * THREE_YEARS_SECS + 1) g = Some (r, g1)"
      using below_total [OF THREE_YEARS_draw] by blast
    with 3 show ?thesis by (simp add: mutate_def Let_def)
  next
    case 4
    with mutate_combo_total [OF assms(1)] show ?thesis by simp
  qed
qed

definition sane_bases :: "sweep_opts \<Rightarrow> base_case list \<Rightarrow> bool" where
  "sane_bases opts bases \<longleftrightarrow>
     (\<forall>b\<in>set bases. sane_base b) \<and> length bases < 2 ^ 64 \<and>
     (if so_default_bases opts then 2 \<le> length bases else bases \<noteq> [])"

lemma pick_base_total:
  assumes "sane_bases opts bases"
  shows "\<exists>b g'. pick_base opts bases g = Some (b, g') \<and> b \<in> set bases"
proof (cases "so_default_bases opts")
  case True
  obtain r g1 where "below 10 g = Some (r, g1)" using below_total [of 10 g] by auto
  moreover have "0 < length bases" and "1 < length bases"
    using assms True by (auto simp: sane_bases_def)
  ultimately show ?thesis
    using True by (simp add: pick_base_def nth_base_def)
next
  case False
  then have "0 < length bases" and "length bases < 2 ^ 64"
    using assms by (auto simp: sane_bases_def)
  then obtain r g1 where "below (length bases) g = Some (r, g1)" "r < length bases"
    using below_total [of "length bases" g] by blast
  with False show ?thesis by (simp add: pick_base_def nth_base_def)
qed

lemma iteration_case_total:
  assumes "sane_bases opts bases"
  shows "\<exists>s c. iteration_case opts bases i = Some (s, c) \<and> s < 9"
proof -
  obtain b g1 where b: "pick_base opts bases (iteration_rng (so_seed opts) (of_nat i)) = Some (b, g1)"
    "b \<in> set bases"
    using pick_base_total [OF assms] by blast
  obtain s g2 where s: "below 9 g1 = Some (s, g2)" "s < 9" using below_total [of 9 g1] by auto
  have "sane_base b" using b(2) assms by (simp add: sane_bases_def)
  from mutate_total [OF this s(2)] obtain c g3 where "mutate b s g2 = Some (c, g3)" by force
  with b s show ?thesis by (simp add: iteration_case_def iteration_draw_def)
qed

section \<open>Counting\<close>

lemma run_case_total: "run_case H q c t cfg \<noteq> None"
  using classify_total by (simp add: run_case_def Let_def)

lemma sweep_step_total:
  assumes "sane_bases opts bases"
  obtains s c b where "iteration_case opts bases i = Some (s, c)" and "s < 9"
    and "map_option cr_bucket (run_case H (mc_quote c) (mc_collateral c) (mc_current_time c)
           DEFAULT_MARSHAL) = Some b"
    and "sweep_step H opts bases i st = Some (sweep_count opts i s b st)"
proof -
  obtain s c where sc: "iteration_case opts bases i = Some (s, c)" "s < 9"
    using iteration_case_total [OF assms] by blast
  obtain rec where "run_case H (mc_quote c) (mc_collateral c) (mc_current_time c)
      DEFAULT_MARSHAL = Some rec"
    using run_case_total [of H "mc_quote c" "mc_collateral c" "mc_current_time c"
        DEFAULT_MARSHAL] by auto
  with sc that show thesis by (simp add: sweep_step_def)
qed

definition counts_total :: "sweep_state \<Rightarrow> nat" where
  "counts_total st = (\<Sum>p\<in>{..<9} \<times> ss_bucket_labels st. ss_counts st p)"

definition sweep_inv :: "nat \<Rightarrow> sweep_state \<Rightarrow> bool" where
  "sweep_inv n st \<longleftrightarrow>
     finite (ss_bucket_labels st) \<and> counts_total st = n \<and> tally_total (ss_tally st) = n \<and>
     (\<forall>s l. l \<notin> ss_bucket_labels st \<longrightarrow> ss_counts st (s, l) = 0)"

lemma sum_insert_label:
  fixes f :: "nat \<times> 'l \<Rightarrow> nat"
  assumes "finite L" and "s < 9" and "\<forall>s l. l \<notin> L \<longrightarrow> f (s, l) = 0"
  shows "(\<Sum>p\<in>{..<9} \<times> insert l L. (f((s, l) := f (s, l) + 1)) p) = (\<Sum>p\<in>{..<9} \<times> L. f p) + 1"
proof -
  let ?I = "{..<9 :: nat} \<times> insert l L"
  have fin: "finite ?I" and sl: "(s, l) \<in> ?I" using assms(1,2) by auto
  have "(\<Sum>p\<in>?I. (f((s, l) := f (s, l) + 1)) p) =
      f (s, l) + 1 + (\<Sum>p\<in>?I - {(s, l)}. f p)"
    using fin sl by (simp add: sum.remove [OF fin sl])
  also have "\<dots> = (\<Sum>p\<in>?I. f p) + 1" by (simp add: sum.remove [OF fin sl])
  also have "(\<Sum>p\<in>?I. f p) = (\<Sum>p\<in>{..<9} \<times> L. f p)"
  proof (rule sum.mono_neutral_right [OF fin])
    show "\<forall>p\<in>?I - {..<9} \<times> L. f p = 0"
    proof
      fix p assume "p \<in> ?I - {..<9} \<times> L"
      then obtain r m where "p = (r, m)" and "m \<notin> L" by auto
      with assms(3) show "f p = 0" by simp
    qed
  qed auto
  finally show ?thesis .
qed

lemma tally_total_known:
  "tally_total (t\<lparr>t_dangerous_known := t_dangerous_known t + 1\<rparr>) = tally_total t + 1"
  by (simp add: tally_total_def)

lemma sweep_count_inv:
  assumes "sweep_inv n st" and "s < 9"
  shows "sweep_inv (Suc n) (sweep_count opts i s b st)"
proof -
  let ?l = "if allowlisted opts i b then ''known-dangerous'' else bucket_label b"
  let ?st = "sweep_count opts i s b st"
  have fields: "ss_bucket_labels ?st = insert ?l (ss_bucket_labels st)"
    "ss_counts ?st = (ss_counts st)((s, ?l) := ss_counts st (s, ?l) + 1)"
    by (simp_all add: sweep_count_def Let_def)
  have "tally_total (ss_tally ?st) = tally_total (ss_tally st) + 1"
    by (simp add: sweep_count_def Let_def tally_total_add tally_total_known
        del: One_nat_def add_Suc_right add_Suc)
  moreover have "counts_total ?st = counts_total st + 1"
    unfolding counts_total_def fields
    by (rule sum_insert_label) (use assms in \<open>auto simp: sweep_inv_def\<close>)
  ultimately show ?thesis
    using assms(1) unfolding sweep_inv_def fields by auto
qed

lemma sweep_init_inv: "sweep_inv 0 sweep_init"
  by (simp add: sweep_inv_def sweep_init_def counts_total_def tally_total_def tally_default_def)

lemma sweep_loop_inv:
  assumes "sane_bases opts bases" and "sweep_inv n st"
  shows "\<exists>st'. sweep_loop H opts bases is st = Some st' \<and> sweep_inv (n + length is) st'"
  using assms(2)
proof (induction "is" arbitrary: n st)
  case Nil
  then show ?case by simp
next
  case (Cons i "is")
  obtain s b where step: "sweep_step H opts bases i st = Some (sweep_count opts i s b st)" "s < 9"
    using sweep_step_total [OF assms(1)] by metis
  with Cons.IH [OF sweep_count_inv [OF Cons.prems step(2)]] show ?case by simp
qed

lemma count_vanished_frame:
  "tally_total (count_vanished opts rep ks t) = tally_total t"
  by (induction opts rep ks t rule: count_vanished.induct) (auto simp: tally_total_def)

lemma count_vanished_count:
  "t_vanished (count_vanished opts rep ks t) =
     t_vanished t + length (filter (\<lambda>(k, _). in_window opts k \<and> k \<notin> rep) ks)"
  by (induction opts rep ks t rule: count_vanished.induct) auto

section \<open>The verdict of a sweep\<close>

text \<open>The bucket of iteration \<open>i\<close>; it depends on the seed and the base cases only.\<close>

definition iteration_bucket ::
  "('k, 's, 'r, 'e) harness \<Rightarrow> sweep_opts \<Rightarrow> base_case list \<Rightarrow> nat \<Rightarrow> bucket" where
  "iteration_bucket H opts bases i =
     (case iteration_case opts bases i of
        None \<Rightarrow> DcapPanic
      | Some (s, c) \<Rightarrow>
          (case run_case H (mc_quote c) (mc_collateral c) (mc_current_time c) DEFAULT_MARSHAL of
             None \<Rightarrow> DcapPanic
           | Some rec \<Rightarrow> cr_bucket rec))"

definition sweep_known ::
  "('k, 's, 'r, 'e) harness \<Rightarrow> sweep_opts \<Rightarrow> base_case list \<Rightarrow> nat \<Rightarrow> bool" where
  "sweep_known H opts bases i \<longleftrightarrow> allowlisted opts i (iteration_bucket H opts bases i)"

interpretation sweep_verdict: allowlisted_run "iteration_bucket H opts bases"
    "sweep_known H opts bases"
  for H opts bases
  by unfold_locales (auto simp: sweep_known_def allowlisted_def split: bucket.splits)

lemma sweep_count_tally:
  "ss_tally (sweep_count opts i s b st) = tally_record (allowlisted opts i b) b (ss_tally st)"
  "ss_reproduced (sweep_count opts i s b st) =
     (if allowlisted opts i b then insert i (ss_reproduced st) else ss_reproduced st)"
  by (simp_all add: sweep_count_def tally_record_def Let_def)

lemma sweep_loop_tally:
  assumes "sane_bases opts bases"
  shows "\<exists>st'. sweep_loop H opts bases is st = Some st' \<and>
     ss_tally st' = run_tally (iteration_bucket H opts bases) (sweep_known H opts bases) is (ss_tally st) \<and>
     ss_reproduced st' = ss_reproduced st \<union>
       {i \<in> set is. sweep_known H opts bases i}"
proof (induction "is" arbitrary: st)
  case Nil
  then show ?case by (simp add: run_tally_def)
next
  case (Cons i "is")
  obtain s c b where it: "iteration_case opts bases i = Some (s, c)"
    and b: "map_option cr_bucket (run_case H (mc_quote c) (mc_collateral c) (mc_current_time c)
           DEFAULT_MARSHAL) = Some b"
    and step: "sweep_step H opts bases i st = Some (sweep_count opts i s b st)"
    using sweep_step_total [OF assms] by metis
  have "iteration_bucket H opts bases i = b"
    using it b by (auto simp: iteration_bucket_def)
  with Cons.IH [of "sweep_count opts i s b st"] step show ?case
    by (auto simp: sweep_count_tally run_tally_def sweep_known_def)
qed

lemma set_sweep_indices: "set (sweep_indices opts) = {k. in_window opts k}"
  by (auto simp: sweep_indices_def in_window_def split: option.splits)

lemma count_vanished_eq:
  "count_vanished opts rep ks t =
     t\<lparr>t_vanished := t_vanished t + length (filter (\<lambda>(k, _). in_window opts k \<and> k \<notin> rep) ks)\<rparr>"
  by (induction opts rep ks t rule: count_vanished.induct) auto

lemma sweep_run_verdict:
  assumes "sane_bases opts bases"
  obtains st v n where "sweep_run H opts bases = Some (st, exit_code v)"
    and "v = (run_tally (iteration_bucket H opts bases) (sweep_known H opts bases) (sweep_indices opts) tally_default)
           \<lparr>t_vanished := n\<rparr>"
    and "n = 0 \<longleftrightarrow> (\<forall>k\<in>fst ` set (so_allow_iters opts). in_window opts k \<longrightarrow>
           (\<exists>kind. iteration_bucket H opts bases k = Dangerous kind))"
proof -
  obtain st where st: "sweep_loop H opts bases (sweep_indices opts) sweep_init = Some st"
    "ss_tally st = run_tally (iteration_bucket H opts bases) (sweep_known H opts bases) (sweep_indices opts) tally_default"
    "ss_reproduced st = {i. in_window opts i \<and> sweep_known H opts bases i}"
    using sweep_loop_tally [OF assms, of H "sweep_indices opts" sweep_init]
    by (auto simp: sweep_init_def set_sweep_indices)
  let ?n = "length (filter (\<lambda>(k, _). in_window opts k \<and> k \<notin> ss_reproduced st)
              (so_allow_iters opts))"
  let ?v = "(ss_tally st)\<lparr>t_vanished := ?n\<rparr>"
  have "t_vanished (ss_tally st) = 0"
    unfolding st(2) sweep_verdict.run_tally_fields(4) by (simp add: tally_default_def)
  then have "sweep_run H opts bases = Some (st\<lparr>ss_tally := ?v\<rparr>, exit_code ?v)"
    by (simp add: sweep_run_def st(1) count_vanished_eq Let_def)
  moreover have "?v = (run_tally (iteration_bucket H opts bases) (sweep_known H opts bases)
      (sweep_indices opts) tally_default)\<lparr>t_vanished := ?n\<rparr>"
    by (simp only: st(2))
  moreover have "?n = 0 \<longleftrightarrow> (\<forall>k\<in>fst ` set (so_allow_iters opts). in_window opts k \<longrightarrow>
      (\<exists>kind. iteration_bucket H opts bases k = Dangerous kind))"
    by (force simp: filter_empty_conv st(3) sweep_known_def allowlisted_def split: bucket.splits)
  ultimately show thesis by (rule that)
qed

text \<open>A sweep is clean exactly when the dangerous iterations are the allowlisted ones.\<close>

lemma sweep_run_codes:
  assumes "sane_bases opts bases"
  shows "\<exists>st code. sweep_run H opts bases = Some (st, code) \<and>
     (code = EXIT_CLEAN \<longleftrightarrow>
        (\<forall>i. in_window opts i \<longrightarrow>
           iteration_bucket H opts bases i \<noteq> DcapPanic \<and>
           iteration_bucket H opts bases i \<noteq> StandingMismatch \<and>
           ((\<exists>kind. iteration_bucket H opts bases i = Dangerous kind) \<longleftrightarrow>
              i \<in> fst ` set (so_allow_iters opts)))) \<and>
     (code = EXIT_FAIL \<longleftrightarrow>
        (\<exists>i. in_window opts i \<and>
           (iteration_bucket H opts bases i = DcapPanic \<or>
            iteration_bucket H opts bases i = StandingMismatch)))"
proof -
  obtain st v n where run: "sweep_run H opts bases = Some (st, exit_code v)"
    and v: "v = (run_tally (iteration_bucket H opts bases) (sweep_known H opts bases)
           (sweep_indices opts) tally_default)\<lparr>t_vanished := n\<rparr>"
    and n: "n = 0 \<longleftrightarrow> (\<forall>k\<in>fst ` set (so_allow_iters opts). in_window opts k \<longrightarrow>
           (\<exists>kind. iteration_bucket H opts bases k = Dangerous kind))"
    using sweep_run_verdict [OF assms] by metis
  have known: "sweep_known H opts bases i \<longleftrightarrow>
      (\<exists>kind. iteration_bucket H opts bases i = Dangerous kind) \<and>
      i \<in> fst ` set (so_allow_iters opts)" for i
    by (auto simp: sweep_known_def allowlisted_def split: bucket.splits)
  note codes = sweep_verdict.run_exit_code [OF refl v]
  have "exit_code v = EXIT_CLEAN \<longleftrightarrow>
        (\<forall>i. in_window opts i \<longrightarrow>
           iteration_bucket H opts bases i \<noteq> DcapPanic \<and>
           iteration_bucket H opts bases i \<noteq> StandingMismatch \<and>
           ((\<exists>kind. iteration_bucket H opts bases i = Dangerous kind) \<longleftrightarrow>
              i \<in> fst ` set (so_allow_iters opts)))"
    unfolding codes(2) set_sweep_indices n known by blast
  moreover have "exit_code v = EXIT_FAIL \<longleftrightarrow>
        (\<exists>i. in_window opts i \<and>
           (iteration_bucket H opts bases i = DcapPanic \<or>
            iteration_bucket H opts bases i = StandingMismatch))"
    unfolding codes(1) set_sweep_indices by blast
  ultimately show ?thesis using run by blast
qed

section \<open>Properties\<close>

text \<open>C25. A sweep over non-empty base cases completes, and its verdict is exact: it is clean iff the
  dangerous iterations of its window are precisely the allowlisted ones and no iteration panics or
  mismatches, and it fails iff some iteration panics or mismatches.\<close>

theorem sweep_verdict_exact:
  assumes "sane_bases opts bases"
  shows "\<exists>st code. sweep_run H opts bases = Some (st, code) \<and>
     (code = EXIT_CLEAN \<longleftrightarrow>
        (\<forall>i. in_window opts i \<longrightarrow>
           iteration_bucket H opts bases i \<noteq> DcapPanic \<and>
           iteration_bucket H opts bases i \<noteq> StandingMismatch \<and>
           ((\<exists>kind. iteration_bucket H opts bases i = Dangerous kind) \<longleftrightarrow>
              i \<in> fst ` set (so_allow_iters opts)))) \<and>
     (code = EXIT_FAIL \<longleftrightarrow>
        (\<exists>i. in_window opts i \<and>
           (iteration_bucket H opts bases i = DcapPanic \<or>
            iteration_bucket H opts bases i = StandingMismatch)))"
  by (rule sweep_run_codes [OF assms])

text \<open>A sweep counts every iteration once: the entries of the summary table and the fields of the
  tally (without the vanished ones) both add up to the number of iterations.\<close>

theorem sweep_counts_every_iteration:
  assumes "sane_bases opts bases"
  shows "\<exists>st code. sweep_run H opts bases = Some (st, code) \<and>
     counts_total st = length (sweep_indices opts) \<and>
     tally_total (ss_tally st) = length (sweep_indices opts)"
proof -
  obtain st where st: "sweep_loop H opts bases (sweep_indices opts) sweep_init = Some st"
    "sweep_inv (0 + length (sweep_indices opts)) st"
    using sweep_loop_inv [OF assms sweep_init_inv] by blast
  then show ?thesis
    by (auto simp: sweep_run_def Let_def count_vanished_frame sweep_inv_def counts_total_def)
qed

text \<open>Bit flips stay inside the requested byte range and keep the length; the mutation does not
  panic on a non-empty range.\<close>

theorem flips_stay_in_range:
  assumes "lo < hi" and "hi \<le> length data" and "8 * length data < 2 ^ 64"
  shows "\<exists>data' g' d. flip_random_bits data g lo hi = Some (data', g', d) \<and>
     length data' = length data \<and> (\<forall>j. j < lo \<or> hi \<le> j \<longrightarrow> data' ! j = data ! j)"
  by (rule flip_random_bits_total [OF assms])

text \<open>The search for the tcbLevels array never underflows its depth counter, and a range it returns
  is a proper one inside the file, behind the key, from an opening to a closing bracket.\<close>

theorem tcb_levels_range_sound:
  "\<exists>r. tcb_levels_range json = Some r \<and>
     (case r of
        None \<Rightarrow> True
      | Some (lo, hi) \<Rightarrow> lo < hi \<and> hi \<le> length json \<and> json ! lo = open_bracket \<and>
          json ! (hi - 1) = close_bracket \<and>
          (\<exists>p. take (length tcb_levels_needle) (drop p json) = tcb_levels_needle \<and>
             p + length tcb_levels_needle \<le> lo))"
proof -
  obtain r where r: "tcb_levels_range json = Some r"
    using tcb_levels_range_total [of json] by blast
  show ?thesis
  proof (cases r)
    case None
    with r show ?thesis by simp
  next
    case (Some p)
    then obtain lo hi where p: "r = Some (lo, hi)" by (cases p) simp
    with r have "tcb_levels_range json = Some (Some (lo, hi))" by simp
    from tcb_levels_range_bounds [OF this] show ?thesis
      using r p by (intro exI [of _ r]) simp
  qed
qed

end
