(* ===== verification/Differ_Report.thy ===== *)
theory Differ_Report
  imports Differ_Sweep "HOL-Library.List_Lexorder" "HOL-Library.Char_ord"
begin

text \<open>
  What a run of the harness says: the JSON values of the outcomes, the lines of the sweep, the
  summary table and the verdict line (\<^verbatim>\<open>dcap-differ/src/pipeline.rs\<close> and \<^verbatim>\<open>sweep.rs\<close>), with the
  files a sweep writes. A run produces a list of effects, in order; I/O errors are not modelled.

  \<open>serde_json\<close> is a parameter: the record \<open>json_crate\<close> has the derived serialiser of a standing
  and the two renderings of a value. The texts are ASCII but for the dash of the messages, so
  that a width in characters is a width in bytes.
\<close>

section \<open>Text\<close>

text \<open>\<open>{:X}\<close> and \<open>{:x}\<close>, by the digit function.\<close>

definition upper_hex_digit :: "nat \<Rightarrow> char" where
  "upper_hex_digit n = (if n < 10 then char_of (48 + n) else char_of (55 + n))"

fun hex_nat :: "(nat \<Rightarrow> char) \<Rightarrow> nat \<Rightarrow> string" where
  "hex_nat dig n = (if n < 16 then [dig n] else hex_nat dig (n div 16) @ [dig (n mod 16)])"

declare hex_nat.simps [simp del]

text \<open>\<open>{:<w}\<close> and \<open>{:>w}\<close>.\<close>

definition pad_right :: "nat \<Rightarrow> string \<Rightarrow> string" where
  "pad_right w s = s @ replicate (w - length s) CHR '' ''"

definition pad_left :: "nat \<Rightarrow> string \<Rightarrow> string" where
  "pad_left w s = replicate (w - length s) CHR '' '' @ s"

definition em_dash :: string where
  "em_dash = [char_of (0xE2 :: nat), char_of (0x80 :: nat), char_of (0x94 :: nat)]"

text \<open>\<open>Path::join\<close> on Unix.\<close>

definition path_join :: "string \<Rightarrow> string \<Rightarrow> string" where
  "path_join dir name =
     (if name \<noteq> [] \<and> hd name = CHR ''/'' then name
      else if dir = [] \<or> last dir = CHR ''/'' then dir @ name
      else dir @ ''/'' @ name)"

section \<open>JSON values\<close>

datatype json =
    JNull
  | JBool bool
  | JInt int
  | JFloat string
  | JString string
  | JArray "json list"
  | JObject "(string \<times> json) list"

record json_crate =
  standing_to_value :: "tcb_standing \<Rightarrow> json"
  json_text :: "json \<Rightarrow> string"
  json_pretty :: "json \<Rightarrow> string"

definition dcap_to_json :: "json_crate \<Rightarrow> dcap_outcome \<Rightarrow> json" where
  "dcap_to_json J outcome =
     (case outcome of
        Accept standing \<Rightarrow>
          JObject [(''kind'', JString ''accept''), (''standing'', standing_to_value J standing)]
      | Reject c d \<Rightarrow>
          JObject [(''kind'', JString ''reject''),
                   (''category'', JString (error_category_as_str c)), (''detail'', JString d)]
      | Panic msg \<Rightarrow> JObject [(''kind'', JString ''panic''), (''msg'', JString msg)])"

definition qvl_to_json :: "('k, 's, 'r, 'e) harness \<Rightarrow> ('r, 'e) qvl_outcome \<Rightarrow> json" where
  "qvl_to_json H outcome =
     (case outcome of
        NotRun reason \<Rightarrow> JObject [(''kind'', JString ''not-run''), (''reason'', JString reason)]
      | QvlError code \<Rightarrow>
          JObject [(''kind'', JString ''error''), (''code'', JString (show_error H code))]
      | Verdict exp_status result \<Rightarrow>
          JObject [(''kind'', JString ''verdict''), (''exp_status'', JInt (uint exp_status)),
                   (''result'', JString (show_result H result))])"

section \<open>The verdict line\<close>

definition tally_counts :: "tally \<Rightarrow> string" where
  "tally_counts t =
     dec_nat (t_agree_accept t + t_agree_reject t) @ '' agree ('' @ dec_nat (t_agree_accept t) @
     '' accept / '' @ dec_nat (t_agree_reject t) @ '' reject), '' @ dec_nat (t_known_delta t) @
     '' known-delta, '' @ dec_nat (t_unexplained_safe t) @ '' safe-direction (dcap stricter), '' @
     dec_nat (t_dangerous t) @ '' dangerous, '' @ dec_nat (t_dangerous_known t) @
     '' known-dangerous (allowlisted), '' @ dec_nat (t_vanished t) @ '' vanished, '' @
     dec_nat (t_standing_mismatch t) @ '' standing-mismatch, '' @ dec_nat (t_dcap_panic t) @
     '' panic''"

definition verdict_line :: "tally \<Rightarrow> string" where
  "verdict_line t =
     (if exit_code t = EXIT_FAIL then
        ''RESULT: FAIL '' @ em_dash @ '' '' @ dec_nat (t_dcap_panic t) @ '' dcap-panic, '' @
        dec_nat (t_standing_mismatch t) @ '' standing-mismatch (real defect). ['' @
        tally_counts t @ '']''
      else if exit_code t = EXIT_REVIEW then
        ''RESULT: REVIEW '' @ em_dash @ '' '' @ dec_nat (t_dangerous t) @
        '' unrecorded dcap-accept/QVL-reject divergence(s), '' @ dec_nat (t_vanished t) @
        '' allowlisted case(s) that no longer reproduce; triage against dcap-differ/FINDINGS.md. ['' @
        tally_counts t @ '']''
      else
        ''RESULT: CLEAN '' @ em_dash @
        '' dcap-verify matches Intel QVL (only expected deltas). ['' @ tally_counts t @ '']'')"

section \<open>The summary table\<close>

text \<open>The entries of the \<open>BTreeMap\<close> of counts in key order; an entry is made with its first count.\<close>

definition summary_labels :: "sweep_state \<Rightarrow> string list" where
  "summary_labels st = sorted_list_of_set (ss_bucket_labels st)"

definition count_entries :: "sweep_state \<Rightarrow> ((nat \<times> string) \<times> nat) list" where
  "count_entries st =
     filter (\<lambda>(_, n). n \<noteq> 0)
       (concat (map (\<lambda>s. map (\<lambda>l. ((s, l), ss_counts st (s, l))) (summary_labels st)) [0..<9]))"

definition sum_for :: "sweep_state \<Rightarrow> (string \<Rightarrow> bool) \<Rightarrow> nat" where
  "sum_for st pred = sum_list (map snd (filter (\<lambda>((_, l), _). pred l) (count_entries st)))"

definition starts_with :: "string \<Rightarrow> string \<Rightarrow> bool" where
  "starts_with p s \<longleftrightarrow> strip_prefix p s \<noteq> None"

definition strip_suffix :: "string \<Rightarrow> string \<Rightarrow> string option" where
  "strip_suffix p s = map_option rev (strip_prefix (rev p) (rev s))"

definition known_delta_line :: "sweep_state \<Rightarrow> string \<Rightarrow> string option" where
  "known_delta_line st label =
     map_option
       (\<lambda>kind. ''known delta '' @ kind @ '': '' @ dec_nat (sum_for st (\<lambda>l. l = label)))
       (Option.bind (strip_prefix ''known-delta('' label) (strip_suffix '')''))"

definition column_width :: "string list \<Rightarrow> nat" where
  "column_width labels = (if labels = [] then 12 else Max (set (map length labels))) + 2"

definition table_row :: "string \<Rightarrow> nat \<Rightarrow> string list \<Rightarrow> string" where
  "table_row h width cells = pad_right 10 h @ concat (map (pad_left width) cells)"

definition print_summary :: "sweep_state \<Rightarrow> nat \<Rightarrow> string list" where
  "print_summary st iterations =
     (let labels = summary_labels st; width = column_width labels in
      [[], ''=== sweep summary ('' @ dec_nat iterations @ '' iterations) ==='',
       table_row ''strategy'' width labels] @
      map (\<lambda>s. table_row (dec_nat s) width (map (\<lambda>l. dec_nat (ss_counts st (s, l))) labels)) [0..<9] @
      [table_row ''total'' width
         (map (\<lambda>l. dec_nat (sum_list (map (\<lambda>s. ss_counts st (s, l)) [0..<9]))) labels),
       [],
       ''agreements: '' @ dec_nat (sum_for st (starts_with ''agree-'')) @ '' (accept '' @
       dec_nat (sum_for st (\<lambda>l. l = ''agree-accept'')) @ '', reject '' @
       dec_nat (sum_for st (\<lambda>l. l = ''agree-reject'')) @ '')''] @
      List.map_filter (known_delta_line st) labels @
      [''unexplained-safe: '' @ dec_nat (sum_for st (\<lambda>l. l = ''unexplained-safe'')),
       ''standing-mismatch: '' @ dec_nat (sum_for st (\<lambda>l. l = ''standing-mismatch'')),
       ''dcap-panic: '' @ dec_nat (sum_for st (\<lambda>l. l = ''dcap-panic'')),
       ''DANGEROUS: '' @ dec_nat (sum_for st (starts_with ''DANGEROUS''))])"

section \<open>The sweep with its output\<close>

datatype effect =
    Println string
  | Create_dir string
  | Create_file string
  | Append_line string string
  | Write_file string bytes

definition jsonl_path :: "sweep_opts \<Rightarrow> string" where
  "jsonl_path opts =
     path_join (so_out opts) (''sweep-'' @ hex_nat hex_digit (unat (so_seed opts)) @ ''.jsonl'')"

definition record_label :: "sweep_opts \<Rightarrow> nat \<Rightarrow> bucket \<Rightarrow> string" where
  "record_label opts i b = (if allowlisted opts i b then ''known-dangerous'' else bucket_label b)"

definition repro_command :: "u64 \<Rightarrow> nat \<Rightarrow> string" where
  "repro_command seed i =
     ''dcap-differ sweep --seed 0x'' @ hex_nat upper_hex_digit (unat seed) @
     '' --iters 1 --only-iter '' @ dec_nat i"

definition jsonl_record ::
  "json_crate \<Rightarrow> ('k, 's, 'r, 'e) harness \<Rightarrow> sweep_opts \<Rightarrow> nat \<Rightarrow> base_case \<Rightarrow> nat \<Rightarrow>
     mutated_case \<Rightarrow> ('r, 'e) comparison_record \<Rightarrow> json" where
  "jsonl_record J H opts i base strategy c rec =
     JObject
       [(''iter'', JInt (int i)), (''base'', JString (bc_name base)),
        (''strategy'', JInt (int strategy)), (''mutation_desc'', JString (mc_desc c)),
        (''current_time'', JInt (mc_current_time c)), (''dcap'', dcap_to_json J (cr_dcap rec)),
        (''qvl'', qvl_to_json H (cr_qvl rec)),
        (''bucket'', JString (record_label opts i (cr_bucket rec))),
        (''repro'', JString (repro_command (so_seed opts) i))]"

definition finding_meta ::
  "sweep_opts \<Rightarrow> nat \<Rightarrow> base_case \<Rightarrow> nat \<Rightarrow> mutated_case \<Rightarrow> string \<Rightarrow> json" where
  "finding_meta opts i base strategy c label =
     JObject
       [(''iter'', JInt (int i)), (''base'', JString (bc_name base)),
        (''strategy'', JInt (int strategy)), (''mutation_desc'', JString (mc_desc c)),
        (''current_time'', JInt (mc_current_time c)), (''bucket'', JString label)]"

definition case_dir :: "sweep_opts \<Rightarrow> nat \<Rightarrow> string" where
  "case_dir opts i = path_join (so_out opts) (''case-'' @ dec_nat i)"

definition finding_effects ::
  "json_crate \<Rightarrow> ('k, 's, 'r, 'e) harness \<Rightarrow> sweep_opts \<Rightarrow> nat \<Rightarrow> base_case \<Rightarrow> nat \<Rightarrow>
     mutated_case \<Rightarrow> ('r, 'e) comparison_record \<Rightarrow> effect list" where
  "finding_effects J H opts i base strategy c rec =
     (let dir = case_dir opts i; label = record_label opts i (cr_bucket rec) in
      [Create_dir dir,
       Write_file (path_join dir ''quote.bin'') (mc_quote c),
       Write_file (path_join dir ''collateral.json'') (mc_collateral c),
       Write_file (path_join dir ''meta.json'')
         (str_bytes (json_pretty J (finding_meta opts i base strategy c label))),
       Println (''FINDING iter='' @ dec_nat i @ '' base='' @ bc_name base @ '' strategy='' @
                dec_nat strategy @ '' bucket='' @ label @ '' dcap='' @ dcap_label (cr_dcap rec) @
                '' qvl='' @ qvl_label H (cr_qvl rec))])"

definition iteration_effects ::
  "json_crate \<Rightarrow> ('k, 's, 'r, 'e) harness \<Rightarrow> sweep_opts \<Rightarrow> nat \<Rightarrow> base_case \<Rightarrow> nat \<Rightarrow>
     mutated_case \<Rightarrow> ('r, 'e) comparison_record \<Rightarrow> effect list" where
  "iteration_effects J H opts i base strategy c rec =
     (if is_agreement (cr_bucket rec) then []
      else [Append_line (jsonl_path opts)
              (json_text J (jsonl_record J H opts i base strategy c rec))]) @
     (if is_finding (cr_bucket rec) then finding_effects J H opts i base strategy c rec else [])"

definition sweep_step_io ::
  "json_crate \<Rightarrow> ('k, 's, 'r, 'e) harness \<Rightarrow> sweep_opts \<Rightarrow> base_case list \<Rightarrow> nat \<Rightarrow>
     sweep_state \<times> effect list \<Rightarrow> (sweep_state \<times> effect list) option" where
  "sweep_step_io J H opts bases i s =
     (let (st, out) = s in
     Option.bind (iteration_draw opts bases i) (\<lambda>(base, strategy, c).
     Option.bind (run_case H (mc_quote c) (mc_collateral c) (mc_current_time c) DEFAULT_MARSHAL)
       (\<lambda>rec.
     Some (sweep_count opts i strategy (cr_bucket rec) st,
           out @ iteration_effects J H opts i base strategy c rec))))"

fun sweep_loop_io ::
  "json_crate \<Rightarrow> ('k, 's, 'r, 'e) harness \<Rightarrow> sweep_opts \<Rightarrow> base_case list \<Rightarrow> nat list \<Rightarrow>
     sweep_state \<times> effect list \<Rightarrow> (sweep_state \<times> effect list) option" where
  "sweep_loop_io J H opts bases [] s = Some s"
| "sweep_loop_io J H opts bases (i # is) s =
     Option.bind (sweep_step_io J H opts bases i s) (sweep_loop_io J H opts bases is)"

definition vanished_line :: "string \<Rightarrow> string \<Rightarrow> string" where
  "vanished_line what finding =
     ''VANISHED '' @ what @ '' ('' @ finding @ '') '' @ em_dash @
     '' allowlisted as dangerous but no longer reproduces; update FINDINGS.md and the allowlist together''"

definition sweep_vanished_lines :: "sweep_opts \<Rightarrow> nat set \<Rightarrow> effect list" where
  "sweep_vanished_lines opts reproduced =
     map (\<lambda>(k, finding). Println (vanished_line (''iter='' @ dec_nat k) finding))
       (filter (\<lambda>(k, _). in_window opts k \<and> k \<notin> reproduced) (so_allow_iters opts))"

definition sweep_run_io ::
  "json_crate \<Rightarrow> ('k, 's, 'r, 'e) harness \<Rightarrow> sweep_opts \<Rightarrow> base_case list \<Rightarrow>
     (sweep_state \<times> effect list \<times> int) option" where
  "sweep_run_io J H opts bases =
     Option.bind
       (sweep_loop_io J H opts bases (sweep_indices opts)
         (sweep_init,
          [Println (''seed = 0x'' @ hex_nat upper_hex_digit (unat (so_seed opts))),
           Create_dir (so_out opts), Create_file (jsonl_path opts)])) (\<lambda>(st, out).
     let t = count_vanished opts (ss_reproduced st) (so_allow_iters opts) (ss_tally st) in
     Some (st\<lparr>ss_tally := t\<rparr>,
           out @ sweep_vanished_lines opts (ss_reproduced st) @
           map Println (print_summary st (length (sweep_indices opts))) @
           [Println (''findings jsonl: '' @ jsonl_path opts), Println [],
            Println (verdict_line t)],
           exit_code t))"

end
