(* ===== verification/Differ_Trace.thy ===== *)
theory Differ_Trace
  imports Differ_Report
begin

text \<open>
  What the output of a sweep says. The run with output refines the run without; its summary table
  adds up to its tally; its findings file lists exactly the iterations on which the verifiers
  disagree, and its dumps hold the inputs of exactly the findings.
\<close>

section \<open>The run with output refines the run without\<close>

definition iteration_record ::
  "('k, 's, 'r, 'e) harness \<Rightarrow> sweep_opts \<Rightarrow> base_case list \<Rightarrow> nat \<Rightarrow>
     (base_case \<times> nat \<times> mutated_case \<times> ('r, 'e) comparison_record) option" where
  "iteration_record H opts bases i =
     Option.bind (iteration_draw opts bases i) (\<lambda>(base, s, c).
     map_option (\<lambda>rec. (base, s, c, rec))
       (run_case H (mc_quote c) (mc_collateral c) (mc_current_time c) DEFAULT_MARSHAL))"

definition iteration_output ::
  "json_crate \<Rightarrow> ('k, 's, 'r, 'e) harness \<Rightarrow> sweep_opts \<Rightarrow> base_case list \<Rightarrow> nat \<Rightarrow> effect list"
where
  "iteration_output J H opts bases i =
     (case iteration_record H opts bases i of
        None \<Rightarrow> []
      | Some (base, s, c, rec) \<Rightarrow> iteration_effects J H opts i base s c rec)"

lemma sweep_step_io_eq:
  "sweep_step_io J H opts bases i (st, out) =
     map_option (\<lambda>st'. (st', out @ iteration_output J H opts bases i)) (sweep_step H opts bases i st)"
proof (cases "iteration_draw opts bases i")
  case None
  then show ?thesis by (simp add: sweep_step_io_def sweep_step_def iteration_case_def)
next
  case (Some d)
  obtain base s c where d: "d = (base, s, c)" by (cases d)
  show ?thesis
    by (cases "run_case H (mc_quote c) (mc_collateral c) (mc_current_time c) DEFAULT_MARSHAL")
      (simp_all add: sweep_step_io_def sweep_step_def iteration_case_def iteration_output_def
        iteration_record_def Some d)
qed

lemma sweep_loop_io_eq:
  "sweep_loop_io J H opts bases is (st, out) =
     map_option (\<lambda>st'. (st', out @ concat (map (iteration_output J H opts bases) is)))
       (sweep_loop H opts bases is st)"
proof (induction "is" arbitrary: st out)
  case Nil
  then show ?case by simp
next
  case (Cons i "is")
  show ?case
    by (cases "sweep_step H opts bases i st") (simp_all add: sweep_step_io_eq Cons.IH)
qed

lemma iteration_record_total:
  assumes "sane_bases opts bases"
  shows "\<exists>base s c rec. iteration_record H opts bases i = Some (base, s, c, rec) \<and>
     cr_bucket rec = iteration_bucket H opts bases i \<and> s < 9"
proof -
  obtain s c where sc: "iteration_case opts bases i = Some (s, c)" "s < 9"
    using iteration_case_total [OF assms] by blast
  then obtain base where d: "iteration_draw opts bases i = Some (base, s, c)"
    by (auto simp: iteration_case_def)
  obtain rec where r: "run_case H (mc_quote c) (mc_collateral c) (mc_current_time c)
      DEFAULT_MARSHAL = Some rec"
    using run_case_total [of H "mc_quote c" "mc_collateral c" "mc_current_time c"
        DEFAULT_MARSHAL] by auto
  have "iteration_bucket H opts bases i = cr_bucket rec"
    by (simp add: iteration_bucket_def sc(1) r)
  with sc(2) show ?thesis by (simp add: iteration_record_def d r)
qed

section \<open>The summary adds up to the tally\<close>

definition label_sum :: "sweep_state \<Rightarrow> (string \<Rightarrow> bool) \<Rightarrow> nat" where
  "label_sum st P =
     (\<Sum>p\<in>{..<9} \<times> ss_bucket_labels st. if P (snd p) then ss_counts st p else 0)"

lemma sum_list_filter_nonzero:
  "sum_list (map snd (filter (\<lambda>x. P x) (filter (\<lambda>(_, n). n \<noteq> (0 :: nat)) xs))) =
     sum_list (map (\<lambda>x. if P x then snd x else 0) xs)"
  by (induction xs) auto

lemma sum_list_concat_map: "sum_list (concat (map f xs)) = sum_list (map (\<lambda>x. sum_list (f x)) xs)"
  by (induction xs) simp_all

lemma sum_for_label_sum:
  assumes "finite (ss_bucket_labels st)"
  shows "sum_for st P = label_sum st P"
proof -
  let ?f = "\<lambda>s l. if P l then ss_counts st (s, l) else 0"
  have "sum_for st P = sum_list (concat (map (\<lambda>s. map (?f s) (summary_labels st)) [0..<9]))"
    unfolding sum_for_def count_entries_def sum_list_filter_nonzero
    by (simp add: map_concat comp_def split_def cong: if_cong)
  also have "\<dots> = (\<Sum>s\<leftarrow>[0..<9]. \<Sum>l\<leftarrow>summary_labels st. ?f s l)"
    by (rule sum_list_concat_map)
  also have "\<dots> = (\<Sum>s\<in>{..<9}. \<Sum>l\<in>ss_bucket_labels st. ?f s l)"
    using assms
    by (simp add: sum_list_distinct_conv_sum_set summary_labels_def atLeast0LessThan)
  also have "\<dots> = label_sum st P"
    by (simp add: label_sum_def sum.cartesian_product split_def cong: if_cong)
  finally show ?thesis .
qed

lemma label_sum_count:
  assumes "sweep_inv n st" and "s < 9"
  shows "label_sum (sweep_count opts i s b st) P =
     label_sum st P + (if P (record_label opts i b) then 1 else 0)"
proof -
  let ?l = "record_label opts i b"
  let ?f = "\<lambda>p. if P (snd p) then ss_counts st p else 0"
  let ?g = "\<lambda>p. if P (snd p) then ((ss_counts st)((s, ?l) := ss_counts st (s, ?l) + 1)) p else 0"
  have fin: "finite (ss_bucket_labels st)"
    and zero: "\<forall>s l. l \<notin> ss_bucket_labels st \<longrightarrow> ss_counts st (s, l) = 0"
    using assms(1) by (auto simp: sweep_inv_def)
  have fields: "ss_bucket_labels (sweep_count opts i s b st) = insert ?l (ss_bucket_labels st)"
    "ss_counts (sweep_count opts i s b st) = (ss_counts st)((s, ?l) := ss_counts st (s, ?l) + 1)"
    by (simp_all add: sweep_count_def record_label_def Let_def)
  have count: "label_sum (sweep_count opts i s b st) P =
      (\<Sum>p\<in>{..<9} \<times> insert ?l (ss_bucket_labels st). ?g p)"
    unfolding label_sum_def fields by (rule refl)
  show ?thesis
  proof (cases "P ?l")
    case True
    then have g: "?g = ?f((s, ?l) := ?f (s, ?l) + 1)" by (auto simp: fun_eq_iff)
    have "(\<Sum>p\<in>{..<9} \<times> insert ?l (ss_bucket_labels st). ?g p) = label_sum st P + 1"
      unfolding g label_sum_def
      by (rule sum_insert_label [OF fin assms(2)]) (use zero in simp)
    with count True show ?thesis by simp
  next
    case False
    then have g: "?g = ?f" by (auto simp: fun_eq_iff)
    have "(\<Sum>p\<in>{..<9} \<times> insert ?l (ss_bucket_labels st). ?f p) =
        (\<Sum>p\<in>{..<9} \<times> ss_bucket_labels st. ?f p)"
      by (rule sum.mono_neutral_right) (use fin False zero in auto)
    with False show ?thesis unfolding count g by (simp add: label_sum_def)
  qed
qed

text \<open>Which records each line of the summary counts.\<close>

lemmas label_texts = starts_with_def bucket_label.simps

lemma label_kinds:
  "bucket_label b = ''agree-accept'' \<longleftrightarrow> b = AgreeAccept"
  "bucket_label b = ''agree-reject'' \<longleftrightarrow> b = AgreeReject"
  "bucket_label b = ''unexplained-safe'' \<longleftrightarrow> b = UnexplainedSafe"
  "bucket_label b = ''standing-mismatch'' \<longleftrightarrow> b = StandingMismatch"
  "bucket_label b = ''dcap-panic'' \<longleftrightarrow> b = DcapPanic"
  "bucket_label b \<noteq> ''known-dangerous''"
  "starts_with ''agree-'' (bucket_label b) \<longleftrightarrow> b = AgreeAccept \<or> b = AgreeReject"
  "starts_with ''known-delta('' (bucket_label b) \<longleftrightarrow> (\<exists>kind. b = KnownDelta kind)"
  "starts_with ''DANGEROUS'' (bucket_label b) \<longleftrightarrow> (\<exists>kind. b = Dangerous kind)"
  by (cases b; simp add: label_texts)+

lemma known_label_kinds:
  "\<not> starts_with ''agree-'' ''known-dangerous''"
  "\<not> starts_with ''known-delta('' ''known-dangerous''"
  "\<not> starts_with ''DANGEROUS'' ''known-dangerous''"
  by (simp_all add: starts_with_def)

lemma allowlisted_dangerous: "allowlisted opts i b \<Longrightarrow> \<exists>kind. b = Dangerous kind"
  by (simp add: allowlisted_def split: bucket.splits)

lemma record_label_kinds:
  "record_label opts i b = ''agree-accept'' \<longleftrightarrow> b = AgreeAccept"
  "record_label opts i b = ''agree-reject'' \<longleftrightarrow> b = AgreeReject"
  "record_label opts i b = ''unexplained-safe'' \<longleftrightarrow> b = UnexplainedSafe"
  "record_label opts i b = ''standing-mismatch'' \<longleftrightarrow> b = StandingMismatch"
  "record_label opts i b = ''dcap-panic'' \<longleftrightarrow> b = DcapPanic"
  "record_label opts i b = ''known-dangerous'' \<longleftrightarrow> allowlisted opts i b"
  "starts_with ''agree-'' (record_label opts i b) \<longleftrightarrow> b = AgreeAccept \<or> b = AgreeReject"
  "starts_with ''known-delta('' (record_label opts i b) \<longleftrightarrow> (\<exists>kind. b = KnownDelta kind)"
  "starts_with ''DANGEROUS'' (record_label opts i b) \<longleftrightarrow>
     (\<exists>kind. b = Dangerous kind) \<and> \<not> allowlisted opts i b"
  using allowlisted_dangerous [of opts i b]
  by (auto simp: record_label_def label_kinds known_label_kinds)

definition summary_inv :: "sweep_state \<Rightarrow> bool" where
  "summary_inv st \<longleftrightarrow>
     label_sum st (\<lambda>l. l = ''agree-accept'') = t_agree_accept (ss_tally st) \<and>
     label_sum st (\<lambda>l. l = ''agree-reject'') = t_agree_reject (ss_tally st) \<and>
     label_sum st (starts_with ''agree-'') =
       t_agree_accept (ss_tally st) + t_agree_reject (ss_tally st) \<and>
     label_sum st (starts_with ''known-delta('') = t_known_delta (ss_tally st) \<and>
     label_sum st (\<lambda>l. l = ''unexplained-safe'') = t_unexplained_safe (ss_tally st) \<and>
     label_sum st (\<lambda>l. l = ''standing-mismatch'') = t_standing_mismatch (ss_tally st) \<and>
     label_sum st (\<lambda>l. l = ''dcap-panic'') = t_dcap_panic (ss_tally st) \<and>
     label_sum st (\<lambda>l. l = ''known-dangerous'') = t_dangerous_known (ss_tally st) \<and>
     label_sum st (starts_with ''DANGEROUS'') = t_dangerous (ss_tally st)"

lemma summary_inv_init: "summary_inv sweep_init"
  by (simp add: summary_inv_def label_sum_def sweep_init_def tally_default_def)

lemma summary_inv_count:
  assumes "sweep_inv n st" and "s < 9" and "summary_inv st"
  shows "summary_inv (sweep_count opts i s b st)"
  using assms(3) allowlisted_dangerous [of opts i b]
  unfolding summary_inv_def label_sum_count [OF assms(1,2)] record_label_kinds
    sweep_count_tally tally_record_def
  by (cases b) auto

lemma summary_inv_loop:
  assumes "sane_bases opts bases"
  shows "sweep_inv n st \<Longrightarrow> summary_inv st \<Longrightarrow> sweep_loop H opts bases is st = Some st' \<Longrightarrow>
     summary_inv st' \<and> sweep_inv (n + length is) st'"
proof (induction "is" arbitrary: n st)
  case Nil
  then show ?case by simp
next
  case (Cons i "is")
  obtain s b where step: "sweep_step H opts bases i st = Some (sweep_count opts i s b st)" "s < 9"
    using sweep_step_total [OF assms] by metis
  with Cons.prems(3) have rest: "sweep_loop H opts bases is (sweep_count opts i s b st) = Some st'"
    by simp
  from Cons.IH [OF sweep_count_inv [OF Cons.prems(1) step(2)]
      summary_inv_count [OF Cons.prems(1) step(2) Cons.prems(2)] rest]
  show ?case by simp
qed

section \<open>The output of a run\<close>

definition header_effects :: "sweep_opts \<Rightarrow> effect list" where
  "header_effects opts =
     [Println (''seed = 0x'' @ hex_nat upper_hex_digit (unat (so_seed opts))),
      Create_dir (so_out opts), Create_file (jsonl_path opts)]"

lemma summary_frame:
  "summary_labels (st\<lparr>ss_tally := t\<rparr>) = summary_labels st"
  "ss_counts (st\<lparr>ss_tally := t\<rparr>) = ss_counts st"
  "sum_for (st\<lparr>ss_tally := t\<rparr>) = sum_for st"
  "known_delta_line (st\<lparr>ss_tally := t\<rparr>) = known_delta_line st"
proof -
  show labels: "summary_labels (st\<lparr>ss_tally := t\<rparr>) = summary_labels st"
    by (simp add: summary_labels_def)
  show "ss_counts (st\<lparr>ss_tally := t\<rparr>) = ss_counts st" by simp
  have "count_entries (st\<lparr>ss_tally := t\<rparr>) = count_entries st"
    by (simp add: count_entries_def labels)
  then show sums: "sum_for (st\<lparr>ss_tally := t\<rparr>) = sum_for st"
    by (simp add: sum_for_def fun_eq_iff)
  show "known_delta_line (st\<lparr>ss_tally := t\<rparr>) = known_delta_line st"
    by (simp add: known_delta_line_def sums fun_eq_iff)
qed

lemma sweep_run_io_shape:
  assumes "sane_bases opts bases"
  obtains st lines where "sweep_run H opts bases = Some (st, exit_code (ss_tally st))"
    and "sweep_run_io J H opts bases =
      Some (st, header_effects opts @
                concat (map (iteration_output J H opts bases) (sweep_indices opts)) @
                map Println lines, exit_code (ss_tally st))"
    and "set (print_summary st (length (sweep_indices opts))) \<subseteq> set lines"
    and "last lines = verdict_line (ss_tally st)"
    and "summary_inv st" and "finite (ss_bucket_labels st)"
proof -
  obtain st0 where loop: "sweep_loop H opts bases (sweep_indices opts) sweep_init = Some st0"
    and inv: "sweep_inv (0 + length (sweep_indices opts)) st0"
    using sweep_loop_inv [OF assms sweep_init_inv] by blast
  have sums: "summary_inv st0"
    using summary_inv_loop [OF assms sweep_init_inv summary_inv_init loop] by simp
  let ?n = "length (filter (\<lambda>(k, _). in_window opts k \<and> k \<notin> ss_reproduced st0)
              (so_allow_iters opts))"
  let ?t = "(ss_tally st0)\<lparr>t_vanished := t_vanished (ss_tally st0) + ?n\<rparr>"
  let ?st = "st0\<lparr>ss_tally := ?t\<rparr>"
  let ?van = "map (\<lambda>(k, finding). vanished_line (''iter='' @ dec_nat k) finding)
      (filter (\<lambda>(k, _). in_window opts k \<and> k \<notin> ss_reproduced st0) (so_allow_iters opts))"
  let ?lines = "?van @ print_summary st0 (length (sweep_indices opts)) @
      [''findings jsonl: '' @ jsonl_path opts, [], verdict_line ?t]"
  have print: "print_summary ?st n = print_summary st0 n" for n
    by (simp only: print_summary_def summary_frame)
  have run: "sweep_run H opts bases = Some (?st, exit_code (ss_tally ?st))"
    by (simp add: sweep_run_def loop count_vanished_eq Let_def)
  have io: "sweep_run_io J H opts bases =
      Some (?st, header_effects opts @
                concat (map (iteration_output J H opts bases) (sweep_indices opts)) @
                map Println ?lines, exit_code (ss_tally ?st))"
    by (simp add: sweep_run_io_def sweep_loop_io_eq loop count_vanished_eq Let_def
        sweep_vanished_lines_def header_effects_def split_def comp_def)
  have inv': "summary_inv ?st"
    using sums by (simp add: summary_inv_def label_sum_def cong: if_cong)
  have fin: "finite (ss_bucket_labels ?st)" using inv by (simp add: sweep_inv_def)
  show thesis
  proof (rule that [OF run io _ _ inv' fin])
    show "set (print_summary ?st (length (sweep_indices opts))) \<subseteq> set ?lines"
      unfolding print set_append by blast
    show "last ?lines = verdict_line (ss_tally ?st)" by simp
  qed
qed

text \<open>The lines appended to the findings file, and the files written.\<close>

definition appended :: "effect list \<Rightarrow> (string \<times> string) list" where
  "appended out =
     List.map_filter (\<lambda>e. case e of Append_line f l \<Rightarrow> Some (f, l) | _ \<Rightarrow> None) out"

lemma appended_simps [simp]:
  "appended [] = []"
  "appended (Println l # out) = appended out"
  "appended (Create_dir d # out) = appended out"
  "appended (Create_file d # out) = appended out"
  "appended (Write_file f bs # out) = appended out"
  "appended (Append_line f l # out) = (f, l) # appended out"
  "appended (out @ out') = appended out @ appended out'"
  by (simp_all add: appended_def List.map_filter_def)

lemma appended_println: "appended (map Println ls) = []"
  by (induction ls) simp_all

definition iteration_json ::
  "json_crate \<Rightarrow> ('k, 's, 'r, 'e) harness \<Rightarrow> sweep_opts \<Rightarrow> base_case list \<Rightarrow> nat \<Rightarrow> json" where
  "iteration_json J H opts bases i =
     (case iteration_record H opts bases i of
        None \<Rightarrow> JNull
      | Some (base, s, c, rec) \<Rightarrow> jsonl_record J H opts i base s c rec)"

lemma appended_iteration:
  assumes "sane_bases opts bases"
  shows "appended (iteration_output J H opts bases i) =
     (if is_agreement (iteration_bucket H opts bases i) then []
      else [(jsonl_path opts, json_text J (iteration_json J H opts bases i))])"
proof -
  obtain base s c rec where r: "iteration_record H opts bases i = Some (base, s, c, rec)"
    "cr_bucket rec = iteration_bucket H opts bases i"
    using iteration_record_total [OF assms] by blast
  then show ?thesis
    by (simp add: iteration_output_def iteration_effects_def finding_effects_def
        iteration_json_def Let_def)
qed

lemma appended_iterations:
  assumes "sane_bases opts bases"
  shows "appended (concat (map (iteration_output J H opts bases) is)) =
     map (\<lambda>i. (jsonl_path opts, json_text J (iteration_json J H opts bases i)))
       (filter (\<lambda>i. \<not> is_agreement (iteration_bucket H opts bases i)) is)"
  by (induction "is") (simp_all add: appended_iteration [OF assms])

text \<open>What a dump of iteration \<open>i\<close> holds.\<close>

definition dumped :: "sweep_opts \<Rightarrow> effect list \<Rightarrow> nat \<Rightarrow> bytes \<Rightarrow> bytes \<Rightarrow> bool" where
  "dumped opts out i q c \<longleftrightarrow>
     {Create_dir (case_dir opts i),
      Write_file (path_join (case_dir opts i) ''quote.bin'') q,
      Write_file (path_join (case_dir opts i) ''collateral.json'') c} \<subseteq> set out"

section \<open>Properties\<close>


text \<open>C32. The printed summary, summed up from the table of counts, agrees with the tally that decides
  the exit code, and the last line is the verdict on that tally.\<close>

theorem summary_agrees_with_tally:
  assumes "sane_bases opts bases"
  shows "\<exists>st out code. sweep_run_io J H opts bases = Some (st, out, code) \<and>
     last out = Println (verdict_line (ss_tally st)) \<and>
     {Println (''agreements: '' @ dec_nat (t_agree_accept (ss_tally st) + t_agree_reject (ss_tally st)) @
        '' (accept '' @ dec_nat (t_agree_accept (ss_tally st)) @ '', reject '' @
        dec_nat (t_agree_reject (ss_tally st)) @ '')''),
      Println (''unexplained-safe: '' @ dec_nat (t_unexplained_safe (ss_tally st))),
      Println (''standing-mismatch: '' @ dec_nat (t_standing_mismatch (ss_tally st))),
      Println (''dcap-panic: '' @ dec_nat (t_dcap_panic (ss_tally st))),
      Println (''DANGEROUS: '' @ dec_nat (t_dangerous (ss_tally st)))} \<subseteq> set out"
proof -
  obtain st ls where io: "sweep_run_io J H opts bases =
      Some (st, header_effects opts @
                concat (map (iteration_output J H opts bases) (sweep_indices opts)) @
                map Println ls, exit_code (ss_tally st))"
    and summary: "set (print_summary st (length (sweep_indices opts))) \<subseteq> set ls"
    and verdict: "last ls = verdict_line (ss_tally st)"
    and inv: "summary_inv st" and fin: "finite (ss_bucket_labels st)"
    by (rule sweep_run_io_shape [OF assms, of H J])
  note sums = inv [unfolded summary_inv_def, folded sum_for_label_sum [OF fin]]
  have "ls \<noteq> []" using summary by (auto simp: print_summary_def Let_def)
  then have "last (map Println ls) = Println (verdict_line (ss_tally st))"
    using verdict by (simp add: last_map)
  with \<open>ls \<noteq> []\<close> io summary show ?thesis
    by (simp add: print_summary_def Let_def sums)
qed

text \<open>C30. The findings file gets one line for each iteration whose bucket is not an agreement, in the
  order of the run, and nothing else; the line is the record of that iteration.\<close>

theorem findings_file_lists_disagreements:
  assumes "sane_bases opts bases"
  shows "\<exists>st out code. sweep_run_io J H opts bases = Some (st, out, code) \<and>
     appended out =
       map (\<lambda>i. (jsonl_path opts, json_text J (iteration_json J H opts bases i)))
         (filter (\<lambda>i. \<not> is_agreement (iteration_bucket H opts bases i)) (sweep_indices opts))"
proof -
  obtain st ls where "sweep_run_io J H opts bases =
      Some (st, header_effects opts @
                concat (map (iteration_output J H opts bases) (sweep_indices opts)) @
                map Println ls, exit_code (ss_tally st))"
    by (rule sweep_run_io_shape [OF assms, of H J])
  then show ?thesis
    by (simp add: appended_iterations [OF assms] appended_println header_effects_def)
qed

text \<open>C29. The inputs of every finding are dumped, and they are the inputs: running the dumped quote and
  collateral at the recorded time gives the bucket of the iteration again.\<close>

theorem findings_are_dumped:
  assumes "sane_bases opts bases" and "in_window opts i"
    and "is_finding (iteration_bucket H opts bases i)"
  shows "\<exists>st out code q c t rec fields. sweep_run_io J H opts bases = Some (st, out, code) \<and>
     dumped opts out i q c \<and>
     iteration_json J H opts bases i = JObject fields \<and> map_of fields ''current_time'' = Some (JInt t) \<and>
     run_case H q c t DEFAULT_MARSHAL = Some rec \<and> cr_bucket rec = iteration_bucket H opts bases i"
proof -
  obtain st ls where io: "sweep_run_io J H opts bases =
      Some (st, header_effects opts @
                concat (map (iteration_output J H opts bases) (sweep_indices opts)) @
                map Println ls, exit_code (ss_tally st))"
    (is "_ = Some (_, ?out, _)")
    by (rule sweep_run_io_shape [OF assms(1), of H J])
  obtain base s c rec where r: "iteration_record H opts bases i = Some (base, s, c, rec)"
    "cr_bucket rec = iteration_bucket H opts bases i"
    using iteration_record_total [OF assms(1)] by blast
  have run: "run_case H (mc_quote c) (mc_collateral c) (mc_current_time c) DEFAULT_MARSHAL = Some rec"
    using r(1) by (auto simp: iteration_record_def bind_eq_Some_conv)
  have "i \<in> set (sweep_indices opts)" using assms(2) by (simp add: set_sweep_indices)
  then have "set (iteration_output J H opts bases i) \<subseteq> set ?out" by auto
  moreover have "dumped opts (iteration_output J H opts bases i) i (mc_quote c) (mc_collateral c)"
    using r assms(3)
    by (simp add: dumped_def iteration_output_def iteration_effects_def finding_effects_def Let_def)
  ultimately have "dumped opts ?out i (mc_quote c) (mc_collateral c)"
    unfolding dumped_def by (rule subset_trans [rotated])
  moreover obtain fields where "iteration_json J H opts bases i = JObject fields"
    and "map_of fields ''current_time'' = Some (JInt (mc_current_time c))"
    by (simp add: iteration_json_def r(1) jsonl_record_def)
  ultimately show ?thesis using io run r(2) by blast
qed

end
