(* ===== verification/Differ_Cli.thy ===== *)
theory Differ_Cli
  imports Differ_Trace
begin

text \<open>
  \<^verbatim>\<open>dcap-differ/src/main.rs\<close>: command-line parsing, the allowlist, the three commands and their
  dispatch. A run ends with an exit code or a panic. The record \<open>host\<close> is the world outside: files
  and directories as maps from paths, the JSON deserialisers, and the two paths fixed when the
  binary is built. Reads are made once per run, so the maps do not change. A path is a Unix path.
\<close>

section \<open>Parsing\<close>

datatype cli_end = Exit int | Cli_Panic

type_synonym 'a cli = "cli_end + 'a"

definition DEFAULT_SEED :: u64 where "DEFAULT_SEED = 0xDCAF00000001"

definition hex_value :: "char \<Rightarrow> nat option" where
  "hex_value c =
     (let n = (of_char c :: nat) in
      if 48 \<le> n \<and> n \<le> 57 then Some (n - 48)
      else if 97 \<le> n \<and> n \<le> 102 then Some (n - 87)
      else if 65 \<le> n \<and> n \<le> 70 then Some (n - 55)
      else None)"

fun parse_hex_digits :: "nat \<Rightarrow> string \<Rightarrow> nat option" where
  "parse_hex_digits acc [] = Some acc"
| "parse_hex_digits acc (c # cs) =
     (case hex_value c of
        None \<Rightarrow> None
      | Some d \<Rightarrow>
          if 16 * acc + d < 2 ^ 64 then parse_hex_digits (16 * acc + d) cs else None)"

text \<open>\<open>u64::from_str_radix(s, 16)\<close>.\<close>

definition u64_from_hex :: "string \<Rightarrow> u64 option" where
  "u64_from_hex s =
     (let digits = (case s of c # cs \<Rightarrow> if c = CHR ''+'' then cs else s | [] \<Rightarrow> s) in
      if digits = [] then None else map_option of_nat (parse_hex_digits 0 digits))"

definition parse_hex_u64 :: "string \<Rightarrow> u64 cli" where
  "parse_hex_u64 s =
     (let digits =
        (case strip_prefix ''0x'' s of
           Some d \<Rightarrow> d
         | None \<Rightarrow> (case strip_prefix ''0X'' s of Some d \<Rightarrow> d | None \<Rightarrow> s)) in
      ok_or (Exit 2) (u64_from_hex digits))"

record sweep_args =
  sa_iters :: "nat option"
  sa_seed :: u64
  sa_bases :: "string list"
  sa_only_iter :: "nat option"
  sa_out :: string
  sa_allow :: "string option"

text \<open>
  The flag loop of \<open>sweep_cmd\<close>. Every flag takes a value, so a flag at the end of the list, known
  or not, exits with code 2.
\<close>

fun parse_sweep_args :: "string list \<Rightarrow> sweep_args \<Rightarrow> sweep_args cli" where
  "parse_sweep_args [] sa = Inr sa"
| "parse_sweep_args [flag] sa = Inl (Exit 2)"
| "parse_sweep_args (flag # v # args) sa =
     (if flag = ''--iters'' then
        and_then (ok_or Cli_Panic (parse_usize v)) (\<lambda>n.
        parse_sweep_args args (sa\<lparr>sa_iters := Some n\<rparr>))
      else if flag = ''--seed'' then
        and_then (parse_hex_u64 v) (\<lambda>s. parse_sweep_args args (sa\<lparr>sa_seed := s\<rparr>))
      else if flag = ''--base'' then
        parse_sweep_args args (sa\<lparr>sa_bases := sa_bases sa @ [v]\<rparr>)
      else if flag = ''--only-iter'' then
        and_then (ok_or Cli_Panic (parse_usize v)) (\<lambda>n.
        parse_sweep_args args (sa\<lparr>sa_only_iter := Some n\<rparr>))
      else if flag = ''--out'' then parse_sweep_args args (sa\<lparr>sa_out := v\<rparr>)
      else if flag = ''--allow'' then parse_sweep_args args (sa\<lparr>sa_allow := Some v\<rparr>)
      else Inl (Exit 2))"

section \<open>Allowlist\<close>

record allow_sweep =
  as_finding :: string
  as_seed :: string
  as_iter :: nat

record allow_case =
  ac_finding :: string
  ac_case :: string

record allowlist =
  al_sweep :: "allow_sweep list"
  al_cases :: "allow_case list"

text \<open>A \<open>BTreeMap\<close>: an association list with increasing keys.\<close>

fun btree_insert :: "'a::linorder \<Rightarrow> 'b \<Rightarrow> ('a \<times> 'b) list \<Rightarrow> ('a \<times> 'b) list" where
  "btree_insert k v [] = [(k, v)]"
| "btree_insert k v ((k', v') # m) =
     (if k < k' then (k, v) # (k', v') # m
      else if k = k' then (k, v) # m
      else (k', v') # btree_insert k v m)"

definition btree_collect :: "('a::linorder \<times> 'b) list \<Rightarrow> ('a \<times> 'b) list" where
  "btree_collect ps = fold (\<lambda>(k, v). btree_insert k v) ps []"

text \<open>\<open>filter\<close> on the parsed seed; a seed that does not parse exits the process.\<close>

fun entries_for_seed :: "u64 \<Rightarrow> allow_sweep list \<Rightarrow> (nat \<times> string) list cli" where
  "entries_for_seed seed [] = Inr []"
| "entries_for_seed seed (e # es) =
     and_then (parse_hex_u64 (as_seed e)) (\<lambda>s.
     and_then (entries_for_seed seed es) (\<lambda>ps.
     Inr (if s = seed then (as_iter e, as_finding e) # ps else ps)))"

section \<open>Fixture metadata\<close>

record meta =
  meta_current_time :: int
  meta_verdict :: string
  meta_category :: "string option"
  meta_tcb_standing :: "json option"

text \<open>The keys of a JSON object come in the order of its map, so the first one is the first field.\<close>

definition standing_name :: "json \<Rightarrow> string option" where
  "standing_name v =
     (case v of
        JString s \<Rightarrow> Some s
      | JObject kvs \<Rightarrow> (case kvs of [] \<Rightarrow> None | (k, _) # _ \<Rightarrow> Some k)
      | _ \<Rightarrow> None)"

definition expected_label :: "meta \<Rightarrow> string" where
  "expected_label m =
     (case meta_category m of
        Some c \<Rightarrow> meta_verdict m @ ''('' @ c @ '')''
      | None \<Rightarrow>
          (case Option.bind (meta_tcb_standing m) standing_name of
             Some s \<Rightarrow> meta_verdict m @ ''('' @ s @ '')''
           | None \<Rightarrow> meta_verdict m))"

section \<open>The host\<close>

record host =
  host_read :: "string \<Rightarrow> bytes option"
  host_is_file :: "string \<Rightarrow> bool"
  host_read_dir :: "string \<Rightarrow> string list option"
  parse_value :: "bytes \<Rightarrow> json option"
  parse_meta :: "bytes \<Rightarrow> meta option"
  parse_allowlist :: "bytes \<Rightarrow> allowlist option"
  host_fixtures_root :: string
  host_reports :: string

text \<open>
  \<open>Path::file_name\<close>: the last component, if it is a proper name. Components are separated by
  slashes; empty ones and single dots do not count.
\<close>

fun split_char :: "char \<Rightarrow> string \<Rightarrow> string \<Rightarrow> string list" where
  "split_char sep acc [] = [acc]"
| "split_char sep acc (c # cs) =
     (if c = sep then acc # split_char sep [] cs else split_char sep (acc @ [c]) cs)"

definition path_components :: "string \<Rightarrow> string list" where
  "path_components p = filter (\<lambda>c. c \<noteq> [] \<and> c \<noteq> ''.'') (split_char CHR ''/'' [] p)"

definition file_name :: "string \<Rightarrow> string option" where
  "file_name p =
     (let cs = path_components p in
      if cs = [] \<or> last cs = ''..'' then None else Some (last cs))"

text \<open>Indexing a JSON value with a key, and reading it as \<open>i64\<close>.\<close>

definition json_index :: "json \<Rightarrow> string \<Rightarrow> json" where
  "json_index v k =
     (case v of
        JObject kvs \<Rightarrow> (case map_of kvs k of Some w \<Rightarrow> w | None \<Rightarrow> JNull)
      | _ \<Rightarrow> JNull)"

definition as_i64 :: "json \<Rightarrow> int option" where
  "as_i64 v = (case v of JInt n \<Rightarrow> if I64_MIN \<le> n \<and> n \<le> I64_MAX then Some n else None | _ \<Rightarrow> None)"

definition load_base :: "host \<Rightarrow> string \<Rightarrow> base_case option" where
  "load_base W dir =
     (let name = (case file_name dir of Some n \<Rightarrow> n | None \<Rightarrow> dir) in
      Option.bind (host_read W (path_join dir ''quote.bin'')) (\<lambda>quote.
      Option.bind (host_read W (path_join dir ''collateral.json'')) (\<lambda>collateral.
      Option.bind (host_read W (path_join dir ''meta.json'')) (\<lambda>meta_bytes.
      Option.bind (parse_value W meta_bytes) (\<lambda>m.
      Option.bind (as_i64 (json_index m ''current_time_unix'')) (\<lambda>t.
      Some \<lparr>bc_name = name, bc_quote = quote, bc_collateral = collateral,
            bc_current_time = t\<rparr>))))))"

definition load_meta :: "host \<Rightarrow> string \<Rightarrow> meta option" where
  "load_meta W dir = Option.bind (host_read W (path_join dir ''meta.json'')) (parse_meta W)"

definition load_allowlist :: "host \<Rightarrow> string \<Rightarrow> allowlist option" where
  "load_allowlist W path = Option.bind (host_read W path) (parse_allowlist W)"

definition load_allowlist_or_default :: "host \<Rightarrow> string option \<Rightarrow> allowlist cli" where
  "load_allowlist_or_default W path =
     (case path of
        None \<Rightarrow> Inr \<lparr>al_sweep = [], al_cases = []\<rparr>
      | Some p \<Rightarrow> ok_or Cli_Panic (load_allowlist W p))"

definition or_panic :: "'a option \<Rightarrow> 'a cli" where
  "or_panic x = ok_or Cli_Panic x"

section \<open>Sweep command\<close>

definition sweep_args_default :: "host \<Rightarrow> sweep_args" where
  "sweep_args_default W =
     \<lparr>sa_iters = None, sa_seed = DEFAULT_SEED, sa_bases = [], sa_only_iter = None,
      sa_out = host_reports W, sa_allow = None\<rparr>"

definition default_base_dirs :: "host \<Rightarrow> string list" where
  "default_base_dirs W =
     [path_join (host_fixtures_root W) ''prod-1'',
      path_join (host_fixtures_root W) ''base-debug-enclave'']"

definition sweep_cmd ::
  "('k, 's, 'r, 'e) harness \<Rightarrow> host \<Rightarrow> string list \<Rightarrow> cli_end" where
  "sweep_cmd H W args =
     (case
        and_then (parse_sweep_args args (sweep_args_default W)) (\<lambda>sa.
        and_then (ok_or (Exit 2) (sa_iters sa)) (\<lambda>iters.
        let default_bases = (sa_bases sa = []);
            dirs = (if default_bases then default_base_dirs W else sa_bases sa) in
        and_then (load_allowlist_or_default W (sa_allow sa)) (\<lambda>al.
        and_then (entries_for_seed (sa_seed sa) (al_sweep al)) (\<lambda>ps.
        and_then (or_panic (those (map (load_base W) dirs))) (\<lambda>bases.
        or_panic (sweep_run H
          \<lparr>so_iters = iters, so_seed = sa_seed sa, so_default_bases = default_bases,
           so_only_iter = sa_only_iter sa, so_out = sa_out sa,
           so_allow_iters = btree_collect ps\<rparr> bases))))))
      of Inl e \<Rightarrow> e | Inr (_, code) \<Rightarrow> Exit code)"

section \<open>Fixtures command\<close>

record fixture =
  fx_name :: string
  fx_quote :: bytes
  fx_collateral :: bytes
  fx_meta :: meta

abbreviation fx_current_time :: "fixture \<Rightarrow> int" where
  "fx_current_time fx \<equiv> meta_current_time (fx_meta fx)"

text \<open>
  The case directories, in the order of their names: entries of the root with a quote and a meta
  file. Their names are the entries' names.
\<close>

definition fixture_dirs :: "host \<Rightarrow> string \<Rightarrow> string list option" where
  "fixture_dirs W case_root =
     map_option (\<lambda>names.
       sort (filter (\<lambda>n. host_is_file W (path_join (path_join case_root n) ''meta.json'') \<and>
                         host_is_file W (path_join (path_join case_root n) ''quote.bin'')) names))
     (host_read_dir W case_root)"

definition load_fixture :: "host \<Rightarrow> string \<Rightarrow> string \<Rightarrow> fixture option" where
  "load_fixture W case_root name =
     (let dir = path_join case_root name in
      Option.bind (host_read W (path_join dir ''quote.bin'')) (\<lambda>quote.
      Option.bind (host_read W (path_join dir ''collateral.json'')) (\<lambda>collateral.
      map_option (\<lambda>m. \<lparr>fx_name = name, fx_quote = quote, fx_collateral = collateral, fx_meta = m\<rparr>)
        (load_meta W dir))))"

record fixtures_args =
  fa_root :: string
  fa_allow :: "string option"

fun parse_fixtures_args :: "string list \<Rightarrow> fixtures_args \<Rightarrow> fixtures_args cli" where
  "parse_fixtures_args [] fa = Inr fa"
| "parse_fixtures_args [flag] fa = Inl (Exit 2)"
| "parse_fixtures_args (flag # v # args) fa =
     (if flag = ''--root'' then parse_fixtures_args args (fa\<lparr>fa_root := v\<rparr>)
      else if flag = ''--allow'' then parse_fixtures_args args (fa\<lparr>fa_allow := Some v\<rparr>)
      else Inl (Exit 2))"

definition fixture_step ::
  "('k, 's, 'r, 'e) harness \<Rightarrow> (string \<times> string) list \<Rightarrow> fixture \<Rightarrow> tally \<times> string set \<Rightarrow>
     (tally \<times> string set) option" where
  "fixture_step H allowed fx st =
     map_option (\<lambda>rec.
       let (t, reproduced) = st;
           known = (case cr_bucket rec of
             Dangerous _ \<Rightarrow> map_of allowed (fx_name fx) \<noteq> None | _ \<Rightarrow> False) in
       if known
       then (t\<lparr>t_dangerous_known := t_dangerous_known t + 1\<rparr>, insert (fx_name fx) reproduced)
       else (tally_add (cr_bucket rec) t, reproduced))
     (run_case H (fx_quote fx) (fx_collateral fx) (fx_current_time fx) DEFAULT_MARSHAL)"

fun fixture_loop ::
  "('k, 's, 'r, 'e) harness \<Rightarrow> (string \<times> string) list \<Rightarrow> fixture list \<Rightarrow> tally \<times> string set \<Rightarrow>
     (tally \<times> string set) option" where
  "fixture_loop H allowed [] st = Some st"
| "fixture_loop H allowed (fx # fxs) st =
     Option.bind (fixture_step H allowed fx st) (fixture_loop H allowed fxs)"

fun fixtures_vanished ::
  "string list \<Rightarrow> string set \<Rightarrow> (string \<times> string) list \<Rightarrow> tally \<Rightarrow> tally" where
  "fixtures_vanished names reproduced [] t = t"
| "fixtures_vanished names reproduced ((c, finding) # ks) t =
     fixtures_vanished names reproduced ks
       (if c \<in> set names \<and> c \<notin> reproduced then t\<lparr>t_vanished := t_vanished t + 1\<rparr> else t)"

definition fixtures_verdict ::
  "('k, 's, 'r, 'e) harness \<Rightarrow> (string \<times> string) list \<Rightarrow> fixture list \<Rightarrow> (tally \<times> int) option"
where
  "fixtures_verdict H allowed fxs =
     map_option (\<lambda>(t, reproduced).
       let t = fixtures_vanished (map fx_name fxs) reproduced allowed t in (t, exit_code t))
     (fixture_loop H allowed fxs (tally_default, {}))"

definition fixtures_cmd ::
  "('k, 's, 'r, 'e) harness \<Rightarrow> host \<Rightarrow> string list \<Rightarrow> cli_end" where
  "fixtures_cmd H W args =
     (case
        and_then (parse_fixtures_args args
                    \<lparr>fa_root = host_fixtures_root W, fa_allow = None\<rparr>) (\<lambda>fa.
        and_then (load_allowlist_or_default W (fa_allow fa)) (\<lambda>al.
        let allowed = btree_collect (map (\<lambda>c. (ac_case c, ac_finding c)) (al_cases al)) in
        and_then (or_panic (fixture_dirs W (fa_root fa))) (\<lambda>names.
        and_then (or_panic (those (map (load_fixture W (fa_root fa)) names))) (\<lambda>fxs.
        or_panic (fixtures_verdict H allowed fxs)))))
      of Inl e \<Rightarrow> e | Inr (_, code) \<Rightarrow> Exit code)"

section \<open>Calibration\<close>

definition calibration_grid :: "marshal_config list" where
  "calibration_grid =
     concat (map (\<lambda>(mj, mn).
         map (\<lambda>form. \<lparr>major = mj, minor = mn, tee_type = 0, mc_crl_form = form\<rparr>) [Pem, Der])
       [(1, 0), (3, 0), (3, 1), (4, 0)])"

definition passes ::
  "('k, 's, 'r, 'e) harness \<Rightarrow> bytes \<Rightarrow> raw_collateral \<Rightarrow> int \<Rightarrow> marshal_config \<Rightarrow> bool" where
  "passes H quote raw now cfg \<longleftrightarrow>
     (case build_quote_collateral H raw cfg of
        Inl _ \<Rightarrow> False
      | Inr collateral \<Rightarrow>
          (case tee_verify_quote H quote collateral now of
             Inl _ \<Rightarrow> False
           | Inr (_, result) \<Rightarrow> result = QV_RESULT_CONFIG_AND_SW_HARDENING_NEEDED H))"

definition calibration_winner ::
  "('k, 's, 'r, 'e) harness \<Rightarrow> bytes \<Rightarrow> raw_collateral \<Rightarrow> int \<Rightarrow> marshal_config option" where
  "calibration_winner H quote raw now =
     (let passing = filter (passes H quote raw now) calibration_grid in
      case List.find (\<lambda>cfg. marshal_label cfg = marshal_label DEFAULT_MARSHAL) passing of
        Some cfg \<Rightarrow> Some cfg
      | None \<Rightarrow> (case passing of [] \<Rightarrow> None | cfg # _ \<Rightarrow> Some cfg))"

definition calibration_outcome ::
  "('k, 's, 'r, 'e) harness \<Rightarrow> bytes \<Rightarrow> raw_collateral \<Rightarrow> int \<Rightarrow> marshal_config \<Rightarrow> string" where
  "calibration_outcome H quote raw now cfg =
     (case build_quote_collateral H raw cfg of
        Inl e \<Rightarrow> ''marshal-failed: '' @ e
      | Inr collateral \<Rightarrow>
          (case tee_verify_quote H quote collateral now of
             Inl code \<Rightarrow> ''err('' @ show_error H code @ '')''
           | Inr (exp_status, result) \<Rightarrow>
               ''exp='' @ dec_word exp_status @ '' '' @ show_result H result))"

definition calibration_row ::
  "('k, 's, 'r, 'e) harness \<Rightarrow> bytes \<Rightarrow> raw_collateral \<Rightarrow> int \<Rightarrow> marshal_config \<Rightarrow> string" where
  "calibration_row H quote raw now cfg =
     pad_right 10 (dec_word (major cfg) @ ''.'' @ dec_word (minor cfg)) @ '' '' @
     pad_right 6 (crl_form_label (mc_crl_form cfg)) @ '' '' @ pad_right 10 ''0'' @ '' '' @
     calibration_outcome H quote raw now cfg"

fun parse_calibrate_args :: "string list \<Rightarrow> string \<Rightarrow> string cli" where
  "parse_calibrate_args [] dir = Inr dir"
| "parse_calibrate_args [flag] dir = Inl (Exit 2)"
| "parse_calibrate_args (flag # v # args) dir =
     (if flag = ''--case'' then parse_calibrate_args args v else Inl (Exit 2))"

text \<open>The command falls off its end, and the process exits with 0, when a cell was chosen.\<close>

definition calibrate_cmd ::
  "('k, 's, 'r, 'e) harness \<Rightarrow> host \<Rightarrow> string list \<Rightarrow> cli_end" where
  "calibrate_cmd H W args =
     (case
        and_then (parse_calibrate_args args (path_join (host_fixtures_root W) ''prod-1'')) (\<lambda>dir.
        and_then (or_panic (host_read W (path_join dir ''quote.bin''))) (\<lambda>quote.
        and_then (or_panic (host_read W (path_join dir ''collateral.json''))) (\<lambda>collateral_json.
        and_then (or_panic (load_meta W dir)) (\<lambda>m.
        and_then (or_panic (result_ok (parse_raw_collateral H collateral_json))) (\<lambda>raw.
        Inr (calibration_winner H quote raw (meta_current_time m)))))))
      of Inl e \<Rightarrow> e | Inr None \<Rightarrow> Exit 1 | Inr (Some cfg) \<Rightarrow> Exit 0)"

section \<open>Dispatch\<close>

text \<open>The arguments without the program's name.\<close>

definition differ_main :: "('k, 's, 'r, 'e) harness \<Rightarrow> host \<Rightarrow> string list \<Rightarrow> cli_end" where
  "differ_main H W args =
     (case args of
        [] \<Rightarrow> Exit 2
      | cmd # args' \<Rightarrow>
          if cmd = ''calibrate'' then calibrate_cmd H W args'
          else if cmd = ''fixtures'' then fixtures_cmd H W args'
          else if cmd = ''sweep'' then sweep_cmd H W args'
          else Exit 2)"

section \<open>The table of a fixture run\<close>

definition fixture_line ::
  "('k, 's, 'r, 'e) harness \<Rightarrow> (string \<times> string) list \<Rightarrow> fixture \<Rightarrow>
     ('r, 'e) comparison_record \<Rightarrow> string" where
  "fixture_line H allowed fx rec =
     pad_right 28 (fx_name fx) @ '' '' @ pad_right 50 (dcap_label (cr_dcap rec)) @ '' '' @
     pad_right 28 (qvl_label H (cr_qvl rec)) @ '' '' @
     pad_right 50
       (case cr_bucket rec of
          Dangerous _ \<Rightarrow>
            (case map_of allowed (fx_name fx) of
               Some finding \<Rightarrow> ''known-dangerous('' @ finding @ '')''
             | None \<Rightarrow> bucket_label (cr_bucket rec))
        | _ \<Rightarrow> bucket_label (cr_bucket rec)) @ '' '' @
     expected_label (fx_meta fx)"

definition fixtures_header :: string where
  "fixtures_header =
     pad_right 28 ''case'' @ '' '' @ pad_right 50 ''dcap'' @ '' '' @ pad_right 28 ''qvl'' @ '' '' @
     pad_right 50 ''bucket'' @ '' meta-expected''"

definition fixtures_vanished_lines ::
  "string list \<Rightarrow> string set \<Rightarrow> (string \<times> string) list \<Rightarrow> string list" where
  "fixtures_vanished_lines names reproduced allowed =
     map (\<lambda>(c, finding). vanished_line c finding)
       (filter (\<lambda>(c, _). c \<in> set names \<and> c \<notin> reproduced) allowed)"

end
