(* ===== verification/Differ_Main.thy ===== *)
theory Differ_Main
  imports Differ_Cli
begin

text \<open>
  What the commands of \<^verbatim>\<open>dcap-differ\<close> promise: the verdict of a fixture run, the exit codes, the
  calibration, and that the command recorded with a finding replays it.
\<close>

section \<open>Facts\<close>

definition increasing_keys :: "('a::linorder \<times> 'b) list \<Rightarrow> bool" where
  "increasing_keys m \<longleftrightarrow> sorted_wrt (<) (map fst m)"

lemma btree_insert_keys: "fst ` set (btree_insert k v m) = insert k (fst ` set m)"
  by (induction k v m rule: btree_insert.induct) auto

lemma increasing_keys_simps [simp]:
  "increasing_keys []"
  "increasing_keys ((k, v) # m) \<longleftrightarrow> (\<forall>k'\<in>fst ` set m. k < k') \<and> increasing_keys m"
  by (simp_all add: increasing_keys_def)

lemma btree_insert_increasing: "increasing_keys m \<Longrightarrow> increasing_keys (btree_insert k v m)"
proof (induction k v m rule: btree_insert.induct)
  case (1 k v)
  then show ?case by simp
next
  case (2 k v k' v' m)
  consider "k < k'" | "k = k'" | "k' < k" by force
  then show ?case
    using 2 by cases (auto simp: btree_insert_keys intro: less_trans [of k k'])
qed

lemma map_of_btree_insert: "increasing_keys m \<Longrightarrow> map_of (btree_insert k v m) = (map_of m)(k \<mapsto> v)"
  by (induction k v m rule: btree_insert.induct)
    (auto simp: fun_upd_twist)

lemma btree_collect_aux:
  "increasing_keys m \<Longrightarrow>
     increasing_keys (fold (\<lambda>(k, v). btree_insert k v) ps m) \<and>
     map_of (fold (\<lambda>(k, v). btree_insert k v) ps m) = (map_of m ++ map_of (rev ps))"
proof (induction ps arbitrary: m)
  case Nil
  then show ?case by simp
next
  case (Cons p ps)
  obtain k v where p: "p = (k, v)" by (cases p)
  with Cons.IH [OF btree_insert_increasing [OF Cons.prems]] show ?case
    by (simp add: map_of_btree_insert [OF Cons.prems] del: fun_upd_apply)
qed

lemma btree_collect_map:
  "increasing_keys (btree_collect ps)" "map_of (btree_collect ps) = map_of (rev ps)"
  using btree_collect_aux [of "[]" ps] by (simp_all add: btree_collect_def increasing_keys_def)

section \<open>The verdict of a fixture run\<close>

definition fixture_bucket :: "('k, 's, 'r, 'e) harness \<Rightarrow> fixture \<Rightarrow> bucket" where
  "fixture_bucket H fx =
     (case run_case H (fx_quote fx) (fx_collateral fx) (fx_current_time fx) DEFAULT_MARSHAL of
        None \<Rightarrow> DcapPanic
      | Some rec \<Rightarrow> cr_bucket rec)"

definition fixture_known ::
  "('k, 's, 'r, 'e) harness \<Rightarrow> (string \<times> string) list \<Rightarrow> fixture \<Rightarrow> bool" where
  "fixture_known H allowed fx \<longleftrightarrow>
     (\<exists>kind. fixture_bucket H fx = Dangerous kind) \<and> fx_name fx \<in> fst ` set allowed"

interpretation fixture_verdict: allowlisted_run "fixture_bucket H" "fixture_known H allowed"
  for H allowed
  by unfold_locales (simp add: fixture_known_def)

lemma fixture_step_eq:
  "fixture_step H allowed fx (t, rep) =
     Some (tally_record (fixture_known H allowed fx) (fixture_bucket H fx) t,
           if fixture_known H allowed fx then insert (fx_name fx) rep else rep)"
proof -
  obtain rec where "run_case H (fx_quote fx) (fx_collateral fx) (fx_current_time fx)
      DEFAULT_MARSHAL = Some rec"
    using run_case_total [of H "fx_quote fx" "fx_collateral fx" "fx_current_time fx"
        DEFAULT_MARSHAL] by auto
  moreover have "map_of allowed n \<noteq> None \<longleftrightarrow> n \<in> fst ` set allowed" for n
    by (simp add: map_of_eq_None_iff)
  ultimately show ?thesis
    by (cases "cr_bucket rec")
      (auto simp: fixture_step_def fixture_known_def fixture_bucket_def tally_record_def Let_def)
qed

lemma fixture_loop_eq:
  "fixture_loop H allowed fxs (t, rep) =
     Some (run_tally (fixture_bucket H) (fixture_known H allowed) fxs t,
           rep \<union> fx_name ` {fx \<in> set fxs. fixture_known H allowed fx})"
  by (induction fxs arbitrary: t rep) (auto simp: fixture_step_eq run_tally_def)

lemma fixtures_vanished_eq:
  "fixtures_vanished names rep ks t =
     t\<lparr>t_vanished := t_vanished t + length (filter (\<lambda>(c, _). c \<in> set names \<and> c \<notin> rep) ks)\<rparr>"
  by (induction names rep ks t rule: fixtures_vanished.induct) auto

lemma fixtures_verdict_codes:
  "\<exists>t code. fixtures_verdict H allowed fxs = Some (t, code) \<and>
     (code = EXIT_CLEAN \<longleftrightarrow>
        (\<forall>fx\<in>set fxs. fixture_bucket H fx \<noteq> DcapPanic \<and> fixture_bucket H fx \<noteq> StandingMismatch \<and>
           ((\<exists>kind. fixture_bucket H fx = Dangerous kind) \<longrightarrow> fx_name fx \<in> fst ` set allowed)) \<and>
        (\<forall>c\<in>fst ` set allowed. c \<in> fx_name ` set fxs \<longrightarrow>
           (\<exists>fx\<in>set fxs. fx_name fx = c \<and> (\<exists>kind. fixture_bucket H fx = Dangerous kind)))) \<and>
     (code = EXIT_FAIL \<longleftrightarrow>
        (\<exists>fx\<in>set fxs. fixture_bucket H fx = DcapPanic \<or>
           fixture_bucket H fx = StandingMismatch))"
proof -
  let ?t = "run_tally (fixture_bucket H) (fixture_known H allowed) fxs tally_default"
  let ?rep = "fx_name ` {fx \<in> set fxs. fixture_known H allowed fx}"
  let ?n = "length (filter (\<lambda>(c, _). c \<in> set (map fx_name fxs) \<and> c \<notin> ?rep) allowed)"
  let ?v = "?t\<lparr>t_vanished := ?n\<rparr>"
  have "t_vanished ?t = 0"
    by (simp add: fixture_verdict.run_tally_fields tally_default_def)
  then have run: "fixtures_verdict H allowed fxs = Some (?v, exit_code ?v)"
    by (simp add: fixtures_verdict_def fixture_loop_eq fixtures_vanished_eq Let_def)
  have n: "?n = 0 \<longleftrightarrow> (\<forall>c\<in>fst ` set allowed. c \<in> fx_name ` set fxs \<longrightarrow>
      (\<exists>fx\<in>set fxs. fx_name fx = c \<and> (\<exists>kind. fixture_bucket H fx = Dangerous kind)))"
  proof -
    have "?n = 0 \<longleftrightarrow> (\<forall>c\<in>fst ` set allowed. c \<in> fx_name ` set fxs \<longrightarrow> c \<in> ?rep)"
      by (simp add: filter_empty_conv split_def)
    moreover have "c \<in> ?rep \<longleftrightarrow>
        (\<exists>fx\<in>set fxs. fx_name fx = c \<and> (\<exists>kind. fixture_bucket H fx = Dangerous kind))"
      if "c \<in> fst ` set allowed" for c
      using that by (auto simp: fixture_known_def)
    ultimately show ?thesis by simp
  qed
  have named: "(\<forall>fx\<in>set fxs. fixture_bucket H fx \<noteq> DcapPanic \<and>
         fixture_bucket H fx \<noteq> StandingMismatch \<and>
         ((\<exists>kind. fixture_bucket H fx = Dangerous kind) \<longrightarrow> fixture_known H allowed fx)) \<longleftrightarrow>
      (\<forall>fx\<in>set fxs. fixture_bucket H fx \<noteq> DcapPanic \<and>
         fixture_bucket H fx \<noteq> StandingMismatch \<and>
         ((\<exists>kind. fixture_bucket H fx = Dangerous kind) \<longrightarrow> fx_name fx \<in> fst ` set allowed))"
    by (auto simp: fixture_known_def)
  have "?v = ?t\<lparr>t_vanished := ?n\<rparr>" by (rule refl)
  note codes = fixture_verdict.run_exit_code [OF refl this]
  have "exit_code ?v = EXIT_CLEAN \<longleftrightarrow>
        (\<forall>fx\<in>set fxs. fixture_bucket H fx \<noteq> DcapPanic \<and> fixture_bucket H fx \<noteq> StandingMismatch \<and>
           ((\<exists>kind. fixture_bucket H fx = Dangerous kind) \<longrightarrow> fx_name fx \<in> fst ` set allowed)) \<and>
        (\<forall>c\<in>fst ` set allowed. c \<in> fx_name ` set fxs \<longrightarrow>
           (\<exists>fx\<in>set fxs. fx_name fx = c \<and> (\<exists>kind. fixture_bucket H fx = Dangerous kind)))"
    by (simp only: codes(2) n named)
  then show ?thesis by (intro exI conjI) (rule run, assumption, rule codes(1))
qed

section \<open>Exit codes\<close>

text \<open>Argument and input errors: usage exits with 2, unreadable input panics.\<close>

definition cli_errors :: "cli_end set" where
  "cli_errors = {Exit 2, Cli_Panic}"

definition fails_early :: "'a cli \<Rightarrow> bool" where
  "fails_early r \<longleftrightarrow> (\<forall>e. r = Inl e \<longrightarrow> e \<in> cli_errors)"

named_theorems early_intros \<open>errors of command-line steps\<close>

lemma fails_early_basic [early_intros]:
  "fails_early (Inr x)" "fails_early (Inl (Exit 2))" "fails_early (Inl Cli_Panic)"
  "fails_early (ok_or (Exit 2) y)" "fails_early (ok_or Cli_Panic y)" "fails_early (or_panic y)"
  by (auto simp: fails_early_def cli_errors_def or_panic_def ok_or_eq_Inl)

lemma fails_early_and_then [early_intros]:
  "fails_early r \<Longrightarrow> (\<And>x. fails_early (f x)) \<Longrightarrow> fails_early (and_then r f)"
  by (auto simp: fails_early_def and_then_eq_Inl)

lemma fails_early_if [early_intros]:
  "(b \<Longrightarrow> fails_early r) \<Longrightarrow> (\<not> b \<Longrightarrow> fails_early s) \<Longrightarrow> fails_early (if b then r else s)"
  by simp

lemma fails_early_parse_hex [early_intros]: "fails_early (parse_hex_u64 s)"
  unfolding parse_hex_u64_def Let_def by (rule early_intros)

lemma fails_early_parsers [early_intros]:
  "fails_early (parse_sweep_args args sa)"
  "fails_early (parse_fixtures_args args fa)"
  "fails_early (parse_calibrate_args args dir)"
proof -
  show "fails_early (parse_sweep_args args sa)"
  proof (induction args sa rule: parse_sweep_args.induct)
    case (3 flag v args sa)
    then show ?case unfolding parse_sweep_args.simps by (intro early_intros) auto
  qed (simp_all add: early_intros)
  show "fails_early (parse_fixtures_args args fa)"
    by (induction args fa rule: parse_fixtures_args.induct) (simp_all add: early_intros)
  show "fails_early (parse_calibrate_args args dir)"
    by (induction args dir rule: parse_calibrate_args.induct) (simp_all add: early_intros)
qed

lemma fails_early_inputs [early_intros]:
  "fails_early (entries_for_seed seed es)"
  "fails_early (load_allowlist_or_default W p)"
proof -
  show "fails_early (entries_for_seed seed es)"
  proof (induction es)
    case (Cons e es)
    then show ?case unfolding entries_for_seed.simps by (intro early_intros)
  qed (simp add: early_intros)
  show "fails_early (load_allowlist_or_default W p)"
    by (cases p) (simp_all add: load_allowlist_or_default_def early_intros)
qed

lemma exit_code_range: "exit_code t \<in> {0, 10, 20}"
  by (simp add: exit_code_def EXIT_CLEAN_def EXIT_REVIEW_def EXIT_FAIL_def)

lemma run_code_range:
  "sweep_run H opts bases = Some (st, code) \<Longrightarrow> code \<in> {0, 10, 20}"
  "fixtures_verdict H allowed fxs = Some (t, code) \<Longrightarrow> code \<in> {0, 10, 20}"
  using exit_code_range
  by (auto simp: sweep_run_def fixtures_verdict_def bind_eq_Some_conv Let_def)

lemma command_end:
  assumes "fails_early r" and "\<And>x code. r = Inr (x, code) \<Longrightarrow> code \<in> {0, 10, 20}"
  shows "(case r of Inl e \<Rightarrow> e | Inr (_, code) \<Rightarrow> Exit code) \<in> cli_errors \<union> Exit ` {0, 10, 20}"
  using assms by (cases r) (auto simp: fails_early_def)

lemma sweep_cmd_end: "sweep_cmd H W args \<in> cli_errors \<union> Exit ` {0, 10, 20}"
  unfolding sweep_cmd_def Let_def
  by (rule command_end, intro early_intros)
    (elim and_then_eq_Inr [THEN iffD1, elim_format] exE conjE,
      auto simp: or_panic_def ok_or_eq_Inr dest: run_code_range(1))

lemma fixtures_cmd_end: "fixtures_cmd H W args \<in> cli_errors \<union> Exit ` {0, 10, 20}"
  unfolding fixtures_cmd_def Let_def
  by (rule command_end, intro early_intros)
    (auto simp: and_then_eq_Inr or_panic_def ok_or_eq_Inr dest: run_code_range(2))

lemma calibrate_cmd_end: "calibrate_cmd H W args \<in> cli_errors \<union> {Exit 0, Exit 1}"
proof -
  have end': "(case r of Inl e \<Rightarrow> e | Inr None \<Rightarrow> Exit 1 | Inr (Some cfg) \<Rightarrow> Exit 0)
      \<in> cli_errors \<union> {Exit 0, Exit 1}" if "fails_early r" for r :: "'x option cli"
    using that by (auto simp: fails_early_def split: sum.splits option.splits)
  show ?thesis unfolding calibrate_cmd_def by (rule end', intro early_intros)
qed

section \<open>The recorded command\<close>

lemma hex_nat_unfold:
  "hex_nat dig n = (if n < 16 then [dig n] else hex_nat dig (n div 16) @ [dig (n mod 16)])"
  by (subst hex_nat.simps) simp

lemma hex_value_digit: "d < 16 \<Longrightarrow> hex_value (upper_hex_digit d) = Some d"
  by (auto simp: hex_value_def upper_hex_digit_def take_bit_nat_eq_self)

lemma parse_hex_append:
  "parse_hex_digits acc (xs @ ys) = Option.bind (parse_hex_digits acc xs) (\<lambda>a. parse_hex_digits a ys)"
  by (induction acc xs rule: parse_hex_digits.induct) (auto split: option.splits)

lemma parse_hex_nat: "n < 2 ^ 64 \<Longrightarrow> parse_hex_digits 0 (hex_nat upper_hex_digit n) = Some n"
proof (induction n rule: less_induct)
  case (less n)
  show ?case
  proof (cases "n < 16")
    case True
    then show ?thesis by (simp add: hex_nat_unfold [of _ n] hex_value_digit)
  next
    case False
    then have "parse_hex_digits 0 (hex_nat upper_hex_digit (n div 16)) = Some (n div 16)"
      using less.IH [of "n div 16"] less.prems by simp
    moreover have "16 * (n div 16) + n mod 16 = n" by simp
    ultimately show ?thesis
      using less.prems False
      by (simp add: hex_nat_unfold [of _ n] parse_hex_append hex_value_digit)
  qed
qed

text \<open>Texts without spaces are the words of a command line.\<close>

lemma hex_nat_digits:
  "c \<in> set (hex_nat dig n) \<Longrightarrow> \<exists>d<16. c = dig d"
proof (induction n rule: less_induct)
  case (less n)
  show ?case
  proof (cases "n < 16")
    case True
    with less.prems show ?thesis by (auto simp: hex_nat_unfold [of _ n])
  next
    case False
    then have "c \<in> set (hex_nat dig (n div 16)) \<or> c = dig (n mod 16)"
      using less.prems by (auto simp: hex_nat_unfold [of _ n])
    moreover have "n mod 16 < 16" by simp
    ultimately show ?thesis using less.IH [of "n div 16"] False by force
  qed
qed

lemma upper_hex_digit_plain:
  "d < 16 \<Longrightarrow> upper_hex_digit d \<noteq> CHR '' '' \<and> upper_hex_digit d \<noteq> CHR ''+''"
  using hex_value_digit [of d] by (auto simp: hex_value_def)

lemma parse_hex_u64_upper: "parse_hex_u64 (''0x'' @ hex_nat upper_hex_digit (unat seed)) = Inr seed"
proof -
  let ?h = "hex_nat upper_hex_digit (unat seed)"
  have "?h \<noteq> []" by (simp add: hex_nat_unfold [of _ "unat seed"])
  then obtain c cs where h: "?h = c # cs" by (cases ?h) auto
  then have "c \<noteq> CHR ''+''"
    using hex_nat_digits [of c upper_hex_digit "unat seed"] upper_hex_digit_plain by auto
  moreover have "parse_hex_digits 0 ?h = Some (unat seed)"
    using unsigned_less [of seed, where ?'a = nat] by (intro parse_hex_nat) simp
  ultimately show ?thesis
    by (simp add: parse_hex_u64_def u64_from_hex_def h)
qed

lemma split_char_word:
  "sep \<notin> set w \<Longrightarrow> split_char sep acc (w @ sep # r) = (acc @ w) # split_char sep [] r"
  "sep \<notin> set w \<Longrightarrow> split_char sep acc w = [acc @ w]"
  by (induction w arbitrary: acc) auto

definition command_words :: "string \<Rightarrow> string list" where
  "command_words s = split_char CHR '' '' [] s"

lemma dec_nat_no_space: "CHR '' '' \<notin> set (dec_nat n)"
  using dec_nat_digits [of "CHR '' ''" n] by (auto simp: digit_value_def)

lemma repro_command_words:
  "command_words (repro_command seed i) =
     [''dcap-differ'', ''sweep'', ''--seed'', ''0x'' @ hex_nat upper_hex_digit (unat seed),
      ''--iters'', ''1'', ''--only-iter'', dec_nat i]"
proof -
  have "CHR '' '' \<notin> set (hex_nat upper_hex_digit (unat seed))"
    using hex_nat_digits [of "CHR '' ''" upper_hex_digit "unat seed"] upper_hex_digit_plain by metis
  then show ?thesis
    by (simp add: command_words_def repro_command_def split_char_word(1)
        split_char_word(2) [OF dec_nat_no_space])
qed

text \<open>The single-iteration run with the seed and the base cases of a longer one.\<close>

lemma iteration_bucket_replay:
  assumes "so_seed opts' = so_seed opts" and "so_default_bases opts' = so_default_bases opts"
  shows "iteration_bucket H opts' bases i = iteration_bucket H opts bases i"
  using assms
  by (simp add: iteration_bucket_def iteration_case_def iteration_draw_def pick_base_def)

lemma sweep_run_single:
  assumes "sane_bases opts bases" and "so_only_iter opts = Some i" and "so_allow_iters opts = []"
  shows "\<exists>st. sweep_run H opts bases =
     Some (st, exit_code (tally_of [iteration_bucket H opts bases i]))"
proof -
  have idx: "sweep_indices opts = [i]" using assms(2) by (simp add: sweep_indices_def)
  have unknown: "\<not> sweep_known H opts bases i"
    using assms(3) by (simp add: sweep_known_def allowlisted_def split: bucket.splits)
  obtain st where "sweep_loop H opts bases [i] sweep_init = Some st"
    "ss_tally st = run_tally (iteration_bucket H opts bases) (sweep_known H opts bases) [i]
       tally_default"
    using sweep_loop_tally [OF assms(1), of H "[i]" sweep_init] by (auto simp: sweep_init_def)
  with unknown show ?thesis
    by (simp add: sweep_run_def idx assms(3) run_tally_def tally_record_def tally_of_def Let_def
        del: sweep_loop.simps)
qed

section \<open>Properties\<close>

text \<open>C26. A fixture run completes, and its verdict is exact: clean iff no case panics or mismatches,
  every dangerous case is allowlisted, and every allowlisted case of the corpus is dangerous;
  failing iff some case panics or mismatches.\<close>

theorem fixtures_verdict_exact:
  "\<exists>t code. fixtures_verdict H allowed fxs = Some (t, code) \<and>
     (code = EXIT_CLEAN \<longleftrightarrow>
        (\<forall>fx\<in>set fxs. fixture_bucket H fx \<noteq> DcapPanic \<and> fixture_bucket H fx \<noteq> StandingMismatch \<and>
           ((\<exists>kind. fixture_bucket H fx = Dangerous kind) \<longrightarrow> fx_name fx \<in> fst ` set allowed)) \<and>
        (\<forall>c\<in>fst ` set allowed. c \<in> fx_name ` set fxs \<longrightarrow>
           (\<exists>fx\<in>set fxs. fx_name fx = c \<and> (\<exists>kind. fixture_bucket H fx = Dangerous kind)))) \<and>
     (code = EXIT_FAIL \<longleftrightarrow>
        (\<exists>fx\<in>set fxs. fixture_bucket H fx = DcapPanic \<or>
           fixture_bucket H fx = StandingMismatch))"
  by (rule fixtures_verdict_codes)

text \<open>Collecting allowlist entries into the map keeps the last entry of every key and orders the
  keys.\<close>

theorem allowlist_map_keeps_last:
  "increasing_keys (btree_collect ps) \<and> map_of (btree_collect ps) = map_of (rev ps)"
  by (simp add: btree_collect_map)


text \<open>Calibration chooses the hardcoded configuration whenever it passes, otherwise a configuration
  of the grid that passes, and fails only when none does.\<close>

theorem calibration_prefers_default:
  "(passes H quote raw now DEFAULT_MARSHAL \<longrightarrow>
      calibration_winner H quote raw now = Some DEFAULT_MARSHAL) \<and>
   (\<forall>cfg. calibration_winner H quote raw now = Some cfg \<longrightarrow>
      cfg \<in> set calibration_grid \<and> passes H quote raw now cfg) \<and>
   (calibration_winner H quote raw now = None \<longleftrightarrow>
      (\<forall>cfg\<in>set calibration_grid. \<not> passes H quote raw now cfg))"
proof -
  let ?ok = "filter (passes H quote raw now) calibration_grid"
  let ?same = "\<lambda>cfg. marshal_label cfg = marshal_label DEFAULT_MARSHAL"
  have grid: "DEFAULT_MARSHAL \<in> set calibration_grid"
    by (simp add: calibration_grid_def DEFAULT_MARSHAL_def)
  have only: "cfg = DEFAULT_MARSHAL" if "cfg \<in> set calibration_grid" "?same cfg" for cfg
    using that
    by (auto simp: calibration_grid_def DEFAULT_MARSHAL_def marshal_label_def dec_word_def
        dec_nat_unfold)
  show ?thesis
  proof (cases "List.find ?same ?ok")
    case None
    then have "\<forall>x\<in>set ?ok. \<not> ?same x" by (simp only: find_None_iff)  blast
    then have "\<not> passes H quote raw now DEFAULT_MARSHAL" using grid by auto
    show ?thesis
    proof (cases ?ok)
      case Nil
      then have "calibration_winner H quote raw now = None" by (simp add: calibration_winner_def)
      moreover have "\<forall>cfg\<in>set calibration_grid. \<not> passes H quote raw now cfg"
        using Nil by (simp only: filter_empty_conv)
      ultimately show ?thesis using grid by simp
    next
      case (Cons a l)
      then have "a \<in> set ?ok" by (simp only: list.set_intros)
      then have "a \<in> set calibration_grid" and "passes H quote raw now a" by simp_all
      moreover have "calibration_winner H quote raw now = Some a"
        using None Cons by (simp add: calibration_winner_def)
      ultimately show ?thesis
        using \<open>\<not> passes H quote raw now DEFAULT_MARSHAL\<close> by auto
    qed
  next
    case (Some cfg)
    then have "?same cfg" "cfg \<in> set ?ok" by (auto dest: find_SomeD)
    then have "cfg = DEFAULT_MARSHAL" "passes H quote raw now cfg" using only by auto
    with Some grid show ?thesis by (auto simp: calibration_winner_def)
  qed
qed

text \<open>C33. The command recorded with a finding replays it: for a sweep over the default base cases, the
  recorded words, run as a command, parse, load the same cases, run that one iteration and exit
  with the verdict of its bucket.\<close>

theorem repro_command_replays:
  assumes "those (map (load_base W) (default_base_dirs W)) = Some bases"
    and "sane_bases opts bases" and "so_default_bases opts" and "i < 2 ^ 64"
  shows "differ_main H W (tl (command_words (repro_command (so_seed opts) i))) =
     Exit (exit_code (tally_of [iteration_bucket H opts bases i]))"
proof -
  let ?opts = "\<lparr>so_iters = 1, so_seed = so_seed opts, so_default_bases = True,
      so_only_iter = Some i, so_out = host_reports W, so_allow_iters = []\<rparr>"
  have "char_of (49 :: nat) = CHR ''1''" by code_simp
  then have "dec_nat 1 = ''1''" by (simp add: dec_nat_unfold)
  with parse_usize_dec_nat [of 1] have "parse_usize ''1'' = Some 1" by simp
  moreover have "parse_usize (dec_nat i) = Some i" by (rule parse_usize_dec_nat [OF assms(4)])
  ultimately have parse: "parse_sweep_args (tl (tl (command_words (repro_command (so_seed opts) i))))
      (sweep_args_default W) =
      Inr ((sweep_args_default W)\<lparr>sa_iters := Some 1, sa_seed := so_seed opts, sa_only_iter := Some i\<rparr>)"
    using parse_hex_u64_upper [of "so_seed opts"]
    by (simp add: repro_command_words)
  have "sane_bases ?opts bases" using assms(2,3) by (simp add: sane_bases_def)
  then obtain st where "sweep_run H ?opts bases =
      Some (st, exit_code (tally_of [iteration_bucket H ?opts bases i]))"
    using sweep_run_single [of ?opts bases i H] by auto
  moreover have "iteration_bucket H ?opts bases i = iteration_bucket H opts bases i"
    using assms(3) by (intro iteration_bucket_replay) simp_all
  ultimately have "sweep_cmd H W (tl (tl (command_words (repro_command (so_seed opts) i)))) =
      Exit (exit_code (tally_of [iteration_bucket H opts bases i]))"
    unfolding sweep_cmd_def parse
    by (simp add: sweep_args_default_def load_allowlist_or_default_def or_panic_def assms(1)
        btree_collect_def)
  then show ?thesis by (simp add: repro_command_words differ_main_def)
qed

end
