(* ===== verification/Witnesses.thy ===== *)
theory Witnesses
  imports Example Differ_Main
begin

text \<open>
  The component theorems applied to the concrete example: every hypothesis is discharged for the
  stand-in crates, the example's platform and quote, and a small sweep.
\<close>

section \<open>The verifier\<close>

theorem debug_is_attribute_bit_witness:
  "wf_report toy_body \<and> (is_debug toy_body \<longleftrightarrow> bit (attributes toy_body ! 0) 1)"
  by (rule conjI [OF toy_bodies_wf(1) debug_is_attribute_bit [OF toy_bodies_wf(1)]])

theorem report_round_trip_witness: "report_parse (encode_plain toy_body) = Inr toy_body"
  unfolding encode_plain_def by (rule report_round_trip [OF toy_bodies_wf(1) plain_reserved])

lemma toy_quote_read: "fst (sgx_quote_read (encode_quote toy_quote @ [1, 2])) = Inr toy_quote"
proof -
  have "read_quote (encode_quote toy_quote @ [1, 2]) = Inr (toy_quote, [1, 2])"
    by (simp add: read_quote_eq_Inr toy_quote_wf)
  then show ?thesis by (simp add: sgx_quote_read_def)
qed

theorem peek_agrees_with_parser_witness:
  "peek_mrenclave (encode_quote toy_quote @ [1, 2]) = Some (mrenclave (report_body toy_quote)) \<and>
   peek_report_data (encode_quote toy_quote @ [1, 2]) =
     Some (sgx_report_data_bytes (report_body toy_quote))"
  by (rule peek_agrees_with_parser [OF toy_quote_read])

definition toy_entries :: "map_entry list" where
  "toy_entries =
     [\<lparr>entry_key = Inr ''note'', value_raw = Inl '''', value_string = Inl '''', value_ignored = Inr ()\<rparr>,
      \<lparr>entry_key = Inr ''signature'', value_raw = Inl '''', value_string = Inr ''7b01'',
       value_ignored = Inr ()\<rparr>,
      \<lparr>entry_key = Inr ''tcbInfo'', value_raw = Inr ''{t}'', value_string = Inl '''',
       value_ignored = Inr ()\<rparr>]"

theorem signed_document_iff_witness:
  "\<exists>doc. visit_map WIRE_FIELD_tcb_info (\<lambda>_. Inr toy_tcb_info) toy_entries = Inr doc \<and>
     body_json doc = ''{t}'' \<and> signature_hex doc = ''7b01''"
proof -
  have wire: "WIRE_FIELD_tcb_info \<noteq> ''signature''" by (simp add: WIRE_FIELD_tcb_info_def)
  let ?doc = "\<lparr>body_json = ''{t}'', body = toy_tcb_info, signature_hex = ''7b01''\<rparr>"
  have "visit_map WIRE_FIELD_tcb_info (\<lambda>_. Inr toy_tcb_info) toy_entries = Inr ?doc"
    by (rule iffD2 [OF signed_document_iff [OF wire]])
      (simp add: toy_entries_def entry_readable_def entries_with_def WIRE_FIELD_tcb_info_def)
  then show ?thesis by auto
qed

theorem validate_iff_trusted_path_witness:
  "chain_validate toy \<lparr>pc_kind = TcbInfoIssuer, certs = [signing_cert, root_cert]\<rparr> 100 = Inr ()"
  by (rule iffD2 [OF validate_iff_trusted_path [OF toy_load(1)]]) (simp add: toy_trusted)

theorem trailing_junk_ignored_witness:
  "from_pem toy QuotePck ([0x4C, 0x50, 0x52] @ [10, 0]) = from_pem toy QuotePck [0x4C, 0x50, 0x52]"
  by (rule trailing_junk_ignored) (simp_all add: trailing_junk_def is_ascii_whitespace_def)


theorem masked_eq_bitwise_witness: "masked_eq [0x0F, 0x80] [0xFF, 0x00] [0x0F, 0x7F]"
proof (rule iffD2 [OF masked_eq_bitwise [of _ 2]])
  have "(0x0F :: byte) AND 0x0F = 0xFF AND 0x0F" and "(0x80 :: byte) AND 0x7F = 0x00 AND 0x7F"
    by simp_all
  then have "\<forall>k. bit (0x0F :: byte) k \<longrightarrow> bit (0x0F :: byte) k = bit (0xFF :: byte) k"
    and "\<forall>k. bit (0x7F :: byte) k \<longrightarrow> bit (0x80 :: byte) k = bit (0x00 :: byte) k"
    by (simp_all only: masked_byte)
  then show "\<forall>i<2. \<forall>k. bit ([0x0F, 0x7F :: byte] ! i) k \<longrightarrow>
      bit ([0x0F, 0x80 :: byte] ! i) k = bit ([0xFF, 0x00 :: byte] ! i) k"
    by (metis less_2_cases nth_Cons_0 nth_Cons_Suc One_nat_def)
qed simp_all

definition newer_platform :: pck_platform_tcb where
  "newer_platform = toy_platform\<lparr>comp_svns := replicate 16 3, pck_pcesvn := 7\<rparr>"

theorem newer_platform_satisfies_more_witness:
  "level_satisfied (toy_level 1 ''UpToDate'' []) newer_platform"
proof (rule newer_platform_satisfies_more)
  show "platform_le toy_platform newer_platform"
    by (simp add: platform_le_def newer_platform_def toy_platform_def replicate_16 word_le_nat_alt)
  show "length (comp_svns toy_platform) = 16" by (simp add: toy_platform_def)
  show "level_satisfied (toy_level 1 ''UpToDate'' []) toy_platform"
    by (simp add: level_satisfied_def toy_level_def toy_platform_def replicate_16)
qed

definition strict_policy :: tcb_policy where
  "strict_policy =
     \<lparr>min_tcb_evaluation_data_number = 17, accept_sw_hardening_needed = False,
      accept_configuration_and_sw_hardening_needed = False\<rparr>"

theorem policy_rejection_names_standing_witness:
  "\<exists>e. policy_check strict_policy (SWHardeningNeeded [''INTEL-SA-00334'']) = Inl e \<and>
     category e = TcbStandingRejected"
proof -
  have refused: "policy_check strict_policy (SWHardeningNeeded [''INTEL-SA-00334'']) =
      Inl (policy_rejection ''sw-hardening-needed'' [''INTEL-SA-00334''])"
    by (simp add: strict_policy_def)
  then show ?thesis
    using conjunct1 [OF policy_rejection_names_standing [OF refused]] by blast
qed

lemma toy_root_key: "pinned_root_key toy = Some INTEL_SGX_ROOT_CA_PUBLIC_KEY_SEC1"
  by (simp add: pinned_root_key_intel toy_def INTEL_SGX_ROOT_CA_PUBLIC_KEY_SEC1_def)

theorem revocation_gate_iff_witness:
  "check_revocation toy 100 toy_collateral INTEL_SGX_ROOT_CA_PUBLIC_KEY_SEC1 toy_chains = Inr ()"
  by (rule iffD2 [OF revocation_gate_iff [OF toy_root_key]]) (simp add: toy_unrevoked)

theorem repeated_root_stays_trusted_witness:
  "chain_validate toy \<lparr>pc_kind = TcbInfoIssuer, certs = [signing_cert, root_cert, root_cert]\<rparr> 100 =
     Inr ()"
proof -
  let ?chain = "\<lparr>pc_kind = TcbInfoIssuer, certs = [signing_cert, root_cert]\<rparr>"
  have "chain_validate toy ?chain 100 = Inr ()" by (subst chain_validate_ok) (simp_all add: toy_trusted)
  from repeated_root_stays_trusted [OF this] show ?thesis by simp
qed

section \<open>The harness\<close>

theorem draws_do_not_repeat_witness: "distinct (draws 3 (rng_new 42))"
  by (rule draws_do_not_repeat) simp

theorem unix_time_round_trip_witness:
  "unix_seconds (system_time (- 5)) = - 5 \<and> unix_seconds (system_time I64_MIN) = I64_MIN + 1"
proof
  have "unix_seconds (system_time (- 5)) = (if - 5 = I64_MIN then I64_MIN + 1 else - 5)"
    by (rule unix_time_round_trip) (simp_all add: I64_MIN_def I64_MAX_def)
  then show "unix_seconds (system_time (- 5)) = - 5" by (simp add: I64_MIN_def)
  have "unix_seconds (system_time I64_MIN) = (if I64_MIN = I64_MIN then I64_MIN + 1 else I64_MIN)"
    by (rule unix_time_round_trip) (simp_all add: I64_MIN_def I64_MAX_def)
  then show "unix_seconds (system_time I64_MIN) = I64_MIN + 1" by simp
qed

text \<open>A harness whose QVL accepts everything.\<close>

definition toy_harness :: "(bytes, bytes, nat, nat) harness" where
  "toy_harness =
     \<lparr>crates_of = toy, parse_collateral = (\<lambda>_. Inr toy_collateral),
      parse_raw_collateral = (\<lambda>_. Inl ''not used''), pem_parse = (\<lambda>_. Inl ''not used''),
      QV_RESULT_OK = 0, QV_RESULT_SW_HARDENING_NEEDED = 1,
      QV_RESULT_CONFIG_AND_SW_HARDENING_NEEDED = 2, show_result = dec_nat, show_error = dec_nat,
      tee_verify_quote = (\<lambda>_ _ _. Inr (0, 0)), last_panic = None\<rparr>"

theorem format_gate_is_known_delta_witness:
  "classify toy_harness (Reject CollateralParse (collateral_version_detail 2))
     (Verdict 0 0) = Some (KnownDelta ''format-gate'')"
proof -
  have gate: "check_document_formats (toy_collateral\<lparr>coll_version := 2\<rparr>) =
      Inl (verify_error_new CollateralParse (collateral_version_detail 2))"
    by (simp add: check_document_formats_def)
  have "qvl_accepts toy_harness 0" by (simp add: qvl_accepts_def toy_harness_def)
  from format_gate_is_known_delta [OF gate refl this, of 0] show ?thesis by simp
qed

definition toy_base :: base_case where
  "toy_base =
     \<lparr>bc_name = ''toy'', bc_quote = [1, 2, 3], bc_collateral = [4, 5], bc_current_time = 100\<rparr>"

definition toy_opts :: sweep_opts where
  "toy_opts =
     \<lparr>so_iters = 10, so_seed = 42, so_default_bases = False, so_only_iter = None,
      so_out = ''out'', so_allow_iters = []\<rparr>"

lemma toy_bases_sane: "sane_bases toy_opts [toy_base]"
  by (simp add: sane_bases_def sane_base_def toy_opts_def toy_base_def)

theorem sweep_verdict_exact_witness:
  "\<exists>st code. sweep_run toy_harness toy_opts [toy_base] = Some (st, code) \<and>
     (code = EXIT_FAIL \<longleftrightarrow>
        (\<exists>i. in_window toy_opts i \<and>
           (iteration_bucket toy_harness toy_opts [toy_base] i = DcapPanic \<or>
            iteration_bucket toy_harness toy_opts [toy_base] i = StandingMismatch)))"
  using sweep_verdict_exact [OF toy_bases_sane, of toy_harness] by blast

theorem sweep_counts_every_iteration_witness:
  "\<exists>st code. sweep_run toy_harness toy_opts [toy_base] = Some (st, code) \<and>
     counts_total st = 10 \<and> tally_total (ss_tally st) = 10"
proof -
  have "length (sweep_indices toy_opts) = 10" by (simp add: sweep_indices_def toy_opts_def)
  then show ?thesis
    using sweep_counts_every_iteration [OF toy_bases_sane, of toy_harness] by (simp only:)
qed

theorem flips_stay_in_range_witness:
  "\<exists>data' g' d. flip_random_bits [1, 2, 3] (rng_new 42) 1 2 = Some (data', g', d) \<and>
     length data' = 3 \<and> data' ! 0 = 1 \<and> data' ! 2 = 3"
proof -
  have "\<exists>data' g' d. flip_random_bits [1, 2, 3] (rng_new 42) 1 2 = Some (data', g', d) \<and>
      length data' = length [1, 2, 3 :: byte] \<and>
      (\<forall>j. j < 1 \<or> 2 \<le> j \<longrightarrow> data' ! j = [1, 2, 3] ! j)"
    by (rule flips_stay_in_range) simp_all
  then show ?thesis by force
qed

definition toy_fixture :: fixture where
  "toy_fixture =
     \<lparr>fx_name = ''toy'', fx_quote = [1, 2, 3], fx_collateral = [4, 5],
      fx_meta = \<lparr>meta_current_time = 100, meta_verdict = ''reject'', meta_category = None,
        meta_tcb_standing = None\<rparr>\<rparr>"

lemma toy_fixture_bucket: "fixture_bucket toy_harness toy_fixture = AgreeReject"
  by code_simp

text \<open>A rejected case is clean, unless the allowlist says that it is dangerous.\<close>

theorem fixtures_verdict_exact_witness:
  "(\<exists>t. fixtures_verdict toy_harness [(''other'', ''F1'')] [toy_fixture] = Some (t, EXIT_CLEAN)) \<and>
   (\<exists>t code. fixtures_verdict toy_harness [(''toy'', ''F1'')] [toy_fixture] = Some (t, code) \<and>
     code \<noteq> EXIT_CLEAN \<and> code \<noteq> EXIT_FAIL)"
proof
  show "\<exists>t. fixtures_verdict toy_harness [(''other'', ''F1'')] [toy_fixture] = Some (t, EXIT_CLEAN)"
    using fixtures_verdict_exact [of toy_harness "[(''other'', ''F1'')]" "[toy_fixture]"]
    by (simp add: toy_fixture_bucket) (simp add: toy_fixture_def)
  show "\<exists>t code. fixtures_verdict toy_harness [(''toy'', ''F1'')] [toy_fixture] = Some (t, code) \<and>
      code \<noteq> EXIT_CLEAN \<and> code \<noteq> EXIT_FAIL"
    using fixtures_verdict_exact [of toy_harness "[(''toy'', ''F1'')]" "[toy_fixture]"]
    by (simp add: toy_fixture_bucket) (auto simp: toy_fixture_def)
qed

end
