(* ===== verification/Differ_Brackets.thy ===== *)
theory Differ_Brackets
  imports Differ_Sweep
begin

text \<open>
  What the search for the tcbLevels array is meant to find. A bracketed text is a tree: plain
  bytes, quoted strings with escapes, and bracketed lists. Every JSON array is the rendering of
  such a tree, and the byte-wise matcher of the sweep finds exactly the end of a rendering,
  whatever brackets its strings contain.
\<close>

section \<open>Bracketed texts\<close>

datatype string_item = Plain_item byte | Escaped_item byte

fun item_bytes :: "string_item \<Rightarrow> bytes" where
  "item_bytes (Plain_item b) = [b]"
| "item_bytes (Escaped_item b) = [backslash_byte, b]"

fun wf_item :: "string_item \<Rightarrow> bool" where
  "wf_item (Plain_item b) = (b \<noteq> quote_byte \<and> b \<noteq> backslash_byte)"
| "wf_item (Escaped_item b) = True"

datatype bracketed =
    Loose byte
  | Quoted_text "string_item list"
  | Brackets "bracketed list"

fun fringe :: "bracketed \<Rightarrow> bytes" where
  "fringe (Loose b) = [b]"
| "fringe (Quoted_text s) = [quote_byte] @ concat (map item_bytes s) @ [quote_byte]"
| "fringe (Brackets ts) = [open_bracket] @ concat (map fringe ts) @ [close_bracket]"

fun wf_bracketed :: "bracketed \<Rightarrow> bool" where
  "wf_bracketed (Loose b) = (b \<noteq> quote_byte \<and> b \<noteq> open_bracket \<and> b \<noteq> close_bracket)"
| "wf_bracketed (Quoted_text s) = list_all wf_item s"
| "wf_bracketed (Brackets ts) = list_all wf_bracketed ts"

section \<open>The matcher steps over a rendering\<close>

lemma bracket_bytes [simp]:
  "open_bracket \<noteq> close_bracket" "close_bracket \<noteq> open_bracket"
  "quote_byte \<noteq> open_bracket" "quote_byte \<noteq> close_bracket" "quote_byte \<noteq> backslash_byte"
  "open_bracket \<noteq> quote_byte" "close_bracket \<noteq> quote_byte" "backslash_byte \<noteq> quote_byte"
  by (simp_all add: open_bracket_def close_bracket_def quote_byte_def backslash_byte_def)

lemma match_string:
  "list_all wf_item s \<Longrightarrow>
     match_brackets (concat (map item_bytes s) @ quote_byte # bs) i depth True False =
     match_brackets bs (i + length (concat (map item_bytes s)) + 1) depth False False"
proof (induction s arbitrary: i)
  case Nil
  then show ?case by simp
next
  case (Cons x s)
  from Cons.prems have s: "list_all wf_item s" by simp
  show ?case
    using Cons.prems Cons.IH [OF s] by (cases x) (simp_all add: add.commute add.left_commute)
qed

lemma match_fringe:
  "wf_bracketed t \<Longrightarrow> 0 < depth \<Longrightarrow>
     match_brackets (fringe t @ bs) i depth False False =
     match_brackets bs (i + length (fringe t)) depth False False"
proof (induction t arbitrary: bs i depth)
  case (Loose b)
  then show ?case by simp
next
  case (Quoted_text s)
  then show ?case using match_string [of s bs "i + 1" depth] by simp
next
  case (Brackets ts)
  have "match_brackets (concat (map fringe us) @ bs') j d False False =
      match_brackets bs' (j + length (concat (map fringe us))) d False False"
    if "set us \<subseteq> set ts" and "0 < d" for us bs' j d
    using that
  proof (induction us arbitrary: j)
    case Nil
    then show ?case by simp
  next
    case (Cons u us)
    then have "u \<in> set ts" and "wf_bracketed u"
      using Brackets.prems(1) by (auto simp: list_all_iff)
    with Brackets.IH [OF this \<open>0 < d\<close>] Cons show ?case by (simp add: add.assoc)
  qed
  from this [of ts "depth + 1" "close_bracket # bs" "i + 1"] Brackets.prems(2)
  show ?case by simp
qed

lemma match_array:
  assumes "wf_bracketed (Brackets ts)"
  shows "match_brackets (fringe (Brackets ts) @ bs) i 0 False False =
     Some (Some (i + length (fringe (Brackets ts))))"
proof -
  have "match_brackets (concat (map fringe us) @ bs') j 1 False False =
      match_brackets bs' (j + length (concat (map fringe us))) 1 False False"
    if "list_all wf_bracketed us" for us bs' j
    using that by (induction us arbitrary: j) (simp_all add: match_fringe add.assoc)
  from this [of ts "close_bracket # bs" "i + 1"] assms show ?thesis by simp
qed

lemma skip_to_open_gap:
  "open_bracket \<notin> set gap \<Longrightarrow> skip_to_open (gap @ open_bracket # bs) i = i + length gap"
  by (induction gap arbitrary: i) auto

lemma window_position_first:
  assumes "\<forall>k<length pre. take (length needle) (drop k (pre @ needle @ bs)) \<noteq> needle"
  shows "window_position needle (pre @ needle @ bs) = Some (length pre)"
proof -
  let ?json = "pre @ needle @ bs" and ?p = "length pre"
  let ?n = "Suc (length ?json) - length needle"
  have "?p < ?n" by simp
  then have "[0..<?n] = [0..<?p] @ ?p # [Suc ?p..<?n]"
    using upt_add_eq_append [of 0 ?p "?n - ?p"] upt_conv_Cons [of ?p ?n] by simp
  moreover have "take (length needle) (drop ?p ?json) = needle" by simp
  moreover have "\<forall>k\<in>set [0..<?p]. take (length needle) (drop k ?json) \<noteq> needle"
    using assms by simp
  ultimately show ?thesis unfolding window_position_def find_first by blast
qed

section \<open>Property\<close>

text \<open>C35. In a file whose first tcbLevels key is followed by an array, the search returns exactly the
  bytes of that array, from its opening to its matching closing bracket, whatever brackets and
  escaped quotes its strings contain.\<close>

theorem tcb_levels_range_exact:
  assumes "json = pre @ tcb_levels_needle @ gap @ fringe (Brackets ts) @ post"
    and "\<forall>k<length pre. take (length tcb_levels_needle) (drop k json) \<noteq> tcb_levels_needle"
    and "open_bracket \<notin> set gap" and "wf_bracketed (Brackets ts)"
    and "lo = length (pre @ tcb_levels_needle @ gap)"
  shows "tcb_levels_range json = Some (Some (lo, lo + length (fringe (Brackets ts))))"
proof -
  let ?rest = "gap @ fringe (Brackets ts) @ post"
  let ?i = "length pre + length tcb_levels_needle"
  have pos: "window_position tcb_levels_needle json = Some (length pre)"
    using window_position_first [of pre tcb_levels_needle ?rest] assms(1,2) by simp
  have "drop ?i json = ?rest" by (simp add: assms(1))
  moreover have "skip_to_open ?rest ?i = lo"
    using skip_to_open_gap [OF assms(3), of "concat (map fringe ts) @ close_bracket # post" ?i] assms(5)
    by simp
  moreover have "drop lo json = fringe (Brackets ts) @ post" by (simp add: assms(1,5))
  ultimately show ?thesis
    using match_array [OF assms(4), of post lo] pos
    by (simp add: tcb_levels_range_def Let_def del: fringe.simps)
qed

end
