(* ===== verification/Witnesses_Differ.thy ===== *)
theory Witnesses_Differ
  imports Witnesses Differ_Brackets
begin

text \<open>
  The theorems on the harness's output, its commands and its bracket matcher, applied to a small
  sweep, a host with one captured case and a small JSON text.
\<close>

section \<open>The output of a sweep\<close>

definition toy_json :: json_crate where
  "toy_json =
     \<lparr>standing_to_value = (\<lambda>_. JNull), json_text = (\<lambda>_. ''{}''), json_pretty = (\<lambda>_. ''{}'')\<rparr>"

theorem summary_agrees_with_tally_witness:
  "\<exists>st out code. sweep_run_io toy_json toy_harness toy_opts [toy_base] = Some (st, out, code) \<and>
     last out = Println (verdict_line (ss_tally st)) \<and>
     Println (''DANGEROUS: '' @ dec_nat (t_dangerous (ss_tally st))) \<in> set out"
  using summary_agrees_with_tally [OF toy_bases_sane, of toy_json toy_harness] by fast

theorem findings_file_lists_disagreements_witness:
  "\<exists>st out code. sweep_run_io toy_json toy_harness toy_opts [toy_base] = Some (st, out, code) \<and>
     appended out =
       map (\<lambda>i. (jsonl_path toy_opts, ''{}''))
         (filter (\<lambda>i. \<not> is_agreement (iteration_bucket toy_harness toy_opts [toy_base] i))
            (sweep_indices toy_opts))"
proof -
  have "json_text toy_json j = ''{}''" for j by (simp add: toy_json_def)
  then show ?thesis
    using findings_file_lists_disagreements [OF toy_bases_sane, of toy_json toy_harness] by (simp only:)
qed

text \<open>A harness whose verifier refuses to read any collateral, while the QVL accepts everything.\<close>

definition toy_raw :: raw_collateral where
  "toy_raw =
     \<lparr>raw_version = 3, raw_root_ca_crl = '''', raw_pck_crl = '''', raw_tcb_info_issuer_chain = '''',
      raw_pck_crl_issuer_chain = '''', raw_qe_identity_issuer_chain = '''', raw_tcb_info = '''',
      raw_qe_identity = ''''\<rparr>"

definition toy_lenient :: "(bytes, bytes, nat, nat) harness" where
  "toy_lenient =
     toy_harness\<lparr>parse_collateral := (\<lambda>_. Inl ''bad''), parse_raw_collateral := (\<lambda>_. Inr toy_raw),
       pem_parse := (\<lambda>_. Inr []), tee_verify_quote := (\<lambda>_ _ _. Inr (0, 0))\<rparr>"

lemma toy_lenient_run:
  "\<exists>rec. run_case toy_lenient q c t DEFAULT_MARSHAL = Some rec \<and> cr_bucket rec = UnexplainedSafe"
proof -
  have "run_dcap toy_lenient q c t = Reject CollateralParse ''collateral JSON: bad''"
    by (simp add: run_dcap_def toy_lenient_def)
  moreover have "run_qvl toy_lenient q c t DEFAULT_MARSHAL = Verdict 0 0"
    by (simp add: run_qvl_def toy_lenient_def build_quote_collateral_def crl_blob_def
        DEFAULT_MARSHAL_def)
  moreover have "qvl_accepts toy_lenient 0"
    by (simp add: qvl_accepts_def toy_lenient_def toy_harness_def)
  moreover have "classify_stricter CollateralParse ''collateral JSON: bad'' 0 = UnexplainedSafe"
    by code_simp
  ultimately show ?thesis by (simp add: run_case_def classify_def qvl_classify_def)
qed

lemma toy_lenient_finding:
  "iteration_bucket toy_lenient toy_opts [toy_base] i = UnexplainedSafe"
proof -
  obtain base s c rec where
    "iteration_record toy_lenient toy_opts [toy_base] i = Some (base, s, c, rec)"
    and b: "cr_bucket rec = iteration_bucket toy_lenient toy_opts [toy_base] i"
    using iteration_record_total [OF toy_bases_sane, of toy_lenient i] by blast
  then have "run_case toy_lenient (mc_quote c) (mc_collateral c) (mc_current_time c) DEFAULT_MARSHAL =
      Some rec"
    by (auto simp: iteration_record_def bind_eq_Some_conv)
  with toy_lenient_run [of "mc_quote c" "mc_collateral c" "mc_current_time c"] b show ?thesis by auto
qed

theorem findings_are_dumped_witness:
  "\<exists>st out code q c t rec. sweep_run_io toy_json toy_lenient toy_opts [toy_base] = Some (st, out, code) \<and>
     dumped toy_opts out 3 q c \<and>
     run_case toy_lenient q c t DEFAULT_MARSHAL = Some rec \<and> cr_bucket rec = UnexplainedSafe"
proof -
  have "in_window toy_opts 3" by (simp add: in_window_def toy_opts_def)
  moreover have "is_finding (iteration_bucket toy_lenient toy_opts [toy_base] 3)"
    by (simp add: toy_lenient_finding)
  ultimately show ?thesis
    using findings_are_dumped [OF toy_bases_sane, of 3 toy_lenient toy_json]
    unfolding toy_lenient_finding by blast
qed

section \<open>The commands\<close>

definition toy_calibration :: "(bytes, bytes, nat, nat) harness" where
  "toy_calibration = toy_lenient\<lparr>tee_verify_quote := (\<lambda>_ _ _. Inr (0, 2))\<rparr>"

theorem calibration_prefers_default_witness:
  "calibration_winner toy_calibration [1, 2, 3] toy_raw 100 = Some DEFAULT_MARSHAL"
proof -
  have "passes toy_calibration [1, 2, 3] toy_raw 100 DEFAULT_MARSHAL"
    by (simp add: passes_def toy_calibration_def toy_lenient_def toy_harness_def
        build_quote_collateral_def crl_blob_def DEFAULT_MARSHAL_def)
  then show ?thesis
    using conjunct1 [OF calibration_prefers_default [of toy_calibration "[1, 2, 3]" toy_raw 100]]
    by simp
qed

text \<open>A host on which every file has the same three bytes.\<close>

definition toy_host :: host where
  "toy_host =
     \<lparr>host_read = (\<lambda>_. Some [1, 2, 3]), host_is_file = (\<lambda>_. True), host_read_dir = (\<lambda>_. Some []),
      parse_value = (\<lambda>_. Some (JObject [(''current_time_unix'', JInt 100)])),
      parse_meta = (\<lambda>_. None), parse_allowlist = (\<lambda>_. None), host_fixtures_root = ''fixtures'',
      host_reports = ''reports''\<rparr>"

definition host_base :: "string \<Rightarrow> base_case" where
  "host_base dir =
     \<lparr>bc_name = (case file_name dir of Some n \<Rightarrow> n | None \<Rightarrow> dir), bc_quote = [1, 2, 3],
      bc_collateral = [1, 2, 3], bc_current_time = 100\<rparr>"

lemma toy_host_load: "load_base toy_host dir = Some (host_base dir)"
  by (simp add: load_base_def toy_host_def host_base_def json_index_def as_i64_def I64_MIN_def
      I64_MAX_def)

definition default_opts :: sweep_opts where "default_opts = toy_opts\<lparr>so_default_bases := True\<rparr>"

theorem repro_command_replays_witness:
  "differ_main toy_lenient toy_host (tl (command_words (repro_command 42 7))) =
     Exit (exit_code (tally_of [iteration_bucket toy_lenient default_opts
       (map host_base (default_base_dirs toy_host)) 7]))"
proof -
  let ?bases = "map host_base (default_base_dirs toy_host)"
  have loaded: "those (map (load_base toy_host) (default_base_dirs toy_host)) = Some ?bases"
    by (simp add: toy_host_load default_base_dirs_def)
  have sane: "sane_bases default_opts ?bases"
    by (simp add: sane_bases_def sane_base_def default_opts_def toy_opts_def default_base_dirs_def
        host_base_def)
  have "so_default_bases default_opts" and seed: "so_seed default_opts = 42"
    by (simp_all add: default_opts_def toy_opts_def)
  from repro_command_replays [OF loaded sane this(1), of 7 toy_lenient] show ?thesis
    by (simp add: seed)
qed

section \<open>The tcbLevels array\<close>

text \<open>The text is \<open>{"tcbLevels": [1,"]"]}\<close>: a closing bracket inside a string does not end the array.\<close>

theorem tcb_levels_range_exact_witness:
  "tcb_levels_range (str_bytes ''{'' @ tcb_levels_needle @ str_bytes '': '' @
       fringe (Brackets [Loose 49, Loose 44, Quoted_text [Plain_item close_bracket]]) @
       str_bytes ''}'') =
     Some (Some (14, 21))"
proof -
  let ?t = "Brackets [Loose 49, Loose 44, Quoted_text [Plain_item close_bracket]]"
  let ?json = "str_bytes ''{'' @ tcb_levels_needle @ str_bytes '': '' @ fringe ?t @ str_bytes ''}''"
  have first: "\<forall>k<length (str_bytes ''{''). take (length tcb_levels_needle) (drop k ?json) \<noteq>
      tcb_levels_needle"
    by (simp add: tcb_levels_needle_def str_bytes_def)
  have gap: "open_bracket \<notin> set (str_bytes '': '')"
    by (simp add: str_bytes_def open_bracket_def)
  have wf: "wf_bracketed ?t"
    by (simp add: open_bracket_def close_bracket_def quote_byte_def backslash_byte_def)
  have lo: "14 = length (str_bytes ''{'' @ tcb_levels_needle @ str_bytes '': '')"
    by (simp add: tcb_levels_needle_def str_bytes_def)
  from tcb_levels_range_exact [OF refl first gap wf lo] show ?thesis by simp
qed

end
