(* ===== verification/Tests_Tcb.thy ===== *)
theory Tests_Tcb
  imports Example
begin

text \<open>
  The unit tests of \<^verbatim>\<open>dcap-verify/src/tcb.rs\<close>, with their helpers, as statements about the model:
  \<open>unwrap_err().category\<close> is \<open>rejects_as\<close>, \<open>is_ok()\<close> is an \<open>Inr\<close>. The only crate they touch is
  hex, and they hold for every one that decodes what is valid hex.
\<close>

section \<open>What the tests assume and how they look at a result\<close>

definition decodes_hex :: "('k, 's) crates \<Rightarrow> bool" where
  "decodes_hex C \<longleftrightarrow> (\<forall>s bs. unhex s = Inr bs \<longrightarrow> hex_decode C s = Inr bs)"

definition rejects_saying :: "error_category \<Rightarrow> string \<Rightarrow> 'a res \<Rightarrow> bool" where
  "rejects_saying c t r \<longleftrightarrow>
     (case r of Inl e \<Rightarrow> category e = c \<and> str_contains (detail e) t | Inr _ \<Rightarrow> False)"

definition repeat_str :: "string \<Rightarrow> nat \<Rightarrow> string" where
  "repeat_str s n = concat (replicate n s)"

section \<open>Helpers of the tests\<close>

definition comps_LO :: "u32 list" where "comps_LO = replicate 16 1"

definition comps_MID :: "u32 list" where "comps_MID = replicate 16 5"

definition comps_HI :: "u32 list" where "comps_HI = replicate 16 10"

definition test_level :: "u32 list \<Rightarrow> u32 \<Rightarrow> string \<Rightarrow> string list \<Rightarrow> tcb_level" where
  "test_level comps pce status advisories =
     \<lparr>tcb = \<lparr>sgxtcbcomponents = map (\<lambda>n. \<lparr>svn = n\<rparr>) comps, pcesvn = pce\<rparr>, tcb_date = 0,
      tcb_status = status, advisory_ids = advisories\<rparr>"

definition test_info :: "tcb_level list \<Rightarrow> tcb_info" where
  "test_info levels =
     \<lparr>ti_id = ''SGX'', ti_version = 3, ti_issue_date = 0, ti_next_update = 1,
      fmspc = ''00a067110000'', pce_id = ''0000'', tcb_type = 0,
      ti_tcb_evaluation_data_number = 1, ti_tcb_levels = levels\<rparr>"

definition test_platform :: "u32 list \<Rightarrow> u32 \<Rightarrow> pck_platform_tcb" where
  "test_platform comps pce =
     \<lparr>pck_fmspc = [0x00, 0xa0, 0x67, 0x11, 0x00, 0x00], pck_pce_id = [0x00, 0x00],
      comp_svns = comps, pck_pcesvn = pce\<rparr>"

definition test_qe_report :: "u16 \<Rightarrow> sgx_report_body" where
  "test_qe_report n =
     \<lparr>cpu_svn = replicate 16 0, misc_select = replicate 4 0, isv_ext_prod_id = replicate 16 0,
      attributes = replicate 16 0, mrenclave = replicate 32 0, mrsigner = replicate 32 0x11,
      config_id = replicate 64 0, isv_prod_id = 1, isv_svn = n, config_svn = 0,
      isv_family_id = replicate 16 0, sgx_report_data_bytes = replicate 64 0\<rparr>"

definition test_qe_level :: "u16 \<Rightarrow> string \<Rightarrow> qe_tcb_level" where
  "test_qe_level n status =
     \<lparr>qtcb = \<lparr>isvsvn = n\<rparr>, qtcb_date = 0, qtcb_status = status, qadvisory_ids = []\<rparr>"

definition test_qe_identity :: "qe_tcb_level list \<Rightarrow> qe_identity" where
  "test_qe_identity levels =
     \<lparr>qi_id = ''QE'', qi_version = 2, qi_issue_date = 0, qi_next_update = 1,
      qi_tcb_evaluation_data_number = 1, miscselect = ''00000000'', miscselect_mask = ''00000000'',
      qi_attributes = ''00000000000000000000000000000000'',
      attributes_mask = ''00000000000000000000000000000000'',
      qi_mrsigner = repeat_str ''11'' 32, isvprodid = 1, qi_tcb_levels = levels\<rparr>"

section \<open>The tests of the platform standing\<close>

definition selection_is_document_order_first_not_maximum :: "('k, 's) crates \<Rightarrow> bool" where
  "selection_is_document_order_first_not_maximum C \<longleftrightarrow>
     (let plat = test_platform (replicate 16 20) 20;
          reject_first = test_info [test_level comps_LO 1 ''OutOfDate'' [''SA-LO''],
                                    test_level comps_HI 10 ''UpToDate'' []];
          accept_first = test_info [test_level comps_HI 10 ''UpToDate'' [],
                                    test_level comps_LO 1 ''OutOfDate'' [''SA-LO'']] in
      rejects_as TcbLevelUnsupported (platform_standing C reject_first plat) \<and>
      platform_standing C accept_first plat = Inr UpToDate)"

definition first_satisfied_level_supplies_status_and_advisories :: "('k, 's) crates \<Rightarrow> bool" where
  "first_satisfied_level_supplies_status_and_advisories C \<longleftrightarrow>
     platform_standing C
       (test_info [test_level comps_HI 10 ''UpToDate'' [''SA-HI''],
                   test_level comps_MID 5 ''SWHardeningNeeded'' [''SA-MID-1'', ''SA-MID-2''],
                   test_level comps_LO 1 ''OutOfDate'' [''SA-LO'']])
       (test_platform (replicate 16 7) 7) =
     Inr (SWHardeningNeeded [''SA-MID-1'', ''SA-MID-2''])"

definition pcesvn_gates_level_satisfaction :: "('k, 's) crates \<Rightarrow> bool" where
  "pcesvn_gates_level_satisfaction C \<longleftrightarrow>
     (let comps = replicate 16 5;
          info = test_info [test_level comps 8 ''UpToDate'' [],
                            test_level comps 5 ''SWHardeningNeeded'' [''SA-LOWPCE'']] in
      platform_standing C info (test_platform comps 8) = Inr UpToDate \<and>
      platform_standing C info (test_platform comps 7) = Inr (SWHardeningNeeded [''SA-LOWPCE'']))"

definition platform_below_every_level_is_unsupported :: "('k, 's) crates \<Rightarrow> bool" where
  "platform_below_every_level_is_unsupported C \<longleftrightarrow>
     rejects_as TcbLevelUnsupported
       (platform_standing C
         (test_info [test_level comps_LO 1 ''UpToDate'' [], test_level comps_MID 5 ''UpToDate'' []])
         (test_platform (replicate 16 0) 0))"

definition first_satisfied_unaccepted_status_rejects_despite_later_uptodate ::
  "('k, 's) crates \<Rightarrow> bool" where
  "first_satisfied_unaccepted_status_rejects_despite_later_uptodate C \<longleftrightarrow>
     rejects_as TcbLevelUnsupported
       (platform_standing C
         (test_info [test_level comps_MID 5 ''OutOfDate'' [''SA-MID''],
                     test_level comps_LO 1 ''UpToDate'' []])
         (test_platform (replicate 16 5) 5))"

definition config_and_sw_hardening_is_accepted_with_distinct_status ::
  "('k, 's) crates \<Rightarrow> bool" where
  "config_and_sw_hardening_is_accepted_with_distinct_status C \<longleftrightarrow>
     (let r = platform_standing C
                (test_info [test_level comps_MID 5 ''ConfigurationAndSWHardeningNeeded''
                              [''SA-1'', ''SA-2'']])
                (test_platform (replicate 16 5) 5) in
      r = Inr (ConfigurationAndSWHardeningNeeded [''SA-1'', ''SA-2'']) \<and>
      r \<noteq> Inr (SWHardeningNeeded [''SA-1'', ''SA-2'']))"

definition configuration_needed_is_rejected :: "('k, 's) crates \<Rightarrow> bool" where
  "configuration_needed_is_rejected C \<longleftrightarrow>
     rejects_as TcbLevelUnsupported
       (platform_standing C
         (test_info [test_level comps_MID 5 ''ConfigurationNeeded'' [''SA-CFG'']])
         (test_platform (replicate 16 5) 5))"

definition fmspc_mismatch_is_rejected :: "('k, 's) crates \<Rightarrow> bool" where
  "fmspc_mismatch_is_rejected C \<longleftrightarrow>
     rejects_as TcbLevelUnsupported
       (platform_standing C (test_info [test_level comps_MID 5 ''UpToDate'' []])
         \<lparr>pck_fmspc = [0x01, 0x02, 0x03, 0x04, 0x05, 0x06], pck_pce_id = [0x00, 0x00],
          comp_svns = replicate 16 5, pck_pcesvn = 5\<rparr>)"

definition pceid_mismatch_is_rejected :: "('k, 's) crates \<Rightarrow> bool" where
  "pceid_mismatch_is_rejected C \<longleftrightarrow>
     rejects_saying TcbLevelUnsupported ''PCE''
       (platform_standing C (test_info [test_level comps_MID 5 ''UpToDate'' []])
         ((test_platform comps_MID 5)\<lparr>pck_pce_id := [0x01, 0x00]\<rparr>))"

section \<open>The tests of the QE identity\<close>

definition qe_identity_selects_highest_satisfied_isvsvn_level :: "('k, 's) crates \<Rightarrow> bool" where
  "qe_identity_selects_highest_satisfied_isvsvn_level C \<longleftrightarrow>
     (let identity = test_qe_identity [test_qe_level 6 ''OutOfDate'', test_qe_level 8 ''UpToDate'',
                                       test_qe_level 2 ''OutOfDate''] in
      check_qe_identity C identity (test_qe_report 8) = Inr () \<and>
      check_qe_identity C identity (test_qe_report 10) = Inr ())"

definition qe_identity_middle_isvsvn_lands_on_its_level_and_rejects :: "('k, 's) crates \<Rightarrow> bool"
where
  "qe_identity_middle_isvsvn_lands_on_its_level_and_rejects C \<longleftrightarrow>
     rejects_as QeIdentityMismatch
       (check_qe_identity C
         (test_qe_identity [test_qe_level 8 ''UpToDate'', test_qe_level 6 ''OutOfDate'',
                            test_qe_level 2 ''OutOfDate''])
         (test_qe_report 7))"

definition qe_identity_isvsvn_below_all_levels_rejects :: "('k, 's) crates \<Rightarrow> bool" where
  "qe_identity_isvsvn_below_all_levels_rejects C \<longleftrightarrow>
     rejects_as QeIdentityMismatch
       (check_qe_identity C
         (test_qe_identity [test_qe_level 2 ''UpToDate'', test_qe_level 8 ''UpToDate''])
         (test_qe_report 1))"

definition qe_identity_mrsigner_mismatch_rejects :: "('k, 's) crates \<Rightarrow> bool" where
  "qe_identity_mrsigner_mismatch_rejects C \<longleftrightarrow>
     rejects_saying QeIdentityMismatch ''signed by''
       (check_qe_identity C
         ((test_qe_identity [test_qe_level 1 ''UpToDate''])\<lparr>qi_mrsigner := repeat_str ''22'' 32\<rparr>)
         (test_qe_report 1))"

definition qe_identity_isvprodid_mismatch_rejects :: "('k, 's) crates \<Rightarrow> bool" where
  "qe_identity_isvprodid_mismatch_rejects C \<longleftrightarrow>
     rejects_saying QeIdentityMismatch ''product id''
       (check_qe_identity C
         ((test_qe_identity [test_qe_level 1 ''UpToDate''])\<lparr>isvprodid := 2\<rparr>)
         (test_qe_report 1))"

definition qe_identity_miscselect_mismatch_inside_mask_rejects :: "('k, 's) crates \<Rightarrow> bool" where
  "qe_identity_miscselect_mismatch_inside_mask_rejects C \<longleftrightarrow>
     rejects_saying QeIdentityMismatch ''miscselect''
       (check_qe_identity C
         ((test_qe_identity [test_qe_level 1 ''UpToDate''])
           \<lparr>miscselect := ''000000ff'', miscselect_mask := ''000000ff''\<rparr>)
         (test_qe_report 1))"

definition qe_identity_miscselect_difference_outside_mask_passes :: "('k, 's) crates \<Rightarrow> bool" where
  "qe_identity_miscselect_difference_outside_mask_passes C \<longleftrightarrow>
     check_qe_identity C
       ((test_qe_identity [test_qe_level 1 ''UpToDate''])
         \<lparr>miscselect := ''000000ff'', miscselect_mask := ''ffffff00''\<rparr>)
       (test_qe_report 1) = Inr ()"

definition qe_identity_attributes_mismatch_inside_mask_rejects :: "('k, 's) crates \<Rightarrow> bool" where
  "qe_identity_attributes_mismatch_inside_mask_rejects C \<longleftrightarrow>
     rejects_saying QeIdentityMismatch ''attributes''
       (check_qe_identity C
         ((test_qe_identity [test_qe_level 1 ''UpToDate''])
           \<lparr>qi_attributes := repeat_str ''00'' 15 @ ''ff'',
            attributes_mask := repeat_str ''00'' 15 @ ''ff''\<rparr>)
         (test_qe_report 1))"

definition qe_identity_attributes_difference_outside_mask_passes :: "('k, 's) crates \<Rightarrow> bool" where
  "qe_identity_attributes_difference_outside_mask_passes C \<longleftrightarrow>
     check_qe_identity C
       ((test_qe_identity [test_qe_level 1 ''UpToDate''])
         \<lparr>qi_attributes := repeat_str ''00'' 15 @ ''ff'',
          attributes_mask := ''ff'' @ repeat_str ''00'' 15\<rparr>)
       (test_qe_report 1) = Inr ()"

section \<open>The hex values of the tests\<close>

lemma unhex_values:
  "unhex ''00a067110000'' = Inr [0x00, 0xa0, 0x67, 0x11, 0x00, 0x00]"
  "unhex ''0000'' = Inr [0x00, 0x00]"
  "unhex ''00000000'' = Inr (replicate 4 0)"
  "unhex ''000000ff'' = Inr [0, 0, 0, 0xff]"
  "unhex ''ffffff00'' = Inr [0xff, 0xff, 0xff, 0]"
  "unhex ''00000000000000000000000000000000'' = Inr (replicate 16 0)"
  "unhex (repeat_str ''11'' 32) = Inr (replicate 32 0x11)"
  "unhex (repeat_str ''22'' 32) = Inr (replicate 32 0x22)"
  "unhex (repeat_str ''00'' 15 @ ''ff'') = Inr (replicate 15 0 @ [0xff])"
  "unhex (''ff'' @ repeat_str ''00'' 15) = Inr (0xff # replicate 15 0)"
  by code_simp+

lemma hex_values:
  assumes "decodes_hex C"
  shows "hex_decode C ''00a067110000'' = Inr [0x00, 0xa0, 0x67, 0x11, 0x00, 0x00]"
    and "hex_decode C ''0000'' = Inr [0x00, 0x00]"
    and "hex_decode C ''00000000'' = Inr (replicate 4 0)"
    and "hex_decode C ''000000ff'' = Inr [0, 0, 0, 0xff]"
    and "hex_decode C ''ffffff00'' = Inr [0xff, 0xff, 0xff, 0]"
    and "hex_decode C ''00000000000000000000000000000000'' = Inr (replicate 16 0)"
    and "hex_decode C (repeat_str ''11'' 32) = Inr (replicate 32 0x11)"
    and "hex_decode C (repeat_str ''22'' 32) = Inr (replicate 32 0x22)"
    and "hex_decode C (repeat_str ''00'' 15 @ ''ff'') = Inr (replicate 15 0 @ [0xff])"
    and "hex_decode C (''ff'' @ repeat_str ''00'' 15) = Inr (0xff # replicate 15 0)"
  using assms unhex_values unfolding decodes_hex_def by blast+

section \<open>The tests hold\<close>

lemma decode_hex_field_known:
  "hex_decode C v = Inr bs \<Longrightarrow> length bs = n \<Longrightarrow> decode_hex_field C n what v = Inr bs"
  by (simp add: decode_hex_field_ok hex_field_def)

lemma test_level_satisfied:
  "level_satisfied (test_level (replicate 16 a) pce status ids) (test_platform (replicate 16 b) p) \<longleftrightarrow>
     a \<le> b \<and> pce \<le> p"
  by (simp add: level_satisfied_def test_level_def test_platform_def zip_replicate list_all_iff)

lemma test_standing_matching:
  assumes "decodes_hex C" and "pck_fmspc p = [0x00, 0xa0, 0x67, 0x11, 0x00, 0x00]"
    and "pck_pce_id p = [0x00, 0x00]"
  shows "platform_standing C (test_info levels) p =
    (case List.find (\<lambda>l. level_satisfied l p) levels of
       None \<Rightarrow> Inl (unsupported (no_level_detail (test_info levels) p))
     | Some l \<Rightarrow> standing_of_level l)"
proof -
  have "decode_hex_field C 6 ''TCB info fmspc'' (fmspc (test_info levels)) = Inr (pck_fmspc p)"
    using hex_values(1) [OF assms(1)] assms(2)
    by (intro decode_hex_field_known) (simp_all add: test_info_def)
  moreover have "decode_hex_field C 2 ''TCB info pceId'' (pce_id (test_info levels)) =
      Inr (pck_pce_id p)"
    using hex_values(2) [OF assms(1)] assms(3)
    by (intro decode_hex_field_known) (simp_all add: test_info_def)
  moreover have "ti_tcb_levels (test_info levels) = levels" by (simp add: test_info_def)
  ultimately show ?thesis unfolding platform_standing_def by (simp only: and_then_simps simp_thms if_False)
qed

lemma test_standing:
  assumes "decodes_hex C"
  shows "platform_standing C (test_info levels) (test_platform comps pce) =
    (case List.find (\<lambda>l. level_satisfied l (test_platform comps pce)) levels of
       None \<Rightarrow> Inl (unsupported (no_level_detail (test_info levels) (test_platform comps pce)))
     | Some l \<Rightarrow> standing_of_level l)"
  by (rule test_standing_matching [OF assms]) (simp_all add: test_platform_def)

lemma platform_tests:
  assumes "decodes_hex C"
  shows "selection_is_document_order_first_not_maximum C"
    and "first_satisfied_level_supplies_status_and_advisories C"
    and "pcesvn_gates_level_satisfaction C"
    and "platform_below_every_level_is_unsupported C"
    and "first_satisfied_unaccepted_status_rejects_despite_later_uptodate C"
    and "config_and_sw_hardening_is_accepted_with_distinct_status C"
    and "configuration_needed_is_rejected C"
  unfolding selection_is_document_order_first_not_maximum_def
    first_satisfied_level_supplies_status_and_advisories_def pcesvn_gates_level_satisfaction_def
    platform_below_every_level_is_unsupported_def
    first_satisfied_unaccepted_status_rejects_despite_later_uptodate_def
    config_and_sw_hardening_is_accepted_with_distinct_status_def configuration_needed_is_rejected_def
    Let_def test_standing [OF assms] comps_LO_def comps_MID_def comps_HI_def
  by (simp_all add: test_level_satisfied standing_of_level_def unsupported_def rejects_as_basic,
      simp_all add: test_level_def)

lemma family_tests:
  assumes "decodes_hex C"
  shows "fmspc_mismatch_is_rejected C" and "pceid_mismatch_is_rejected C"
proof -
  have family: "decode_hex_field C 6 ''TCB info fmspc'' (fmspc (test_info levels)) =
      Inr [0x00, 0xa0, 0x67, 0x11, 0x00, 0x00]" for levels
    using hex_values(1) [OF assms] by (intro decode_hex_field_known) (simp_all add: test_info_def)
  have pce: "decode_hex_field C 2 ''TCB info pceId'' (pce_id (test_info levels)) = Inr [0x00, 0x00]"
    for levels
    using hex_values(2) [OF assms] by (intro decode_hex_field_known) (simp_all add: test_info_def)
  show "fmspc_mismatch_is_rejected C"
    unfolding fmspc_mismatch_is_rejected_def platform_standing_def family
    by (simp add: unsupported_def rejects_as_basic)
  have "str_contains (pce_id_detail C info p) ''PCE''" for info and p
    using str_contains_middle [of "''TCB info describes ''" "''PCE''"]
    unfolding pce_id_detail_def by simp
  then show "pceid_mismatch_is_rejected C"
    unfolding pceid_mismatch_is_rejected_def platform_standing_def family pce
    by (simp add: unsupported_def rejects_saying_def test_platform_def)
qed

text \<open>\<open>check_qe_identity\<close> once its five hex fields are decoded.\<close>

lemma check_qe_identity_decoded:
  assumes "qi_id identity = ''QE''"
    and "hex_field C 32 (qi_mrsigner identity) signer"
    and "hex_field C 4 (miscselect identity) ms" and "hex_field C 4 (miscselect_mask identity) msm"
    and "hex_field C 16 (qi_attributes identity) at" and "hex_field C 16 (attributes_mask identity) atm"
  shows "check_qe_identity C identity r =
    (if signer \<noteq> mrsigner r then Inl (identity_mismatch (qe_mrsigner_detail C identity r))
     else if isvprodid identity \<noteq> isv_prod_id r
     then Inl (identity_mismatch (qe_prodid_detail identity r))
     else if \<not> masked_eq (misc_select r) ms msm
     then Inl (identity_mismatch (qe_miscselect_detail C identity r))
     else if \<not> masked_eq (attributes r) at atm
     then Inl (identity_mismatch (qe_attributes_detail C identity r))
     else case max_by_key (\<lambda>l. isvsvn (qtcb l))
                 (filter (\<lambda>l. isvsvn (qtcb l) \<le> isv_svn r) (qi_tcb_levels identity)) of
            Some l \<Rightarrow> if qtcb_status l = ''UpToDate'' then Inr ()
                       else Inl (identity_mismatch (qe_level_detail r l))
          | None \<Rightarrow> Inl (identity_mismatch (qe_below_detail r)))"
proof -
  have "decode_hex_field C 32 w (qi_mrsigner identity) = Inr signer"
    "decode_hex_field C 4 w (miscselect identity) = Inr ms"
    "decode_hex_field C 4 w (miscselect_mask identity) = Inr msm"
    "decode_hex_field C 16 w (qi_attributes identity) = Inr at"
    "decode_hex_field C 16 w (attributes_mask identity) = Inr atm" for w
    using assms(2-6) by (simp_all only: decode_hex_field_ok)
  then show ?thesis
    unfolding check_qe_identity_def assms(1) Let_def
    by (simp only: and_then_simps simp_thms if_False if_True not_True_eq_False split: if_split)
qed

lemma test_masks:
  "masked_eq (replicate 4 0) (replicate 4 0) (replicate 4 0)"
  "masked_eq (replicate 16 0) (replicate 16 0) (replicate 16 0)"
  "\<not> masked_eq (replicate 4 0) [0, 0, 0, 0xff] [0, 0, 0, 0xff]"
  "masked_eq (replicate 4 0) [0, 0, 0, 0xff] [0xff, 0xff, 0xff, 0]"
  "\<not> masked_eq (replicate 16 0) (replicate 15 0 @ [0xff]) (replicate 15 0 @ [0xff])"
  "masked_eq (replicate 16 0) (replicate 15 0 @ [0xff]) (0xff # replicate 15 0)"
  by code_simp+

lemma test_identity_fields [simp]:
  "qi_id (test_qe_identity levels) = ''QE''"
  "qi_mrsigner (test_qe_identity levels) = repeat_str ''11'' 32"
  "isvprodid (test_qe_identity levels) = 1"
  "miscselect (test_qe_identity levels) = ''00000000''"
  "miscselect_mask (test_qe_identity levels) = ''00000000''"
  "qi_attributes (test_qe_identity levels) = ''00000000000000000000000000000000''"
  "attributes_mask (test_qe_identity levels) = ''00000000000000000000000000000000''"
  "qi_tcb_levels (test_qe_identity levels) = levels"
  by (simp_all add: test_qe_identity_def)

lemma test_report_fields [simp]:
  "mrsigner (test_qe_report n) = replicate 32 0x11" "isv_prod_id (test_qe_report n) = 1"
  "isv_svn (test_qe_report n) = n" "misc_select (test_qe_report n) = replicate 4 0"
  "attributes (test_qe_report n) = replicate 16 0"
  by (simp_all add: test_qe_report_def)

lemma test_qe_level_fields [simp]:
  "isvsvn (qtcb (test_qe_level n status)) = n" "qtcb_status (test_qe_level n status) = status"
  by (simp_all add: test_qe_level_def)

lemma hex_fields:
  assumes "decodes_hex C"
  shows "hex_field C 4 ''00000000'' (replicate 4 0)"
    and "hex_field C 4 ''000000ff'' [0, 0, 0, 0xff]"
    and "hex_field C 4 ''ffffff00'' [0xff, 0xff, 0xff, 0]"
    and "hex_field C 16 ''00000000000000000000000000000000'' (replicate 16 0)"
    and "hex_field C 32 (repeat_str ''11'' 32) (replicate 32 0x11)"
    and "hex_field C 32 (repeat_str ''22'' 32) (replicate 32 0x22)"
    and "hex_field C 16 (repeat_str ''00'' 15 @ ''ff'') (replicate 15 0 @ [0xff])"
    and "hex_field C 16 (''ff'' @ repeat_str ''00'' 15) (0xff # replicate 15 0)"
  unfolding hex_field_def hex_values [OF assms] by simp_all

lemma level_tests:
  assumes "decodes_hex C"
  shows "qe_identity_selects_highest_satisfied_isvsvn_level C"
    and "qe_identity_middle_isvsvn_lands_on_its_level_and_rejects C"
    and "qe_identity_isvsvn_below_all_levels_rejects C"
proof -
  have check: "check_qe_identity C (test_qe_identity levels) (test_qe_report n) =
      (case max_by_key (\<lambda>l. isvsvn (qtcb l)) (filter (\<lambda>l. isvsvn (qtcb l) \<le> n) levels) of
         Some l \<Rightarrow> if qtcb_status l = ''UpToDate'' then Inr ()
                    else Inl (identity_mismatch (qe_level_detail (test_qe_report n) l))
       | None \<Rightarrow> Inl (identity_mismatch (qe_below_detail (test_qe_report n))))" for levels n
    by (subst check_qe_identity_decoded)
      (unfold test_identity_fields test_report_fields, (rule refl hex_fields [OF assms])+,
       simp only: test_masks simp_thms if_False if_True)
  show "qe_identity_selects_highest_satisfied_isvsvn_level C"
    "qe_identity_middle_isvsvn_lands_on_its_level_and_rejects C"
    "qe_identity_isvsvn_below_all_levels_rejects C"
    unfolding qe_identity_selects_highest_satisfied_isvsvn_level_def
      qe_identity_middle_isvsvn_lands_on_its_level_and_rejects_def
      qe_identity_isvsvn_below_all_levels_rejects_def Let_def check
    by (simp_all add: max_by_key_def identity_mismatch_def rejects_as_basic word_le_nat_alt)
qed

lemma mismatch_details:
  "str_contains (qe_mrsigner_detail C identity r) ''signed by''"
  "str_contains (qe_prodid_detail identity r) ''product id''"
  "str_contains (qe_miscselect_detail C identity r) ''miscselect''"
  "str_contains (qe_attributes_detail C identity r) ''attributes''"
  using str_contains_middle [of "''QE report is ''" "''signed by''"]
    str_contains_middle [of "''QE report carries ''" "''product id''"]
    str_contains_middle [of "''QE report ''" "''miscselect''"]
    str_contains_middle [of "''QE report ''" "''attributes''"]
  unfolding qe_mrsigner_detail_def qe_prodid_detail_def qe_miscselect_detail_def
    qe_attributes_detail_def by simp_all

text \<open>The outcome of \<open>check_qe_identity\<close> at a document with the given texts, decoded, and the test report.\<close>

lemma check_test_report:
  assumes "qi_id i = ''QE'' \<and> qi_mrsigner i = m \<and> miscselect i = b \<and> miscselect_mask i = bm \<and>
      qi_attributes i = a \<and> attributes_mask i = am"
    and "hex_field C 32 m signer" and "hex_field C 4 b ms" and "hex_field C 4 bm msm"
    and "hex_field C 16 a at" and "hex_field C 16 am atm"
    and "signer \<noteq> replicate 32 0x11 \<and> r = qe_mrsigner_detail C i (test_qe_report n) \<or>
      signer = replicate 32 0x11 \<and> isvprodid i \<noteq> 1 \<and> r = qe_prodid_detail i (test_qe_report n) \<or>
      signer = replicate 32 0x11 \<and> isvprodid i = 1 \<and> \<not> masked_eq (replicate 4 0) ms msm \<and>
        r = qe_miscselect_detail C i (test_qe_report n) \<or>
      signer = replicate 32 0x11 \<and> isvprodid i = 1 \<and> masked_eq (replicate 4 0) ms msm \<and>
        \<not> masked_eq (replicate 16 0) at atm \<and> r = qe_attributes_detail C i (test_qe_report n)"
  shows "check_qe_identity C i (test_qe_report n) = Inl (identity_mismatch r)"
proof -
  have id: "qi_id i = ''QE''" "hex_field C 32 (qi_mrsigner i) signer" "hex_field C 4 (miscselect i) ms"
    "hex_field C 4 (miscselect_mask i) msm" "hex_field C 16 (qi_attributes i) at"
    "hex_field C 16 (attributes_mask i) atm"
    using assms(1-6) by simp_all
  from assms(7) show ?thesis
    unfolding check_qe_identity_decoded [OF id] test_report_fields
    by (elim disjE conjE) (simp_all only: simp_thms if_True if_False)
qed

lemma field_tests:
  assumes "decodes_hex C"
  shows "qe_identity_mrsigner_mismatch_rejects C"
    and "qe_identity_isvprodid_mismatch_rejects C"
    and "qe_identity_miscselect_mismatch_inside_mask_rejects C"
    and "qe_identity_attributes_mismatch_inside_mask_rejects C"
proof -
  note fields = hex_fields [OF assms]
  have said: "r = Inl (identity_mismatch d) \<Longrightarrow> str_contains d t \<Longrightarrow>
      rejects_saying QeIdentityMismatch t r" for r :: "unit res" and d t
    by (simp add: rejects_saying_def identity_mismatch_def)
  show "qe_identity_mrsigner_mismatch_rejects C"
    unfolding qe_identity_mrsigner_mismatch_rejects_def
    by (rule said [OF check_test_report [OF _ fields(6,1,1,4,4)] mismatch_details(1)]) simp_all
  show "qe_identity_isvprodid_mismatch_rejects C"
    unfolding qe_identity_isvprodid_mismatch_rejects_def
    by (rule said [OF check_test_report [OF _ fields(5,1,1,4,4)] mismatch_details(2)]) simp_all
  show "qe_identity_miscselect_mismatch_inside_mask_rejects C"
    unfolding qe_identity_miscselect_mismatch_inside_mask_rejects_def
    by (rule said [OF check_test_report [OF _ fields(5,2,2,4,4)] mismatch_details(3)])
      (use test_masks(3) in simp_all)
  show "qe_identity_attributes_mismatch_inside_mask_rejects C"
    unfolding qe_identity_attributes_mismatch_inside_mask_rejects_def
    by (rule said [OF check_test_report [OF _ fields(5,1,1,7,7)] mismatch_details(4)])
      (use test_masks(1,5) in simp_all)
qed

lemma outside_mask_tests:
  assumes "decodes_hex C"
  shows "qe_identity_miscselect_difference_outside_mask_passes C"
    and "qe_identity_attributes_difference_outside_mask_passes C"
proof -
  note fields = hex_fields [OF assms]
  let ?ms = "(test_qe_identity [test_qe_level 1 ''UpToDate''])
    \<lparr>miscselect := ''000000ff'', miscselect_mask := ''ffffff00''\<rparr>"
  let ?at = "(test_qe_identity [test_qe_level 1 ''UpToDate''])
    \<lparr>qi_attributes := repeat_str ''00'' 15 @ ''ff'', attributes_mask := ''ff'' @ repeat_str ''00'' 15\<rparr>"
  have best: "max_by_key (\<lambda>l. isvsvn (qtcb l)) (filter (\<lambda>l. isvsvn (qtcb l) \<le> 1)
      [test_qe_level 1 ''UpToDate'']) = Some (test_qe_level 1 ''UpToDate'')"
    by (simp add: max_by_key_def)
  have ms: "qi_id ?ms = ''QE''" "qi_mrsigner ?ms = repeat_str ''11'' 32" "miscselect ?ms = ''000000ff''"
    "miscselect_mask ?ms = ''ffffff00''" "qi_attributes ?ms = ''00000000000000000000000000000000''"
    "attributes_mask ?ms = ''00000000000000000000000000000000''" "isvprodid ?ms = 1"
    "qi_tcb_levels ?ms = [test_qe_level 1 ''UpToDate'']"
    by simp_all
  have at: "qi_id ?at = ''QE''" "qi_mrsigner ?at = repeat_str ''11'' 32" "miscselect ?at = ''00000000''"
    "miscselect_mask ?at = ''00000000''" "qi_attributes ?at = repeat_str ''00'' 15 @ ''ff''"
    "attributes_mask ?at = ''ff'' @ repeat_str ''00'' 15" "isvprodid ?at = 1"
    "qi_tcb_levels ?at = [test_qe_level 1 ''UpToDate'']"
    by simp_all
  show "qe_identity_miscselect_difference_outside_mask_passes C"
    unfolding qe_identity_miscselect_difference_outside_mask_passes_def
      check_qe_identity_decoded [of ?ms C, unfolded ms, OF refl fields(5,2,3,4,4)]
      test_report_fields best
    by (simp only: test_masks simp_thms if_False option.case test_qe_level_fields if_True)
  show "qe_identity_attributes_difference_outside_mask_passes C"
    unfolding qe_identity_attributes_difference_outside_mask_passes_def
      check_qe_identity_decoded [of ?at C, unfolded at, OF refl fields(5,1,1,7,8)]
      test_report_fields best
    by (simp only: test_masks simp_thms if_False option.case test_qe_level_fields if_True)
qed

section \<open>Property\<close>

text \<open>Every unit test of \<open>tcb.rs\<close> holds of the model, whatever the hex crate does outside valid
  hex: document order decides the standing, each gate rejects with its category and wording, and the
  masks hide exactly the differences outside them.\<close>

theorem tcb_unit_tests_hold:
  assumes "decodes_hex C"
  shows "selection_is_document_order_first_not_maximum C \<and>
    first_satisfied_level_supplies_status_and_advisories C \<and>
    pcesvn_gates_level_satisfaction C \<and>
    platform_below_every_level_is_unsupported C \<and>
    first_satisfied_unaccepted_status_rejects_despite_later_uptodate C \<and>
    config_and_sw_hardening_is_accepted_with_distinct_status C \<and>
    configuration_needed_is_rejected C \<and>
    fmspc_mismatch_is_rejected C \<and> pceid_mismatch_is_rejected C \<and>
    qe_identity_selects_highest_satisfied_isvsvn_level C \<and>
    qe_identity_middle_isvsvn_lands_on_its_level_and_rejects C \<and>
    qe_identity_isvsvn_below_all_levels_rejects C \<and>
    qe_identity_mrsigner_mismatch_rejects C \<and> qe_identity_isvprodid_mismatch_rejects C \<and>
    qe_identity_miscselect_mismatch_inside_mask_rejects C \<and>
    qe_identity_miscselect_difference_outside_mask_passes C \<and>
    qe_identity_attributes_mismatch_inside_mask_rejects C \<and>
    qe_identity_attributes_difference_outside_mask_passes C"
  by (intro conjI platform_tests family_tests level_tests field_tests outside_mask_tests assms)

end
