(* ===== verification/Gates.thy ===== *)
theory Gates
  imports Rejection
begin

text \<open>
  Why a quote is rejected. The checks of \<^verbatim>\<open>dcap-verify/src/verify.rs\<close> are laid out as a rule
  list, one entry per check in the order of the code: the category a failure of the check is
  reported with, and the condition, read declaratively, under which the check passes. The
  verdict of the verifier is that of the first entry whose condition fails, and the quote is
  accepted when there is none: first-match semantics, as of a packet filter.

  Entries that speak of loaded chains or of an extracted platform identity exist only where
  loading or extraction succeeds; where it fails, an earlier entry decides.
\<close>

type_synonym gates = "(error_category \<times> bool) list"

fun first_failure :: "gates \<Rightarrow> error_category option" where
  "first_failure [] = None"
| "first_failure ((c, passes) # gs) = (if passes then first_failure gs else Some c)"

definition rejection_of :: "'a res \<Rightarrow> error_category option" where
  "rejection_of r = (case r of Inl e \<Rightarrow> Some (category e) | Inr _ \<Rightarrow> None)"

text \<open>A rule list decides a check: same verdict, same category.\<close>

definition decides :: "gates \<Rightarrow> 'a res \<Rightarrow> bool" where
  "decides gs r \<longleftrightarrow> rejection_of r = first_failure gs"

section \<open>Composing rule lists\<close>

lemma first_failure_append:
  "first_failure (gs @ hs) =
     (case first_failure gs of None \<Rightarrow> first_failure hs | Some c \<Rightarrow> Some c)"
  by (induction gs rule: first_failure.induct) auto

lemma first_failure_None: "first_failure gs = None \<longleftrightarrow> (\<forall>g\<in>set gs. snd g)"
  by (induction gs rule: first_failure.induct) auto

lemma first_failure_Some:
  "first_failure gs = Some c \<longleftrightarrow>
     (\<exists>earlier later. gs = earlier @ (c, False) # later \<and> (\<forall>g\<in>set earlier. snd g))"
proof
  assume "first_failure gs = Some c"
  then show "\<exists>earlier later. gs = earlier @ (c, False) # later \<and> (\<forall>g\<in>set earlier. snd g)"
  proof (induction gs rule: first_failure.induct)
    case (2 d passes gs)
    show ?case
    proof (cases passes)
      case True
      with 2 obtain earlier later where "gs = earlier @ (c, False) # later"
        "\<forall>g\<in>set earlier. snd g" by auto
      with True have "(d, passes) # gs = ((d, True) # earlier) @ (c, False) # later"
        "\<forall>g\<in>set ((d, True) # earlier). snd g" by simp_all
      then show ?thesis by blast
    next
      case False
      with 2 have "(d, passes) # gs = [] @ (c, False) # gs" by simp
      then show ?thesis by force
    qed
  qed simp
next
  assume "\<exists>earlier later. gs = earlier @ (c, False) # later \<and> (\<forall>g\<in>set earlier. snd g)"
  then obtain earlier later where "gs = earlier @ (c, False) # later" "\<forall>g\<in>set earlier. snd g"
    by blast
  then show "first_failure gs = Some c"
    by (simp add: first_failure_append first_failure_None [THEN iffD2])
qed

lemma decides_Inr: "decides [] (Inr x)"
  by (simp add: decides_def rejection_of_def)

lemma decides_check:
  assumes "rejects_within {c} r" and "passes \<longleftrightarrow> (\<exists>x. r = Inr x)"
  shows "decides [(c, passes)] r"
  using assms by (cases r) (auto simp: decides_def rejection_of_def rejects_within_def)

lemma decides_if:
  assumes "category e = c" and "passes \<longleftrightarrow> \<not> b" and "decides gs r"
  shows "decides ((c, passes) # gs) (if b then Inl e else r)"
  using assms by (simp add: decides_def rejection_of_def)

lemma decides_step:
  assumes "rejects_within {c} r" and "passes \<longleftrightarrow> (\<exists>x. r = Inr x)"
    and "\<And>x. r = Inr x \<Longrightarrow> decides gs (f x)"
  shows "decides ((c, passes) # gs) (and_then r f)"
  using assms by (cases r) (auto simp: decides_def rejection_of_def rejects_within_def)

lemma decides_and_then:
  assumes "decides gs r" and "\<And>x. r = Inr x \<Longrightarrow> decides hs (f x)"
  shows "decides (gs @ hs) (and_then r f)"
  using assms
  by (cases r) (auto simp: decides_def rejection_of_def first_failure_append split: option.splits)

lemma decides_for_each:
  "(\<And>x. x \<in> set xs \<Longrightarrow> decides (gs x) (f x)) \<Longrightarrow>
     decides (concat (map gs xs)) (for_each_res f xs)"
  by (induction xs) (simp_all add: decides_Inr decides_and_then)

section \<open>Certificates and CRLs\<close>

text \<open>Path validation: the anchor, the certificates one by one, the issuers, the signatures.\<close>

definition path_gates :: "('k, 's) crates \<Rightarrow> int \<Rightarrow> x509_cert list \<Rightarrow> gates" where
  "path_gates C now cs =
     (RootCaUntrusted, spki_data (last cs) = INTEL_SGX_ROOT_CA_PUBLIC_KEY_SEC1) #
     concat (map (\<lambda>c. [(CertOrCrlTimeInvalid, valid_at now c), (RootCaUntrusted, p256_sha256 c)]) cs) @
     [(RootCaUntrusted, \<forall>c\<in>set (tl cs). may_issue c),
      (RootCaUntrusted,
        (\<forall>i. Suc i < length cs \<longrightarrow> issued_by C (cs ! i) (cs ! Suc i)) \<and>
        issued_by C (last cs) (last cs))]"

lemma path_gates_all: "cs \<noteq> [] \<Longrightarrow> first_failure (path_gates C now cs) = None \<longleftrightarrow> trusted_path C now cs"
  by (auto simp: first_failure_None path_gates_def trusted_path_simps)

lemma chain_validate_gates:
  assumes "certs chain \<noteq> []"
  shows "decides (path_gates C now (certs chain)) (chain_validate C chain now)"
proof -
  let ?cs = "certs chain" and ?label = "chain_kind_label (pc_kind chain)"
  have cert: "decides [(CertOrCrlTimeInvalid, valid_at now c), (RootCaUntrusted, p256_sha256 c)]
      (and_then (check_cert_window label subj (not_before c) (not_after c) now)
        (\<lambda>_. check_p256_sha256_algs label c))" for label subj c
  proof -
    have "decides [(CertOrCrlTimeInvalid, valid_at now c)]
        (check_cert_window label subj (not_before c) (not_after c) now)"
      by (rule decides_check)
        (simp_all add: cert_window.gate_rejects cert_window.gate_ok valid_at_def)
    moreover have "rejects_within {RootCaUntrusted} (check_p256_sha256_algs label c)"
      unfolding check_p256_sha256_algs_def untrusted_def by (intro rejects_intros) simp_all
    then have "decides [(RootCaUntrusted, p256_sha256 c)] (check_p256_sha256_algs label c)"
      by (rule decides_check) (simp add: check_algs_ok)
    ultimately show ?thesis using decides_and_then by fastforce
  qed
  have "rejects_within {RootCaUntrusted} (for_each_res (\<lambda>(i, c). require_ca label i c) ics)"
    for label ics
    unfolding require_ca_def untrusted_def split_def by (intro rejects_intros) simp_all
  then have issuers: "decides [(RootCaUntrusted, \<forall>c\<in>set (tl ?cs). may_issue c)]
      (for_each_res (\<lambda>(i, c). require_ca ?label i c) (drop 1 (enumerate 0 ?cs)))"
    by (rule decides_check) (simp only: for_each_require_ca_ok simp_thms)
  have "rejects_within {RootCaUntrusted} (for_each_res (check_issued C label ?cs) js)" for label js
    unfolding check_issued_def spki_verifying_key_def untrusted_def Let_def
    by (intro rejects_intros) simp_all
  then have issued: "decides [(RootCaUntrusted,
        (\<forall>i. Suc i < length ?cs \<longrightarrow> issued_by C (?cs ! i) (?cs ! Suc i)) \<and>
        issued_by C (last ?cs) (last ?cs))]
      (for_each_res (check_issued C ?label ?cs) [0..<length ?cs])"
    by (rule decides_check) (simp add: for_each_check_issued_ok [OF assms])
  have tail: "decides [(RootCaUntrusted, \<forall>c\<in>set (tl ?cs). may_issue c), (RootCaUntrusted,
        (\<forall>i. Suc i < length ?cs \<longrightarrow> issued_by C (?cs ! i) (?cs ! Suc i)) \<and>
        issued_by C (last ?cs) (last ?cs))]
      (and_then (for_each_res (\<lambda>(i, c). require_ca ?label i c) (drop 1 (enumerate 0 ?cs)))
        (\<lambda>_. for_each_res (check_issued C ?label ?cs) [0..<length ?cs]))"
    using decides_and_then [OF issuers issued] by simp
  show ?thesis
    unfolding path_gates_def chain_validate_def chain_validate_under_def Let_def root_last [OF assms]
      anchor_sec1_under_def option.case
    by (intro decides_if decides_and_then [OF decides_for_each tail] cert) (simp_all add: untrusted_def)
qed

text \<open>A CRL: readable and of the right algorithm and issuer, current, signed.\<close>

definition crl_gates :: "('k, 's) crates \<Rightarrow> bytes \<Rightarrow> bytes \<Rightarrow> bytes \<Rightarrow> int \<Rightarrow> gates" where
  "crl_gates C pem_data issuer_raw key_sec1 now =
     [(CrlInvalid, \<exists>crl. crl_in_pem C pem_data crl \<and>
         crl_signature_algorithm crl = crl_tbs_signature crl \<and>
         alg_oid (crl_signature_algorithm crl) = OID_SIG_ECDSA_WITH_SHA256 \<and>
         name_raw (crl_issuer crl) = issuer_raw),
      (CertOrCrlTimeInvalid, \<exists>crl. crl_in_pem C pem_data crl \<and> current_crl now crl),
      (CrlInvalid, \<exists>crl. crl_in_pem C pem_data crl \<and>
         signed_der C key_sec1 (tbs_cert_list crl) (crl_signature_value crl))]"

lemma check_crl_gates:
  assumes key: "key_from_sec1 C key_sec1 = Inr key"
  shows "decides (crl_gates C pem_data issuer_raw key_sec1 now)
    (check_crl C label pem_data issuer_raw key now)"
proof (cases "\<exists>crl. crl_in_pem C pem_data crl")
  case False
  then have "\<not> (\<exists>entries. check_crl C label pem_data issuer_raw key now = Inr entries)"
    by (auto simp: check_crl_ok)
  then obtain e where e: "check_crl C label pem_data issuer_raw key now = Inl e"
    by (cases "check_crl C label pem_data issuer_raw key now") auto
  have "category e = CrlInvalid"
    using e False by (auto simp: check_crl_def and_then_eq_Inl map_err_eq_Inl ok_or_eq_Inl
        crl_error_def crl_in_pem_def map_err_eq_Inr ok_or_eq_Inr)
  then show ?thesis
    using e False by (auto simp: decides_def rejection_of_def crl_gates_def)
next
  case True
  then obtain crl where crl: "crl_in_pem C pem_data crl" by blast
  have same: "crl_in_pem C pem_data crl' \<longleftrightarrow> crl' = crl" for crl'
    using crl by (auto simp: crl_in_pem_def)
  let ?sig = "\<lambda>_. and_then (map_err (\<lambda>e. crl_error (label @ '': undecodable signature: '' @ e))
                (sig_from_der C (crl_signature_value crl))) (\<lambda>sig.
     and_then (verify_with C key (tbs_cert_list crl) sig
                (crl_error (label @ '': signature does not verify against the issuing key''))) (\<lambda>_.
     Inr (crl_entries crl)))"
  have sig: "decides [(CrlInvalid, signed_der C key_sec1 (tbs_cert_list crl) (crl_signature_value crl))]
      (?sig ())"
  proof (rule decides_check)
    show "rejects_within {CrlInvalid} (?sig ())"
      unfolding crl_error_def by (intro rejects_intros) simp_all
    show "signed_der C key_sec1 (tbs_cert_list crl) (crl_signature_value crl) \<longleftrightarrow> (\<exists>x. ?sig () = Inr x)"
      by (auto simp: res_simps signed_der_def key)
  qed
  have "rejects_within {CertOrCrlTimeInvalid}
      (check_crl_window label (last_update crl) (next_update crl) now)"
    by (auto simp: check_crl_window_def rejects_within_def split: option.splits)
  then have window: "decides [(CertOrCrlTimeInvalid, current_crl now crl)]
      (check_crl_window label (last_update crl) (next_update crl) now)"
    by (rule decides_check) (simp add: check_crl_window_ok)
  from crl obtain blocks b where pem: "pem_parse_many C (trim_trailing_junk pem_data) = Inr blocks"
    "List.find (\<lambda>b. str_contains (pem_tag b) ''CRL'') blocks = Some b"
    "crl_from_der C (pem_contents b) = Inr crl"
    by (auto simp: crl_in_pem_def)
  have signed: "decides [(CertOrCrlTimeInvalid, current_crl now crl),
      (CrlInvalid, signed_der C key_sec1 (tbs_cert_list crl) (crl_signature_value crl))]
      (and_then (check_crl_window label (last_update crl) (next_update crl) now) ?sig)"
    using decides_and_then [OF window sig] by simp
  have "decides [(CrlInvalid, crl_signature_algorithm crl = crl_tbs_signature crl),
      (CrlInvalid, alg_oid (crl_signature_algorithm crl) = OID_SIG_ECDSA_WITH_SHA256),
      (CrlInvalid, name_raw (crl_issuer crl) = issuer_raw),
      (CertOrCrlTimeInvalid, current_crl now crl),
      (CrlInvalid, signed_der C key_sec1 (tbs_cert_list crl) (crl_signature_value crl))]
      (check_crl C label pem_data issuer_raw key now)"
    unfolding check_crl_def pem map_err_simps ok_or_simps option.map and_then_simps
      crl_entries_def [symmetric]
    by (intro decides_if signed) (simp_all add: crl_error_def)
  then show ?thesis
    by (auto simp: decides_def crl_gates_def same)
qed

section \<open>Loading and trust\<close>

definition loading_gates :: "('k, 's) crates \<Rightarrow> sgx_collateral \<Rightarrow> sgx_quote \<Rightarrow> gates" where
  "loading_gates C coll quote =
     (let tcb_pem = str_bytes (tcb_info_issuer_chain coll);
          crl_pem = str_bytes (pck_crl_issuer_chain coll);
          qe_pem = str_bytes (qe_identity_issuer_chain coll);
          pck_pem = cert_data (signature quote) in
      [(CollateralParse, \<exists>c. from_pem C TcbInfoIssuer tcb_pem = Inr c),
       (CollateralParse, \<exists>c. from_pem C PckCrlIssuer crl_pem = Inr c),
       (CollateralParse, \<exists>c. from_pem C QeIdentityIssuer qe_pem = Inr c),
       (QuoteParse, \<exists>c. from_pem C QuotePck pck_pem = Inr c),
       (CollateralParse, \<exists>p. load_chain C TcbInfoIssuer tcb_pem p),
       (CollateralParse, \<exists>p. load_chain C PckCrlIssuer crl_pem p),
       (CollateralParse, \<exists>p. load_chain C QeIdentityIssuer qe_pem p),
       (QuoteParse, \<exists>p. load_chain C QuotePck pck_pem p)])"

lemma load_chains_gates: "decides (loading_gates C coll quote) (load_chains C coll quote)"
proof -
  have pem: "rejects_within {if kind = QuotePck then QuoteParse else CollateralParse} (from_pem C kind data)"
    for kind data by (intro rejects_intros) simp
  have der: "rejects_within {if kind = QuotePck then QuoteParse else CollateralParse} (chain_parse C c)"
    and loaded: "(\<exists>p. load_chain C kind data p) \<longleftrightarrow> (\<exists>p. chain_parse C c = Inr p)"
    if "from_pem C kind data = Inr c" for kind data c
    using that from_pem_kind [OF that] by (auto simp: load_chain_def intro!: rejects_intros)
  show ?thesis
    unfolding loading_gates_def load_chains_def Let_def
    by (intro decides_step decides_Inr refl loaded;
        (use pem [of TcbInfoIssuer] pem [of PckCrlIssuer] pem [of QeIdentityIssuer] pem [of QuotePck]
          der [of TcbInfoIssuer] der [of PckCrlIssuer] der [of QeIdentityIssuer] der [of QuotePck]
          in simp)?)
qed

definition signer_gates :: "parsed_chain \<Rightarrow> gates" where
  "signer_gates chain =
     [(CollateralParse, \<exists>cn. first_common_name (subject (leaf chain)) = Some cn),
      (RootCaUntrusted, tcb_signer chain)]"

lemma require_tcb_signing_leaf_gates:
  assumes "pc_kind chain \<noteq> QuotePck"
  shows "decides (signer_gates chain) (require_tcb_signing_leaf chain document)"
  unfolding signer_gates_def require_tcb_signing_leaf_def leaf_common_name_def
  using assms
  by (intro decides_step decides_if decides_Inr)
    (auto simp: tcb_signer_def res_simps intro!: rejects_intros)

text \<open>Everything before the evidence: identities, formats, the four chains.\<close>

definition chain_gates ::
  "('k, 's) crates \<Rightarrow> int \<Rightarrow> sgx_collateral \<Rightarrow> sgx_quote \<Rightarrow> bytes \<Rightarrow> gates" where
  "chain_gates C now coll quote expected =
     [(QeVendorInvalid, qe_vendor_id (header quote) = INTEL_QE_VENDOR_ID),
      (MrenclaveMismatch, mrenclave (report_body quote) = expected),
      (CollateralParse, supported_formats coll)] @
     loading_gates C coll quote @
     (case load_chains C coll quote of
        Inl _ \<Rightarrow> []
      | Inr ch \<Rightarrow>
          concat (map (\<lambda>chain. path_gates C now (certs chain)) (all_chains ch)) @
          signer_gates (tcb_info_chain ch) @ signer_gates (qe_identity_chain ch) @
          [(CrlInvalid, leaf_subject_raw (pck_crl_chain ch) = leaf_issuer_raw (pck_chain ch))])"

lemma verify_chains_gates:
  "decides (chain_gates C now coll quote expected) (verify_chains C now coll quote expected)"
proof -
  let ?loaded = "\<lambda>ch. concat (map (\<lambda>chain. path_gates C now (certs chain)) (all_chains ch)) @
      signer_gates (tcb_info_chain ch) @ signer_gates (qe_identity_chain ch) @
      [(CrlInvalid, leaf_subject_raw (pck_crl_chain ch) = leaf_issuer_raw (pck_chain ch))]"
  let ?trust = "\<lambda>ch. and_then (for_each_res (\<lambda>chain. chain_validate C chain now) (all_chains ch)) (\<lambda>_.
     and_then (require_tcb_signing_leaf (tcb_info_chain ch) ''TCB info'') (\<lambda>_.
     and_then (require_tcb_signing_leaf (qe_identity_chain ch) ''QE identity'') (\<lambda>_.
     and_then (check_crl_scope ch) (\<lambda>_. Inr ch))))"
  have "decides (?loaded ch) (?trust ch)" if "load_chains C coll quote = Inr ch" for ch
  proof -
    have ch: "chains_of C coll quote ch" using that load_chains_ok by blast
    then have kinds: "pc_kind (tcb_info_chain ch) \<noteq> QuotePck" "pc_kind (qe_identity_chain ch) \<noteq> QuotePck"
      by (auto simp: chains_of_def dest: parsed_chain_bounds(1))
    have "decides [(CrlInvalid, leaf_subject_raw (pck_crl_chain ch) = leaf_issuer_raw (pck_chain ch))]
        (and_then (check_crl_scope ch) (\<lambda>_. Inr ch))"
      by (intro decides_step decides_Inr rejects_intros) (simp_all add: check_crl_scope_ok)
    then show ?thesis
      by (intro decides_and_then decides_for_each chain_validate_gates require_tcb_signing_leaf_gates
          kinds chains_of_nonempty [OF ch])
  qed
  then have "decides (loading_gates C coll quote @
      (case load_chains C coll quote of Inl _ \<Rightarrow> [] | Inr ch \<Rightarrow> ?loaded ch))
      (and_then (load_chains C coll quote) ?trust)"
    by (intro decides_and_then [OF load_chains_gates]) simp
  then show ?thesis
    unfolding chain_gates_def verify_chains_unfold append_Cons append_Nil
    by (intro decides_step rejects_intros)
      (simp_all add: check_qe_vendor_ok check_mrenclave_ok check_document_formats_ok)
qed

section \<open>Evidence\<close>

definition usable_key :: "('k, 's) crates \<Rightarrow> parsed_chain \<Rightarrow> bool" where
  "usable_key C chain \<longleftrightarrow> (\<exists>k. key_from_sec1 C (spki_data (leaf chain)) = Inr k)"

lemma leaf_verifying_key_gate:
  "rejects_within {RootCaUntrusted} (leaf_verifying_key C chain)"
  "usable_key C chain \<longleftrightarrow> (\<exists>k. leaf_verifying_key C chain = Inr k)"
  by (intro rejects_intros) (simp_all add: usable_key_def leaf_verifying_key_ok)

definition revocation_gates ::
  "('k, 's) crates \<Rightarrow> int \<Rightarrow> sgx_collateral \<Rightarrow> loaded_chains \<Rightarrow> gates" where
  "revocation_gates C now coll ch =
     crl_gates C (str_bytes (root_ca_crl coll)) (root_subject_raw (pck_chain ch))
       INTEL_SGX_ROOT_CA_PUBLIC_KEY_SEC1 now @
     [(RootCaUntrusted, usable_key C (pck_crl_chain ch))] @
     crl_gates C (str_bytes (pck_crl coll)) (leaf_issuer_raw (pck_chain ch))
       (spki_data (leaf (pck_crl_chain ch))) now @
     [(CrlInvalid, \<exists>root_crl leaf_crl. crl_in_pem C (str_bytes (root_ca_crl coll)) root_crl \<and>
         crl_in_pem C (str_bytes (pck_crl coll)) leaf_crl \<and>
         (\<forall>chain\<in>set (all_chains ch). \<forall>c\<in>set (certs chain).
            \<not> listed_in root_crl c \<and> \<not> listed_in leaf_crl c))]"

lemma check_revocation_gates:
  assumes root: "key_from_sec1 C INTEL_SGX_ROOT_CA_PUBLIC_KEY_SEC1 = Inr root_key"
  shows "decides (revocation_gates C now coll ch) (check_revocation C now coll root_key ch)"
proof -
  let ?root_pem = "str_bytes (root_ca_crl coll)" and ?pck_pem = "str_bytes (pck_crl coll)"
  let ?unlisted = "\<exists>root_crl leaf_crl. crl_in_pem C ?root_pem root_crl \<and>
      crl_in_pem C ?pck_pem leaf_crl \<and>
      (\<forall>chain\<in>set (all_chains ch). \<forall>c\<in>set (certs chain).
         \<not> listed_in root_crl c \<and> \<not> listed_in leaf_crl c)"
  have last: "decides [(CrlInvalid, ?unlisted)]
      (ensure_none_revoked (all_chains ch) (revoked @ pck_revoked))"
    if "check_crl C l1 ?root_pem i1 k1 now = Inr revoked"
      "check_crl C l2 ?pck_pem i2 k2 now = Inr pck_revoked"
    for l1 l2 i1 i2 k1 k2 revoked pck_revoked
  proof (rule decides_check)
    show "rejects_within {CrlInvalid} (ensure_none_revoked (all_chains ch) (revoked @ pck_revoked))"
      by (intro rejects_intros) simp
    from that obtain crl1 crl2 where crls: "crl_in_pem C ?root_pem crl1" "revoked = crl_entries crl1"
      "crl_in_pem C ?pck_pem crl2" "pck_revoked = crl_entries crl2"
      by (auto simp: check_crl_ok)
    have "?unlisted \<longleftrightarrow> (\<forall>chain\<in>set (all_chains ch). \<forall>c\<in>set (certs chain).
        \<not> listed_in crl1 c \<and> \<not> listed_in crl2 c)"
      using crls(1,3) crl_in_pem_unique by blast
    then show "?unlisted \<longleftrightarrow>
        (\<exists>u. ensure_none_revoked (all_chains ch) (revoked @ pck_revoked) = Inr u)"
      unfolding crls(2,4) ensure_none_revoked_ok by simp
  qed
  have key: "decides [(RootCaUntrusted, usable_key C (pck_crl_chain ch))]
      (leaf_verifying_key C (pck_crl_chain ch))"
    by (rule decides_check [OF leaf_verifying_key_gate])
  show ?thesis
    unfolding revocation_gates_def check_revocation_def
    by (intro decides_and_then [OF check_crl_gates [OF root]] decides_and_then [OF key]
        decides_and_then [OF check_crl_gates] last)
      (simp_all add: leaf_verifying_key_ok)
qed

definition tcb_info_gates ::
  "('k, 's) crates \<Rightarrow> int \<Rightarrow> u32 \<Rightarrow> parsed_chain \<Rightarrow> tcb_info signed_doc \<Rightarrow> gates" where
  "tcb_info_gates C now minimum chain doc =
     [(RootCaUntrusted, usable_key C chain),
      (TcbInfoSignatureInvalid, doc_signed C chain doc),
      (CollateralParse, ti_id (body doc) = ''SGX''),
      (TcbInfoStale, ti_issue_date (body doc) \<le> now \<and> now < ti_next_update (body doc)),
      (TcbInfoStale, minimum \<le> ti_tcb_evaluation_data_number (body doc))]"

lemma signature_gate:
  assumes "leaf_verifying_key C chain = Inr key"
  shows "doc_signed C chain doc \<longleftrightarrow>
     (\<exists>u. map_err f (verify_raw_hex_signature C key (str_bytes (body_json doc)) (signature_hex doc)) =
        Inr u)"
  using assms
  by (auto simp: doc_signed_def signed_raw_def leaf_verifying_key_ok map_err_eq_Inr
      verify_raw_hex_signature_ok)

lemma round_gate:
  "decides [(stale, minimum \<le> rnd)] (check_evaluation_round document rnd minimum stale)"
  by (rule decides_check) (auto intro!: rejects_intros simp: check_evaluation_round_ok)

lemma check_tcb_info_document_gates:
  "decides (tcb_info_gates C now minimum chain doc) (check_tcb_info_document C now minimum chain doc)"
  unfolding tcb_info_gates_def check_tcb_info_document_def
  by (intro decides_step decides_if leaf_verifying_key_gate signature_gate round_gate)
    (auto simp: doc_window.gate_ok intro!: rejects_intros)

text \<open>A field that does not decode is the document's fault; one that does not match is the QE's.\<close>

definition qe_match_gates :: "('k, 's) crates \<Rightarrow> qe_identity \<Rightarrow> sgx_report_body \<Rightarrow> gates" where
  "qe_match_gates C identity qe =
     [(QeIdentityMismatch, qi_id identity = ''QE''),
      (CollateralParse, \<exists>m. hex_field C 32 (qi_mrsigner identity) m),
      (QeIdentityMismatch, hex_field C 32 (qi_mrsigner identity) (mrsigner qe)),
      (QeIdentityMismatch, isvprodid identity = isv_prod_id qe),
      (CollateralParse, \<exists>v. hex_field C 4 (miscselect identity) v),
      (CollateralParse, \<exists>m. hex_field C 4 (miscselect_mask identity) m),
      (QeIdentityMismatch, \<exists>v m. hex_field C 4 (miscselect identity) v \<and>
         hex_field C 4 (miscselect_mask identity) m \<and> masked_eq (misc_select qe) v m),
      (CollateralParse, \<exists>v. hex_field C 16 (qi_attributes identity) v),
      (CollateralParse, \<exists>m. hex_field C 16 (attributes_mask identity) m),
      (QeIdentityMismatch, \<exists>v m. hex_field C 16 (qi_attributes identity) v \<and>
         hex_field C 16 (attributes_mask identity) m \<and> masked_eq (attributes qe) v m),
      (QeIdentityMismatch, \<exists>l. qe_level identity (isv_svn qe) l \<and> qtcb_status l = ''UpToDate'')]"

lemma decode_hex_field_gate:
  "rejects_within {CollateralParse} (decode_hex_field C n what v)"
  "(\<exists>bs. hex_field C n v bs) \<longleftrightarrow> (\<exists>bs. decode_hex_field C n what v = Inr bs)"
  by (intro rejects_intros) (simp_all add: decode_hex_field_ok)

lemma qe_level_gate:
  "decides [(QeIdentityMismatch, \<exists>l. qe_level identity isv l \<and> qtcb_status l = ''UpToDate'')]
    (case max_by_key (\<lambda>l. isvsvn (qtcb l))
        (filter (\<lambda>l. isvsvn (qtcb l) \<le> isv) (qi_tcb_levels identity)) of
       Some l \<Rightarrow> if qtcb_status l = ''UpToDate'' then Inr () else Inl (identity_mismatch (d l))
     | None \<Rightarrow> Inl (identity_mismatch d'))"
  unfolding qe_level_selected [symmetric]
  by (rule decides_check) (auto simp: identity_mismatch_def rejects_within_def split: option.splits)

lemma check_qe_identity_gates:
  "decides (qe_match_gates C identity qe) (check_qe_identity C identity qe)"
  unfolding qe_match_gates_def check_qe_identity_def Let_def
  by (intro decides_step decides_if decode_hex_field_gate qe_level_gate)
    (auto simp: identity_mismatch_def decode_hex_field_ok hex_field_def)

definition qe_identity_gates ::
  "('k, 's) crates \<Rightarrow> int \<Rightarrow> u32 \<Rightarrow> parsed_chain \<Rightarrow> qe_identity signed_doc \<Rightarrow>
     sgx_report_body \<Rightarrow> gates" where
  "qe_identity_gates C now minimum chain doc qe =
     [(RootCaUntrusted, usable_key C chain),
      (QeIdentitySignatureInvalid, doc_signed C chain doc),
      (QeIdentityStale, qi_issue_date (body doc) \<le> now \<and> now < qi_next_update (body doc)),
      (QeIdentityStale, minimum \<le> qi_tcb_evaluation_data_number (body doc))] @
     qe_match_gates C (body doc) qe"

lemma check_qe_identity_document_gates:
  "decides (qe_identity_gates C now minimum chain doc qe)
     (check_qe_identity_document C now minimum chain doc qe)"
  unfolding qe_identity_gates_def check_qe_identity_document_def append_Cons append_Nil
  by (intro decides_step leaf_verifying_key_gate signature_gate check_qe_identity_gates)
    (auto simp: doc_window.gate_ok check_evaluation_round_ok intro!: rejects_intros)

definition standing_gates :: "('k, 's) crates \<Rightarrow> tcb_info \<Rightarrow> pck_platform_tcb \<Rightarrow> gates" where
  "standing_gates C info pck =
     [(CollateralParse, \<exists>f. hex_field C 6 (fmspc info) f),
      (TcbLevelUnsupported, hex_field C 6 (fmspc info) (pck_fmspc pck)),
      (CollateralParse, \<exists>p. hex_field C 2 (pce_id info) p),
      (TcbLevelUnsupported, hex_field C 2 (pce_id info) (pck_pce_id pck)),
      (TcbLevelUnsupported, \<exists>l. first_level info pck l \<and> tcb_status l \<in> set accepted_statuses)]"

lemma level_gate:
  "decides [(TcbLevelUnsupported, \<exists>l. first_level info pck l \<and> tcb_status l \<in> set accepted_statuses)]
    (case List.find (\<lambda>level. level_satisfied level pck) (ti_tcb_levels info) of
       None \<Rightarrow> Inl (unsupported d) | Some selected \<Rightarrow> standing_of_level selected)"
  unfolding first_level_find
  by (rule decides_check)
    (auto simp: unsupported_def standing_of_level_def rejects_within_def accepted_statuses_def
      split: option.splits)

lemma platform_standing_gates:
  "decides (standing_gates C info pck) (platform_standing C info pck)"
  unfolding standing_gates_def platform_standing_def
  by (intro decides_step decides_if decode_hex_field_gate level_gate)
    (auto simp: unsupported_def decode_hex_field_ok hex_field_def)

text \<open>The quote's own evidence, the DEBUG attribute, and the platform's standing.\<close>

definition quote_gates ::
  "('k, 's) crates \<Rightarrow> sgx_collateral \<Rightarrow> sgx_quote \<Rightarrow> parsed_chain \<Rightarrow> gates" where
  "quote_gates C coll quote chain =
     (let s = signature quote in
      [(RootCaUntrusted, usable_key C chain),
       (QeReportSignatureInvalid,
         signed_raw C (spki_data (leaf chain)) (qe_report_raw s) (qe_report_signature s)),
       (QeBindingInvalid,
         take 32 (sgx_report_data_bytes (qe_report s)) =
           sha256 C (attestation_pub_key s @ qe_auth_data s) \<and>
         drop 32 (sgx_report_data_bytes (qe_report s)) = replicate 32 0),
       (QuoteSignatureInvalid,
         signed_raw C (0x04 # attestation_pub_key s) (signed_bytes quote) (isv_signature s)),
       (DebugEnclaveRejected, \<not> is_debug (report_body quote)),
       (QuoteParse, \<exists>p. extract_pck_platform_tcb C chain = Inr p)] @
      (case extract_pck_platform_tcb C chain of
         Inl _ \<Rightarrow> []
       | Inr platform \<Rightarrow> standing_gates C (body (coll_tcb_info coll)) platform))"

definition evidence_gates ::
  "('k, 's) crates \<Rightarrow> int \<Rightarrow> sgx_collateral \<Rightarrow> sgx_quote \<Rightarrow> u32 \<Rightarrow> loaded_chains \<Rightarrow> gates" where
  "evidence_gates C now coll quote minimum ch =
     revocation_gates C now coll ch @
     tcb_info_gates C now minimum (tcb_info_chain ch) (coll_tcb_info coll) @
     qe_identity_gates C now minimum (qe_identity_chain ch) (coll_qe_identity coll)
       (qe_report (signature quote)) @
     quote_gates C coll quote (pck_chain ch)"

lemma check_qe_report_signature_gates:
  "decides [(RootCaUntrusted, usable_key C chain),
      (QeReportSignatureInvalid, signed_raw C (spki_data (leaf chain))
         (qe_report_raw (signature quote)) (qe_report_signature (signature quote)))]
     (check_qe_report_signature C chain quote)"
  unfolding check_qe_report_signature_def
  by (intro decides_step decides_check leaf_verifying_key_gate)
    (auto simp: signed_raw_def leaf_verifying_key_ok res_simps intro!: rejects_intros)

lemma verify_evidence_gates:
  assumes root: "key_from_sec1 C INTEL_SGX_ROOT_CA_PUBLIC_KEY_SEC1 = Inr k"
  shows "decides (evidence_gates C now coll quote minimum ch)
    (verify_evidence C now coll quote minimum k ch)"
proof -
  let ?s = "signature quote" and ?pck = "pck_chain ch"
  let ?standing = "case extract_pck_platform_tcb C ?pck of
      Inl _ \<Rightarrow> [] | Inr platform \<Rightarrow> standing_gates C (body (coll_tcb_info coll)) platform"
  let ?tail = "and_then (check_qe_binding C quote) (\<lambda>_.
     and_then (check_quote_signature C quote) (\<lambda>_.
     and_then (check_debug C quote) (\<lambda>_.
     and_then (extract_pck_platform_tcb C ?pck) (\<lambda>platform_tcb.
     and_then (platform_standing C (body (coll_tcb_info coll)) platform_tcb) (\<lambda>standing.
     Inr (standing, report_body quote))))))"
  have standing: "decides ?standing
      (and_then (platform_standing C (body (coll_tcb_info coll)) platform) (\<lambda>standing.
        Inr (standing, report_body quote)))"
    if "extract_pck_platform_tcb C ?pck = Inr platform" for platform
    using decides_and_then [OF platform_standing_gates decides_Inr] that by simp
  have tail: "decides ((QeBindingInvalid,
         take 32 (sgx_report_data_bytes (qe_report ?s)) =
           sha256 C (attestation_pub_key ?s @ qe_auth_data ?s) \<and>
         drop 32 (sgx_report_data_bytes (qe_report ?s)) = replicate 32 0) #
      (QuoteSignatureInvalid,
         signed_raw C (0x04 # attestation_pub_key ?s) (signed_bytes quote) (isv_signature ?s)) #
      (DebugEnclaveRejected, \<not> is_debug (report_body quote)) #
      (QuoteParse, \<exists>p. extract_pck_platform_tcb C ?pck = Inr p) # ?standing) ?tail"
    by (intro decides_step standing rejects_intros)
      (auto simp: check_qe_binding_def check_quote_signature_def Let_def signed_raw_def res_simps
        check_debug_ok)
  have quote: "decides (quote_gates C coll quote ?pck)
      (and_then (check_qe_report_signature C ?pck quote) (\<lambda>_. ?tail))"
    using decides_and_then [OF check_qe_report_signature_gates tail]
    by (simp add: quote_gates_def Let_def)
  show ?thesis
    unfolding evidence_gates_def verify_evidence_def
    by (intro decides_and_then [OF check_revocation_gates [OF root]]
        decides_and_then [OF check_tcb_info_document_gates]
        decides_and_then [OF check_qe_identity_document_gates] quote)
qed

section \<open>The verifier\<close>

definition attestation_gates ::
  "('k, 's) crates \<Rightarrow> int \<Rightarrow> sgx_collateral \<Rightarrow> sgx_quote \<Rightarrow> bytes \<Rightarrow> u32 \<Rightarrow> gates" where
  "attestation_gates C now coll quote expected minimum =
     chain_gates C now coll quote expected @
     (case load_chains C coll quote of
        Inl _ \<Rightarrow> []
      | Inr ch \<Rightarrow> evidence_gates C now coll quote minimum ch)"

lemma verify_gates:
  assumes "verify_remote_attestation C t coll quote expected minimum = Some r"
  shows "decides (attestation_gates C (unix_seconds t) coll quote expected minimum) r"
proof (cases "verify_chains C (unix_seconds t) coll quote expected")
  case (Inl e)
  then show ?thesis
    using assms verify_chains_gates [of C "unix_seconds t" coll quote expected]
    by (auto simp: verify_remote_attestation_unfold attestation_gates_def decides_def rejection_of_def
        first_failure_append split: option.splits)
next
  case (Inr ch)
  then have trusted: "chains_trusted C (unix_seconds t) coll quote ch"
    by (simp add: verify_chains_ok)
  then have load: "load_chains C coll quote = Inr ch"
    by (simp add: chains_trusted_def load_chains_ok)
  from trusted obtain k where k: "pinned_root_key C = Some k"
    "key_from_sec1 C INTEL_SGX_ROOT_CA_PUBLIC_KEY_SEC1 = Inr k"
    by (rule chains_trusted_anchor)
  then have "r = verify_evidence C (unix_seconds t) coll quote minimum k ch"
    using assms Inr by (simp add: verify_remote_attestation_unfold Let_def)
  with verify_evidence_gates [OF k(2)] show ?thesis
    using Inr load verify_chains_gates [of C "unix_seconds t" coll quote expected]
    by (simp add: attestation_gates_def decides_def rejection_of_def first_failure_append)
qed

section \<open>Property\<close>

text \<open>C2. The verdict is that of the first gate that fails. For every input the verifier returns; it
  accepts iff no gate of the list fails, and otherwise rejects with the category of the first
  failing gate in the order of the code, whatever later gates would say.\<close>

theorem first_failing_gate_decides:
  "map_option rejection_of (verify_remote_attestation C t coll quote expected minimum) =
     Some (first_failure (attestation_gates C (unix_seconds t) coll quote expected minimum))"
  using verify_gates [of C t coll quote expected minimum]
    verify_never_panics [of C t coll quote expected minimum]
  by (cases "verify_remote_attestation C t coll quote expected minimum") (auto simp: decides_def)

end
