(* ===== verification/Programs.thy ===== *)
theory Programs
  imports Gates Differ_Cli
begin

text \<open>
  The programs around the verifier: \<^verbatim>\<open>dcap-verify/examples/eval_standing.rs\<close>, which runs the
  pipeline on two files, and the four fuzz targets of \<^verbatim>\<open>dcap-verify/fuzz/fuzz_targets\<close>, which run
  parsers and pipeline on arbitrary bytes. A failed \<open>expect\<close> ends a program with a panic and its
  message. The record \<open>example_host\<close> holds what comes from outside the repository: files, the
  clock, and the derived serde code.
\<close>

section \<open>The example program\<close>

datatype program_end = Exited int | Panicked string

record program_run =
  out_lines :: "string list"
  err_lines :: "string list"
  ending :: program_end

record example_host =
  eh_read :: "string \<Rightarrow> bytes option"
  eh_now :: system_time
  eh_collateral :: "bytes \<Rightarrow> string + sgx_collateral"
  eh_standing_text :: "tcb_standing \<Rightarrow> string option"

definition example_usage :: "string list" where
  "example_usage =
     [''usage: eval_standing <collateral.json> <quote.bin> <mrenclave-hex|auto> <unix-time|now>'',
      ''  auto  pin the MRENCLAVE the quote itself reports (identity is then not verified)'',
      ''  now   evaluate at the current system time'',
      ''Runs the full dcap-verify pipeline (evaluation-round floor 0) and prints the'',
      ''TCB standing on accept, or the rejection category. Exit 1 on reject.'']"

text \<open>
  \<open>UNIX_EPOCH + Duration::from_secs(secs)\<close> for a \<open>u64\<close>: a \<open>SystemTime\<close> holds its seconds in an
  \<open>i64\<close>, and the addition panics where they do not fit.
\<close>

definition epoch_plus_secs :: "nat \<Rightarrow> system_time option" where
  "epoch_plus_secs secs = (if int secs \<le> I64_MAX then Some (0 + int secs * 10 ^ 9) else None)"

definition bytes_32 :: "bytes \<Rightarrow> bytes option" where
  "bytes_32 bs = (if length bs = 32 then Some bs else None)"

text \<open>What \<open>main\<close> reads before it calls the verifier, in its order; \<open>Inl\<close> is the panic.\<close>

definition example_inputs ::
  "('k, 's) crates \<Rightarrow> example_host \<Rightarrow> string list \<Rightarrow>
     string + (system_time \<times> sgx_collateral \<times> sgx_quote \<times> bytes)" where
  "example_inputs C H args =
     and_then (ok_or ''read collateral'' (eh_read H (args ! 1))) (\<lambda>collateral_bytes.
     and_then (ok_or ''parse collateral'' (result_ok (eh_collateral H collateral_bytes)))
       (\<lambda>collateral.
     and_then (ok_or ''read quote'' (eh_read H (args ! 2))) (\<lambda>quote_bytes.
     and_then (ok_or ''parse quote'' (result_ok (fst (sgx_quote_read quote_bytes)))) (\<lambda>quote.
     and_then
       (if args ! 3 = ''auto''
        then ok_or ''quote shorter than the MRENCLAVE field'' (peek_mrenclave quote_bytes)
        else and_then (ok_or ''decode mrenclave hex'' (result_ok (hex_decode C (args ! 3)))) (\<lambda>bs.
             ok_or ''mrenclave must be 32 bytes'' (bytes_32 bs))) (\<lambda>mrenclave'.
     and_then
       (if args ! 4 = ''now'' then Inr (eh_now H)
        else and_then (ok_or ''parse unix time'' (parse_usize (args ! 4))) (\<lambda>secs.
             ok_or ''overflow when adding duration to instant'' (epoch_plus_secs secs))) (\<lambda>time.
     Inr (time, collateral, quote, mrenclave')))))))"

definition eval_standing :: "('k, 's) crates \<Rightarrow> example_host \<Rightarrow> string list \<Rightarrow> program_run" where
  "eval_standing C H args =
     (if length args \<noteq> 5
      then \<lparr>out_lines = [], err_lines = example_usage, ending = Exited 2\<rparr>
      else case example_inputs C H args of
        Inl msg \<Rightarrow> \<lparr>out_lines = [], err_lines = [], ending = Panicked msg\<rparr>
      | Inr (time, collateral, quote, mrenclave') \<Rightarrow>
      (case verify_remote_attestation C time collateral quote mrenclave' 0 of
        None \<Rightarrow> \<lparr>out_lines = [], err_lines = [], ending = Panicked ''verifier''\<rparr>
      | Some (Inr (standing, _)) \<Rightarrow>
          (case eh_standing_text H standing of
             None \<Rightarrow> \<lparr>out_lines = [], err_lines = [], ending = Panicked ''serialize standing''\<rparr>
           | Some text' \<Rightarrow>
               \<lparr>out_lines = [''OK '' @ text'], err_lines = [], ending = Exited 0\<rparr>)
      | Some (Inl e) \<Rightarrow>
          \<lparr>out_lines = [''ERR category='' @ error_category_as_str (category e) @ '' detail='' @ detail e],
           err_lines = [], ending = Exited 1\<rparr>))"

section \<open>The fuzz targets\<close>

text \<open>A target returns unit or panics (\<open>None\<close>). The embedded fixture is fixed when it is built.\<close>

record fuzz_build =
  embedded_quote :: bytes
  embedded_collateral :: bytes
  embedded_meta :: string
  fuzz_parse_value :: "string \<Rightarrow> json option"
  fuzz_parse_collateral :: "bytes \<Rightarrow> string + sgx_collateral"

definition as_str :: "json \<Rightarrow> string option" where
  "as_str v = (case v of JString s \<Rightarrow> Some s | _ \<Rightarrow> None)"

definition as_u64 :: "json \<Rightarrow> nat option" where
  "as_u64 v = (case v of JInt n \<Rightarrow> if 0 \<le> n \<and> n < 2 ^ 64 then Some (nat n) else None | _ \<Rightarrow> None)"

record case_params =
  cp_mrenclave :: bytes
  cp_current_time :: system_time

definition fuzz_params :: "('k, 's) crates \<Rightarrow> fuzz_build \<Rightarrow> case_params option" where
  "fuzz_params C B =
     Option.bind (fuzz_parse_value B (embedded_meta B)) (\<lambda>meta'.
     Option.bind (as_str (json_index meta' ''expected_mrenclave_hex'')) (\<lambda>hex.
     Option.bind (result_ok (hex_decode C hex)) (\<lambda>mr.
     Option.bind (bytes_32 mr) (\<lambda>mrenclave'.
     Option.bind (as_u64 (json_index meta' ''current_time_unix'')) (\<lambda>unix.
     Option.bind (epoch_plus_secs unix) (\<lambda>time.
     Some \<lparr>cp_mrenclave = mrenclave', cp_current_time = time\<rparr>))))))"

definition fuzz_quote_parse :: "bytes \<Rightarrow> unit option" where
  "fuzz_quote_parse data = (case sgx_quote_read data of (_, _) \<Rightarrow> Some ())"

definition fuzz_collateral_parse :: "fuzz_build \<Rightarrow> bytes \<Rightarrow> unit option" where
  "fuzz_collateral_parse B data =
     (case fuzz_parse_collateral B data of Inl _ \<Rightarrow> Some () | Inr _ \<Rightarrow> Some ())"

definition fuzz_run ::
  "('k, 's) crates \<Rightarrow> fuzz_build \<Rightarrow> sgx_collateral \<Rightarrow> sgx_quote \<Rightarrow> unit option" where
  "fuzz_run C B collateral quote =
     Option.bind (fuzz_params C B) (\<lambda>params.
     Option.bind (verify_remote_attestation C (cp_current_time params) collateral quote
                    (cp_mrenclave params) 0) (\<lambda>_. Some ()))"

definition fuzz_verify_collateral ::
  "('k, 's) crates \<Rightarrow> fuzz_build \<Rightarrow> bytes \<Rightarrow> unit option" where
  "fuzz_verify_collateral C B data =
     (case fuzz_parse_collateral B data of
        Inl _ \<Rightarrow> Some ()
      | Inr collateral \<Rightarrow>
          Option.bind (result_ok (fst (sgx_quote_read (embedded_quote B)))) (\<lambda>quote.
          fuzz_run C B collateral quote))"

definition fuzz_verify_quote :: "('k, 's) crates \<Rightarrow> fuzz_build \<Rightarrow> bytes \<Rightarrow> unit option" where
  "fuzz_verify_quote C B data =
     (case fst (sgx_quote_read data) of
        Inl _ \<Rightarrow> Some ()
      | Inr quote \<Rightarrow>
          Option.bind (result_ok (fuzz_parse_collateral B (embedded_collateral B))) (\<lambda>collateral.
          fuzz_run C B collateral quote))"

section \<open>What the programs promise\<close>

lemma fuzz_run_crash: "fuzz_run C B coll quote = None \<longleftrightarrow> fuzz_params C B = None"
  by (auto simp: fuzz_run_def bind_eq_None_conv verify_never_panics)

lemma result_ok_None: "result_ok r = None \<longleftrightarrow> (\<exists>e. r = Inl e)"
  by (cases r) (simp_all add: result_ok_def)


text \<open>The gates of the run, and the three ways it can end once the inputs are read.\<close>

definition example_gates :: "('k, 's) crates \<Rightarrow> system_time \<times> sgx_collateral \<times> sgx_quote \<times> bytes \<Rightarrow> gates" where
  "example_gates C inputs =
     (case inputs of (t, coll, q, m) \<Rightarrow> attestation_gates C (unix_seconds t) coll q m 0)"

lemma eval_standing_run:
  assumes "length args = 5" and "example_inputs C H args = Inr inputs"
  obtains (accepted) t coll q m standing where "inputs = (t, coll, q, m)"
      and "attested C (unix_seconds t) coll q m 0 standing"
      and "first_failure (example_gates C inputs) = None"
      and "eval_standing C H args = (case eh_standing_text H standing of
             None \<Rightarrow> \<lparr>out_lines = [], err_lines = [], ending = Panicked ''serialize standing''\<rparr>
           | Some text' \<Rightarrow>
               \<lparr>out_lines = [''OK '' @ text'], err_lines = [], ending = Exited 0\<rparr>)"
  | (rejected) e :: verify_error where "first_failure (example_gates C inputs) = Some (category e)"
      and "eval_standing C H args =
        \<lparr>out_lines = [''ERR category='' @ error_category_as_str (category e) @ '' detail='' @ detail e],
         err_lines = [], ending = Exited 1\<rparr>"
proof -
  obtain t coll q m where inputs: "inputs = (t, coll, q, m)" by (cases inputs)
  obtain r where r: "verify_remote_attestation C t coll q m 0 = Some r"
    using verify_never_panics by blast
  have run: "eval_standing C H args = (case r of
      Inr (standing, _) \<Rightarrow> (case eh_standing_text H standing of
             None \<Rightarrow> \<lparr>out_lines = [], err_lines = [], ending = Panicked ''serialize standing''\<rparr>
           | Some text' \<Rightarrow>
               \<lparr>out_lines = [''OK '' @ text'], err_lines = [], ending = Exited 0\<rparr>)
    | Inl e \<Rightarrow>
        \<lparr>out_lines = [''ERR category='' @ error_category_as_str (category e) @ '' detail='' @ detail e],
         err_lines = [], ending = Exited 1\<rparr>)"
    unfolding eval_standing_def assms inputs by (cases r) (simp_all add: assms(1) r)
  have gates: "rejection_of r = first_failure (example_gates C inputs)"
    using verify_gates [OF r] by (simp add: decides_def example_gates_def inputs)
  show thesis
  proof (cases r)
    case (Inl e)
    show thesis by (rule rejected [of e]) (use gates run Inl in \<open>simp_all add: rejection_of_def\<close>)
  next
    case (Inr p)
    obtain standing rb where p: "p = (standing, rb)" by (cases p)
    have "attested C (unix_seconds t) coll q m 0 standing"
      using r verify_ok [of C t coll q m 0 standing rb] by (simp add: Inr p)
    then show thesis
      by (rule accepted [OF inputs]) (use gates run Inr p in \<open>simp_all add: rejection_of_def\<close>)
  qed
qed

lemma eval_standing_unread:
  "length args \<noteq> 5 \<Longrightarrow> ending (eval_standing C H args) = Exited 2"
  "length args = 5 \<Longrightarrow> example_inputs C H args = Inl msg \<Longrightarrow>
     eval_standing C H args = \<lparr>out_lines = [], err_lines = [], ending = Panicked msg\<rparr>"
  by (simp_all add: eval_standing_def)


text \<open>With \<open>auto\<close> the quote is compared with itself: the MRENCLAVE is never the reason to reject.\<close>

lemma auto_pins_own_measurement:
  assumes "args ! 3 = ''auto''" and "example_inputs C H args = Inr (t, coll, q, m)"
  shows "m = mrenclave (report_body q)"
proof -
  from assms obtain quote_bytes where "fst (sgx_quote_read quote_bytes) = Inr q"
    and peek: "peek_mrenclave quote_bytes = Some m"
    by (auto simp: example_inputs_def res_simps)
  then obtain left where "wf_quote q" "quote_bytes = encode_quote q @ left"
    by (auto simp: sgx_quote_read_ok)
  with peek show ?thesis by (simp add: peek_mrenclave_encode)
qed

end
