(* ===== verification/Rcgen.thy ===== *)
theory Rcgen
  imports Tests_Tcb Programs
begin

text \<open>
  What the repository's tests use to make certificates: \<^verbatim>\<open>rcgen\<close>, and the signing and encoding
  sides of \<^verbatim>\<open>p256\<close> and \<^verbatim>\<open>pem\<close>. These crates are not part of the repository: their functions are the
  fields of the record \<open>rcgen\<close>, an argument of the tests, with \<open>None\<close> for the error a test's
  \<open>expect\<close> turns into a panic. The parameter records hold the fields the tests set. A generated key
  pair is the result of the \<open>i\<close>-th call of \<open>KeyPair::generate\<close>.

  \<open>rcgen_lawful\<close> collects what the crates document: a certificate or CRL that is produced decodes
  to what was asked for and is signed by the issuer's key. \<open>name\<close> encodes a distinguished name and
  \<open>pub\<close> gives the public point of a key pair.
\<close>

section \<open>The crates\<close>

datatype is_ca = NoCa | ExplicitNoCa | Ca

datatype key_usage_purpose = DigitalSignature | KeyCertSign | CrlSign

datatype dn_type = CommonName | OrganizationName

record 'n certificate_params =
  distinguished_name :: 'n
  params_is_ca :: is_ca
  key_usages :: "key_usage_purpose list"
  serial_number :: "bytes option"
  custom_extensions :: "(nat list \<times> bytes) list"
  params_not_before :: int
  params_not_after :: int

type_synonym ('n, 'kp) cert_issuer = "'n certificate_params \<times> 'kp"

record revoked_cert_params =
  rcp_serial_number :: bytes
  rcp_revocation_time :: int

record crl_params =
  crlp_this_update :: int
  crlp_next_update :: int
  crlp_crl_number :: bytes
  crlp_revoked_certs :: "revoked_cert_params list"

record ('n, 'kp, 'd) rcgen =
  rc_generate :: "nat \<Rightarrow> 'kp option"
  rc_params_new :: "string list \<Rightarrow> 'n certificate_params option"
  rc_dn_push :: "'n \<Rightarrow> dn_type \<Rightarrow> string \<Rightarrow> 'n"
  rc_self_signed :: "'n certificate_params \<Rightarrow> 'kp \<Rightarrow> bytes option"
  rc_signed_by :: "'n certificate_params \<Rightarrow> 'kp \<Rightarrow> ('n, 'kp) cert_issuer \<Rightarrow> bytes option"
  rc_crl_pem :: "crl_params \<Rightarrow> ('n, 'kp) cert_issuer \<Rightarrow> string option"
  rc_date_time_ymd :: "int \<Rightarrow> nat \<Rightarrow> nat \<Rightarrow> int"
  rc_serialize_der :: "'kp \<Rightarrow> bytes"
  from_pkcs8_der :: "bytes \<Rightarrow> 'd option"
  p256_sign :: "'d \<Rightarrow> bytes \<Rightarrow> bytes"
  pem_encode :: "string \<Rightarrow> bytes \<Rightarrow> string"

section \<open>What they document\<close>

fun constraints_of :: "is_ca \<Rightarrow> bool option" where
  "constraints_of NoCa = None"
| "constraints_of ExplicitNoCa = Some False"
| "constraints_of Ca = Some True"

fun dotted :: "nat list \<Rightarrow> string" where
  "dotted [] = ''''"
| "dotted [n] = dec_nat n"
| "dotted (n # m # ns) = dec_nat n @ ''.'' @ dotted (m # ns)"

text \<open>The certificate holds what the parameters ask for, under the issuer's name and key.\<close>

definition cert_as_asked ::
  "('k, 's) crates \<Rightarrow> ('n \<Rightarrow> x509_name) \<Rightarrow> ('kp \<Rightarrow> bytes) \<Rightarrow> 'n certificate_params \<Rightarrow> 'kp \<Rightarrow>
     ('n, 'kp) cert_issuer \<Rightarrow> x509_cert \<Rightarrow> bool" where
  "cert_as_asked C name pub ps kp iss c \<longleftrightarrow>
     subject c = name (distinguished_name ps) \<and>
     issuer c = name (distinguished_name (fst iss)) \<and>
     spki_data c = pub kp \<and> p256_sha256 c \<and>
     not_before c = params_not_before ps \<and> not_after c = params_not_after ps \<and>
     (\<forall>s. serial_number ps = Some s \<longrightarrow> be_nat (raw_serial c) = be_nat s) \<and>
     (\<exists>bc. basic_constraints c = Inr bc \<and> map_option bc_ca bc = constraints_of (params_is_ca ps)) \<and>
     key_usage_cert_sign c =
       Inr (if key_usages ps = [] then None else Some (KeyCertSign \<in> set (key_usages ps))) \<and>
     (\<forall>arcs val. custom_extensions ps = [(arcs, val)] \<longrightarrow>
        List.find (\<lambda>e. fst e = dotted arcs) (extensions c) = Some (dotted arcs, val)) \<and>
     signed_der C (pub (snd iss)) (tbs_certificate c) (signature_value c)"

definition crl_as_asked ::
  "('k, 's) crates \<Rightarrow> ('n \<Rightarrow> x509_name) \<Rightarrow> ('kp \<Rightarrow> bytes) \<Rightarrow> crl_params \<Rightarrow>
     ('n, 'kp) cert_issuer \<Rightarrow> x509_crl \<Rightarrow> bool" where
  "crl_as_asked C name pub cp iss crl \<longleftrightarrow>
     crl_issuer crl = name (distinguished_name (fst iss)) \<and>
     crl_signature_algorithm crl = crl_tbs_signature crl \<and>
     alg_oid (crl_signature_algorithm crl) = OID_SIG_ECDSA_WITH_SHA256 \<and>
     last_update crl = crlp_this_update cp \<and> next_update crl = Some (crlp_next_update cp) \<and>
     map be_nat (revoked_serials crl) = map (\<lambda>r. be_nat (rcp_serial_number r)) (crlp_revoked_certs cp) \<and>
     signed_der C (pub (snd iss)) (tbs_cert_list crl) (crl_signature_value crl)"

text \<open>
  Midnight UTC of the days the tests name. New parameters are of an end entity valid from 1975 to
  4096, without key usages or a serial number of the caller's choice.
\<close>

definition dates_lawful :: "('n, 'kp, 'd) rcgen \<Rightarrow> bool" where
  "dates_lawful R \<longleftrightarrow>
     rc_date_time_ymd R 2026 1 1 = 1767225600 \<and> rc_date_time_ymd R 2026 6 1 = 1780272000 \<and>
     rc_date_time_ymd R 2027 1 1 = 1798761600"

definition defaults_lawful :: "('n, 'kp, 'd) rcgen \<Rightarrow> bool" where
  "defaults_lawful R \<longleftrightarrow>
     (\<forall>ps. rc_params_new R [] = Some ps \<longrightarrow>
        params_not_before ps = 157766400 \<and> params_not_after ps = 67090118400 \<and>
        params_is_ca ps = NoCa \<and> key_usages ps = [] \<and> serial_number ps = None)"

text \<open>
  New parameters name no Intel CA; a common name that is pushed is the one a name carries, and
  pushing an organisation leaves the common name alone.
\<close>

definition names_lawful :: "('n, 'kp, 'd) rcgen \<Rightarrow> ('n \<Rightarrow> x509_name) \<Rightarrow> bool" where
  "names_lawful R name \<longleftrightarrow>
     (\<forall>dn cn. first_common_name (name (rc_dn_push R dn CommonName cn)) = Some cn) \<and>
     (\<forall>dn org. first_common_name (name (rc_dn_push R dn OrganizationName org)) =
        first_common_name (name dn)) \<and>
     (\<forall>ps. rc_params_new R [] = Some ps \<longrightarrow>
        first_common_name (name (distinguished_name ps)) \<notin>
          {Some PCK_PROCESSOR_CA_CN, Some PCK_PLATFORM_CA_CN})"

definition rcgen_lawful ::
  "('k, 's) crates \<Rightarrow> ('n, 'kp, 'd) rcgen \<Rightarrow> ('n \<Rightarrow> x509_name) \<Rightarrow> ('kp \<Rightarrow> bytes) \<Rightarrow> bool" where
  "rcgen_lawful C R name pub \<longleftrightarrow>
     dates_lawful R \<and> defaults_lawful R \<and> names_lawful R name \<and>
     (\<forall>kp. \<exists>k. key_from_sec1 C (pub kp) = Inr k) \<and>
     (\<forall>ps kp iss der. rc_signed_by R ps kp iss = Some der \<longrightarrow>
        (\<exists>c. cert_from_der C der = Inr c \<and> cert_as_asked C name pub ps kp iss c)) \<and>
     (\<forall>ps kp der. rc_self_signed R ps kp = Some der \<longrightarrow>
        (\<exists>c. cert_from_der C der = Inr c \<and> cert_as_asked C name pub ps kp (ps, kp) c)) \<and>
     (\<forall>cp iss pem. rc_crl_pem R cp iss = Some pem \<longrightarrow>
        (\<exists>crl. crl_in_pem C (str_bytes pem) crl \<and> crl_as_asked C name pub cp iss crl))"

text \<open>A signing key read back from a key pair signs what that pair's public key verifies.\<close>

definition signing_lawful ::
  "('k, 's) crates \<Rightarrow> ('n, 'kp, 'd) rcgen \<Rightarrow> ('kp \<Rightarrow> bytes) \<Rightarrow> bool" where
  "signing_lawful C R pub \<longleftrightarrow>
     (\<forall>kp key m. from_pkcs8_der R (rc_serialize_der R kp) = Some key \<longrightarrow>
        signed_raw C (pub kp) m (p256_sign R key m))"

text \<open>The PEM texts of some blobs, put together, decode to them in order.\<close>

definition chain_pem :: "('n, 'kp, 'd) rcgen \<Rightarrow> bytes list \<Rightarrow> string" where
  "chain_pem R ds = concat (map (pem_encode R ''CERTIFICATE'') ds)"

definition pem_lawful :: "('k, 's) crates \<Rightarrow> ('n, 'kp, 'd) rcgen \<Rightarrow> bytes list \<Rightarrow> bool" where
  "pem_lawful C R ds \<longleftrightarrow>
     pem_parse_many C (trim_trailing_junk (str_bytes (chain_pem R ds))) =
       Inr (map (\<lambda>d. \<lparr>pem_tag = ''CERTIFICATE'', pem_contents = d\<rparr>) ds)"

definition rcgen_made :: "('n, 'kp, 'd) rcgen \<Rightarrow> bytes \<Rightarrow> bool" where
  "rcgen_made R der \<longleftrightarrow>
     (\<exists>ps kp. rc_self_signed R ps kp = Some der) \<or> (\<exists>ps kp iss. rc_signed_by R ps kp iss = Some der)"

definition pem_round_trips :: "('k, 's) crates \<Rightarrow> ('n, 'kp, 'd) rcgen \<Rightarrow> bool" where
  "pem_round_trips C R \<longleftrightarrow>
     (\<forall>ds. (\<forall>d\<in>set ds. rcgen_made R d) \<longrightarrow> pem_lawful C R ds)"

section \<open>What follows\<close>

lemma rcgen_made_intros:
  "rc_self_signed R ps kp = Some der \<Longrightarrow> rcgen_made R der"
  "rc_signed_by R ps kp iss = Some der \<Longrightarrow> rcgen_made R der"
  unfolding rcgen_made_def by blast+

lemma pem_lawful_made:
  "pem_round_trips C R \<Longrightarrow> \<forall>d\<in>set ds. rcgen_made R d \<Longrightarrow> pem_lawful C R ds"
  by (simp add: pem_round_trips_def)

lemma cert_of_signed_by:
  assumes "rcgen_lawful C R name pub" and "rc_signed_by R ps kp iss = Some der"
  obtains c where "cert_from_der C der = Inr c" and "cert_as_asked C name pub ps kp iss c"
  using assms unfolding rcgen_lawful_def by blast

lemma cert_of_self_signed:
  assumes "rcgen_lawful C R name pub" and "rc_self_signed R ps kp = Some der"
  obtains c where "cert_from_der C der = Inr c" and "cert_as_asked C name pub ps kp (ps, kp) c"
  using assms unfolding rcgen_lawful_def by blast

lemma crl_of_pem:
  assumes "rcgen_lawful C R name pub" and "rc_crl_pem R cp iss = Some pem"
  obtains crl where "crl_in_pem C (str_bytes pem) crl" and "crl_as_asked C name pub cp iss crl"
  using assms unfolding rcgen_lawful_def by blast

lemma key_of_pair:
  assumes "rcgen_lawful C R name pub"
  obtains k where "key_from_sec1 C (pub kp) = Inr k"
  using assms unfolding rcgen_lawful_def by blast

lemma defaults_of_new:
  assumes "rcgen_lawful C R name pub" and "rc_params_new R [] = Some ps"
  shows "params_not_before ps = 157766400" "params_not_after ps = 67090118400"
    "params_is_ca ps = NoCa" "key_usages ps = []" "serial_number ps = None"
  using assms unfolding rcgen_lawful_def defaults_lawful_def by blast+

lemma may_issue_as_asked:
  assumes "cert_as_asked C name pub ps kp iss c"
  shows "may_issue c \<longleftrightarrow> params_is_ca ps = Ca \<and> (key_usages ps = [] \<or> KeyCertSign \<in> set (key_usages ps))"
proof -
  obtain bc where bc: "basic_constraints c = Inr bc"
      "map_option bc_ca bc = constraints_of (params_is_ca ps)"
    and ku: "key_usage_cert_sign c =
      Inr (if key_usages ps = [] then None else Some (KeyCertSign \<in> set (key_usages ps)))"
    using assms unfolding cert_as_asked_def by blast
  have "(\<exists>b. bc = Some b \<and> bc_ca b) \<longleftrightarrow> params_is_ca ps = Ca"
    using bc(2) by (cases "params_is_ca ps"; cases bc) auto
  then show ?thesis using bc(1) ku by (auto simp: may_issue_def)
qed

lemma authentic_as_asked:
  assumes "crl_as_asked C name pub cp iss crl" and "key_from_sec1 C (pub (snd iss)) = Inr k"
    and "crlp_this_update cp \<le> now" and "now < crlp_next_update cp"
  shows "authentic_crl C (name_raw (name (distinguished_name (fst iss)))) k now crl"
  using assms by (auto simp: crl_as_asked_def authentic_crl_def current_crl_def signed_der_def)

lemma issued_as_asked:
  "cert_as_asked C name pub ps kp iss c \<Longrightarrow> cert_as_asked C name pub (fst iss) (snd iss) iss' parent \<Longrightarrow>
     issued_by C c parent"
  by (auto simp: cert_as_asked_def issued_by_def)

text \<open>The chain of a PEM text made of certificates, when the text is within the limit.\<close>

lemma pem_lawful_loads:
  assumes "pem_lawful C R ds" and "ds \<noteq> []" and "length ds \<le> MAX_CHAIN_LEN"
    and "length (chain_pem R ds) \<le> MAX_CHAIN_PEM_LEN" and "map (cert_from_der C) ds = map Inr cs"
  shows "load_chain C kind (str_bytes (chain_pem R ds)) \<lparr>pc_kind = kind, certs = cs\<rparr>"
proof -
  have ders: "map pem_contents (filter (\<lambda>b. pem_tag b = ''CERTIFICATE'')
      (map (\<lambda>d. \<lparr>pem_tag = ''CERTIFICATE'', pem_contents = d\<rparr>) ds)) = ds"
    by (induction ds) simp_all
  have "from_pem C kind (str_bytes (chain_pem R ds)) = Inr \<lparr>cc_kind = kind, ders = ds\<rparr>"
    unfolding from_pem_ok using assms(1-4) ders by (simp add: pem_lawful_def)
  then show ?thesis
    unfolding load_chain_def by (auto simp: chain_parse_ok assms(5))
qed

end
