(* ===== verification/Tests_Unit.thy ===== *)
theory Tests_Unit
  imports Rcgen
begin

text \<open>
  The unit tests of \<^verbatim>\<open>policy.rs\<close>, \<^verbatim>\<open>verify.rs\<close>, \<^verbatim>\<open>error.rs\<close>, \<^verbatim>\<open>types.rs\<close>,
  \<^verbatim>\<open>types/collateral.rs\<close> and \<^verbatim>\<open>pki.rs\<close> (modules \<open>tests\<close>) as statements about the model. The
  captured fixture that some tests of \<^verbatim>\<open>pki.rs\<close> read is an argument (\<open>coll\<close>, the JSON of
  \<^verbatim>\<open>prod-1/collateral.json\<close>, and the bytes of \<^verbatim>\<open>prod-1/quote.bin\<close>), as is the certificate
  generator (theory \<open>Rcgen\<close>); they are proved for every fixture and generator with the documented
  behaviour. A test that panics outside its assertions is \<open>False\<close>.
\<close>

section \<open>error.rs, types.rs, types/collateral.rs\<close>

definition display_matches_the_stable_slug :: bool where
  "display_matches_the_stable_slug \<longleftrightarrow>
     display_category QuoteParse = ''quote-parse-error'' \<and>
     display_category DebugEnclaveRejected = ''debug-enclave-rejected'' \<and>
     display_category TcbStandingRejected = ''tcb-standing-rejected''"

definition rest_returns_exactly_the_unconsumed_tail :: bool where
  "rest_returns_exactly_the_unconsumed_tail \<longleftrightarrow>
     (case reader_take 2 ''head'' (byte_reader_new [1, 2, 3, 4, 5]) of
        Inl _ \<Rightarrow> False
      | Inr (_, r) \<Rightarrow>
          reader_rest r = [3, 4, 5] \<and>
          (case reader_take 3 ''tail'' r of Inl _ \<Rightarrow> False | Inr (_, r) \<Rightarrow> reader_rest r = []))"

text \<open>\<open>42\<close> reaches the visitor as an integer, which serde calls \<open>integer `42`\<close>.\<close>

definition signed_deserialize_error_names_the_document :: "(string \<Rightarrow> string + tcb_info) \<Rightarrow> bool" where
  "signed_deserialize_error_names_the_document from_str \<longleftrightarrow>
     (case deserialize_signed WIRE_FIELD_tcb_info from_str (Wire_Other ''integer `42`'') of
        Inl msg \<Rightarrow> str_contains msg ''a signed tcbInfo document''
      | Inr _ \<Rightarrow> False)"

section \<open>policy.rs\<close>

definition policy_tests_sw :: tcb_standing where
  "policy_tests_sw = SWHardeningNeeded [''INTEL-SA-00615'']"

definition policy_tests_config_sw :: tcb_standing where
  "policy_tests_config_sw =
     ConfigurationAndSWHardeningNeeded [''INTEL-SA-00289'', ''INTEL-SA-00615'']"

definition STRICT :: tcb_policy where
  "STRICT = \<lparr>min_tcb_evaluation_data_number = 0, accept_sw_hardening_needed = False,
             accept_configuration_and_sw_hardening_needed = False\<rparr>"

definition PERMISSIVE :: tcb_policy where
  "PERMISSIVE = \<lparr>min_tcb_evaluation_data_number = 0, accept_sw_hardening_needed = True,
                 accept_configuration_and_sw_hardening_needed = True\<rparr>"

definition up_to_date_is_always_accepted :: bool where
  "up_to_date_is_always_accepted \<longleftrightarrow>
     policy_check STRICT UpToDate = Inr () \<and> policy_check PERMISSIVE UpToDate = Inr ()"

definition sw_hardening_needed_follows_its_flag_only :: bool where
  "sw_hardening_needed_follows_its_flag_only \<longleftrightarrow>
     policy_check PERMISSIVE policy_tests_sw = Inr () \<and>
     (let cross = PERMISSIVE\<lparr>accept_sw_hardening_needed := False\<rparr> in
      rejects_saying TcbStandingRejected ''sw-hardening-needed'' (policy_check cross policy_tests_sw) \<and>
      rejects_saying TcbStandingRejected ''INTEL-SA-00615'' (policy_check cross policy_tests_sw)) \<and>
     (let other = PERMISSIVE\<lparr>accept_configuration_and_sw_hardening_needed := False\<rparr> in
      policy_check other policy_tests_sw = Inr ())"

definition configuration_and_sw_hardening_needed_follows_its_flag_only :: bool where
  "configuration_and_sw_hardening_needed_follows_its_flag_only \<longleftrightarrow>
     policy_check PERMISSIVE policy_tests_config_sw = Inr () \<and>
     (let cross = PERMISSIVE\<lparr>accept_configuration_and_sw_hardening_needed := False\<rparr> in
      rejects_saying TcbStandingRejected ''configuration-and-sw-hardening-needed''
        (policy_check cross policy_tests_config_sw) \<and>
      rejects_saying TcbStandingRejected ''INTEL-SA-00289''
        (policy_check cross policy_tests_config_sw)) \<and>
     (let other = PERMISSIVE\<lparr>accept_sw_hardening_needed := False\<rparr> in
      policy_check other policy_tests_config_sw = Inr ())"

section \<open>verify.rs\<close>

definition validity_window_rejects_both_bounds :: bool where
  "validity_window_rejects_both_bounds \<longleftrightarrow>
     list_all (\<lambda>stale.
       list_all (\<lambda>now. check_validity_window ''doc'' stale 100 200 now = Inr ()) [150, 100, 199] \<and>
       list_all (\<lambda>now. rejects_as stale (check_validity_window ''doc'' stale 100 200 now))
         [99, 200, 201])
       [TcbInfoStale, QeIdentityStale]"

definition unix_seconds_is_negative_before_the_epoch :: bool where
  "unix_seconds_is_negative_before_the_epoch \<longleftrightarrow>
     unix_seconds (0 + 5 * 10 ^ 9) = 5 \<and> unix_seconds (0 - 5 * 10 ^ 9) = -5"

definition evaluation_round_floor_is_inclusive_and_zero_disables :: bool where
  "evaluation_round_floor_is_inclusive_and_zero_disables \<longleftrightarrow>
     list_all (\<lambda>stale.
       check_evaluation_round ''doc'' 19 0 stale = Inr () \<and>
       check_evaluation_round ''doc'' 19 19 stale = Inr () \<and>
       rejects_as stale (check_evaluation_round ''doc'' 19 20 stale))
       [TcbInfoStale, QeIdentityStale]"

definition validity_window_uses_the_documents_own_category :: bool where
  "validity_window_uses_the_documents_own_category \<longleftrightarrow>
     rejects_as TcbInfoStale (check_validity_window ''tcbInfo'' TcbInfoStale 100 200 99) \<and>
     rejects_as QeIdentityStale (check_validity_window ''QE'' QeIdentityStale 100 200 99)"

section \<open>pki.rs: serials, trimming, chain text\<close>

definition normalized_serial_strips_leading_zeros :: bool where
  "normalized_serial_strips_leading_zeros \<longleftrightarrow>
     normalized_serial [0x00, 0xa3] = [0xa3] \<and>
     normalized_serial [0x00, 0x00] = [0x00] \<and>
     normalized_serial [0x5a, 0x01] = [0x5a, 0x01]"

definition trim_trailing_junk_semantics :: bool where
  "trim_trailing_junk_semantics \<longleftrightarrow>
     trim_trailing_junk [0x61, 0x62, 0x63, 10, 0, 32] = [0x61, 0x62, 0x63] \<and>
     trim_trailing_junk [0x61, 0x62, 0x63] = [0x61, 0x62, 0x63] \<and>
     trim_trailing_junk [0, 10] = [] \<and>
     trim_trailing_junk [] = [] \<and>
     trim_trailing_junk [0, 0x61, 0x62, 0x63] = [0, 0x61, 0x62, 0x63]"

definition chain_parse_errors_carry_the_chain_kind_category :: "('k, 's) crates \<Rightarrow> bool" where
  "chain_parse_errors_carry_the_chain_kind_category C \<longleftrightarrow>
     rejects_as QuoteParse (from_pem C QuotePck (str_bytes ''no certificates here'')) \<and>
     rejects_as CollateralParse (from_pem C TcbInfoIssuer (str_bytes ''no certificates here''))"

text \<open>The two caps, over \<open>root_pem\<close>, the encoding of one certificate.\<close>

definition chain_length_cap_boundary :: "('k, 's) crates \<Rightarrow> bytes \<Rightarrow> bool" where
  "chain_length_cap_boundary C root_pem \<longleftrightarrow>
     (\<exists>chain. from_pem C TcbInfoIssuer (concat (replicate MAX_CHAIN_LEN root_pem)) = Inr chain) \<and>
     rejects_as CollateralParse
       (from_pem C TcbInfoIssuer (concat (replicate (MAX_CHAIN_LEN + 1) root_pem)))"

text \<open>\<open>Vec::resize\<close>: cut, or pad with the given byte.\<close>

definition resize :: "'a list \<Rightarrow> nat \<Rightarrow> 'a \<Rightarrow> 'a list" where
  "resize xs n x = take n xs @ replicate (n - length xs) x"

definition chain_byte_cap_boundary :: "('k, 's) crates \<Rightarrow> bytes \<Rightarrow> bool" where
  "chain_byte_cap_boundary C root_pem \<longleftrightarrow>
     (let data = resize root_pem MAX_CHAIN_PEM_LEN 32 in
      (\<exists>chain. from_pem C TcbInfoIssuer data = Inr chain) \<and>
      rejects_as CollateralParse (from_pem C TcbInfoIssuer (data @ [32])))"

section \<open>pki.rs: the fixture\<close>

text \<open>
  \<open>str::trim\<close> on the bytes of a string: the white space of Unicode, each character as its UTF-8
  bytes, is taken off both ends.
\<close>

definition white_space :: "string list" where
  "white_space =
     map (map char_of)
       ([[9], [10], [11], [12], [13], [32], [0xC2, 0x85], [0xC2, 0xA0], [0xE1, 0x9A, 0x80]] @
        map (\<lambda>n. [0xE2, 0x80, n]) [0x80..<0x8B] @
        [[0xE2, 0x80, 0xA8], [0xE2, 0x80, 0xA9], [0xE2, 0x80, 0xAF], [0xE2, 0x81, 0x9F],
         [0xE3, 0x80, 0x80 :: nat]])"

function trim_start_with :: "string list \<Rightarrow> string \<Rightarrow> string" where
  "trim_start_with ws s =
     (case List.find (\<lambda>w. w \<noteq> [] \<and> prefix w s) ws of
        None \<Rightarrow> s
      | Some w \<Rightarrow> trim_start_with ws (drop (length w) s))"
  by pat_completeness auto

termination
proof (relation "measure (\<lambda>(_, s). length s)")
  fix ws s w assume "List.find (\<lambda>w. w \<noteq> [] \<and> prefix w s) ws = Some w"
  then have "w \<noteq> []" and "prefix w s" by (auto simp: find_Some_iff)
  then show "((ws, drop (length w) s), ws, s) \<in> measure (\<lambda>(_, s). length s)"
    by (cases s) auto
qed simp

declare trim_start_with.simps [simp del]

definition str_trim :: "string \<Rightarrow> string" where
  "str_trim s =
     rev (trim_start_with (map rev white_space) (rev (trim_start_with white_space s)))"

text \<open>\<open>prod1_collateral\<close>: the file, if it is there and is JSON.\<close>

definition prod1_collateral :: "(bytes \<Rightarrow> json option) \<Rightarrow> bytes option \<Rightarrow> json option" where
  "prod1_collateral parse_json file = Option.bind file parse_json"

definition tcb_chain_ders :: "('k, 's) crates \<Rightarrow> json \<Rightarrow> bytes list option" where
  "tcb_chain_ders C coll =
     Option.bind (as_str (json_index coll ''tcb_info_issuer_chain'')) (\<lambda>chain.
     map_option (\<lambda>blocks. map pem_contents (filter (\<lambda>b. pem_tag b = ''CERTIFICATE'') blocks))
       (result_ok (pem_parse_many C (str_bytes (str_trim chain)))))"

text \<open>The certificate at an index of the chain; \<open>None\<close> where indexing or decoding panics.\<close>

definition chain_cert :: "('k, 's) crates \<Rightarrow> bytes list \<Rightarrow> nat \<Rightarrow> x509_cert option" where
  "chain_cert C ders' i =
     (if i < length ders' then result_ok (cert_from_der C (ders' ! i)) else None)"

definition root_ca_crl_of :: "('k, 's) crates \<Rightarrow> json \<Rightarrow> (string \<times> x509_crl) option" where
  "root_ca_crl_of C coll =
     Option.bind (as_str (json_index coll ''root_ca_crl'')) (\<lambda>crl_pem.
     Option.bind (result_ok (pem_parse_many C (str_bytes (str_trim crl_pem)))) (\<lambda>blocks.
     Option.bind (List.find (\<lambda>b. str_contains (pem_tag b) ''CRL'') blocks) (\<lambda>b.
     map_option (\<lambda>crl. (crl_pem, crl)) (result_ok (crl_from_der C (pem_contents b))))))"

definition prod1_quote :: "bytes option \<Rightarrow> sgx_quote option" where
  "prod1_quote file = Option.bind file (\<lambda>bs. result_ok (fst (sgx_quote_read bs)))"

section \<open>pki.rs: tests on the fixture\<close>

definition tcb_issuer_chain :: "bytes list \<Rightarrow> cert_chain" where
  "tcb_issuer_chain ders' = \<lparr>cc_kind = TcbInfoIssuer, ders = ders'\<rparr>"

definition parsed_fixture :: "('k, 's) crates \<Rightarrow> json \<Rightarrow> parsed_chain option" where
  "parsed_fixture C coll =
     Option.bind (tcb_chain_ders C coll) (\<lambda>ders'. result_ok (chain_parse C (tcb_issuer_chain ders')))"

definition require_ca_rejects_non_ca_accepts_ca :: "('k, 's) crates \<Rightarrow> json \<Rightarrow> bool" where
  "require_ca_rejects_non_ca_accepts_ca C coll \<longleftrightarrow>
     (case tcb_chain_ders C coll of
        None \<Rightarrow> False
      | Some ders' \<Rightarrow>
     (case (chain_cert C ders' 0, chain_cert C ders' 1) of
        (Some end_entity, Some root_ca) \<Rightarrow>
          (\<exists>e. require_ca ''test'' 1 end_entity = Inl e) \<and> require_ca ''test'' 1 root_ca = Inr ()
      | _ \<Rightarrow> False))"

definition earliest_not_after :: "parsed_chain \<Rightarrow> int" where
  "earliest_not_after parsed = Min (set (map not_after (certs parsed)))"

definition latest_not_before :: "parsed_chain \<Rightarrow> int" where
  "latest_not_before parsed = Max (set (map not_before (certs parsed)))"

definition cert_at_exact_not_after_rejects_one_second_before_validates ::
  "('k, 's) crates \<Rightarrow> json \<Rightarrow> bool" where
  "cert_at_exact_not_after_rejects_one_second_before_validates C coll \<longleftrightarrow>
     (case parsed_fixture C coll of
        None \<Rightarrow> False
      | Some parsed \<Rightarrow>
          chain_validate C parsed (earliest_not_after parsed - 1) = Inr () \<and>
          rejects_as CertOrCrlTimeInvalid (chain_validate C parsed (earliest_not_after parsed)))"

definition cert_at_exact_not_before_validates_one_second_before_rejects ::
  "('k, 's) crates \<Rightarrow> json \<Rightarrow> bool" where
  "cert_at_exact_not_before_validates_one_second_before_rejects C coll \<longleftrightarrow>
     (case parsed_fixture C coll of
        None \<Rightarrow> False
      | Some parsed \<Rightarrow>
          chain_validate C parsed (latest_not_before parsed) = Inr () \<and>
          rejects_as CertOrCrlTimeInvalid
            (chain_validate C parsed (latest_not_before parsed - 1)))"

text \<open>What the two CRL tests read: the CRL and its text, the root's name, the pinned key.\<close>

definition crl_fixture ::
  "('k, 's) crates \<Rightarrow> json \<Rightarrow> (string \<times> x509_crl \<times> bytes \<times> 'k) option" where
  "crl_fixture C coll =
     Option.bind (root_ca_crl_of C coll) (\<lambda>(crl_pem, crl).
     Option.bind (tcb_chain_ders C coll) (\<lambda>ders'.
     Option.bind (chain_cert C ders' 1) (\<lambda>root_ca.
     Option.bind (pinned_root_key C) (\<lambda>key.
     Some (crl_pem, crl, name_raw (subject root_ca), key)))))"

definition crl_at_exact_next_update_rejects_one_second_before_passes ::
  "('k, 's) crates \<Rightarrow> json \<Rightarrow> bool" where
  "crl_at_exact_next_update_rejects_one_second_before_passes C coll \<longleftrightarrow>
     (case crl_fixture C coll of
        None \<Rightarrow> False
      | Some (crl_pem, crl, issuer_raw, key) \<Rightarrow>
     (case next_update crl of
        None \<Rightarrow> False
      | Some n \<Rightarrow>
          (\<exists>entries. check_crl C ''root CA CRL'' (str_bytes crl_pem) issuer_raw key (n - 1) =
             Inr entries) \<and>
          rejects_as CertOrCrlTimeInvalid
            (check_crl C ''root CA CRL'' (str_bytes crl_pem) issuer_raw key n)))"

definition crl_at_exact_this_update_passes_one_second_before_rejects ::
  "('k, 's) crates \<Rightarrow> json \<Rightarrow> bool" where
  "crl_at_exact_this_update_passes_one_second_before_rejects C coll \<longleftrightarrow>
     (case crl_fixture C coll of
        None \<Rightarrow> False
      | Some (crl_pem, crl, issuer_raw, key) \<Rightarrow>
          (\<exists>entries. check_crl C ''root CA CRL'' (str_bytes crl_pem) issuer_raw key
             (last_update crl) = Inr entries) \<and>
          rejects_as CertOrCrlTimeInvalid
            (check_crl C ''root CA CRL'' (str_bytes crl_pem) issuer_raw key (last_update crl - 1)))"

definition revocation_entry_matches_real_tcb_signing_cert ::
  "('k, 's) crates \<Rightarrow> json \<Rightarrow> bool" where
  "revocation_entry_matches_real_tcb_signing_cert C coll \<longleftrightarrow>
     (case parsed_fixture C coll of
        None \<Rightarrow> False
      | Some parsed \<Rightarrow>
          (let signer = certs parsed ! 0;
               entry = \<lparr>re_issuer_raw = name_raw (issuer signer),
                        re_serial = normalized_serial (raw_serial signer)\<rparr>;
               other = \<lparr>re_issuer_raw = name_raw (issuer signer),
                        re_serial = [0xde, 0xad, 0xbe, 0xef]\<rparr> in
           rejects_saying CrlInvalid ''TCB Signing'' (ensure_none_revoked [parsed] [entry]) \<and>
           ensure_none_revoked [parsed] [other] = Inr ()))"

definition revocation_entry_matches_real_quote_pck_leaf ::
  "('k, 's) crates \<Rightarrow> bytes option \<Rightarrow> bool" where
  "revocation_entry_matches_real_quote_pck_leaf C file \<longleftrightarrow>
     (case prod1_quote file of
        None \<Rightarrow> False
      | Some quote \<Rightarrow>
     (case and_then (from_pem C QuotePck (cert_data (signature quote))) (chain_parse C) of
        Inl _ \<Rightarrow> False
      | Inr parsed \<Rightarrow>
          (let pck = certs parsed ! 0;
               entry = \<lparr>re_issuer_raw = name_raw (issuer pck),
                        re_serial = normalized_serial (raw_serial pck)\<rparr> in
           rejects_saying CrlInvalid ''embedded in the quote''
             (ensure_none_revoked [parsed] [entry]))))"

section \<open>pki.rs: issuers\<close>

text \<open>\<open>None\<close> is the panic of \<open>expect\<close>; \<open>i\<close> counts the key pairs generated before.\<close>

definition test_cert_der ::
  "('n, 'kp, 'd) rcgen \<Rightarrow> nat \<Rightarrow> is_ca \<Rightarrow> key_usage_purpose list \<Rightarrow> bytes option" where
  "test_cert_der R i ca usages =
     Option.bind (rc_generate R i) (\<lambda>key.
     Option.bind (rc_params_new R []) (\<lambda>params.
     rc_self_signed R
       (params\<lparr>distinguished_name :=
                 rc_dn_push R (distinguished_name params) CommonName ''dcap-verify test certificate'',
               params_is_ca := ca, key_usages := usages\<rparr>) key))"

definition require_ca_on :: "('k, 's) crates \<Rightarrow> bytes \<Rightarrow> unit res option" where
  "require_ca_on C der =
     map_option (require_ca ''test'' 1) (result_ok (cert_from_der C der))"

definition require_ca_test ::
  "('k, 's) crates \<Rightarrow> ('n, 'kp, 'd) rcgen \<Rightarrow> nat \<Rightarrow> is_ca \<Rightarrow> key_usage_purpose list \<Rightarrow>
     unit res option" where
  "require_ca_test C R i ca usages =
     Option.bind (test_cert_der R i ca usages) (require_ca_on C)"

definition require_ca_rejects_basic_constraints_ca_false ::
  "('k, 's) crates \<Rightarrow> ('n, 'kp, 'd) rcgen \<Rightarrow> bool" where
  "require_ca_rejects_basic_constraints_ca_false C R \<longleftrightarrow>
     map_option (rejects_as RootCaUntrusted) (require_ca_test C R 0 ExplicitNoCa []) = Some True"

definition require_ca_rejects_missing_basic_constraints ::
  "('k, 's) crates \<Rightarrow> ('n, 'kp, 'd) rcgen \<Rightarrow> bool" where
  "require_ca_rejects_missing_basic_constraints C R \<longleftrightarrow>
     map_option (rejects_as RootCaUntrusted) (require_ca_test C R 0 NoCa []) = Some True"

definition require_ca_rejects_key_usage_without_key_cert_sign ::
  "('k, 's) crates \<Rightarrow> ('n, 'kp, 'd) rcgen \<Rightarrow> bool" where
  "require_ca_rejects_key_usage_without_key_cert_sign C R \<longleftrightarrow>
     map_option (rejects_as RootCaUntrusted) (require_ca_test C R 0 Ca [DigitalSignature]) = Some True"

definition require_ca_accepts_valid_issuer ::
  "('k, 's) crates \<Rightarrow> ('n, 'kp, 'd) rcgen \<Rightarrow> bool" where
  "require_ca_accepts_valid_issuer C R \<longleftrightarrow>
     require_ca_test C R 0 Ca [KeyCertSign] = Some (Inr ()) \<and>
     require_ca_test C R 1 Ca [] = Some (Inr ())"

section \<open>pki.rs: revocation\<close>

definition LEAF_SERIAL :: bytes where "LEAF_SERIAL = [0x03, 0x9f]"

definition OTHER_SERIAL :: bytes where "OTHER_SERIAL = [0x04, 0x11]"

definition test_crl_params :: "('n, 'kp, 'd) rcgen \<Rightarrow> bytes \<Rightarrow> crl_params" where
  "test_crl_params R revoked_serial =
     \<lparr>crlp_this_update = rc_date_time_ymd R 2026 1 1, crlp_next_update = rc_date_time_ymd R 2027 1 1,
      crlp_crl_number = [0x01],
      crlp_revoked_certs = [\<lparr>rcp_serial_number = revoked_serial,
                             rcp_revocation_time = rc_date_time_ymd R 2026 2 1\<rparr>]\<rparr>"

definition fake_ca_leaf_and_crl ::
  "('n, 'kp, 'd) rcgen \<Rightarrow> bytes \<Rightarrow> (bytes \<times> bytes \<times> string) option" where
  "fake_ca_leaf_and_crl R revoked_serial =
     Option.bind (rc_generate R 0) (\<lambda>ca_key.
     Option.bind (rc_params_new R []) (\<lambda>params.
     let ca_params = params\<lparr>distinguished_name :=
             rc_dn_push R (distinguished_name params) CommonName ''dcap-verify test CA'',
           params_is_ca := Ca, key_usages := [KeyCertSign, CrlSign]\<rparr> in
     Option.bind (rc_self_signed R ca_params ca_key) (\<lambda>ca_der.
     Option.bind (rc_generate R 1) (\<lambda>leaf_key.
     Option.bind (rc_params_new R []) (\<lambda>params.
     let leaf_params = params\<lparr>distinguished_name :=
             rc_dn_push R (distinguished_name params) CommonName ''dcap-verify test leaf'',
           serial_number := Some LEAF_SERIAL\<rparr> in
     Option.bind (rc_signed_by R leaf_params leaf_key (ca_params, ca_key)) (\<lambda>leaf_der.
     map_option (\<lambda>crl_pem. (ca_der, leaf_der, crl_pem))
       (rc_crl_pem R (test_crl_params R revoked_serial) (ca_params, ca_key))))))))"

text \<open>\<open>None\<close> where \<open>revoked_entries\<close> panics; its time is 2026-06-01.\<close>

definition revoked_entries ::
  "('k, 's) crates \<Rightarrow> ('n, 'kp, 'd) rcgen \<Rightarrow> bytes \<Rightarrow> string \<Rightarrow> revoked_entry list option" where
  "revoked_entries C R ca_der crl_pem =
     Option.bind (result_ok (cert_from_der C ca_der)) (\<lambda>ca.
     Option.bind (result_ok (spki_verifying_key C ''test CRL'' ca)) (\<lambda>ca_key.
     result_ok (check_crl C ''test CRL'' (str_bytes crl_pem) (name_raw (subject ca)) ca_key
       (rc_date_time_ymd R 2026 6 1))))"

text \<open>What both tests look at: how many entries the CRL has, and the verdict on the leaf's chain.\<close>

definition fake_ca_outcome ::
  "('k, 's) crates \<Rightarrow> ('n, 'kp, 'd) rcgen \<Rightarrow> bytes \<Rightarrow> (nat \<times> unit res) option" where
  "fake_ca_outcome C R serial =
     Option.bind (fake_ca_leaf_and_crl R serial) (\<lambda>(ca_der, leaf_der, crl_pem).
     Option.bind (revoked_entries C R ca_der crl_pem) (\<lambda>revoked.
     Option.bind (result_ok (chain_parse C \<lparr>cc_kind = QuotePck, ders = [leaf_der]\<rparr>)) (\<lambda>parsed.
     Some (length revoked, ensure_none_revoked [parsed] revoked))))"

definition crl_listing_leaf_serial_rejects_chain ::
  "('k, 's) crates \<Rightarrow> ('n, 'kp, 'd) rcgen \<Rightarrow> bool" where
  "crl_listing_leaf_serial_rejects_chain C R \<longleftrightarrow>
     (case fake_ca_outcome C R LEAF_SERIAL of
        None \<Rightarrow> False
      | Some (n, r) \<Rightarrow> n = 1 \<and> rejects_as CrlInvalid r)"

definition crl_without_leaf_serial_passes_revocation_check ::
  "('k, 's) crates \<Rightarrow> ('n, 'kp, 'd) rcgen \<Rightarrow> bool" where
  "crl_without_leaf_serial_passes_revocation_check C R \<longleftrightarrow>
     fake_ca_outcome C R OTHER_SERIAL = Some (1, Inr ())"

section \<open>pki.rs: the collateral selectors\<close>

text \<open>\<open>prod1\<close> is the captured quote; \<open>None\<close> where a helper would panic.\<close>

definition prod1_chain :: "('k, 's) crates \<Rightarrow> sgx_quote \<Rightarrow> parsed_chain res" where
  "prod1_chain C prod1 =
     and_then (from_pem C QuotePck (cert_data (signature prod1))) (chain_parse C)"

definition prod1_pck_platform_tcb :: "('k, 's) crates \<Rightarrow> sgx_quote \<Rightarrow> pck_platform_tcb option" where
  "prod1_pck_platform_tcb C prod1 =
     result_ok (and_then (prod1_chain C prod1) (extract_pck_platform_tcb C))"

definition pck_test_ca ::
  "('n, 'kp, 'd) rcgen \<Rightarrow> 'n certificate_params \<Rightarrow> string option \<Rightarrow> 'n certificate_params" where
  "pck_test_ca R params issuer_cn =
     params\<lparr>distinguished_name :=
         (case issuer_cn of
            Some cn \<Rightarrow> rc_dn_push R (distinguished_name params) CommonName cn
          | None \<Rightarrow> rc_dn_push R (distinguished_name params) OrganizationName ''no common name''),
       params_is_ca := Ca, key_usages := [KeyCertSign]\<rparr>"

definition pck_test_leaf ::
  "('n, 'kp, 'd) rcgen \<Rightarrow> 'n certificate_params \<Rightarrow> bytes \<Rightarrow> 'n certificate_params" where
  "pck_test_leaf R params ext_value =
     params\<lparr>distinguished_name :=
         rc_dn_push R (distinguished_name params) CommonName ''synthetic PCK leaf'',
       custom_extensions := [([1, 2, 840, 113741, 1, 13, 1], ext_value)]\<rparr>"

definition quote_with_pck_issuer ::
  "('k, 's) crates \<Rightarrow> ('n, 'kp, 'd) rcgen \<Rightarrow> sgx_quote \<Rightarrow> string option \<Rightarrow> sgx_quote option" where
  "quote_with_pck_issuer C R prod1 issuer_cn =
     Option.bind (result_ok (prod1_chain C prod1)) (\<lambda>parsed.
     Option.bind (List.find (\<lambda>e. fst e = SGX_PCK_EXTENSION_OID) (extensions (leaf parsed))) (\<lambda>ext.
     Option.bind (rc_generate R 0) (\<lambda>ca_key.
     Option.bind (rc_params_new R []) (\<lambda>ca_params.
     Option.bind (rc_generate R 1) (\<lambda>leaf_key.
     Option.bind (rc_params_new R []) (\<lambda>leaf_params.
     map_option (\<lambda>leaf_der. prod1\<lparr>signature := (signature prod1)
         \<lparr>cert_data := str_bytes (pem_encode R ''CERTIFICATE'' leaf_der)\<rparr>\<rparr>)
       (rc_signed_by R (pck_test_leaf R leaf_params (snd ext)) leaf_key
          (pck_test_ca R ca_params issuer_cn, ca_key))))))))"

definition pck_collateral_params_reads_platform_ca ::
  "('k, 's) crates \<Rightarrow> ('n, 'kp, 'd) rcgen \<Rightarrow> sgx_quote \<Rightarrow> bool" where
  "pck_collateral_params_reads_platform_ca C R prod1 \<longleftrightarrow>
     (case (quote_with_pck_issuer C R prod1 (Some PCK_PLATFORM_CA_CN),
            prod1_pck_platform_tcb C prod1) of
        (Some quote, Some platform) \<Rightarrow>
          pck_collateral_params C quote = Inr (pck_fmspc platform, Platform)
      | _ \<Rightarrow> False)"

definition pck_collateral_params_rejects_unknown_issuer_cn ::
  "('k, 's) crates \<Rightarrow> ('n, 'kp, 'd) rcgen \<Rightarrow> sgx_quote \<Rightarrow> bool" where
  "pck_collateral_params_rejects_unknown_issuer_cn C R prod1 \<longleftrightarrow>
     (case quote_with_pck_issuer C R prod1 (Some ''Intel SGX PCK Imposter CA'') of
        Some quote \<Rightarrow> rejects_saying QuoteParse ''Imposter'' (pck_collateral_params C quote)
      | None \<Rightarrow> False)"

definition pck_collateral_params_rejects_issuer_without_common_name ::
  "('k, 's) crates \<Rightarrow> ('n, 'kp, 'd) rcgen \<Rightarrow> sgx_quote \<Rightarrow> bool" where
  "pck_collateral_params_rejects_issuer_without_common_name C R prod1 \<longleftrightarrow>
     (case quote_with_pck_issuer C R prod1 None of
        Some quote \<Rightarrow> rejects_as QuoteParse (pck_collateral_params C quote)
      | None \<Rightarrow> False)"

section \<open>The tests without parameters hold\<close>

lemma small_tests:
  "display_matches_the_stable_slug" "rest_returns_exactly_the_unconsumed_tail"
  "signed_deserialize_error_names_the_document from_str"
proof -
  show "display_matches_the_stable_slug"
    by (simp add: display_matches_the_stable_slug_def display_category_def)
  show "rest_returns_exactly_the_unconsumed_tail" by code_simp
  have "str_contains (invalid_type ''integer `42`'' (expecting WIRE_FIELD_tcb_info))
      ''a signed tcbInfo document''"
    using str_contains_middle [of "''invalid type: integer `42`, expected ''"
        "''a signed tcbInfo document''" "[]"]
    by (simp add: invalid_type_def expecting_def WIRE_FIELD_tcb_info_def)
  then show "signed_deserialize_error_names_the_document from_str"
    by (simp add: signed_deserialize_error_names_the_document_def deserialize_signed_def)
qed

lemma policy_tests:
  "up_to_date_is_always_accepted"
  "sw_hardening_needed_follows_its_flag_only"
  "configuration_and_sw_hardening_needed_follows_its_flag_only"
  by code_simp+

lemma verify_tests:
  "validity_window_rejects_both_bounds"
  "unix_seconds_is_negative_before_the_epoch"
  "evaluation_round_floor_is_inclusive_and_zero_disables"
  "validity_window_uses_the_documents_own_category"
  unfolding validity_window_rejects_both_bounds_def unix_seconds_is_negative_before_the_epoch_def
    evaluation_round_floor_is_inclusive_and_zero_disables_def
    validity_window_uses_the_documents_own_category_def
  by (simp_all add: check_validity_window_def unix_seconds_def i64_from_secs_def I64_MAX_def
      check_evaluation_round_def rejects_as_basic)

lemma pki_byte_tests:
  "normalized_serial_strips_leading_zeros" "trim_trailing_junk_semantics"
  by code_simp+

section \<open>Validity instants\<close>

lemma valid_all_iff:
  assumes "certs parsed \<noteq> []"
  shows "(\<forall>c\<in>set (certs parsed). valid_at now c) \<longleftrightarrow>
    latest_not_before parsed \<le> now \<and> now < earliest_not_after parsed"
  using assms by (auto simp: latest_not_before_def earliest_not_after_def valid_at_def)

text \<open>A chain trusted at one instant is refused, outside its window, for the time alone.\<close>

lemma chain_validate_outside:
  assumes "certs chain \<noteq> []" and "trusted_path C t (certs chain)"
    and "\<not> (\<forall>c\<in>set (certs chain). valid_at now c)"
  shows "rejects_as CertOrCrlTimeInvalid (chain_validate C chain now)"
proof -
  let ?label = "chain_kind_label (pc_kind chain)"
  let ?dates = "for_each_res (\<lambda>cert. and_then (check_cert_window ?label
        (name_display (subject cert)) (not_before cert) (not_after cert) now)
        (\<lambda>_. check_p256_sha256_algs ?label cert)) (certs chain)"
  have root: "spki_data (root chain) = anchor_sec1"
    using assms(1,2) by (simp add: trusted_path_simps root_def last_conv_nth anchor_sec1_intel)
  have algs: "check_p256_sha256_algs ?label c = Inr ()" if "c \<in> set (certs chain)" for c
    using assms(2) that by (simp add: trusted_path_simps check_algs_ok)
  have "rejects_within {CertOrCrlTimeInvalid} ?dates"
    by (intro rejects_intros) (simp_all add: algs cert_window.gate_rejects rejects_within_Inr)
  moreover have "?dates \<noteq> Inr ()"
    using assms(3) by (simp add: for_each_res_ok and_then_eq_Inr cert_window.gate_ok valid_at_def) blast
  ultimately have "rejects_as CertOrCrlTimeInvalid ?dates"
    by (cases ?dates) (auto simp: rejects_as_def rejects_within_def)
  then show ?thesis
    unfolding chain_validate_def chain_validate_under_def anchor_sec1_def [symmetric] Let_def root by (simp add: rejects_as_and_then)
qed

lemma parsed_fixture_nonempty:
  assumes "tcb_chain_ders C coll = Some ds" and "parsed_fixture C coll = Some parsed" and "ds \<noteq> []"
  shows "certs parsed \<noteq> []"
  using assms chain_parse_length [of C "tcb_issuer_chain ds" parsed]
  by (auto simp: parsed_fixture_def tcb_issuer_chain_def)

lemma chain_instant_tests:
  assumes "parsed_fixture C coll = Some parsed" and nonempty: "certs parsed \<noteq> []"
    and "trusted_path C t (certs parsed)"
  shows "cert_at_exact_not_after_rejects_one_second_before_validates C coll"
    and "cert_at_exact_not_before_validates_one_second_before_rejects C coll"
proof -
  have t: "latest_not_before parsed \<le> t \<and> t < earliest_not_after parsed"
    using assms(3) unfolding valid_all_iff [OF nonempty, symmetric] by (simp add: trusted_path_simps)
  have inside: "chain_validate C parsed now = Inr ()"
    if "latest_not_before parsed \<le> now" "now < earliest_not_after parsed" for now
    using assms(3) that valid_all_iff [OF nonempty, of now]
    by (simp add: chain_validate_ok [OF nonempty] trusted_path_simps)
  have outside: "rejects_as CertOrCrlTimeInvalid (chain_validate C parsed now)"
    if "\<not> (latest_not_before parsed \<le> now \<and> now < earliest_not_after parsed)" for now
    using that by (intro chain_validate_outside [OF nonempty assms(3)]) (simp add: valid_all_iff [OF nonempty])
  show "cert_at_exact_not_after_rejects_one_second_before_validates C coll"
    unfolding cert_at_exact_not_after_rejects_one_second_before_validates_def assms(1)
    using t by (simp add: inside outside)
  show "cert_at_exact_not_before_validates_one_second_before_rejects C coll"
    unfolding cert_at_exact_not_before_validates_one_second_before_rejects_def assms(1)
    using t by (simp add: inside outside)
qed

text \<open>The issuer test: the root of a trusted chain may issue, the end entity of the fixture may not.\<close>

lemma require_ca_rejects: "rejects_as RootCaUntrusted (require_ca l i cert) \<longleftrightarrow> \<not> may_issue cert"
proof -
  have "rejects_within {RootCaUntrusted} (require_ca l i cert)"
    unfolding require_ca_def untrusted_def by (intro rejects_intros) simp_all
  then show ?thesis by (simp add: rejects_as_single require_ca_ok)
qed

lemma fixture_issuer_test:
  assumes "tcb_chain_ders C coll = Some ds" and "parsed_fixture C coll = Some parsed"
    and "length ds = 2" and "trusted_path C t (certs parsed)" and "\<not> may_issue (certs parsed ! 0)"
  shows "require_ca_rejects_non_ca_accepts_ca C coll"
proof -
  have parse: "map (cert_from_der C) ds = map Inr (certs parsed)"
    using assms(1,2) by (simp add: parsed_fixture_def chain_parse_ok tcb_issuer_chain_def)
  then have len: "length (certs parsed) = 2" using assms(3) by (metis length_map)
  then obtain a b where ab: "certs parsed = [a, b]"
    by (auto simp: numeral_2_eq_2 length_Suc_conv)
  have certs': "chain_cert C ds 0 = Some a" "chain_cert C ds 1 = Some b"
    using parse assms(3) ab by (auto simp: chain_cert_def result_ok_def numeral_2_eq_2 length_Suc_conv)
  have "may_issue b" using assms(4) by (simp add: ab trusted_path_simps)
  moreover have "\<exists>e. require_ca ''test'' 1 a = Inl e"
    using assms(5) require_ca_rejects [of "''test''" 1 a] by (auto simp: ab rejects_as_def)
  ultimately show ?thesis
    unfolding require_ca_rejects_non_ca_accepts_ca_def assms(1) option.case certs' prod.case
    by (simp add: require_ca_ok)
qed

lemma check_crl_outside:
  assumes "crl_in_pem C pem_data crl" and "authentic_crl C issuer_raw key t crl"
    and "\<not> current_crl now crl"
  shows "rejects_as CertOrCrlTimeInvalid (check_crl C label pem_data issuer_raw key now)"
proof -
  from assms(1) obtain blocks b where pem: "pem_parse_many C (trim_trailing_junk pem_data) = Inr blocks"
    "List.find (\<lambda>b. str_contains (pem_tag b) ''CRL'') blocks = Some b"
    "crl_from_der C (pem_contents b) = Inr crl"
    by (auto simp: crl_in_pem_def)
  have "rejects_as CertOrCrlTimeInvalid
      (check_crl_window label (last_update crl) (next_update crl) now)"
    using assms(3) by (auto simp: check_crl_window_def current_crl_def rejects_as_basic split: option.splits)
  moreover have "crl_signature_algorithm crl = crl_tbs_signature crl"
    "alg_oid (crl_signature_algorithm crl) = OID_SIG_ECDSA_WITH_SHA256"
    "name_raw (crl_issuer crl) = issuer_raw"
    using assms(2) unfolding authentic_crl_def by blast+
  moreover from this have "alg_oid (crl_tbs_signature crl) = OID_SIG_ECDSA_WITH_SHA256" by simp
  ultimately show ?thesis
    unfolding check_crl_def pem by (simp add: pem rejects_as_and_then)
qed

lemma crl_instant_tests:
  assumes "crl_fixture C coll = Some (crl_pem, crl, issuer_raw, key)"
    and "crl_in_pem C (str_bytes crl_pem) crl"
    and "authentic_crl C issuer_raw key t crl" and "next_update crl = Some n"
  shows "crl_at_exact_next_update_rejects_one_second_before_passes C coll"
    and "crl_at_exact_this_update_passes_one_second_before_rejects C coll"
proof -
  have t: "last_update crl \<le> t \<and> t < n"
    using assms(3,4) by (simp add: authentic_crl_def current_crl_def)
  have inside: "\<exists>entries. check_crl C label (str_bytes crl_pem) issuer_raw key now = Inr entries"
    if "last_update crl \<le> now \<and> now < n" for now label
    unfolding check_crl_ok using assms that by (auto simp: authentic_crl_def current_crl_def)
  have outside: "rejects_as CertOrCrlTimeInvalid
      (check_crl C label (str_bytes crl_pem) issuer_raw key now)"
    if "\<not> (last_update crl \<le> now \<and> now < n)" for now label
    using that assms(4) by (intro check_crl_outside [OF assms(2,3)]) (simp add: current_crl_def)
  show "crl_at_exact_next_update_rejects_one_second_before_passes C coll"
    unfolding crl_at_exact_next_update_rejects_one_second_before_passes_def assms(1)
    using t assms(4) by (simp add: inside outside)
  show "crl_at_exact_this_update_passes_one_second_before_rejects C coll"
    unfolding crl_at_exact_this_update_passes_one_second_before_rejects_def assms(1)
    using t by (simp add: inside outside)
qed

section \<open>Issuers, revocation and the caps\<close>

text \<open>The key pairs and certificates the tests ask rcgen for are produced.\<close>

definition issuer_test_cases :: "(nat \<times> is_ca \<times> key_usage_purpose list) list" where
  "issuer_test_cases =
     [(0, ExplicitNoCa, []), (0, NoCa, []), (0, Ca, [DigitalSignature]), (0, Ca, [KeyCertSign]),
      (1, Ca, [])]"

definition generates_certs :: "('n, 'kp, 'd) rcgen \<Rightarrow> bool" where
  "generates_certs R \<longleftrightarrow>
     (\<forall>(i, ca, usages)\<in>set issuer_test_cases. \<exists>der. test_cert_der R i ca usages = Some der)"

lemma require_ca_test_cases:
  assumes "rcgen_lawful C R name pub" and "generates_certs R"
    and "(i, ca, usages) \<in> set issuer_test_cases"
  shows "\<exists>r. require_ca_test C R i ca usages = Some r \<and>
    (r = Inr () \<longleftrightarrow> ca = Ca \<and> (usages = [] \<or> KeyCertSign \<in> set usages)) \<and>
    (rejects_as RootCaUntrusted r \<longleftrightarrow> r \<noteq> Inr ())"
proof -
  obtain der where der: "test_cert_der R i ca usages = Some der"
    using assms(2,3) unfolding generates_certs_def by blast
  then obtain ps key where ps: "rc_self_signed R ps key = Some der" "params_is_ca ps = ca"
    "key_usages ps = usages"
    by (auto simp: test_cert_der_def bind_eq_Some_conv)
  obtain c where c: "cert_from_der C der = Inr c" "cert_as_asked C name pub ps key (ps, key) c"
    using cert_of_self_signed [OF assms(1) ps(1)] .
  show ?thesis
    using may_issue_as_asked [OF c(2)] require_ca_ok [of "''test''" 1 c "()"]
      require_ca_rejects [of "''test''" 1 c]
    by (simp add: require_ca_test_def der require_ca_on_def c(1) result_ok_def ps)
qed

lemma issuer_tests:
  assumes "rcgen_lawful C R name pub" and "generates_certs R"
  shows "require_ca_rejects_basic_constraints_ca_false C R"
    and "require_ca_rejects_missing_basic_constraints C R"
    and "require_ca_rejects_key_usage_without_key_cert_sign C R"
    and "require_ca_accepts_valid_issuer C R"
proof -
  note cases = require_ca_test_cases [OF assms]
  show "require_ca_rejects_basic_constraints_ca_false C R"
    using cases [of 0 ExplicitNoCa "[]"]
    by (auto simp: require_ca_rejects_basic_constraints_ca_false_def issuer_test_cases_def)
  show "require_ca_rejects_missing_basic_constraints C R"
    using cases [of 0 NoCa "[]"]
    by (auto simp: require_ca_rejects_missing_basic_constraints_def issuer_test_cases_def)
  show "require_ca_rejects_key_usage_without_key_cert_sign C R"
    using cases [of 0 Ca "[DigitalSignature]"]
    by (auto simp: require_ca_rejects_key_usage_without_key_cert_sign_def issuer_test_cases_def)
  show "require_ca_accepts_valid_issuer C R"
    using cases [of 0 Ca "[KeyCertSign]"] cases [of 1 Ca "[]"]
    by (auto simp: require_ca_accepts_valid_issuer_def issuer_test_cases_def)
qed

lemma normalized_serial_eq_self: "normalized_serial [0xde, 0xad, 0xbe, 0xef] = [0xde, 0xad, 0xbe, 0xef]"
  by code_simp

text \<open>The entry made of the first certificate's own issuer and serial names that certificate.\<close>

lemma own_entry_revokes:
  assumes "certs parsed \<noteq> []"
  shows "ensure_none_revoked [parsed]
      [\<lparr>re_issuer_raw = name_raw (issuer (certs parsed ! 0)),
        re_serial = normalized_serial (raw_serial (certs parsed ! 0))\<rparr>] =
    Inl (crl_error (revoked_detail parsed (certs parsed ! 0)))"
  using assms by (cases "certs parsed") (simp_all add: ensure_none_revoked_def)

definition names_no_cert :: "bytes \<Rightarrow> bytes \<Rightarrow> parsed_chain \<Rightarrow> bool" where
  "names_no_cert issuer_raw serial parsed \<longleftrightarrow>
     (\<forall>c\<in>set (certs parsed). name_raw (issuer c) = issuer_raw \<longrightarrow> be_nat (raw_serial c) \<noteq> be_nat serial)"

lemma other_entry_spares:
  assumes "names_no_cert issuer_raw serial parsed"
  shows "ensure_none_revoked [parsed]
      [\<lparr>re_issuer_raw = issuer_raw, re_serial = normalized_serial serial\<rparr>] = Inr ()"
  using assms by (auto simp: ensure_none_revoked_def for_each_res_ok and_then_eq_Inr Let_def
      names_no_cert_def normalized_serial_eq_iff)

lemma real_chain_test:
  assumes "parsed_fixture C coll = Some parsed" and nonempty: "certs parsed \<noteq> []"
    and "str_contains (name_display (subject (certs parsed ! 0))) ''TCB Signing''"
    and "names_no_cert (name_raw (issuer (certs parsed ! 0))) [0xde, 0xad, 0xbe, 0xef] parsed"
  shows "revocation_entry_matches_real_tcb_signing_cert C coll"
proof -
  let ?c = "certs parsed ! 0"
  obtain ps ss where "name_display (subject ?c) = ps @ ''TCB Signing'' @ ss"
    using assms(3) by (auto simp: str_contains_def sublist_def)
  then have "str_contains (revoked_detail parsed ?c) ''TCB Signing''"
    using str_contains_middle [of "chain_kind_label (pc_kind parsed) @ '': certificate '' @
        [char_of (39 :: nat)] @ ps" "''TCB Signing''"]
    by (simp add: revoked_detail_def quoted_def)
  then show ?thesis
    using own_entry_revokes [OF nonempty] other_entry_spares [OF assms(4)]
    unfolding revocation_entry_matches_real_tcb_signing_cert_def assms(1) normalized_serial_eq_self
    by (simp add: rejects_saying_def crl_error_def)
qed

lemma real_quote_test:
  assumes "prod1_quote file = Some quote"
    and "load_chain C QuotePck (cert_data (signature quote)) parsed"
  shows "revocation_entry_matches_real_quote_pck_leaf C file"
proof -
  have load: "and_then (from_pem C QuotePck (cert_data (signature quote))) (chain_parse C) = Inr parsed"
    using assms(2) by (simp add: and_then_eq_Inr load_chain_def)
  have kind: "pc_kind parsed = QuotePck" and nonempty: "certs parsed \<noteq> []"
    using parsed_chain_bounds [OF assms(2)] by simp_all
  have "str_contains (revoked_detail parsed c) ''embedded in the quote''" for c
    using str_contains_middle [of "''PCK chain ''" "''embedded in the quote''"]
    unfolding revoked_detail_def kind by simp
  then show ?thesis
    unfolding revocation_entry_matches_real_quote_pck_leaf_def assms(1) Let_def
    by (simp add: load own_entry_revokes [OF nonempty] rejects_saying_def crl_error_def)
qed

text \<open>The generated CRL revokes the generated leaf iff it was asked to list the leaf's serial.\<close>

lemma fake_ca_outcome_eq:
  assumes lawful: "rcgen_lawful C R name pub" and "fake_ca_leaf_and_crl R s \<noteq> None"
  shows "\<exists>e. fake_ca_outcome C R s =
    Some (1, if be_nat s = be_nat LEAF_SERIAL then Inl (crl_error e) else Inr ())"
proof -
  from assms(2) obtain ca_ps ca_key leaf_ps leaf_key ca_der leaf_der crl_pem where
    gen: "fake_ca_leaf_and_crl R s = Some (ca_der, leaf_der, crl_pem)"
    and made: "rc_self_signed R ca_ps ca_key = Some ca_der"
      "rc_signed_by R leaf_ps leaf_key (ca_ps, ca_key) = Some leaf_der"
      "rc_crl_pem R (test_crl_params R s) (ca_ps, ca_key) = Some crl_pem"
    and leaf_serial: "serial_number leaf_ps = Some LEAF_SERIAL"
    by (auto simp: fake_ca_leaf_and_crl_def bind_eq_Some_conv Let_def)
  obtain ca where ca: "cert_from_der C ca_der = Inr ca"
      "cert_as_asked C name pub ca_ps ca_key (ca_ps, ca_key) ca"
    using cert_of_self_signed [OF lawful made(1)] .
  obtain cert where cert: "cert_from_der C leaf_der = Inr cert"
      "cert_as_asked C name pub leaf_ps leaf_key (ca_ps, ca_key) cert"
    using cert_of_signed_by [OF lawful made(2)] .
  obtain crl where crl: "crl_in_pem C (str_bytes crl_pem) crl"
      "crl_as_asked C name pub (test_crl_params R s) (ca_ps, ca_key) crl"
    using crl_of_pem [OF lawful made(3)] .
  obtain key where key: "key_from_sec1 C (pub ca_key) = Inr key" using key_of_pair [OF lawful] .
  let ?now = "rc_date_time_ymd R 2026 6 1"
  have dates: "dates_lawful R" using lawful unfolding rcgen_lawful_def by blast
  have "authentic_crl C (name_raw (subject ca)) key ?now crl"
    using authentic_as_asked [OF crl(2), of key ?now] key dates ca(2)
    by (simp add: test_crl_params_def dates_lawful_def cert_as_asked_def)
  then have "check_crl C ''test CRL'' (str_bytes crl_pem) (name_raw (subject ca)) key ?now =
      Inr (crl_entries crl)"
    using crl(1) unfolding check_crl_ok by blast
  moreover have "key_from_sec1 C (spki_data ca) = Inr key"
    using key ca(2) by (simp add: cert_as_asked_def)
  ultimately have revoked: "revoked_entries C R ca_der crl_pem = Some (crl_entries crl)"
    using spki_verifying_key_ok [of C "''test CRL''" ca key] ca(1)
    by (simp add: revoked_entries_def result_ok_def)
  have parsed: "chain_parse C \<lparr>cc_kind = QuotePck, ders = [leaf_der]\<rparr> =
      Inr \<lparr>pc_kind = QuotePck, certs = [cert]\<rparr>"
    by (simp add: chain_parse_ok cert(1))
  have issuer: "crl_issuer crl = issuer cert" and serial: "be_nat (raw_serial cert) = be_nat LEAF_SERIAL"
    and serials: "map be_nat (revoked_serials crl) = [be_nat s]"
    using crl(2) cert(2) leaf_serial
    by (simp_all add: crl_as_asked_def cert_as_asked_def test_crl_params_def)
  have hit: "list_ex (\<lambda>r. re_issuer_raw r = name_raw (issuer cert) \<and>
      re_serial r = normalized_serial (raw_serial cert)) (crl_entries crl) \<longleftrightarrow>
      be_nat s = be_nat LEAF_SERIAL"
    unfolding matches_crl_entries listed_in_def using issuer serial serials
    by (auto simp: map_eq_Cons_conv)
  have "length (crl_entries crl) = 1"
    using arg_cong [OF serials, of length] by (simp add: crl_entries_def)
  then show ?thesis
    unfolding fake_ca_outcome_def gen
    by (auto simp: revoked parsed result_ok_def ensure_none_revoked_def Let_def hit simp del: list_ex_iff)
qed

definition generates_crls :: "('n, 'kp, 'd) rcgen \<Rightarrow> bool" where
  "generates_crls R \<longleftrightarrow>
     fake_ca_leaf_and_crl R LEAF_SERIAL \<noteq> None \<and> fake_ca_leaf_and_crl R OTHER_SERIAL \<noteq> None"

lemma crl_tests:
  assumes "rcgen_lawful C R name pub" and "generates_crls R"
  shows "crl_listing_leaf_serial_rejects_chain C R"
    and "crl_without_leaf_serial_passes_revocation_check C R"
proof -
  have "be_nat OTHER_SERIAL \<noteq> be_nat LEAF_SERIAL" by code_simp
  then show "crl_without_leaf_serial_passes_revocation_check C R"
    using fake_ca_outcome_eq [OF assms(1), of OTHER_SERIAL] assms(2)
    by (auto simp: crl_without_leaf_serial_passes_revocation_check_def generates_crls_def)
  show "crl_listing_leaf_serial_rejects_chain C R"
    using fake_ca_outcome_eq [OF assms(1), of LEAF_SERIAL] assms(2)
    by (auto simp: crl_listing_leaf_serial_rejects_chain_def rejects_as_basic crl_error_def
        generates_crls_def)
qed

text \<open>What the PEM crate documents of \<open>encode\<close>: the text decodes to the block, repeated or not.\<close>

definition encodes_block :: "('k, 's) crates \<Rightarrow> bytes \<Rightarrow> pem_block \<Rightarrow> bool" where
  "encodes_block C root_pem block \<longleftrightarrow>
     pem_tag block = ''CERTIFICATE'' \<and>
     (\<forall>n. pem_parse_many C (trim_trailing_junk (concat (replicate n root_pem))) =
        Inr (replicate n block))"

lemma cap_tests:
  assumes "encodes_block C root_pem block" and "10 * length root_pem \<le> MAX_CHAIN_PEM_LEN"
  shows "chain_length_cap_boundary C root_pem" and "chain_byte_cap_boundary C root_pem"
proof -
  have parse: "pem_parse_many C (trim_trailing_junk (concat (replicate n root_pem))) =
      Inr (replicate n block)" for n
    using assms(1) by (simp add: encodes_block_def)
  have tag: "pem_tag block = ''CERTIFICATE''" using assms(1) by (simp add: encodes_block_def)
  have size: "length (concat (replicate n root_pem)) = n * length root_pem" for n
    by (simp add: length_concat sum_list_replicate)
  have reject: "rejects_as CollateralParse (from_pem C TcbInfoIssuer data)"
    if "\<not> (\<exists>chain. from_pem C TcbInfoIssuer data = Inr chain)" for data
  proof -
    have "rejects_within {CollateralParse} (from_pem C TcbInfoIssuer data)"
      by (rule from_pem_rejects) simp
    then show ?thesis using that by (simp add: rejects_as_single)
  qed
  have "\<exists>chain. from_pem C TcbInfoIssuer (concat (replicate 10 root_pem)) = Inr chain"
    unfolding from_pem_ok parse size using assms(2) tag by auto
  moreover have "\<not> (\<exists>chain. from_pem C TcbInfoIssuer (concat (replicate (10 + 1) root_pem)) = Inr chain)"
    unfolding from_pem_ok parse using tag by auto
  ultimately show "chain_length_cap_boundary C root_pem"
    unfolding chain_length_cap_boundary_def using reject by blast
  let ?data = "resize root_pem MAX_CHAIN_PEM_LEN 32"
  have data: "?data = root_pem @ replicate (MAX_CHAIN_PEM_LEN - length root_pem) 32"
    and len: "length ?data = MAX_CHAIN_PEM_LEN"
    using assms(2) by (simp_all add: resize_def)
  have "trim_trailing_junk ?data = trim_trailing_junk (concat (replicate 1 root_pem))"
    unfolding data
    by (subst trim_trailing_junk_append) (auto simp: trailing_junk_def is_ascii_whitespace_def)
  then have "pem_parse_many C (trim_trailing_junk ?data) = Inr [block]"
    using parse [of 1] by simp
  then have "\<exists>chain. from_pem C TcbInfoIssuer ?data = Inr chain"
    unfolding from_pem_ok len using tag by auto
  moreover have "\<not> (\<exists>chain. from_pem C TcbInfoIssuer (?data @ [32]) = Inr chain)"
    unfolding from_pem_ok using len by auto
  ultimately show "chain_byte_cap_boundary C root_pem"
    unfolding chain_byte_cap_boundary_def Let_def using reject by blast
qed

lemma garbage_test:
  assumes "pem_parse_many C (trim_trailing_junk (str_bytes ''no certificates here'')) = Inr []"
  shows "chain_parse_errors_carry_the_chain_kind_category C"
  using assms by (simp add: chain_parse_errors_carry_the_chain_kind_category_def from_pem_def
      rejects_as_basic)

text \<open>The issuers the selector tests ask for.\<close>

definition test_issuer_names :: "string option list" where
  "test_issuer_names = [Some PCK_PLATFORM_CA_CN, Some ''Intel SGX PCK Imposter CA'', None]"

text \<open>The three quotes are made, with chain texts within the limit.\<close>

definition generates_quotes ::
  "('k, 's) crates \<Rightarrow> ('n, 'kp, 'd) rcgen \<Rightarrow> sgx_quote \<Rightarrow> bool" where
  "generates_quotes C R prod1 \<longleftrightarrow>
     (\<forall>cn\<in>set test_issuer_names. \<exists>quote. quote_with_pck_issuer C R prod1 cn = Some quote \<and>
        length (cert_data (signature quote)) \<le> MAX_CHAIN_PEM_LEN)"

lemma sgx_oid_dotted: "dotted [1, 2, 840, 113741, 1, 13, 1] = SGX_PCK_EXTENSION_OID"
  by (simp add: SGX_PCK_EXTENSION_OID_def dec_nat_unfold [of "numeral k" for k]
      dec_nat_unfold [of "Suc 0"] char_of_def bit_0)

definition selector_of :: "string option \<Rightarrow> pck_ca res" where
  "selector_of cn =
     and_then (ok_or (verify_error_new QuoteParse ''PCK leaf issuer has no readable common name'') cn)
       (\<lambda>issuer_cn.
         if issuer_cn = PCK_PROCESSOR_CA_CN then Inr Processor
         else if issuer_cn = PCK_PLATFORM_CA_CN then Inr Platform
         else Inl (verify_error_new QuoteParse (''PCK leaf issuer CN '' @
           quoted issuer_cn @ '' is not an Intel SGX PCK CA'')))"

text \<open>The selector depends on the common name the issuer ends up with.\<close>

lemma selector_outcome:
  assumes lawful: "rcgen_lawful C R name pub" and pem: "pem_round_trips C R"
    and gen: "generates_quotes C R prod1"
    and platform: "prod1_pck_platform_tcb C prod1 = Some platform"
    and cn: "cn \<in> set test_issuer_names"
  shows "\<exists>quote dn. quote_with_pck_issuer C R prod1 cn = Some quote \<and>
    (cn \<noteq> None \<longrightarrow> first_common_name (name dn) = cn) \<and>
    (cn = None \<longrightarrow> first_common_name (name dn) \<notin>
       {Some PCK_PROCESSOR_CA_CN, Some PCK_PLATFORM_CA_CN}) \<and>
    pck_collateral_params C quote =
      and_then (selector_of (first_common_name (name dn))) (\<lambda>ca. Inr (pck_fmspc platform, ca))"
proof -
  obtain quote where quote: "quote_with_pck_issuer C R prod1 cn = Some quote"
    and size: "length (cert_data (signature quote)) \<le> MAX_CHAIN_PEM_LEN"
    using gen cn unfolding generates_quotes_def by blast
  from quote obtain parsed ext ca_key ca_ps leaf_key leaf_ps der where
    parsed: "prod1_chain C prod1 = Inr parsed"
    and ext: "List.find (\<lambda>e. fst e = SGX_PCK_EXTENSION_OID) (extensions (leaf parsed)) = Some ext"
    and params: "rc_params_new R [] = Some ca_ps"
    and der: "rc_signed_by R (pck_test_leaf R leaf_ps (snd ext)) leaf_key
        (pck_test_ca R ca_ps cn, ca_key) = Some der"
    and q: "quote = prod1\<lparr>signature := (signature prod1)
         \<lparr>cert_data := str_bytes (pem_encode R ''CERTIFICATE'' der)\<rparr>\<rparr>"
    by (auto simp: quote_with_pck_issuer_def bind_eq_Some_conv)
  obtain c where c: "cert_from_der C der = Inr c"
    and asked: "cert_as_asked C name pub (pck_test_leaf R leaf_ps (snd ext)) leaf_key
        (pck_test_ca R ca_ps cn, ca_key) c"
    using cert_of_signed_by [OF lawful der] .
  let ?dn = "distinguished_name (pck_test_ca R ca_ps cn)"
  let ?p = "\<lparr>pc_kind = QuotePck, certs = [c]\<rparr>"
  have "pem_lawful C R [der]"
    using rcgen_made_intros(2) [OF der] by (intro pem_lawful_made [OF pem]) simp_all
  from pem_lawful_loads [OF this, of "[c]" QuotePck] c size q
  have "load_chain C QuotePck (str_bytes (pem_encode R ''CERTIFICATE'' der)) ?p"
    by (simp add: chain_pem_def)
  then obtain chain where chain: "from_pem C QuotePck (str_bytes (pem_encode R ''CERTIFICATE'' der)) = Inr chain"
      "chain_parse C chain = Inr ?p"
    by (auto simp: load_chain_def)
  have hit: "List.find (\<lambda>e. fst e = SGX_PCK_EXTENSION_OID) (extensions (leaf ?p)) =
      Some (SGX_PCK_EXTENSION_OID, snd ext)"
    using asked unfolding cert_as_asked_def
    by (simp add: pck_test_leaf_def sgx_oid_dotted [simplified] leaf_def)
  have "extract_pck_platform_tcb C parsed = Inr platform"
    using platform parsed by (simp add: prod1_pck_platform_tcb_def)
  moreover have "extract_pck_platform_tcb C ?p = extract_pck_platform_tcb C parsed"
    unfolding extract_pck_platform_tcb_def hit ext by (simp add: ok_or_def)
  ultimately have same: "extract_pck_platform_tcb C ?p = Inr platform" by simp
  have iss: "issuer (leaf ?p) = name ?dn"
    using asked by (simp add: cert_as_asked_def leaf_def)
  have names: "names_lawful R name" using lawful unfolding rcgen_lawful_def by blast
  have "pck_collateral_params C quote =
      and_then (selector_of (first_common_name (name ?dn))) (\<lambda>ca. Inr (pck_fmspc platform, ca))"
    by (simp add: pck_collateral_params_def q chain same iss selector_of_def and_then_assoc)
  moreover have "cn \<noteq> None \<longrightarrow> first_common_name (name ?dn) = cn"
    using names by (auto simp: names_lawful_def pck_test_ca_def)
  moreover have "cn = None \<longrightarrow> first_common_name (name ?dn) \<notin>
      {Some PCK_PROCESSOR_CA_CN, Some PCK_PLATFORM_CA_CN}"
    using names params by (auto simp: names_lawful_def pck_test_ca_def)
  ultimately show ?thesis using quote by blast
qed

lemma selector_tests:
  assumes "rcgen_lawful C R name pub" and "pem_round_trips C R" and "generates_quotes C R prod1"
    and "prod1_pck_platform_tcb C prod1 = Some platform"
  shows "pck_collateral_params_reads_platform_ca C R prod1"
    and "pck_collateral_params_rejects_unknown_issuer_cn C R prod1"
    and "pck_collateral_params_rejects_issuer_without_common_name C R prod1"
proof -
  note outcome = selector_outcome [OF assms]
  have names: "PCK_PLATFORM_CA_CN \<noteq> PCK_PROCESSOR_CA_CN"
    "''Intel SGX PCK Imposter CA'' \<noteq> PCK_PROCESSOR_CA_CN"
    "''Intel SGX PCK Imposter CA'' \<noteq> PCK_PLATFORM_CA_CN"
    by (simp_all add: PCK_PLATFORM_CA_CN_def PCK_PROCESSOR_CA_CN_def)
  have imposter: "str_contains (''PCK leaf issuer CN '' @ quoted ''Intel SGX PCK Imposter CA'' @
      '' is not an Intel SGX PCK CA'') ''Imposter''"
    by code_simp
  show "pck_collateral_params_reads_platform_ca C R prod1"
    using outcome [of "Some PCK_PLATFORM_CA_CN"] names
    unfolding pck_collateral_params_reads_platform_ca_def
    by (auto simp: assms(4) selector_of_def test_issuer_names_def)
  obtain q where "quote_with_pck_issuer C R prod1 (Some ''Intel SGX PCK Imposter CA'') = Some q"
    "pck_collateral_params C q = Inl (verify_error_new QuoteParse (''PCK leaf issuer CN '' @
       quoted ''Intel SGX PCK Imposter CA'' @ '' is not an Intel SGX PCK CA''))"
    using outcome [of "Some ''Intel SGX PCK Imposter CA''"]
    by (auto simp: selector_of_def names test_issuer_names_def)
  then show "pck_collateral_params_rejects_unknown_issuer_cn C R prod1"
    unfolding pck_collateral_params_rejects_unknown_issuer_cn_def rejects_saying_def
    using imposter by (simp only: option.case sum.case category_verify_error_new
        detail_verify_error_new simp_thms)
  obtain q dn where q: "quote_with_pck_issuer C R prod1 None = Some q"
    "first_common_name (name dn) \<notin> {Some PCK_PROCESSOR_CA_CN, Some PCK_PLATFORM_CA_CN}"
    "pck_collateral_params C q =
       and_then (selector_of (first_common_name (name dn))) (\<lambda>ca. Inr (pck_fmspc platform, ca))"
    using outcome [of None] by (auto simp: test_issuer_names_def)
  then have "rejects_as QuoteParse (pck_collateral_params C q)"
    by (cases "first_common_name (name dn)") (auto simp: selector_of_def rejects_as_basic)
  then show "pck_collateral_params_rejects_issuer_without_common_name C R prod1"
    by (simp add: pck_collateral_params_rejects_issuer_without_common_name_def q(1))
qed

section \<open>Properties\<close>

text \<open>The closed unit tests hold of the model: slugs are displayed, the reader's rest is the unconsumed
  tail, a wrong-shaped document is named in the error, each policy flag governs its own standing
  only, windows include their start and exclude their end, the evaluation floor is inclusive, times
  before the epoch are negative, serials lose leading zeros and only trailing junk is trimmed.\<close>

theorem closed_unit_tests_hold:
  "display_matches_the_stable_slug \<and> rest_returns_exactly_the_unconsumed_tail \<and>
   signed_deserialize_error_names_the_document from_str \<and>
   up_to_date_is_always_accepted \<and> sw_hardening_needed_follows_its_flag_only \<and>
   configuration_and_sw_hardening_needed_follows_its_flag_only \<and>
   validity_window_rejects_both_bounds \<and> unix_seconds_is_negative_before_the_epoch \<and>
   evaluation_round_floor_is_inclusive_and_zero_disables \<and>
   validity_window_uses_the_documents_own_category \<and>
   normalized_serial_strips_leading_zeros \<and> trim_trailing_junk_semantics"
  by (intro conjI small_tests policy_tests verify_tests pki_byte_tests)


text \<open>C40. The tests of \<open>pki.rs\<close> on generated certificates hold for every certificate generator that
  produces what it is asked for: only a CA allowed to sign passes as an issuer, a CRL revokes exactly
  the serial it lists, the collateral selectors follow the issuer's name, and the two size caps are
  inclusive.\<close>

theorem generated_pki_tests_hold:
  assumes "rcgen_lawful C R name pub" and "pem_round_trips C R"
    and "generates_certs R" and "generates_crls R" and "generates_quotes C R prod1"
    and "prod1_pck_platform_tcb C prod1 = Some platform"
    and "encodes_block C root_pem block" and "10 * length root_pem \<le> MAX_CHAIN_PEM_LEN"
    and "pem_parse_many C (trim_trailing_junk (str_bytes ''no certificates here'')) = Inr []"
  shows "require_ca_rejects_basic_constraints_ca_false C R \<and>
    require_ca_rejects_missing_basic_constraints C R \<and>
    require_ca_rejects_key_usage_without_key_cert_sign C R \<and>
    require_ca_accepts_valid_issuer C R \<and>
    crl_listing_leaf_serial_rejects_chain C R \<and>
    crl_without_leaf_serial_passes_revocation_check C R \<and>
    pck_collateral_params_reads_platform_ca C R prod1 \<and>
    pck_collateral_params_rejects_unknown_issuer_cn C R prod1 \<and>
    pck_collateral_params_rejects_issuer_without_common_name C R prod1 \<and>
    chain_length_cap_boundary C root_pem \<and> chain_byte_cap_boundary C root_pem \<and>
    chain_parse_errors_carry_the_chain_kind_category C"
  by (intro conjI issuer_tests [OF assms(1,3)] crl_tests [OF assms(1,4)]
      selector_tests [OF assms(1,2,5,6)] cap_tests [OF assms(7,8)] garbage_test [OF assms(9)])

end
