(* ===== verification/Synthetic.thy ===== *)
theory Synthetic
  imports Tests_Unit
begin

text \<open>
  \<^verbatim>\<open>dcap-verify/src/synthetic_e2e.rs\<close>: a PKI of the test's own, a captured quote re-fitted with its
  certificate chain, and collateral signed under it. Certificates, CRLs and signatures come from
  the crates of the theory \<open>Rcgen\<close>. Three tests run the verifier with the trust anchor overridden
  by the PKI's root key (\<open>..._under (Some key)\<close>), one without.
\<close>

section \<open>The synthetic inputs\<close>

definition NOW_UNIX :: int where "NOW_UNIX = 1780000000"

definition DOC_ISSUE_UNIX :: int where "DOC_ISSUE_UNIX = 1767225600"

definition DOC_NEXT_UNIX :: int where "DOC_NEXT_UNIX = 1798761600"

definition PCK_LEAF_SERIAL :: bytes where "PCK_LEAF_SERIAL = [0x5a, 0x01]"

definition UNRELATED_SERIAL :: bytes where "UNRELATED_SERIAL = [0x5a, 0x02]"

record 'd test_pki =
  root_sec1 :: bytes
  quote_bytes :: bytes
  pki_mrenclave :: bytes
  pki_qe_report :: sgx_report_body
  tcb_chain_pem :: string
  pck_crl_chain_pem :: string
  root_crl_pem :: string
  pck_crl_clean_pem :: string
  pck_crl_revoking_leaf_pem :: string
  doc_key :: 'd

text \<open>New parameters with a common name, and those of a CA.\<close>

definition named_params ::
  "('n, 'kp, 'd) rcgen \<Rightarrow> string \<Rightarrow> 'n certificate_params option" where
  "named_params R cn =
     map_option (\<lambda>params. params\<lparr>distinguished_name :=
         rc_dn_push R (distinguished_name params) CommonName cn\<rparr>) (rc_params_new R [])"

definition ca_params :: "('n, 'kp, 'd) rcgen \<Rightarrow> string \<Rightarrow> 'n certificate_params option" where
  "ca_params R cn =
     map_option (\<lambda>params. params\<lparr>params_is_ca := Ca, key_usages := [KeyCertSign, CrlSign]\<rparr>)
       (named_params R cn)"

definition synthetic_crl ::
  "('n, 'kp, 'd) rcgen \<Rightarrow> ('n, 'kp) cert_issuer \<Rightarrow> bytes \<Rightarrow> string option" where
  "synthetic_crl R iss revoked_serial =
     rc_crl_pem R
       \<lparr>crlp_this_update = rc_date_time_ymd R 2026 1 1, crlp_next_update = rc_date_time_ymd R 2027 1 1,
        crlp_crl_number = [0x01],
        crlp_revoked_certs = [\<lparr>rcp_serial_number = revoked_serial,
                               rcp_revocation_time = rc_date_time_ymd R 2026 2 1\<rparr>]\<rparr> iss"

text \<open>\<open>q[lo..lo + n].copy_from_slice(bs)\<close>.\<close>

definition write_at :: "nat \<Rightarrow> bytes \<Rightarrow> bytes \<Rightarrow> bytes" where
  "write_at lo bs q = take lo q @ bs @ drop (lo + length bs) q"

text \<open>\<open>None\<close> is the panic of \<open>orig[..1052]\<close>; \<open>le_bytes 4\<close> wraps as the cast to \<open>u32\<close> does.\<close>

definition splice_cert_data :: "bytes \<Rightarrow> string \<Rightarrow> bytes option" where
  "splice_cert_data orig chain =
     (if length orig < 1052 then None
      else
      (let q = write_at 1048 (le_bytes 4 (length chain)) (take 1052 orig) @ str_bytes chain;
           sig_len = length q - 436 in
       Some (write_at 432 (le_bytes 4 sig_len) q)))"

text \<open>\<open>orig\<close> is the captured quote's file; \<open>None\<close> is a panic.\<close>

definition build_pki ::
  "('k, 's) crates \<Rightarrow> ('n, 'kp, 'd) rcgen \<Rightarrow> bytes option \<Rightarrow> 'd test_pki option" where
  "build_pki C R orig =
     Option.bind (rc_generate R 0) (\<lambda>root_key.
     Option.bind (ca_params R ''dcap-verify synthetic Root CA'') (\<lambda>root_params.
     Option.bind (rc_self_signed R root_params root_key) (\<lambda>root_der.
     Option.bind (result_ok (cert_from_der C root_der)) (\<lambda>root_cert.
     if length (spki_data root_cert) \<noteq> 65 then None
     else
     Option.bind (rc_generate R 1) (\<lambda>pck_ca_key.
     Option.bind (ca_params R ''dcap-verify synthetic PCK CA'') (\<lambda>pck_ca_params.
     Option.bind (rc_signed_by R pck_ca_params pck_ca_key (root_params, root_key)) (\<lambda>pck_ca_der.
     Option.bind (rc_generate R 2) (\<lambda>pck_leaf_key.
     Option.bind (named_params R ''dcap-verify synthetic PCK leaf'') (\<lambda>pck_leaf_params.
     Option.bind (rc_signed_by R (pck_leaf_params\<lparr>serial_number := Some PCK_LEAF_SERIAL\<rparr>) pck_leaf_key
         (pck_ca_params, pck_ca_key)) (\<lambda>pck_leaf_der.
     Option.bind (rc_generate R 3) (\<lambda>tcb_key.
     Option.bind (named_params R INTEL_TCB_SIGNING_CN) (\<lambda>tcb_params.
     Option.bind (rc_signed_by R tcb_params tcb_key (root_params, root_key)) (\<lambda>tcb_leaf_der.
     Option.bind (from_pkcs8_der R (rc_serialize_der R tcb_key)) (\<lambda>doc_key'.
     Option.bind (synthetic_crl R (root_params, root_key) UNRELATED_SERIAL) (\<lambda>root_crl.
     Option.bind (synthetic_crl R (pck_ca_params, pck_ca_key) UNRELATED_SERIAL) (\<lambda>clean_crl.
     Option.bind (synthetic_crl R (pck_ca_params, pck_ca_key) PCK_LEAF_SERIAL) (\<lambda>revoking_crl.
     Option.bind orig (\<lambda>orig'.
     Option.bind (splice_cert_data orig' (chain_pem R [pck_leaf_der, pck_ca_der, root_der])) (\<lambda>spliced.
     Option.bind (peek_mrenclave spliced) (\<lambda>measurement.
     Option.bind (result_ok (fst (sgx_quote_read spliced))) (\<lambda>quote.
     Some \<lparr>root_sec1 = spki_data root_cert, quote_bytes = spliced, pki_mrenclave = measurement,
           pki_qe_report = qe_report (signature quote),
           tcb_chain_pem = chain_pem R [tcb_leaf_der, root_der],
           pck_crl_chain_pem = chain_pem R [pck_ca_der, root_der],
           root_crl_pem = root_crl, pck_crl_clean_pem = clean_crl,
           pck_crl_revoking_leaf_pem = revoking_crl,
           doc_key = doc_key'\<rparr>)))))))))))))))))))))"

definition sign_doc :: "('k, 's) crates \<Rightarrow> ('n, 'kp, 'd) rcgen \<Rightarrow> 'd \<Rightarrow> string \<Rightarrow> string" where
  "sign_doc C R key text = hex_encode C (p256_sign R key (str_bytes text))"

definition synthetic_tcb_info ::
  "('k, 's) crates \<Rightarrow> ('n, 'kp, 'd) rcgen \<Rightarrow> 'd test_pki \<Rightarrow> tcb_info signed_doc" where
  "synthetic_tcb_info C R pki =
     (let text = ''{'' @ debug_str ''synthetic-tcb-info'' @ '':'' @ dec_int DOC_ISSUE_UNIX @ ''}'' in
      \<lparr>body_json = text,
       body = \<lparr>ti_id = ''SGX'', ti_version = 3, ti_issue_date = DOC_ISSUE_UNIX,
               ti_next_update = DOC_NEXT_UNIX, fmspc = ''00a067110000'', pce_id = ''0000'',
               tcb_type = 0, ti_tcb_evaluation_data_number = 1,
               ti_tcb_levels =
                 [\<lparr>tcb = \<lparr>sgxtcbcomponents = replicate 16 \<lparr>svn = 0\<rparr>, pcesvn = 0\<rparr>,
                   tcb_date = DOC_ISSUE_UNIX, tcb_status = ''UpToDate'', advisory_ids = []\<rparr>]\<rparr>,
       signature_hex = sign_doc C R (doc_key pki) text\<rparr>)"

definition synthetic_qe_identity ::
  "('k, 's) crates \<Rightarrow> ('n, 'kp, 'd) rcgen \<Rightarrow> 'd test_pki \<Rightarrow> string \<Rightarrow> qe_identity signed_doc" where
  "synthetic_qe_identity C R pki mrsigner_hex =
     (let text = ''{'' @ debug_str ''synthetic-qe-identity'' @ '':'' @ dec_int DOC_ISSUE_UNIX @ ''}'' in
      \<lparr>body_json = text,
       body = \<lparr>qi_id = ''QE'', qi_version = 2, qi_issue_date = DOC_ISSUE_UNIX,
               qi_next_update = DOC_NEXT_UNIX, qi_tcb_evaluation_data_number = 1,
               miscselect = ''00000000'', miscselect_mask = ''00000000'',
               qi_attributes = ''00000000000000000000000000000000'',
               attributes_mask = ''00000000000000000000000000000000'',
               qi_mrsigner = mrsigner_hex, isvprodid = isv_prod_id (pki_qe_report pki),
               qi_tcb_levels =
                 [\<lparr>qtcb = \<lparr>isvsvn = 0\<rparr>, qtcb_date = DOC_ISSUE_UNIX,
                   qtcb_status = ''UpToDate'', qadvisory_ids = []\<rparr>]\<rparr>,
       signature_hex = sign_doc C R (doc_key pki) text\<rparr>)"

definition synthetic_collateral ::
  "('k, 's) crates \<Rightarrow> ('n, 'kp, 'd) rcgen \<Rightarrow> 'd test_pki \<Rightarrow> string \<Rightarrow>
   qe_identity signed_doc \<Rightarrow> sgx_collateral" where
  "synthetic_collateral C R pki pck_crl' qe =
     \<lparr>coll_version = 3, root_ca_crl = root_crl_pem pki, pck_crl = pck_crl',
      tcb_info_issuer_chain = tcb_chain_pem pki, pck_crl_issuer_chain = pck_crl_chain_pem pki,
      qe_identity_issuer_chain = tcb_chain_pem pki,
      coll_tcb_info = synthetic_tcb_info C R pki, coll_qe_identity = qe\<rparr>"

text \<open>
  The run reads the override cell; a test that does not set it finds it empty. \<open>None\<close> is a panic: of
  the \<open>expect\<close> here, or inside the verifier.
\<close>

definition run_under ::
  "root_anchor \<Rightarrow> ('k, 's) crates \<Rightarrow> 'd test_pki \<Rightarrow> sgx_collateral \<Rightarrow> unit res option" where
  "run_under ov C pki collateral =
     Option.bind (result_ok (fst (sgx_quote_read (quote_bytes pki)))) (\<lambda>quote.
     map_option (\<lambda>r. and_then r (\<lambda>_. Inr ()))
       (verify_remote_attestation_under ov C (0 + NOW_UNIX * 10 ^ 9) collateral quote
          (pki_mrenclave pki) 0))"

definition run_without_anchor ::
  "('k, 's) crates \<Rightarrow> 'd test_pki \<Rightarrow> sgx_collateral \<Rightarrow> unit res option" where
  "run_without_anchor C pki collateral = run_under None C pki collateral"

definition run_with_anchor ::
  "('k, 's) crates \<Rightarrow> 'd test_pki \<Rightarrow> sgx_collateral \<Rightarrow> unit res option" where
  "run_with_anchor C pki collateral = run_under (Some (root_sec1 pki)) C pki collateral"

definition matching_qe_identity ::
  "('k, 's) crates \<Rightarrow> ('n, 'kp, 'd) rcgen \<Rightarrow> 'd test_pki \<Rightarrow> qe_identity signed_doc" where
  "matching_qe_identity C R pki =
     synthetic_qe_identity C R pki (hex_encode C (mrsigner (pki_qe_report pki)))"

text \<open>The four tests.\<close>

definition revoked_pck_leaf_rejects_through_the_entry_point ::
  "('k, 's) crates \<Rightarrow> ('n, 'kp, 'd) rcgen \<Rightarrow> 'd test_pki \<Rightarrow> bool" where
  "revoked_pck_leaf_rejects_through_the_entry_point C R pki \<longleftrightarrow>
     map_option (rejects_saying CrlInvalid ''revoked'')
       (run_with_anchor C pki
         (synthetic_collateral C R pki (pck_crl_revoking_leaf_pem pki) (matching_qe_identity C R pki))) =
     Some True"

definition qe_identity_mismatch_rejects_through_the_entry_point ::
  "('k, 's) crates \<Rightarrow> ('n, 'kp, 'd) rcgen \<Rightarrow> 'd test_pki \<Rightarrow> bool" where
  "qe_identity_mismatch_rejects_through_the_entry_point C R pki \<longleftrightarrow>
     map_option (rejects_as QeIdentityMismatch)
       (run_with_anchor C pki
         (synthetic_collateral C R pki (pck_crl_clean_pem pki)
           (synthetic_qe_identity C R pki (repeat_str ''22'' 32)))) =
     Some True"

definition control_reaches_the_qe_report_signature_check ::
  "('k, 's) crates \<Rightarrow> ('n, 'kp, 'd) rcgen \<Rightarrow> 'd test_pki \<Rightarrow> bool" where
  "control_reaches_the_qe_report_signature_check C R pki \<longleftrightarrow>
     map_option (rejects_as QeReportSignatureInvalid)
       (run_with_anchor C pki
         (synthetic_collateral C R pki (pck_crl_clean_pem pki) (matching_qe_identity C R pki))) =
     Some True"

definition synthetic_chain_without_override_dies_at_the_anchor ::
  "('k, 's) crates \<Rightarrow> ('n, 'kp, 'd) rcgen \<Rightarrow> 'd test_pki \<Rightarrow> bool" where
  "synthetic_chain_without_override_dies_at_the_anchor C R pki \<longleftrightarrow>
     map_option (rejects_as RootCaUntrusted)
       (run_without_anchor C pki
         (synthetic_collateral C R pki (pck_crl_clean_pem pki) (matching_qe_identity C R pki))) =
     Some True"

section \<open>Splicing\<close>

definition with_cert_data :: "sgx_quote \<Rightarrow> bytes \<Rightarrow> sgx_quote" where
  "with_cert_data q chain = q\<lparr>signature := (signature q)\<lparr>cert_data := chain\<rparr>\<rparr>"

lemma write_at_append:
  "length xs = lo \<Longrightarrow> length ys = length bs \<Longrightarrow> write_at lo bs (xs @ ys @ zs) = xs @ bs @ zs"
  by (simp add: write_at_def)

lemma wf_with_cert_data:
  assumes "wf_quote q" and "length chain + length (qe_auth_data (signature q)) + 584 < 2 ^ 32"
  shows "wf_quote (with_cert_data q chain)"
proof -
  have "wf_signature (signature (with_cert_data q chain))"
    using assms by (simp add: wf_quote_def wf_signature_def with_cert_data_def)
  moreover from length_encode_signature [OF this]
  have "length (encode_signature (signature (with_cert_data q chain))) < 2 ^ 32"
    using assms(2) by (simp add: with_cert_data_def)
  moreover have "signed_bytes (with_cert_data q chain) = signed_bytes q"
    "header (with_cert_data q chain) = header q"
    "report_body (with_cert_data q chain) = report_body q"
    by (simp_all add: with_cert_data_def)
  ultimately show ?thesis using assms(1) unfolding wf_quote_def by metis
qed

lemma splice_layout:
  assumes "length hdr = 432" and "length len = 4" and "length pre = 612" and "length old = 4"
  shows "splice_cert_data (hdr @ len @ pre @ old @ tail) chain =
    Some (hdr @ le_bytes 4 (616 + length chain) @ pre @ le_bytes 4 (length chain) @ str_bytes chain)"
proof -
  have front: "length (hdr @ len @ pre) = 1048" using assms by simp
  have long: "\<not> length (hdr @ len @ pre @ old @ tail) < 1052" using assms by simp
  have "take 1052 (hdr @ len @ pre @ old @ tail) = (hdr @ len @ pre) @ old @ []"
    using assms by simp
  then have "write_at 1048 (le_bytes 4 (length chain)) (take 1052 (hdr @ len @ pre @ old @ tail)) @
      str_bytes chain = hdr @ len @ (pre @ le_bytes 4 (length chain) @ str_bytes chain)"
    using write_at_append [OF front, of old "le_bytes 4 (length chain)" "[]"] assms(4) by simp
  moreover have "length (hdr @ len @ (pre @ le_bytes 4 (length chain) @ str_bytes chain)) - 436 =
      616 + length chain"
    using assms by simp
  ultimately show ?thesis
    using long assms(2)
    by (simp only: splice_cert_data_def Let_def if_False write_at_append [OF assms(1)] length_le_bytes)
qed

lemma splice_encode_quote:
  assumes "wf_quote q" and "length (qe_auth_data (signature q)) = 32"
  shows "splice_cert_data (encode_quote q @ junk) chain =
    Some (encode_quote (with_cert_data q (str_bytes chain)))"
proof -
  define s where "s = signature q"
  define n where "n = length (encode_signature s)"
  define pre where "pre = isv_signature s @ attestation_pub_key s @ qe_report_raw s @
    qe_report_signature s @ le_bytes 2 (length (qe_auth_data s)) @ qe_auth_data s @
    le_bytes 2 (unat (cert_data_type s))"
  have wf: "wf_signature s" and signed: "length (signed_bytes q) = 432"
    using assms(1) by (simp_all add: wf_quote_def s_def)
  have pre: "length pre = 612" using wf assms(2) by (simp add: wf_signature_def pre_def s_def)
  have "encode_quote q @ junk =
      signed_bytes q @ le_bytes 4 n @ pre @ le_bytes 4 (length (cert_data s)) @ (cert_data s @ junk)"
    by (simp add: encode_quote_def encode_signature_def pre_def n_def s_def)
  moreover have "encode_signature (s\<lparr>cert_data := str_bytes chain\<rparr>) =
      pre @ le_bytes 4 (length chain) @ str_bytes chain"
    by (simp add: encode_signature_def pre_def)
  then have "encode_quote (with_cert_data q (str_bytes chain)) =
      signed_bytes q @ le_bytes 4 (616 + length chain) @ pre @ le_bytes 4 (length chain) @
      str_bytes chain"
    using pre by (simp add: encode_quote_def with_cert_data_def s_def [symmetric])
  ultimately show ?thesis by (simp only: splice_layout [OF signed length_le_bytes pre length_le_bytes])
qed

lemma splice_reads:
  assumes "fst (sgx_quote_read orig) = Inr q" and "length (qe_auth_data (signature q)) = 32"
    and "length chain + 616 < 2 ^ 32"
  shows "\<exists>spliced. splice_cert_data orig chain = Some spliced \<and>
    sgx_quote_read spliced = (Inr (with_cert_data q (str_bytes chain)), [])"
proof -
  obtain left where wf: "wf_quote q" and orig: "orig = encode_quote q @ left"
    using assms(1) by (auto simp: sgx_quote_read_ok)
  have "wf_quote (with_cert_data q (str_bytes chain))"
    by (rule wf_with_cert_data [OF wf]) (use assms(2,3) in simp)
  then have "read_quote (encode_quote (with_cert_data q (str_bytes chain))) =
      Inr (with_cert_data q (str_bytes chain), [])"
    by (simp add: read_quote_eq_Inr)
  then show ?thesis
    using splice_encode_quote [OF wf assms(2), of left chain] orig by (simp add: sgx_quote_read_def)
qed

section \<open>What the PKI consists of\<close>

text \<open>
  The four certificates and three CRLs behind a PKI, read back, with the keys and parameters they
  were made from: what is left of \<open>build_pki\<close> once the crates behave as documented.
\<close>

record ('n, 'kp) pki_parts =
  rp :: "'n certificate_params"
  rk :: 'kp
  cp :: "'n certificate_params"
  ck :: 'kp
  lk :: 'kp
  tk :: 'kp
  root_c :: x509_cert
  pck_ca_c :: x509_cert
  pck_leaf_c :: x509_cert
  tcb_leaf_c :: x509_cert
  root_list :: x509_crl
  clean_list :: x509_crl
  revoking_list :: x509_crl

text \<open>A generated certificate whose serial number \<^verbatim>\<open>rcgen\<close> chose.\<close>

definition drawn_serial :: "('k, 's) crates \<Rightarrow> ('n, 'kp, 'd) rcgen \<Rightarrow> x509_cert \<Rightarrow> bool" where
  "drawn_serial C R c \<longleftrightarrow>
     (\<exists>ps kp iss der. serial_number ps = None \<and>
        (rc_self_signed R ps kp = Some der \<or> rc_signed_by R ps kp iss = Some der) \<and>
        cert_from_der C der = Inr c)"

definition parts_fit ::
  "('k, 's) crates \<Rightarrow> ('n, 'kp, 'd) rcgen \<Rightarrow> ('n \<Rightarrow> x509_name) \<Rightarrow> ('kp \<Rightarrow> bytes) \<Rightarrow> 'd test_pki \<Rightarrow>
     ('n, 'kp) pki_parts \<Rightarrow> bool" where
  "parts_fit C R name pub pki P \<longleftrightarrow>
     ca_params R ''dcap-verify synthetic Root CA'' = Some (rp P) \<and>
     ca_params R ''dcap-verify synthetic PCK CA'' = Some (cp P) \<and>
     cert_as_asked C name pub (rp P) (rk P) (rp P, rk P) (root_c P) \<and>
     cert_as_asked C name pub (cp P) (ck P) (rp P, rk P) (pck_ca_c P) \<and>
     rc_generate R 2 = Some (lk P) \<and>
     (\<exists>lp. named_params R ''dcap-verify synthetic PCK leaf'' = Some lp \<and>
        cert_as_asked C name pub (lp\<lparr>serial_number := Some PCK_LEAF_SERIAL\<rparr>) (lk P) (cp P, ck P)
          (pck_leaf_c P)) \<and>
     (\<exists>tp. named_params R INTEL_TCB_SIGNING_CN = Some tp \<and>
        cert_as_asked C name pub tp (tk P) (rp P, rk P) (tcb_leaf_c P)) \<and>
     (\<forall>c\<in>{root_c P, pck_ca_c P, tcb_leaf_c P}. drawn_serial C R c) \<and>
     from_pkcs8_der R (rc_serialize_der R (tk P)) = Some (doc_key pki) \<and>
     root_sec1 pki = spki_data (root_c P) \<and>
     crl_in_pem C (str_bytes (root_crl_pem pki)) (root_list P) \<and>
     crl_as_asked C name pub (test_crl_params R UNRELATED_SERIAL) (rp P, rk P) (root_list P) \<and>
     crl_in_pem C (str_bytes (pck_crl_clean_pem pki)) (clean_list P) \<and>
     crl_as_asked C name pub (test_crl_params R UNRELATED_SERIAL) (cp P, ck P) (clean_list P) \<and>
     crl_in_pem C (str_bytes (pck_crl_revoking_leaf_pem pki)) (revoking_list P) \<and>
     crl_as_asked C name pub (test_crl_params R PCK_LEAF_SERIAL) (cp P, ck P) (revoking_list P)"

definition synthetic_chains :: "('n, 'kp) pki_parts \<Rightarrow> loaded_chains" where
  "synthetic_chains P =
     \<lparr>tcb_info_chain = \<lparr>pc_kind = TcbInfoIssuer, certs = [tcb_leaf_c P, root_c P]\<rparr>,
      pck_crl_chain = \<lparr>pc_kind = PckCrlIssuer, certs = [pck_ca_c P, root_c P]\<rparr>,
      qe_identity_chain = \<lparr>pc_kind = QeIdentityIssuer, certs = [tcb_leaf_c P, root_c P]\<rparr>,
      pck_chain = \<lparr>pc_kind = QuotePck, certs = [pck_leaf_c P, pck_ca_c P, root_c P]\<rparr>\<rparr>"

text \<open>The spliced quote reads as the captured one with the new certificates.\<close>

definition spliced_from :: "'d test_pki \<Rightarrow> sgx_quote \<Rightarrow> sgx_quote \<Rightarrow> bool" where
  "spliced_from pki q quote \<longleftrightarrow>
     fst (sgx_quote_read (quote_bytes pki)) = Inr quote \<and> wf_quote q \<and>
     (\<exists>chain. quote = with_cert_data q chain) \<and>
     pki_mrenclave pki = mrenclave (report_body q) \<and> pki_qe_report pki = qe_report (signature q)"

lemma synthetic_crl_eq: "synthetic_crl R iss s = rc_crl_pem R (test_crl_params R s) iss"
  by (simp add: synthetic_crl_def test_crl_params_def)

text \<open>The chain texts are within the limit on their length.\<close>

definition chains_fit :: "'d test_pki \<Rightarrow> bool" where
  "chains_fit pki \<longleftrightarrow>
     length (tcb_chain_pem pki) \<le> MAX_CHAIN_PEM_LEN \<and>
     length (pck_crl_chain_pem pki) \<le> MAX_CHAIN_PEM_LEN \<and>
     length (quote_bytes pki) \<le> 1052 + MAX_CHAIN_PEM_LEN"

lemma length_splice:
  "splice_cert_data orig chain = Some spliced \<Longrightarrow> length spliced = 1052 + length chain"
  by (auto simp: splice_cert_data_def write_at_def Let_def split: if_splits)

lemma named_of_new:
  assumes "rcgen_lawful C R name pub" and "named_params R cn = Some ps"
  shows "params_not_before ps = 157766400" "params_not_after ps = 67090118400"
    "params_is_ca ps = NoCa" "key_usages ps = []" "serial_number ps = None"
    "first_common_name (name (distinguished_name ps)) = Some cn"
proof -
  obtain ps0 where ps0: "rc_params_new R [] = Some ps0"
    "ps = ps0\<lparr>distinguished_name := rc_dn_push R (distinguished_name ps0) CommonName cn\<rparr>"
    using assms(2) by (auto simp: named_params_def)
  show "params_not_before ps = 157766400" "params_not_after ps = 67090118400"
    "params_is_ca ps = NoCa" "key_usages ps = []" "serial_number ps = None"
    using defaults_of_new [OF assms(1) ps0(1)] ps0(2) by simp_all
  have "names_lawful R name" using assms(1) unfolding rcgen_lawful_def by blast
  then show "first_common_name (name (distinguished_name ps)) = Some cn"
    using ps0(2) by (simp add: names_lawful_def)
qed

lemma ca_of_new:
  assumes "rcgen_lawful C R name pub" and "ca_params R cn = Some ps"
  shows "params_not_before ps = 157766400" "params_not_after ps = 67090118400"
    "params_is_ca ps = Ca" "key_usages ps = [KeyCertSign, CrlSign]" "serial_number ps = None"
proof -
  obtain ps0 where "named_params R cn = Some ps0"
    "ps = ps0\<lparr>params_is_ca := Ca, key_usages := [KeyCertSign, CrlSign]\<rparr>"
    using assms(2) by (auto simp: ca_params_def)
  then show "params_not_before ps = 157766400" "params_not_after ps = 67090118400"
    "params_is_ca ps = Ca" "key_usages ps = [KeyCertSign, CrlSign]" "serial_number ps = None"
    using named_of_new [OF assms(1)] by simp_all
qed

lemma build_pki_parts:
  assumes build: "build_pki C R (Some orig) = Some pki"
    and lawful: "rcgen_lawful C R name pub" and pem: "pem_round_trips C R"
    and q: "fst (sgx_quote_read orig) = Inr q" "length (qe_auth_data (signature q)) = 32"
    and size: "chains_fit pki"
  shows "\<exists>P quote. parts_fit C R name pub pki P \<and> spliced_from pki q quote \<and>
    (\<forall>crl qe. chains_of C (synthetic_collateral C R pki crl qe) quote (synthetic_chains P))"
proof -
  from build obtain rp rk rd rc cp ck cd lp lk ld tp tk td quote where
    root: "ca_params R ''dcap-verify synthetic Root CA'' = Some rp" "rc_self_signed R rp rk = Some rd"
      "cert_from_der C rd = Inr rc" "root_sec1 pki = spki_data rc"
    and ca: "ca_params R ''dcap-verify synthetic PCK CA'' = Some cp" "rc_signed_by R cp ck (rp, rk) = Some cd"
    and lf: "named_params R ''dcap-verify synthetic PCK leaf'' = Some lp"
      "rc_signed_by R (lp\<lparr>serial_number := Some PCK_LEAF_SERIAL\<rparr>) lk (cp, ck) = Some ld"
      "rc_generate R 2 = Some lk"
    and tcb: "named_params R INTEL_TCB_SIGNING_CN = Some tp" "rc_signed_by R tp tk (rp, rk) = Some td"
      "from_pkcs8_der R (rc_serialize_der R tk) = Some (doc_key pki)"
    and crls: "synthetic_crl R (rp, rk) UNRELATED_SERIAL = Some (root_crl_pem pki)"
      "synthetic_crl R (cp, ck) UNRELATED_SERIAL = Some (pck_crl_clean_pem pki)"
      "synthetic_crl R (cp, ck) PCK_LEAF_SERIAL = Some (pck_crl_revoking_leaf_pem pki)"
    and splice: "splice_cert_data orig (chain_pem R [ld, cd, rd]) = Some (quote_bytes pki)"
    and quote: "peek_mrenclave (quote_bytes pki) = Some (pki_mrenclave pki)"
      "fst (sgx_quote_read (quote_bytes pki)) = Inr quote" "pki_qe_report pki = qe_report (signature quote)"
    and pems: "tcb_chain_pem pki = chain_pem R [td, rd]" "pck_crl_chain_pem pki = chain_pem R [cd, rd]"
    unfolding build_pki_def by (auto simp: bind_eq_Some_conv split: if_splits)
  have rc: "cert_as_asked C name pub rp rk (rp, rk) rc"
    using cert_of_self_signed [OF lawful root(2)] root(3) by auto
  obtain cc where cc: "cert_from_der C cd = Inr cc" "cert_as_asked C name pub cp ck (rp, rk) cc"
    using cert_of_signed_by [OF lawful ca(2)] .
  obtain lc where lc: "cert_from_der C ld = Inr lc"
      "cert_as_asked C name pub (lp\<lparr>serial_number := Some PCK_LEAF_SERIAL\<rparr>) lk (cp, ck) lc"
    using cert_of_signed_by [OF lawful lf(2)] .
  obtain tc where tc: "cert_from_der C td = Inr tc" "cert_as_asked C name pub tp tk (rp, rk) tc"
    using cert_of_signed_by [OF lawful tcb(2)] .
  note crls = crls [unfolded synthetic_crl_eq]
  obtain rl where rl: "crl_in_pem C (str_bytes (root_crl_pem pki)) rl"
      "crl_as_asked C name pub (test_crl_params R UNRELATED_SERIAL) (rp, rk) rl"
    using crl_of_pem [OF lawful crls(1)] .
  obtain cl where cl: "crl_in_pem C (str_bytes (pck_crl_clean_pem pki)) cl"
      "crl_as_asked C name pub (test_crl_params R UNRELATED_SERIAL) (cp, ck) cl"
    using crl_of_pem [OF lawful crls(2)] .
  obtain vl where vl: "crl_in_pem C (str_bytes (pck_crl_revoking_leaf_pem pki)) vl"
      "crl_as_asked C name pub (test_crl_params R PCK_LEAF_SERIAL) (cp, ck) vl"
    using crl_of_pem [OF lawful crls(3)] .
  let ?P = "\<lparr>rp = rp, rk = rk, cp = cp, ck = ck, lk = lk, tk = tk, root_c = rc, pck_ca_c = cc,
    pck_leaf_c = lc, tcb_leaf_c = tc, root_list = rl, clean_list = cl, revoking_list = vl\<rparr>"
  have drawn: "drawn_serial C R rc" "drawn_serial C R cc" "drawn_serial C R tc"
    using ca_of_new(5) [OF lawful root(1)] ca_of_new(5) [OF lawful ca(1)]
      named_of_new(5) [OF lawful tcb(1)] root(2,3) ca(2) cc(1) tcb(2) tc(1)
    unfolding drawn_serial_def by metis+
  have fit: "parts_fit C R name pub pki ?P"
    using root ca lf tcb rc cc lc tc rl cl vl drawn by (simp add: parts_fit_def)
  have made: "rcgen_made R rd" "rcgen_made R cd" "rcgen_made R ld" "rcgen_made R td"
    using rcgen_made_intros(1) [OF root(2)] rcgen_made_intros(2) [OF ca(2)]
      rcgen_made_intros(2) [OF lf(2)] rcgen_made_intros(2) [OF tcb(2)] by simp_all
  have pl: "pem_lawful C R [td, rd]" "pem_lawful C R [cd, rd]" "pem_lawful C R [ld, cd, rd]"
    using made by (simp_all add: pem_lawful_made [OF pem])
  have sizes: "length (chain_pem R [td, rd]) \<le> MAX_CHAIN_PEM_LEN"
    "length (chain_pem R [cd, rd]) \<le> MAX_CHAIN_PEM_LEN"
    "length (chain_pem R [ld, cd, rd]) \<le> MAX_CHAIN_PEM_LEN"
    using size length_splice [OF splice] by (simp_all add: chains_fit_def pems)
  then have "length (chain_pem R [ld, cd, rd]) + 616 < 2 ^ 32" by simp
  from splice_reads [OF q this] splice quote(2)
  have sq: "quote = with_cert_data q (str_bytes (chain_pem R [ld, cd, rd]))" by auto
  have wf: "wf_quote q" using q(1) by (auto simp: sgx_quote_read_ok)
  obtain left' where "wf_quote quote" "quote_bytes pki = encode_quote quote @ left'"
    using quote(2) by (auto simp: sgx_quote_read_ok)
  then have "pki_mrenclave pki = mrenclave (report_body q)"
    using quote(1) sq by (simp add: peek_mrenclave_encode with_cert_data_def)
  then have "spliced_from pki q quote"
    using quote(2,3) wf sq by (auto simp: spliced_from_def with_cert_data_def)
  moreover have "chains_of C (synthetic_collateral C R pki crl qe) quote (synthetic_chains ?P)" for crl qe
    using pem_lawful_loads [OF pl(1) _ _ sizes(1), of "[tc, rc]"]
      pem_lawful_loads [OF pl(2) _ _ sizes(2), of "[cc, rc]"]
      pem_lawful_loads [OF pl(3) _ _ sizes(3), of "[lc, cc, rc]"] root(3) cc(1) lc(1) tc(1)
    by (simp add: chains_of_def synthetic_collateral_def synthetic_chains_def sq with_cert_data_def pems)
  ultimately show ?thesis using fit by blast
qed

end
