(* ===== verification/Synthetic_Runs.thy ===== *)
theory Synthetic_Runs
  imports Synthetic
begin

text \<open>
  The four tests of \<^verbatim>\<open>dcap-verify/src/synthetic_e2e.rs\<close> hold, for every generator that behaves
  as documented: the PKI is trusted up to its root key, its CRLs are authentic, its documents are
  signed, so that under the overridden anchor a run gets as far as the gate a test is about.
\<close>

section \<open>The chains\<close>

lemma parts_fitE:
  assumes "parts_fit C R name pub pki P"
  obtains lp tp where "ca_params R ''dcap-verify synthetic Root CA'' = Some (rp P)"
    and "cert_as_asked C name pub (rp P) (rk P) (rp P, rk P) (root_c P)"
    and "ca_params R ''dcap-verify synthetic PCK CA'' = Some (cp P)"
    and "cert_as_asked C name pub (cp P) (ck P) (rp P, rk P) (pck_ca_c P)"
    and "named_params R ''dcap-verify synthetic PCK leaf'' = Some lp"
    and "cert_as_asked C name pub (lp\<lparr>serial_number := Some PCK_LEAF_SERIAL\<rparr>) (lk P) (cp P, ck P)
      (pck_leaf_c P)"
    and "named_params R INTEL_TCB_SIGNING_CN = Some tp"
    and "cert_as_asked C name pub tp (tk P) (rp P, rk P) (tcb_leaf_c P)"
  using assms unfolding parts_fit_def by (elim exE conjE) (rule that)

lemma parts_leaf:
  assumes "parts_fit C R name pub pki P"
  shows "issuer (pck_leaf_c P) = name (distinguished_name (cp P))"
    and "be_nat (raw_serial (pck_leaf_c P)) = be_nat PCK_LEAF_SERIAL"
    and "spki_data (pck_leaf_c P) = pub (lk P)"
  using parts_fitE [OF assms] by (simp_all add: cert_as_asked_def) metis+

lemma parts_keys:
  assumes "parts_fit C R name pub pki P"
  shows "from_pkcs8_der R (rc_serialize_der R (tk P)) = Some (doc_key pki)"
    and "rc_generate R 2 = Some (lk P)"
    and "root_sec1 pki = spki_data (root_c P)"
    and "\<forall>c\<in>{root_c P, pck_ca_c P, tcb_leaf_c P}. drawn_serial C R c"
  using assms unfolding parts_fit_def by blast+

lemma parts_crls:
  assumes "parts_fit C R name pub pki P"
  shows "crl_in_pem C (str_bytes (root_crl_pem pki)) (root_list P)"
    and "crl_as_asked C name pub (test_crl_params R UNRELATED_SERIAL) (rp P, rk P) (root_list P)"
    and "crl_in_pem C (str_bytes (pck_crl_clean_pem pki)) (clean_list P)"
    and "crl_as_asked C name pub (test_crl_params R UNRELATED_SERIAL) (cp P, ck P) (clean_list P)"
    and "crl_in_pem C (str_bytes (pck_crl_revoking_leaf_pem pki)) (revoking_list P)"
    and "crl_as_asked C name pub (test_crl_params R PCK_LEAF_SERIAL) (cp P, ck P) (revoking_list P)"
  using assms unfolding parts_fit_def by blast+

lemma crl_asked_serials:
  "crl_as_asked C name pub (test_crl_params R s) iss crl \<Longrightarrow>
     map be_nat (revoked_serials crl) = [be_nat s]"
  by (simp add: crl_as_asked_def test_crl_params_def)

lemma crl_asked_lists:
  assumes "crl_as_asked C name pub (test_crl_params R s) iss crl"
  shows "be_nat ` set (revoked_serials crl) = {be_nat s}"
  using arg_cong [OF crl_asked_serials [OF assms], of set] by simp

lemma asked_cert:
  assumes "cert_as_asked C name pub ps kp iss c"
    and "params_not_before ps = 157766400" and "params_not_after ps = 67090118400"
  shows "valid_at NOW_UNIX c" and "p256_sha256 c"
  using assms by (simp_all add: cert_as_asked_def valid_at_def NOW_UNIX_def)

lemma sound_path_two:
  "sound_path C now [a, b] \<longleftrightarrow>
     (\<forall>c\<in>{a, b}. valid_at now c \<and> p256_sha256 c) \<and> may_issue b \<and> issued_by C a b \<and> issued_by C b b"
  by (auto simp: sound_path_def less_Suc_eq_0_disj)

lemma sound_path_three:
  "sound_path C now [a, b, c] \<longleftrightarrow>
     valid_at now a \<and> p256_sha256 a \<and> issued_by C a b \<and> sound_path C now [b, c] \<and> may_issue b"
  by (auto simp: sound_path_def less_Suc_eq_0_disj)

lemma parts_sound:
  assumes lawful: "rcgen_lawful C R name pub" and fit: "parts_fit C R name pub pki P"
  shows "sound_path C NOW_UNIX [tcb_leaf_c P, root_c P]"
    and "sound_path C NOW_UNIX [pck_ca_c P, root_c P]"
    and "sound_path C NOW_UNIX [pck_leaf_c P, pck_ca_c P, root_c P]"
proof -
  obtain lp tp where
    root: "ca_params R ''dcap-verify synthetic Root CA'' = Some (rp P)"
      "cert_as_asked C name pub (rp P) (rk P) (rp P, rk P) (root_c P)"
    and ca: "ca_params R ''dcap-verify synthetic PCK CA'' = Some (cp P)"
      "cert_as_asked C name pub (cp P) (ck P) (rp P, rk P) (pck_ca_c P)"
    and lf: "named_params R ''dcap-verify synthetic PCK leaf'' = Some lp"
      "cert_as_asked C name pub (lp\<lparr>serial_number := Some PCK_LEAF_SERIAL\<rparr>) (lk P) (cp P, ck P)
         (pck_leaf_c P)"
    and tcb: "named_params R INTEL_TCB_SIGNING_CN = Some tp"
      "cert_as_asked C name pub tp (tk P) (rp P, rk P) (tcb_leaf_c P)"
    using parts_fitE [OF fit] by blast
  note root_ps = ca_of_new [OF lawful root(1)] and ca_ps = ca_of_new [OF lawful ca(1)]
    and lf_ps = named_of_new [OF lawful lf(1)] and tcb_ps = named_of_new [OF lawful tcb(1)]
  have each: "valid_at NOW_UNIX c \<and> p256_sha256 c"
    if "c \<in> {root_c P, pck_ca_c P, pck_leaf_c P, tcb_leaf_c P}" for c
    using that asked_cert [OF root(2) root_ps(1,2)] asked_cert [OF ca(2) ca_ps(1,2)]
      asked_cert [OF lf(2)] lf_ps(1,2) asked_cert [OF tcb(2) tcb_ps(1,2)] by auto
  have may: "may_issue (root_c P)" "may_issue (pck_ca_c P)"
    using root_ps(3,4) ca_ps(3,4)
    by (simp_all add: may_issue_as_asked [OF root(2)] may_issue_as_asked [OF ca(2)])
  have links: "issued_by C (root_c P) (root_c P)" "issued_by C (pck_ca_c P) (root_c P)"
    "issued_by C (tcb_leaf_c P) (root_c P)" "issued_by C (pck_leaf_c P) (pck_ca_c P)"
    using issued_as_asked [OF root(2), of "(rp P, rk P)"] issued_as_asked [OF ca(2), of "(rp P, rk P)"]
      issued_as_asked [OF tcb(2), of "(rp P, rk P)"] issued_as_asked [OF lf(2), of "(rp P, rk P)"]
      root(2) ca(2) by simp_all
  show "sound_path C NOW_UNIX [tcb_leaf_c P, root_c P]"
    "sound_path C NOW_UNIX [pck_ca_c P, root_c P]"
    "sound_path C NOW_UNIX [pck_leaf_c P, pck_ca_c P, root_c P]"
    unfolding sound_path_three sound_path_two using each may links by simp_all
qed

lemma parts_names:
  assumes lawful: "rcgen_lawful C R name pub" and fit: "parts_fit C R name pub pki P"
  shows "tcb_signer (tcb_info_chain (synthetic_chains P))"
    and "tcb_signer (qe_identity_chain (synthetic_chains P))"
    and "leaf_subject_raw (pck_crl_chain (synthetic_chains P)) =
      leaf_issuer_raw (pck_chain (synthetic_chains P))"
proof -
  obtain tp where "named_params R INTEL_TCB_SIGNING_CN = Some tp"
      "cert_as_asked C name pub tp (tk P) (rp P, rk P) (tcb_leaf_c P)"
    using parts_fitE [OF fit] by blast
  then have "first_common_name (subject (tcb_leaf_c P)) = Some INTEL_TCB_SIGNING_CN"
    using named_of_new(6) [OF lawful] by (simp add: cert_as_asked_def)
  then show "tcb_signer (tcb_info_chain (synthetic_chains P))"
    "tcb_signer (qe_identity_chain (synthetic_chains P))"
    by (simp_all add: tcb_signer_def synthetic_chains_def leaf_def)
  have "subject (pck_ca_c P) = issuer (pck_leaf_c P)"
    using parts_leaf(1) [OF fit] parts_fitE [OF fit] by (metis cert_as_asked_def)
  then show "leaf_subject_raw (pck_crl_chain (synthetic_chains P)) =
      leaf_issuer_raw (pck_chain (synthetic_chains P))"
    by (simp add: synthetic_chains_def leaf_def leaf_subject_raw_def leaf_issuer_raw_def)
qed

text \<open>Under the PKI's own anchor, everything up to the CRLs passes.\<close>

lemma synthetic_chains_pass:
  assumes lawful: "rcgen_lawful C R name pub" and fit: "parts_fit C R name pub pki P"
    and quote: "spliced_from pki q quote" and vendor: "qe_vendor_id (header q) = INTEL_QE_VENDOR_ID"
    and load: "chains_of C coll quote (synthetic_chains P)" and formats: "supported_formats coll"
  shows "verify_chains_under (Some (root_sec1 pki)) C NOW_UNIX coll quote (pki_mrenclave pki) =
    Inr (synthetic_chains P)"
proof -
  have root: "spki_data (root_c P) = anchor_sec1_under (Some (root_sec1 pki))"
    using parts_keys(3) [OF fit] by (simp add: anchor_sec1_under_def)
  have "qe_vendor_id (header quote) = INTEL_QE_VENDOR_ID" "mrenclave (report_body quote) = pki_mrenclave pki"
    using quote vendor by (auto simp: spliced_from_def with_cert_data_def)
  moreover have "\<forall>chain\<in>set (all_chains (synthetic_chains P)).
      spki_data (last (certs chain)) = anchor_sec1_under (Some (root_sec1 pki)) \<and>
      sound_path C NOW_UNIX (certs chain)"
    using parts_sound [OF lawful fit] root by (simp add: all_chains_def synthetic_chains_def)
  ultimately show ?thesis
    using load formats parts_names [OF lawful fit] unfolding verify_chains_under_ok by blast
qed

section \<open>The evidence\<close>

text \<open>The serial numbers \<^verbatim>\<open>rcgen\<close> chooses are not the two the tests use.\<close>

definition unlisted_serials :: "('k, 's) crates \<Rightarrow> ('n, 'kp, 'd) rcgen \<Rightarrow> bool" where
  "unlisted_serials C R \<longleftrightarrow>
     (\<forall>c. drawn_serial C R c \<longrightarrow> be_nat (raw_serial c) \<notin> {be_nat PCK_LEAF_SERIAL, be_nat UNRELATED_SERIAL})"

definition hex_round_trips :: "('k, 's) crates \<Rightarrow> bool" where
  "hex_round_trips C \<longleftrightarrow> (\<forall>bs. hex_decode C (hex_encode C bs) = Inr bs)"

text \<open>Both CRLs pass; what they list decides.\<close>

lemma synthetic_crls:
  assumes lawful: "rcgen_lawful C R name pub" and fit: "parts_fit C R name pub pki P"
    and key: "key_from_sec1 C (root_sec1 pki) = Inr k"
    and roots: "root_ca_crl coll = root_crl_pem pki"
    and crl: "crl_in_pem C (str_bytes (pck_crl coll)) l"
      "crl_as_asked C name pub (test_crl_params R s) (cp P, ck P) l"
  shows "check_revocation C NOW_UNIX coll k (synthetic_chains P) =
    ensure_none_revoked (all_chains (synthetic_chains P)) (crl_entries (root_list P) @ crl_entries l)"
proof -
  have dates: "crlp_this_update (test_crl_params R x) \<le> NOW_UNIX"
      "NOW_UNIX < crlp_next_update (test_crl_params R x)" for x
    using lawful by (simp_all add: rcgen_lawful_def dates_lawful_def test_crl_params_def NOW_UNIX_def)
  obtain ck' where ck': "key_from_sec1 C (pub (ck P)) = Inr ck'" using key_of_pair [OF lawful] .
  have parts: "cert_as_asked C name pub (rp P) (rk P) (rp P, rk P) (root_c P)"
    "cert_as_asked C name pub (cp P) (ck P) (rp P, rk P) (pck_ca_c P)"
    using parts_fitE [OF fit] by blast+
  note root_crl = parts_crls(1,2) [OF fit, folded roots]
  have "key_from_sec1 C (pub (snd (rp P, rk P))) = Inr k"
    using key parts(1) parts_keys(3) [OF fit] by (simp add: cert_as_asked_def)
  from authentic_as_asked [OF root_crl(2) this dates]
  have "authentic_crl C (root_subject_raw (pck_chain (synthetic_chains P))) k NOW_UNIX (root_list P)"
    using parts(1) by (simp add: synthetic_chains_def root_subject_raw_def root_def cert_as_asked_def)
  then have "check_crl C label (str_bytes (root_ca_crl coll))
      (root_subject_raw (pck_chain (synthetic_chains P))) k NOW_UNIX = Inr (crl_entries (root_list P))" for label
    using root_crl(1) unfolding check_crl_ok by blast
  moreover have "key_from_sec1 C (pub (snd (cp P, ck P))) = Inr ck'" using ck' by simp
  from authentic_as_asked [OF crl(2) this dates]
  have "authentic_crl C (leaf_issuer_raw (pck_chain (synthetic_chains P))) ck' NOW_UNIX l"
    using parts_leaf(1) [OF fit] by (simp add: synthetic_chains_def leaf_issuer_raw_def leaf_def)
  then have "check_crl C label (str_bytes (pck_crl coll))
      (leaf_issuer_raw (pck_chain (synthetic_chains P))) ck' NOW_UNIX = Inr (crl_entries l)" for label
    using crl(1) unfolding check_crl_ok by blast
  moreover have "leaf_verifying_key C (pck_crl_chain (synthetic_chains P)) = Inr ck'"
    using ck' parts(2) by (simp add: leaf_verifying_key_ok synthetic_chains_def leaf_def cert_as_asked_def)
  ultimately show ?thesis unfolding check_revocation_def by simp
qed

lemma ensure_none_revoked_error:
  assumes "ensure_none_revoked pcs revoked = Inl e"
  shows "\<exists>chain c. e = crl_error (revoked_detail chain c)"
  using assms unfolding ensure_none_revoked_def
  by (auto dest!: for_each_res_error simp: Let_def split: if_splits) blast

lemma revoked_detail_says: "str_contains (revoked_detail chain c) ''revoked''"
  using str_contains_middle [of "chain_kind_label (pc_kind chain) @ '': certificate '' @
      quoted (name_display (subject c)) @ '' (serial '' @ raw_serial_as_string c @ '') is ''"
      "''revoked''" "'' by its issuer''"]
  by (simp add: revoked_detail_def)

lemma synthetic_leaf_revoked:
  assumes fit: "parts_fit C R name pub pki P"
  shows "\<exists>e. ensure_none_revoked (all_chains (synthetic_chains P))
      (crl_entries (root_list P) @ crl_entries (revoking_list P)) = Inl e \<and>
    category e = CrlInvalid \<and> str_contains (detail e) ''revoked''"
proof -
  note crl = parts_crls(6) [OF fit] and leaf = parts_leaf [OF fit]
  have "map be_nat (revoked_serials (revoking_list P)) = [be_nat PCK_LEAF_SERIAL]"
    using crl by (rule crl_asked_serials)
  then have "listed_in (revoking_list P) (pck_leaf_c P)"
    using crl leaf by (auto simp: listed_in_def crl_as_asked_def map_eq_Cons_conv)
  moreover have "pck_leaf_c P \<in> set (certs (pck_chain (synthetic_chains P)))"
    "pck_chain (synthetic_chains P) \<in> set (all_chains (synthetic_chains P))"
    by (simp_all add: synthetic_chains_def all_chains_def)
  ultimately have "ensure_none_revoked (all_chains (synthetic_chains P))
      (crl_entries (root_list P) @ crl_entries (revoking_list P)) \<noteq> Inr ()"
    unfolding ensure_none_revoked_ok by blast
  then obtain e where e: "ensure_none_revoked (all_chains (synthetic_chains P))
      (crl_entries (root_list P) @ crl_entries (revoking_list P)) = Inl e"
    by (cases "ensure_none_revoked (all_chains (synthetic_chains P))
      (crl_entries (root_list P) @ crl_entries (revoking_list P))") auto
  from ensure_none_revoked_error [OF e] show ?thesis
    by (auto simp: e crl_error_def revoked_detail_says)
qed

lemma serials_differ: "be_nat PCK_LEAF_SERIAL \<noteq> be_nat UNRELATED_SERIAL"
  by (simp add: PCK_LEAF_SERIAL_def UNRELATED_SERIAL_def be_nat_def)

lemma synthetic_none_revoked:
  assumes fit: "parts_fit C R name pub pki P" and serials: "unlisted_serials C R"
  shows "ensure_none_revoked (all_chains (synthetic_chains P))
    (crl_entries (root_list P) @ crl_entries (clean_list P)) = Inr ()"
proof -
  note crls = crl_asked_lists [OF parts_crls(2) [OF fit]] crl_asked_lists [OF parts_crls(4) [OF fit]]
  have "be_nat (raw_serial c) \<noteq> be_nat UNRELATED_SERIAL"
    if "c \<in> {root_c P, pck_ca_c P, tcb_leaf_c P, pck_leaf_c P}" for c
    using that parts_keys(4) [OF fit] parts_leaf(2) [OF fit] serials serials_differ unfolding unlisted_serials_def by auto
  then have "\<not> listed_in (root_list P) c \<and> \<not> listed_in (clean_list P) c"
    if "c \<in> {root_c P, pck_ca_c P, tcb_leaf_c P, pck_leaf_c P}" for c
    using that crls unfolding listed_in_def by (metis imageI singletonD)
  then show ?thesis
    unfolding ensure_none_revoked_ok by (simp add: synthetic_chains_def all_chains_def)
qed

text \<open>Both documents are signed by the TCB signing leaf.\<close>

lemma synthetic_doc_signed:
  assumes fit: "parts_fit C R name pub pki P" and sign: "signing_lawful C R pub"
    and hex: "hex_round_trips C" and doc: "signature_hex d = sign_doc C R (doc_key pki) (body_json d)"
    and chain: "leaf chain = tcb_leaf_c P"
  shows "doc_signed C chain d"
proof -
  have "spki_data (tcb_leaf_c P) = pub (tk P)"
    using parts_fitE [OF fit] by (metis cert_as_asked_def)
  then show ?thesis
    using sign hex parts_keys(1) [OF fit] by (simp add: doc_signed_def doc sign_doc_def hex_round_trips_def chain signing_lawful_def)
qed

lemma synthetic_tcb_info_passes:
  assumes "parts_fit C R name pub pki P" and "signing_lawful C R pub" and "hex_round_trips C"
  shows "check_tcb_info_document C NOW_UNIX 0 (tcb_info_chain (synthetic_chains P))
    (synthetic_tcb_info C R pki) = Inr ()"
proof -
  have "doc_signed C (tcb_info_chain (synthetic_chains P)) (synthetic_tcb_info C R pki)"
    by (rule synthetic_doc_signed [OF assms])
      (simp_all add: synthetic_tcb_info_def Let_def synthetic_chains_def leaf_def)
  then show ?thesis
    unfolding check_tcb_info_document_ok tcb_info_accepted_def
    by (simp add: synthetic_tcb_info_def Let_def DOC_ISSUE_UNIX_def DOC_NEXT_UNIX_def NOW_UNIX_def)
qed

lemma zero_mask: "masked_eq a b (replicate n 0)"
  by (auto simp: masked_eq_def list_all_iff in_set_zip)

text \<open>The QE identity passes its signature and window; the match with the report decides.\<close>

lemma synthetic_qe_identity_eq:
  assumes "parts_fit C R name pub pki P" and "signing_lawful C R pub" and "hex_round_trips C"
  shows "check_qe_identity_document C NOW_UNIX 0 (qe_identity_chain (synthetic_chains P))
      (synthetic_qe_identity C R pki h) qe =
    check_qe_identity C (body (synthetic_qe_identity C R pki h)) qe"
proof -
  let ?d = "synthetic_qe_identity C R pki h"
  have "doc_signed C (qe_identity_chain (synthetic_chains P)) ?d"
    by (rule synthetic_doc_signed [OF assms])
      (simp_all add: synthetic_qe_identity_def Let_def synthetic_chains_def leaf_def)
  then obtain k where k: "leaf_verifying_key C (qe_identity_chain (synthetic_chains P)) = Inr k"
      "verify_raw_hex_signature C k (str_bytes (body_json ?d)) (signature_hex ?d) = Inr ()"
    unfolding doc_signed_def signed_raw_def verify_raw_hex_signature_ok leaf_verifying_key_ok by blast
  have "check_validity_window ''QE identity'' QeIdentityStale (qi_issue_date (body ?d))
      (qi_next_update (body ?d)) NOW_UNIX = Inr ()"
    unfolding doc_window.gate_ok
    by (simp add: synthetic_qe_identity_def Let_def DOC_ISSUE_UNIX_def DOC_NEXT_UNIX_def NOW_UNIX_def)
  then show ?thesis
    by (simp add: check_qe_identity_document_def k check_evaluation_round_def)
qed

lemma matching_identity_passes:
  assumes hex: "decodes_hex C" "hex_round_trips C" and "wf_report (pki_qe_report pki)"
  shows "check_qe_identity C (body (matching_qe_identity C R pki)) (pki_qe_report pki) = Inr ()"
proof -
  let ?i = "body (matching_qe_identity C R pki)" and ?r = "pki_qe_report pki"
  have "qi_id ?i = ''QE''" "isvprodid ?i = isv_prod_id ?r"
    by (simp_all add: matching_qe_identity_def synthetic_qe_identity_def Let_def)
  moreover have "hex_field C 32 (qi_mrsigner ?i) (mrsigner ?r)"
    using assms by (simp add: hex_field_def matching_qe_identity_def synthetic_qe_identity_def Let_def
        hex_round_trips_def wf_report_def)
  moreover have "hex_field C 4 (miscselect ?i) (replicate 4 0)" "hex_field C 4 (miscselect_mask ?i) (replicate 4 0)"
    "hex_field C 16 (qi_attributes ?i) (replicate 16 0)" "hex_field C 16 (attributes_mask ?i) (replicate 16 0)"
    using hex_values(3,6) [OF hex(1)]
    by (simp_all add: hex_field_def matching_qe_identity_def synthetic_qe_identity_def Let_def)
  moreover have "qe_level ?i (isv_svn ?r)
      \<lparr>qtcb = \<lparr>isvsvn = 0\<rparr>, qtcb_date = DOC_ISSUE_UNIX, qtcb_status = ''UpToDate'', qadvisory_ids = []\<rparr>"
    unfolding qe_level_def
    by (intro exI [of _ "[]"]) (simp add: matching_qe_identity_def synthetic_qe_identity_def Let_def)
  ultimately show ?thesis
    unfolding check_qe_identity_ok qe_matches_def using zero_mask by fastforce
qed

lemma mismatching_identity_fails:
  assumes hex: "decodes_hex C" and "mrsigner r \<noteq> replicate 32 0x22"
  shows "rejects_as QeIdentityMismatch
    (check_qe_identity C (body (synthetic_qe_identity C R pki (repeat_str ''22'' 32))) r)"
proof -
  have "decode_hex_field C 32 what (repeat_str ''22'' 32) = Inr (replicate 32 0x22)" for what
    by (rule decode_hex_field_known [OF hex_values(8) [OF hex]]) simp
  then show ?thesis
    using assms(2) by (simp add: check_qe_identity_def synthetic_qe_identity_def Let_def rejects_as_basic
        identity_mismatch_def)
qed

section \<open>The runs\<close>

lemma synthetic_formats:
  "supported_formats (synthetic_collateral C R pki crl (synthetic_qe_identity C R pki h))"
  by (simp add: supported_formats_def synthetic_collateral_def synthetic_tcb_info_def
      synthetic_qe_identity_def Let_def)

text \<open>A run under the PKI's own anchor is what the evidence gates make of it.\<close>

lemma run_with_anchor_eq:
  assumes "rcgen_lawful C R name pub" and fit: "parts_fit C R name pub pki P"
    and quote: "spliced_from pki q quote" and "qe_vendor_id (header q) = INTEL_QE_VENDOR_ID"
    and "chains_of C coll quote (synthetic_chains P)" and "supported_formats coll"
    and key: "key_from_sec1 C (root_sec1 pki) = Inr k"
  shows "run_with_anchor C pki coll =
    Some (and_then (verify_evidence C NOW_UNIX coll quote 0 k (synthetic_chains P)) (\<lambda>_. Inr ()))"
proof -
  have now: "unix_seconds (0 + NOW_UNIX * 10 ^ 9) = NOW_UNIX"
    by (simp add: NOW_UNIX_def unix_seconds_def i64_from_secs_def I64_MAX_def)
  have "fst (sgx_quote_read (quote_bytes pki)) = Inr quote"
    using quote by (simp add: spliced_from_def)
  then show ?thesis
    unfolding run_with_anchor_def run_under_def verify_remote_attestation_under_def now Let_def
    by (simp add: synthetic_chains_pass [OF assms(1-6)] pinned_root_key_under_def key result_ok_def)
qed

lemma root_key_decodes:
  assumes "rcgen_lawful C R name pub" and "parts_fit C R name pub pki P"
  obtains k where "key_from_sec1 C (root_sec1 pki) = Inr k"
proof -
  obtain k where "key_from_sec1 C (pub (rk P)) = Inr k" using key_of_pair [OF assms(1)] .
  moreover have "root_sec1 pki = pub (rk P)"
    using parts_fitE [OF assms(2)] parts_keys(3) [OF assms(2)] by (metis cert_as_asked_def)
  ultimately show thesis using that by simp
qed

text \<open>The generated leaf key did not sign the captured QE report.\<close>

lemma foreign_qe_report_fails:
  assumes lawful: "rcgen_lawful C R name pub" and fit: "parts_fit C R name pub pki P"
    and quote: "spliced_from pki q quote"
    and foreign: "\<not> signed_raw C (pub (lk P)) (qe_report_raw (signature q)) (qe_report_signature (signature q))"
  shows "rejects_as QeReportSignatureInvalid
    (check_qe_report_signature C (pck_chain (synthetic_chains P)) quote)"
proof -
  obtain k where k: "key_from_sec1 C (pub (lk P)) = Inr k" using key_of_pair [OF lawful] .
  have key: "leaf_verifying_key C (pck_chain (synthetic_chains P)) = Inr k"
    using k parts_leaf(3) [OF fit] by (simp add: leaf_verifying_key_ok synthetic_chains_def leaf_def)
  have same: "qe_report_raw (signature quote) = qe_report_raw (signature q)"
    "qe_report_signature (signature quote) = qe_report_signature (signature q)"
    using quote by (auto simp: spliced_from_def with_cert_data_def)
  have "\<not> (\<exists>s. sig_from_slice C (qe_report_signature (signature q)) = Inr s \<and>
      ecdsa_verify C k (qe_report_raw (signature q)) s)"
    using foreign k unfolding signed_raw_def by auto
  then show ?thesis
    unfolding check_qe_report_signature_def key same
    by (cases "sig_from_slice C (qe_report_signature (signature q))")
      (auto simp: rejects_as_basic verify_with_def)
qed

text \<open>Without the override, loading succeeds and the first chain does not end in the pinned key.\<close>

lemma foreign_root_rejected:
  assumes "qe_vendor_id (header quote) = INTEL_QE_VENDOR_ID" and "mrenclave (report_body quote) = m"
    and "check_document_formats coll = Inr ()"
    and "chains_of C coll quote ch" and "spki_data (root (tcb_info_chain ch)) \<noteq> anchor_sec1"
  shows "\<exists>e. verify_remote_attestation C t coll quote m minimum = Some (Inl e) \<and>
    category e = RootCaUntrusted"
proof -
  have load: "load_chains C coll quote = Inr ch"
    using assms(4) load_chains_ok by blast
  let ?e = "untrusted (anchor_detail (chain_kind_label (pc_kind (tcb_info_chain ch)))
    (root (tcb_info_chain ch)))"
  have "chain_validate C (tcb_info_chain ch) now = Inl ?e" for now
    using assms(5) by (simp add: chain_validate_def chain_validate_under_def anchor_sec1_def)
  then have "for_each_res (\<lambda>chain. chain_validate C chain now) (all_chains ch) = Inl ?e" for now
    by (simp add: all_chains_def)
  then have "verify_chains C now coll quote m = Inl ?e" for now
    by (simp add: verify_chains_unfold check_qe_vendor_def assms(1) check_mrenclave_def assms(2,3) load)
  then have "verify_remote_attestation C t coll quote m minimum = Some (Inl ?e)"
    by (simp add: verify_remote_attestation_unfold Let_def)
  then show ?thesis by (simp add: untrusted_def)
qed

section \<open>Properties\<close>


text \<open>C24. A complete PKI of one's own does not get past the pinned anchor: for every generated PKI whose
  root key is not Intel's, the spliced quote with matching, freshly signed collateral is rejected
  as untrusted.\<close>

theorem synthetic_pki_dies_at_the_anchor:
  assumes build: "build_pki C R (Some orig) = Some pki" and size: "chains_fit pki"
    and "root_sec1 pki \<noteq> INTEL_SGX_ROOT_CA_PUBLIC_KEY_SEC1"
    and lawful: "rcgen_lawful C R name pub" and pem: "pem_round_trips C R"
    and q: "fst (sgx_quote_read orig) = Inr q" "length (qe_auth_data (signature q)) = 32"
    and vendor: "qe_vendor_id (header q) = INTEL_QE_VENDOR_ID"
  shows "synthetic_chain_without_override_dies_at_the_anchor C R pki"
proof -
  obtain P quote where fit: "parts_fit C R name pub pki P" and quote: "spliced_from pki q quote"
    and load: "\<And>crl qe. chains_of C (synthetic_collateral C R pki crl qe) quote (synthetic_chains P)"
    using build_pki_parts [OF build lawful pem q size] by blast
  have "spki_data (root (tcb_info_chain (synthetic_chains P))) \<noteq> anchor_sec1"
    using parts_keys(3) [OF fit] assms(3) by (simp add: anchor_sec1_intel synthetic_chains_def root_def)
  moreover have same: "qe_vendor_id (header quote) = INTEL_QE_VENDOR_ID"
    "mrenclave (report_body quote) = pki_mrenclave pki" "fst (sgx_quote_read (quote_bytes pki)) = Inr quote"
    using quote vendor by (auto simp: spliced_from_def with_cert_data_def)
  moreover have "check_document_formats
      (synthetic_collateral C R pki (pck_crl_clean_pem pki) (matching_qe_identity C R pki)) = Inr ()"
    using synthetic_formats unfolding matching_qe_identity_def check_document_formats_ok .
  ultimately obtain e where
    "verify_remote_attestation C (0 + NOW_UNIX * 10 ^ 9)
      (synthetic_collateral C R pki (pck_crl_clean_pem pki) (matching_qe_identity C R pki)) quote
      (pki_mrenclave pki) 0 = Some (Inl e)"
    "category e = RootCaUntrusted"
    using foreign_root_rejected [OF same(1,2) _ load] by blast
  then show ?thesis
    using same(3) by (simp add: synthetic_chain_without_override_dies_at_the_anchor_def
        run_without_anchor_def run_under_def result_ok_def rejects_as_basic
        verify_remote_attestation_def)
qed

text \<open>C38. Splicing another certificate chain into a captured quote yields a quote the parser accepts in
  full, and that differs from the captured one in its certification data only: both length fields
  are adjusted, whatever followed the captured quote is gone.\<close>

theorem splice_replaces_certificates:
  assumes "fst (sgx_quote_read orig) = Inr q" and "length (qe_auth_data (signature q)) = 32"
    and "length chain + 616 < 2 ^ 32"
  shows "\<exists>spliced. splice_cert_data orig chain = Some spliced \<and>
    sgx_quote_read spliced = (Inr (with_cert_data q (str_bytes chain)), [])"
  by (rule splice_reads [OF assms])

end
