(* ===== verification/Lab.thy ===== *)
theory Lab
  imports Witnesses Synthetic_Runs
begin

text \<open>
  Stand-ins for \<^verbatim>\<open>rcgen\<close> and for the crates that read what it writes: a generator that knows a
  fixed list of requests, those of the repository's tests. The certificate of the \<open>i\<close>-th request
  is the one byte \<open>0x80 + i\<close>, a CRL \<open>0xC0 + i\<close>, their PEM text that one character; decoding
  looks the request up. A key pair is a byte, and signs a message with the message's first byte and
  itself. Everything the theory \<open>Rcgen\<close> asks of a generator holds of it.
\<close>

section \<open>The generator\<close>

definition lab_new :: "string option certificate_params" where
  "lab_new =
     \<lparr>distinguished_name = Some ''rcgen self signed cert'', params_is_ca = NoCa, key_usages = [],
      serial_number = None, custom_extensions = [], params_not_before = 157766400,
      params_not_after = 67090118400\<rparr>"

fun lab_push :: "string option \<Rightarrow> dn_type \<Rightarrow> string \<Rightarrow> string option" where
  "lab_push dn CommonName s = Some s"
| "lab_push dn OrganizationName s = dn"

definition lab_date :: "int \<Rightarrow> nat \<Rightarrow> nat \<Rightarrow> int" where
  "lab_date y m d =
     (if y = 2027 then 1798761600 else if m = 6 then 1780272000 else 1767225600)"

definition lab_base :: "(string option, byte, byte) rcgen" where
  "lab_base =
     \<lparr>rc_generate = (\<lambda>i. Some (of_nat i + 10)), rc_params_new = (\<lambda>_. Some lab_new),
      rc_dn_push = lab_push, rc_self_signed = (\<lambda>_ _. None), rc_signed_by = (\<lambda>_ _ _. None),
      rc_crl_pem = (\<lambda>_ _. None), rc_date_time_ymd = lab_date, rc_serialize_der = (\<lambda>kp. [kp]),
      from_pkcs8_der = (\<lambda>bs. if bs = [] then None else Some (hd bs)),
      p256_sign = (\<lambda>key m. [hd m, key]),
      pem_encode = (\<lambda>_ der. map (\<lambda>b. char_of (unat b)) der)\<rparr>"

definition lab_named :: "string \<Rightarrow> string option certificate_params" where
  "lab_named cn = lab_new\<lparr>distinguished_name := Some cn\<rparr>"

definition lab_ca :: "string \<Rightarrow> string option certificate_params" where
  "lab_ca cn = (lab_named cn)\<lparr>params_is_ca := Ca, key_usages := [KeyCertSign, CrlSign]\<rparr>"

definition lab_test_params :: "is_ca \<Rightarrow> key_usage_purpose list \<Rightarrow> string option certificate_params" where
  "lab_test_params ca usages =
     (lab_named ''dcap-verify test certificate'')\<lparr>params_is_ca := ca, key_usages := usages\<rparr>"

type_synonym lab_request =
  "string option certificate_params \<times> byte \<times> (string option, byte) cert_issuer"

definition self_request :: "string option certificate_params \<Rightarrow> byte \<Rightarrow> lab_request" where
  "self_request ps kp = (ps, kp, (ps, kp))"

definition lab_requests :: "lab_request list" where
  "lab_requests =
     map (\<lambda>cn. (pck_test_leaf lab_base lab_new [1], 11, (pck_test_ca lab_base lab_new cn, 10)))
       test_issuer_names @
     map (\<lambda>(i, ca, usages). self_request (lab_test_params ca usages) (of_nat i + 10)) issuer_test_cases @
     [self_request (lab_ca ''dcap-verify test CA'') 10,
      ((lab_named ''dcap-verify test leaf'')\<lparr>serial_number := Some LEAF_SERIAL\<rparr>, 11,
       (lab_ca ''dcap-verify test CA'', 10)),
      self_request (lab_ca ''dcap-verify synthetic Root CA'') 10,
      (lab_ca ''dcap-verify synthetic PCK CA'', 11, (lab_ca ''dcap-verify synthetic Root CA'', 10)),
      ((lab_named ''dcap-verify synthetic PCK leaf'')\<lparr>serial_number := Some PCK_LEAF_SERIAL\<rparr>, 12,
       (lab_ca ''dcap-verify synthetic PCK CA'', 11)),
      (lab_named INTEL_TCB_SIGNING_CN, 13, (lab_ca ''dcap-verify synthetic Root CA'', 10))]"

definition lab_crl_requests :: "(crl_params \<times> (string option, byte) cert_issuer) list" where
  "lab_crl_requests =
     [(test_crl_params lab_base LEAF_SERIAL, lab_ca ''dcap-verify test CA'', 10),
      (test_crl_params lab_base OTHER_SERIAL, lab_ca ''dcap-verify test CA'', 10),
      (test_crl_params lab_base UNRELATED_SERIAL, lab_ca ''dcap-verify synthetic Root CA'', 10),
      (test_crl_params lab_base UNRELATED_SERIAL, lab_ca ''dcap-verify synthetic PCK CA'', 11),
      (test_crl_params lab_base PCK_LEAF_SERIAL, lab_ca ''dcap-verify synthetic PCK CA'', 11)]"

definition position :: "'a \<Rightarrow> 'a list \<Rightarrow> nat option" where
  "position x xs = List.find (\<lambda>i. xs ! i = x) [0..<length xs]"

definition lab_issue :: "lab_request \<Rightarrow> bytes option" where
  "lab_issue r = map_option (\<lambda>i. [of_nat (0x80 + i)]) (position r lab_requests)"

definition lab_gen :: "(string option, byte, byte) rcgen" where
  "lab_gen = lab_base
     \<lparr>rc_self_signed := (\<lambda>ps kp. lab_issue (self_request ps kp)),
      rc_signed_by := (\<lambda>ps kp iss. lab_issue (ps, kp, iss)),
      rc_crl_pem := (\<lambda>cp iss. map_option (\<lambda>i. [char_of (0xC0 + i)]) (position (cp, iss) lab_crl_requests))\<rparr>"

section \<open>What reads its output\<close>

definition lab_name :: "string option \<Rightarrow> x509_name" where
  "lab_name dn =
     \<lparr>name_raw = (case dn of None \<Rightarrow> [] | Some cn \<Rightarrow> str_bytes cn),
      common_names = (case dn of None \<Rightarrow> [] | Some cn \<Rightarrow> [Some cn]), name_display = ''''\<rparr>"

definition lab_pub :: "byte \<Rightarrow> bytes" where
  "lab_pub kp = 4 # replicate 63 0 @ [kp]"

fun lab_cert :: "byte \<Rightarrow> lab_request \<Rightarrow> x509_cert" where
  "lab_cert b (ps, kp, iss) =
     \<lparr>subject = lab_name (distinguished_name ps), issuer = lab_name (distinguished_name (fst iss)),
      not_before = params_not_before ps, not_after = params_not_after ps,
      signature_algorithm = sig_alg, tbs_signature = sig_alg, spki_algorithm = ec_alg,
      spki_data = lab_pub kp, signature_value = [b, snd iss], tbs_certificate = [b],
      raw_serial = (case serial_number ps of Some s \<Rightarrow> s | None \<Rightarrow> [b]), raw_serial_as_string = ''00'',
      basic_constraints = Inr (map_option (\<lambda>ca. \<lparr>bc_ca = ca, bc_path_len = None\<rparr>)
        (constraints_of (params_is_ca ps))),
      key_usage_cert_sign =
        Inr (if key_usages ps = [] then None else Some (KeyCertSign \<in> set (key_usages ps))),
      extensions = map (\<lambda>(arcs, val). (dotted arcs, val)) (custom_extensions ps)\<rparr>"

fun lab_crl :: "byte \<Rightarrow> crl_params \<times> (string option, byte) cert_issuer \<Rightarrow> x509_crl" where
  "lab_crl b (ps, iss) =
     \<lparr>crl_issuer = lab_name (distinguished_name (fst iss)), crl_signature_algorithm = sig_alg,
      crl_tbs_signature = sig_alg, last_update = crlp_this_update ps,
      next_update = Some (crlp_next_update ps), crl_signature_value = [b, snd iss],
      tbs_cert_list = [b], revoked_serials = map rcp_serial_number (crlp_revoked_certs ps)\<rparr>"

declare lab_cert.simps [simp del] lab_crl.simps [simp del]

definition look_up :: "(byte \<Rightarrow> 'r \<Rightarrow> 'a) \<Rightarrow> nat \<Rightarrow> 'r list \<Rightarrow> bytes \<Rightarrow> string + 'a" where
  "look_up f base rs der =
     (if length der = 1 \<and> base \<le> unat (hd der) \<and> unat (hd der) - base < length rs
      then Inr (f (hd der) (rs ! (unat (hd der) - base))) else Inl ''unknown'')"

definition lab :: "(bytes, bytes) crates" where
  "lab = toy
     \<lparr>pem_parse_many := (\<lambda>bs. Inr (map (\<lambda>b.
        \<lparr>pem_tag = (if 0xC0 \<le> b \<and> b < 0xE0 then ''X509 CRL'' else ''CERTIFICATE''),
         pem_contents = [b]\<rparr>) (filter (\<lambda>b. 0x80 \<le> b) bs))),
      cert_from_der := look_up lab_cert 0x80 lab_requests,
      crl_from_der := look_up lab_crl 0xC0 lab_crl_requests\<rparr>"

section \<open>It behaves as documented\<close>

lemma position_found:
  "position x xs = Some i \<Longrightarrow> i < length xs \<and> xs ! i = x"
  by (auto simp: position_def find_Some_iff)

lemma position_member: "x \<in> set xs \<Longrightarrow> \<exists>i. position x xs = Some i"
  by (cases "position x xs") (auto simp: position_def find_None_iff in_set_conv_nth)

lemma lengths: "length lab_requests = 14" "length lab_crl_requests = 5"
  by (simp_all add: lab_requests_def lab_crl_requests_def test_issuer_names_def issuer_test_cases_def)

lemma small_byte: "n < 256 \<Longrightarrow> unat (of_nat n :: byte) = n"
  by (simp only: unat_of_nat_byte mod_less)

lemma char_byte: "n < 256 \<Longrightarrow> of_char (char_of n) = (of_nat n :: byte)"
  by (metis of_nat_of_char of_char_of mod_less)

lemma byte_char: "of_char (char_of (unat b)) = (b :: byte)"
  using unsigned_less [of b, where ?'a = nat] by (simp add: char_byte)

lemma look_up_found:
  assumes "position r rs = Some i" and "base + length rs \<le> 256"
  shows "look_up f base rs [of_nat (base + i)] = Inr (f (of_nat (base + i)) r)"
proof -
  have "i < length rs" "rs ! i = r" using position_found [OF assms(1)] by simp_all
  moreover from this have "unat (of_nat (base + i) :: byte) = base + i"
    using assms(2) by (intro small_byte) simp
  ultimately show ?thesis by (simp add: look_up_def del: of_nat_add)
qed

lemma lab_issue_found:
  assumes "lab_issue r = Some der"
  shows "\<exists>b. der = [b] \<and> 0x80 \<le> b \<and> b < 0xC0 \<and> cert_from_der lab der = Inr (lab_cert b r)"
proof -
  from assms obtain i where i: "position r lab_requests = Some i" "der = [of_nat (0x80 + i)]"
    by (auto simp: lab_issue_def)
  have "i < 14" using position_found [OF i(1)] by (simp add: lengths)
  then have "unat (of_nat (0x80 + i) :: byte) = 0x80 + i" by (intro small_byte) simp
  with \<open>i < 14\<close> have "0x80 \<le> (of_nat (0x80 + i) :: byte)" "(of_nat (0x80 + i) :: byte) < 0xC0"
    by (simp_all add: word_le_nat_alt word_less_nat_alt del: of_nat_add)
  then show ?thesis
    using look_up_found [OF i(1), where base = "0x80" and f = lab_cert] i(2) by (simp add: lab_def lengths del: of_nat_add)
qed

lemma lab_signs: "signed_der lab (lab_pub kp) m s \<longleftrightarrow> s \<noteq> [] \<and> take 2 s = [hd m, kp]"
  by (auto simp: signed_der_def lab_def toy_def lab_pub_def)

lemma sig_profile: "p256_sha256 (lab_cert b r)"
  by (cases r) (simp add: p256_sha256_def toy_alg_defs lab_cert.simps)

lemma lab_cert_as_asked: "cert_as_asked lab lab_name lab_pub ps kp iss (lab_cert b (ps, kp, iss))"
  using sig_profile [of b "(ps, kp, iss)"]
  by (cases "params_is_ca ps") (auto simp: cert_as_asked_def lab_signs lab_cert.simps)

lemma lab_crl_made:
  assumes "rc_crl_pem lab_gen ps iss = Some pem"
  shows "\<exists>crl. crl_in_pem lab (str_bytes pem) crl \<and> crl_as_asked lab lab_name lab_pub ps iss crl"
proof -
  from assms obtain i where i: "position (ps, iss) lab_crl_requests = Some i" "pem = [char_of (0xC0 + i)]"
    by (auto simp: lab_gen_def)
  let ?b = "of_nat (0xC0 + i) :: byte"
  have "i < 5" using position_found [OF i(1)] by (simp add: lengths)
  then have u: "unat ?b = 0xC0 + i" by (intro small_byte) simp
  have bytes: "str_bytes pem = [?b]"
    using \<open>i < 5\<close> char_byte [of "0xC0 + i"] by (simp add: i(2) str_bytes_def)
  have "?b \<noteq> 0" "0x80 \<le> ?b" "0xC0 \<le> ?b" "?b < 0xE0" "\<not> trailing_junk ?b"
    using u \<open>i < 5\<close> by (auto simp: word_le_nat_alt word_less_nat_alt trailing_junk_def
        is_ascii_whitespace_def word_unat_eq_iff simp del: of_nat_add)
  then have "crl_in_pem lab (str_bytes pem) (lab_crl ?b (ps, iss))"
    using look_up_found [OF i(1), where base = "0xC0" and f = lab_crl] str_contains_middle [of "''X509 ''" "''CRL''" "[]"]
    unfolding crl_in_pem_def bytes trim_trailing_junk_alt by (simp add: lab_def lengths del: of_nat_add)
  moreover have "crl_as_asked lab lab_name lab_pub ps iss (lab_crl ?b (ps, iss))"
    by (simp add: crl_as_asked_def lab_signs toy_alg_defs lab_crl.simps)
  ultimately show ?thesis by blast
qed

lemma lab_rcgen_lawful: "rcgen_lawful lab lab_gen lab_name lab_pub"
  unfolding rcgen_lawful_def
proof (intro conjI allI impI)
  show "dates_lawful lab_gen" by (simp add: dates_lawful_def lab_gen_def lab_base_def lab_date_def)
  show "defaults_lawful lab_gen"
    by (simp add: defaults_lawful_def lab_gen_def lab_base_def lab_new_def)
  show "names_lawful lab_gen lab_name"
    by (simp add: names_lawful_def lab_gen_def lab_base_def lab_new_def lab_name_def
        first_common_name_def PCK_PROCESSOR_CA_CN_def PCK_PLATFORM_CA_CN_def split: option.splits)
  show "\<exists>k. key_from_sec1 lab (lab_pub kp) = Inr k" for kp by (simp add: lab_def toy_def lab_pub_def)
  show "\<exists>c. cert_from_der lab der = Inr c \<and> cert_as_asked lab lab_name lab_pub ps kp iss c"
    if "rc_signed_by lab_gen ps kp iss = Some der" for ps kp iss der
    using lab_issue_found [of "(ps, kp, iss)" der] that lab_cert_as_asked [of ps kp iss _]
    by (auto simp: lab_gen_def)
  show "\<exists>c. cert_from_der lab der = Inr c \<and> cert_as_asked lab lab_name lab_pub ps kp (ps, kp) c"
    if "rc_self_signed lab_gen ps kp = Some der" for ps kp der
    using lab_issue_found [of "(ps, kp, (ps, kp))" der] that lab_cert_as_asked [of ps kp "(ps, kp)" _]
    by (auto simp: lab_gen_def self_request_def)
  show "\<exists>crl. crl_in_pem lab (str_bytes pem) crl \<and> crl_as_asked lab lab_name lab_pub ps iss crl"
    if "rc_crl_pem lab_gen ps iss = Some pem" for ps iss pem
    using lab_crl_made [OF that] .
qed

lemma lab_signing_lawful: "signing_lawful lab lab_gen lab_pub"
  by (auto simp: signing_lawful_def signed_raw_def lab_def toy_def lab_gen_def lab_base_def lab_pub_def)

lemma lab_der:
  assumes "rcgen_made lab_gen d"
  obtains b where "d = [b]" and "0x80 \<le> b" and "b < 0xC0"
proof -
  obtain r where "lab_issue r = Some d"
    using assms that unfolding rcgen_made_def by (auto simp: lab_gen_def self_request_def)
  then show thesis using lab_issue_found that by blast
qed

lemma untrimmed: "(\<And>b. b \<in> set bs \<Longrightarrow> \<not> trailing_junk b) \<Longrightarrow> trim_trailing_junk bs = bs"
  by (cases bs rule: rev_cases) (simp_all add: trim_trailing_junk_alt)

lemma lab_pem_text:
  assumes "\<forall>d\<in>set ds. rcgen_made lab_gen d"
  shows "str_bytes (chain_pem lab_gen ds) = concat ds"
    and "\<forall>b\<in>set (concat ds). 0x80 \<le> b \<and> b < 0xC0"
    and "map (\<lambda>b. [b]) (concat ds) = ds"
proof -
  have "str_bytes (map (\<lambda>b. char_of (unat b)) bs) = bs" for bs :: bytes
    by (induction bs) (simp_all add: str_bytes_def byte_char)
  then show "str_bytes (chain_pem lab_gen ds) = concat ds"
    by (simp add: chain_pem_def lab_gen_def lab_base_def map_concat [symmetric] o_def)
  show "\<forall>b\<in>set (concat ds). 0x80 \<le> b \<and> b < 0xC0" "map (\<lambda>b. [b]) (concat ds) = ds"
    using assms by (induction ds) (auto elim: lab_der)
qed

lemma lab_pem_round_trips: "pem_round_trips lab lab_gen"
  unfolding pem_round_trips_def pem_lawful_def
proof (intro allI impI)
  fix ds assume ds: "\<forall>d\<in>set ds. rcgen_made lab_gen d"
  note pems = lab_pem_text [OF ds]
  have "\<not> trailing_junk b" if "b \<in> set (concat ds)" for b
  proof -
    have "0x80 \<le> unat b" using pems(2) that by (auto simp: word_le_nat_alt)
    then show ?thesis by (auto simp: trailing_junk_def is_ascii_whitespace_def)
  qed
  then have "trim_trailing_junk (concat ds) = concat ds"
    by (rule untrimmed)
  moreover have "filter (\<lambda>b. 0x80 \<le> b) (concat ds) = concat ds"
    using pems(2) by simp
  moreover have "map (\<lambda>b. \<lparr>pem_tag = (if 0xC0 \<le> b \<and> b < 0xE0 then ''X509 CRL'' else ''CERTIFICATE''),
      pem_contents = [b]\<rparr>) (concat ds) =
    map (\<lambda>b. \<lparr>pem_tag = ''CERTIFICATE'', pem_contents = [b]\<rparr>) (concat ds)"
    using pems(2) by (intro map_cong refl) (simp add: not_le del: set_concat)
  moreover have "\<dots> = map (\<lambda>d. \<lparr>pem_tag = ''CERTIFICATE'', pem_contents = d\<rparr>) (map (\<lambda>b. [b]) (concat ds))"
    by simp
  ultimately show "pem_parse_many lab (trim_trailing_junk (str_bytes (chain_pem lab_gen ds))) =
      Inr (map (\<lambda>d. \<lparr>pem_tag = ''CERTIFICATE'', pem_contents = d\<rparr>) ds)"
    unfolding pems(1) pems(3) by (simp add: lab_def)
qed


lemma lab_unlisted: "unlisted_serials lab lab_gen"
  unfolding unlisted_serials_def drawn_serial_def
proof (intro allI impI, elim exE conjE)
  fix c ps kp iss der
  assume none: "serial_number ps = None" and der: "cert_from_der lab der = Inr c"
    and "rc_self_signed lab_gen ps kp = Some der \<or> rc_signed_by lab_gen ps kp iss = Some der"
  then obtain iss' where "lab_issue (ps, kp, iss') = Some der"
    unfolding lab_gen_def self_request_def by (cases iss) auto
  from lab_issue_found [OF this] obtain b where "c = lab_cert b (ps, kp, iss')"
    using der by auto
  then have "be_nat (raw_serial c) = unat b" using none by (simp add: lab_cert.simps be_nat_def)
  moreover have "unat b < 256" using unsigned_less [of b, where ?'a = nat] by simp
  moreover have "be_nat PCK_LEAF_SERIAL = 23041" "be_nat UNRELATED_SERIAL = 23042"
    by (simp_all add: PCK_LEAF_SERIAL_def UNRELATED_SERIAL_def be_nat_def)
  ultimately show "be_nat (raw_serial c) \<notin> {be_nat PCK_LEAF_SERIAL, be_nat UNRELATED_SERIAL}"
    by simp
qed

lemma nibble_digit: "d < 16 \<Longrightarrow> nibble (hex_digit d) = Some d"
  by (auto simp: nibble_def hex_digit_def Let_def)

lemma unhex_hex: "unhex (hex bs) = Inr bs"
proof (induction bs)
  case Nil
  then show ?case by simp
next
  case (Cons b bs)
  have "unat b div 16 < 16"
    using unsigned_less [of b, where ?'a = nat] by (simp add: less_mult_imp_div_less)
  moreover have "16 * (unat b div 16) + unat b mod 16 = unat b" by simp
  ultimately show ?case
    using Cons by (simp only: hex.simps unhex.simps nibble_digit mod_less_divisor option.case
        prod.case and_then_simps of_nat_unat ucast_id zero_less_numeral)
qed

lemma lab_hex: "decodes_hex lab" "hex_round_trips lab"
  by (simp_all add: decodes_hex_def hex_round_trips_def lab_def toy_def unhex_hex)

section \<open>It makes what the tests ask for\<close>

lemma lab_issues: "r \<in> set lab_requests \<Longrightarrow> \<exists>b. lab_issue r = Some [b]"
  using position_member [of r lab_requests] by (auto simp: lab_issue_def)

lemma lab_lists: "r \<in> set lab_crl_requests \<Longrightarrow> \<exists>b. rc_crl_pem lab_gen (fst r) (snd r) = Some [b]"
  using position_member [of r lab_crl_requests] by (cases r) (auto simp: lab_gen_def)

lemma lab_gen_simps:
  "rc_generate lab_gen i = Some (of_nat i + 10)" "rc_params_new lab_gen xs = Some lab_new"
  "rc_dn_push lab_gen = lab_push" "rc_self_signed lab_gen ps kp = lab_issue (ps, kp, (ps, kp))"
  "rc_signed_by lab_gen ps kp iss = lab_issue (ps, kp, iss)"
  "test_crl_params lab_gen s = test_crl_params lab_base s"
  "pck_test_ca lab_gen = pck_test_ca lab_base" "pck_test_leaf lab_gen = pck_test_leaf lab_base"
  "from_pkcs8_der lab_gen (rc_serialize_der lab_gen kp) = Some kp"
  by (simp_all add: lab_gen_def lab_base_def self_request_def test_crl_params_def fun_eq_iff
      pck_test_ca_def pck_test_leaf_def split: option.splits)

lemma lab_params:
  "named_params lab_gen cn = Some (lab_named cn)" "ca_params lab_gen cn = Some (lab_ca cn)"
  by (simp_all add: named_params_def ca_params_def lab_gen_simps lab_named_def lab_ca_def)

lemma lab_generates_certs: "generates_certs lab_gen"
  unfolding generates_certs_def
proof clarify
  fix i ca usages assume "(i, ca, usages) \<in> set issuer_test_cases"
  then have "self_request (lab_test_params ca usages) (of_nat i + 10) \<in> set lab_requests"
    by (force simp: lab_requests_def)
  from lab_issues [OF this] show "\<exists>der. test_cert_der lab_gen i ca usages = Some der"
    by (auto simp: test_cert_der_def lab_gen_simps self_request_def lab_test_params_def lab_named_def)
qed

lemma lab_generates_crls: "generates_crls lab_gen"
proof -
  let ?ca = "lab_ca ''dcap-verify test CA''"
  let ?lf = "(lab_named ''dcap-verify test leaf'')\<lparr>serial_number := Some LEAF_SERIAL\<rparr>"
  have "self_request ?ca 10 \<in> set lab_requests" "(?lf, 11, (?ca, 10)) \<in> set lab_requests"
    by (simp_all add: lab_requests_def)
  then obtain a b where ab: "lab_issue (?ca, 10, (?ca, 10)) = Some a" "lab_issue (?lf, 11, (?ca, 10)) = Some b"
    using lab_issues unfolding self_request_def by blast
  have "(test_crl_params lab_base s, ?ca, 10) \<in> set lab_crl_requests" if "s \<in> {LEAF_SERIAL, OTHER_SERIAL}" for s
    using that by (auto simp: lab_crl_requests_def)
  then have "\<exists>c. rc_crl_pem lab_gen (test_crl_params lab_base s) (?ca, 10) = Some c"
    if "s \<in> {LEAF_SERIAL, OTHER_SERIAL}" for s
    using lab_lists [of "(test_crl_params lab_base s, ?ca, 10)"] that by auto
  then have "fake_ca_leaf_and_crl lab_gen s \<noteq> None" if "s \<in> {LEAF_SERIAL, OTHER_SERIAL}" for s
    using that ab by (auto simp: fake_ca_leaf_and_crl_def lab_gen_simps lab_ca_def lab_named_def)
  then show ?thesis by (simp add: generates_crls_def)
qed

section \<open>The captured quote of the lab\<close>

text \<open>Its chain is the PCK leaf of the first request, issued by the platform CA.\<close>

definition lab_quote :: sgx_quote where
  "lab_quote = with_cert_data toy_quote [0x80]"

abbreviation lab_prod1_leaf :: x509_cert where
  "lab_prod1_leaf \<equiv> lab_cert 0x80 (pck_test_leaf lab_base lab_new [1], 11,
     (pck_test_ca lab_base lab_new (Some PCK_PLATFORM_CA_CN), 10))"

lemma lab_chain: "prod1_chain lab lab_quote = Inr \<lparr>pc_kind = QuotePck, certs = [lab_prod1_leaf]\<rparr>"
proof -
  have "cert_from_der lab [0x80] = Inr lab_prod1_leaf"
    by (simp add: lab_def look_up_def lengths)
      (simp add: lab_requests_def test_issuer_names_def)
  moreover have "trim_trailing_junk [0x80] = [0x80]"
    by (rule untrimmed) (auto simp: trailing_junk_def is_ascii_whitespace_def)
  then have "from_pem lab QuotePck [0x80] = Inr \<lparr>cc_kind = QuotePck, ders = [[0x80]]\<rparr>"
    by (simp add: from_pem_ok lab_def)
  ultimately show ?thesis
    by (simp add: prod1_chain_def lab_quote_def with_cert_data_def and_then_eq_Inr chain_parse_ok)
qed

lemma lab_prod1_extensions: "extensions lab_prod1_leaf = [(SGX_PCK_EXTENSION_OID, [1])]"
proof -
  have "custom_extensions (pck_test_leaf lab_base lab_new [1]) = [([1, 2, 840, 113741, 1, 13, 1], [1])]"
    by (simp add: pck_test_leaf_def)
  then show ?thesis
    by (simp only: lab_cert.simps x509_cert.simps list.map prod.case sgx_oid_dotted)
qed

lemma lab_platform: "prod1_pck_platform_tcb lab lab_quote = Some toy_platform"
proof -
  have "List.find (\<lambda>e. fst e = SGX_PCK_EXTENSION_OID) (extensions (leaf (pck_chain toy_chains))) =
      Some (SGX_PCK_EXTENSION_OID, [1])"
    by (simp add: leaf_def toy_chains_def toy_cert_defs)
  moreover have "parse_der lab = parse_der toy" by (simp add: lab_def)
  ultimately have "extract_pck_platform_tcb lab \<lparr>pc_kind = QuotePck, certs = [lab_prod1_leaf]\<rparr> =
      extract_pck_platform_tcb toy (pck_chain toy_chains)"
    unfolding extract_pck_platform_tcb_def by (simp add: leaf_def lab_prod1_extensions)
  then show ?thesis
    by (simp add: prod1_pck_platform_tcb_def lab_chain toy_extract result_ok_def)
qed

lemma lab_generates_quotes: "generates_quotes lab lab_gen lab_quote"
  unfolding generates_quotes_def
proof
  fix cn assume "cn \<in> set test_issuer_names"
  then have "(pck_test_leaf lab_base lab_new [1], 11, (pck_test_ca lab_base lab_new cn, 10)) \<in> set lab_requests"
    by (auto simp: lab_requests_def)
  from lab_issues [OF this] obtain b where
    "lab_issue (pck_test_leaf lab_base lab_new [1], 11, (pck_test_ca lab_base lab_new cn, 10)) = Some [b]" ..
  moreover have "pem_encode lab_gen tag [b] = [char_of (unat b)]" for tag
    by (simp add: lab_gen_def lab_base_def)
  ultimately show "\<exists>quote. quote_with_pck_issuer lab lab_gen lab_quote cn = Some quote \<and>
      length (cert_data (signature quote)) \<le> MAX_CHAIN_PEM_LEN"
    by (simp add: quote_with_pck_issuer_def lab_chain result_ok_def leaf_def lab_gen_simps
        lab_prod1_extensions)
qed

section \<open>The PKI of the lab\<close>

definition captured :: sgx_quote where
  "captured = toy_quote\<lparr>signature := toy_signature\<lparr>qe_auth_data := replicate 32 0\<rparr>\<rparr>"

lemma captured_wf: "wf_quote captured"
proof -
  have sig: "wf_signature (signature captured)"
    using toy_signature_wf by (simp add: wf_signature_def captured_def)
  from length_encode_signature [OF sig]
  have "length (encode_signature (signature captured)) < 2 ^ 32"
    by (simp add: captured_def toy_signature_def)
  moreover have "signed_bytes captured = signed_bytes toy_quote" "header captured = header toy_quote"
    "report_body captured = report_body toy_quote"
    by (simp_all add: captured_def)
  ultimately show ?thesis using sig toy_quote_wf unfolding wf_quote_def by metis
qed

lemma captured_facts:
  "fst (sgx_quote_read (encode_quote captured @ [1, 2])) = Inr captured"
  "length (qe_auth_data (signature captured)) = 32"
  "qe_vendor_id (header captured) = INTEL_QE_VENDOR_ID"
  "mrsigner (qe_report (signature captured)) \<noteq> replicate 32 0x22"
  using captured_wf
  by (auto simp: sgx_quote_read_ok)
    (simp_all add: captured_def toy_quote_def toy_header_def toy_signature_def toy_qe_report_def)

lemma captured_foreign:
  "\<forall>kp. rc_generate lab_gen 2 = Some kp \<longrightarrow> \<not> signed_raw lab (lab_pub kp)
     (qe_report_raw (signature captured)) (qe_report_signature (signature captured))"
  by (simp add: lab_gen_simps signed_raw_def lab_def toy_def lab_pub_def captured_def toy_signature_def)

lemma lab_builds:
  "\<exists>pki. build_pki lab lab_gen (Some (encode_quote captured @ [1, 2])) = Some pki \<and> chains_fit pki \<and>
     root_sec1 pki \<noteq> INTEL_SGX_ROOT_CA_PUBLIC_KEY_SEC1"
proof -
  let ?root = "lab_ca ''dcap-verify synthetic Root CA''" and ?ca = "lab_ca ''dcap-verify synthetic PCK CA''"
  let ?lf = "(lab_named ''dcap-verify synthetic PCK leaf'')\<lparr>serial_number := Some PCK_LEAF_SERIAL\<rparr>"
  let ?tcb = "lab_named INTEL_TCB_SIGNING_CN"
  have "self_request ?root 10 \<in> set lab_requests" "(?ca, 11, (?root, 10)) \<in> set lab_requests"
    "(?lf, 12, (?ca, 11)) \<in> set lab_requests" "(?tcb, 13, (?root, 10)) \<in> set lab_requests"
    by (simp_all add: lab_requests_def)
  then obtain r c l t where ders: "lab_issue (?root, 10, (?root, 10)) = Some [r]"
    "lab_issue (?ca, 11, (?root, 10)) = Some [c]" "lab_issue (?lf, 12, (?ca, 11)) = Some [l]"
    "lab_issue (?tcb, 13, (?root, 10)) = Some [t]"
    using lab_issues unfolding self_request_def by meson
  have "(test_crl_params lab_base UNRELATED_SERIAL, ?root, 10) \<in> set lab_crl_requests"
    "(test_crl_params lab_base UNRELATED_SERIAL, ?ca, 11) \<in> set lab_crl_requests"
    "(test_crl_params lab_base PCK_LEAF_SERIAL, ?ca, 11) \<in> set lab_crl_requests"
    by (simp_all add: lab_crl_requests_def)
  from this [THEN lab_lists] obtain x y z where crls:
    "rc_crl_pem lab_gen (test_crl_params lab_base UNRELATED_SERIAL) (?root, 10) = Some x"
    "rc_crl_pem lab_gen (test_crl_params lab_base UNRELATED_SERIAL) (?ca, 11) = Some y"
    "rc_crl_pem lab_gen (test_crl_params lab_base PCK_LEAF_SERIAL) (?ca, 11) = Some z"
    by auto
  obtain root_cert where root: "cert_from_der lab [r] = Inr root_cert" "spki_data root_cert = lab_pub 10"
    using lab_issue_found [OF ders(1)] by (auto simp: lab_cert.simps)
  let ?chain = "chain_pem lab_gen [[l], [c], [r]]"
  let ?q = "with_cert_data captured (str_bytes ?chain)"
  have len: "length (chain_pem lab_gen (map (\<lambda>b. [b]) bs)) = length bs" for bs
    by (induction bs) (simp_all add: chain_pem_def lab_gen_def lab_base_def)
  have lens: "length ?chain = 3" "length (chain_pem lab_gen [[t], [r]]) = 2"
    "length (chain_pem lab_gen [[c], [r]]) = 2"
    using len [of "[l, c, r]"] len [of "[t, r]"] len [of "[c, r]"] by simp_all
  have spliced: "splice_cert_data (encode_quote captured @ [1, 2]) ?chain = Some (encode_quote ?q)"
    by (rule splice_encode_quote [OF captured_wf captured_facts(2)])
  have wf: "wf_quote ?q"
    by (rule wf_with_cert_data [OF captured_wf]) (simp add: captured_facts(2) lens)
  then have reads: "fst (sgx_quote_read (encode_quote ?q)) = Inr ?q" by (auto simp: sgx_quote_read_ok)
  have peek: "peek_mrenclave (encode_quote ?q) = Some (mrenclave (report_body ?q))"
    using peek_mrenclave_encode [OF wf, of "[]"] by simp
  obtain pki where pki: "build_pki lab lab_gen (Some (encode_quote captured @ [1, 2])) = Some pki"
      "root_sec1 pki = lab_pub 10" "quote_bytes pki = encode_quote ?q"
      "tcb_chain_pem pki = chain_pem lab_gen [[t], [r]]" "pck_crl_chain_pem pki = chain_pem lab_gen [[c], [r]]"
    by (simp add: build_pki_def lab_gen_simps lab_params synthetic_crl_eq ders crls root spliced reads peek
        result_ok_def lab_pub_def)
  moreover have "chains_fit pki"
    using length_splice [OF spliced] pki(3-5) lens by (simp add: chains_fit_def)
  moreover have "lab_pub 10 ! 1 = 0" "INTEL_SGX_ROOT_CA_PUBLIC_KEY_SEC1 ! 1 \<noteq> 0"
    by (simp_all add: lab_pub_def nth_append INTEL_SGX_ROOT_CA_PUBLIC_KEY_SEC1_def)
  ultimately show ?thesis by metis
qed

end
