(* ===== verification/Witnesses_Tests.thy ===== *)
theory Witnesses_Tests
  imports Lab
begin

text \<open>
  The theorems on the repository's own tests, applied to the stand-in crates: the example's chains
  and quote for the fixture tests, the generator of the theory \<open>Lab\<close> for the others.
\<close>

section \<open>Fixtures\<close>

definition toy_file :: json where
  "toy_file = JObject [(''tcb_info_issuer_chain'', JString ''TR''), (''root_ca_crl'', JString ''c'')]"

lemma toy_file_texts:
  "as_str (json_index toy_file ''tcb_info_issuer_chain'') = Some ''TR''"
  "as_str (json_index toy_file ''root_ca_crl'') = Some ''c''"
  by code_simp+

lemma trim_start_with_none:
  assumes "list_all (\<lambda>w. \<not> prefix w s) ws"
  shows "trim_start_with ws s = s"
proof -
  have "List.find (\<lambda>w. w \<noteq> [] \<and> prefix w s) ws = None"
    using assms by (auto simp: find_None_iff list_all_iff)
  then show ?thesis by (subst trim_start_with.simps) simp
qed

text \<open>No white space begins with one of the bytes of \<open>T\<close> and \<open>c\<close> or ends with those of \<open>R\<close> and \<open>c\<close>.\<close>

lemma white_space_ends:
  "\<forall>w\<in>set white_space. w \<noteq> [] \<and> (of_char (hd w) :: nat) \<notin> {0x54, 0x63} \<and>
     (of_char (last w) :: nat) \<notin> {0x52, 0x63}"
  unfolding white_space_def by (simp add: upt_rec_numeral)

lemma str_trim_none:
  assumes "(of_char (hd s) :: nat) \<in> {0x54, 0x63}" and "(of_char (last s) :: nat) \<in> {0x52, 0x63}"
  shows "str_trim s = s"
proof -
  have hd: "prefix u v \<Longrightarrow> u \<noteq> [] \<Longrightarrow> hd v = hd u" for u v :: string
    by (auto simp: prefix_def)
  have "\<not> prefix w s \<and> \<not> prefix (rev w) (rev s)" if "w \<in> set white_space" for w
    using white_space_ends that assms hd [of w s] hd [of "rev w" "rev s"]
    by (auto simp: hd_rev)
  then have "list_all (\<lambda>w. \<not> prefix w s) white_space"
    "list_all (\<lambda>w. \<not> prefix w (rev s)) (map rev white_space)"
    by (simp_all add: list_all_iff)
  then show ?thesis
    by (simp add: str_trim_def trim_start_with_none)
qed

lemma toy_file_bytes:
  "str_bytes (str_trim ''TR'') = [0x54, 0x52]" "str_bytes (str_trim ''c'') = [0x63]"
  using str_trim_none [of "''TR''"] str_trim_none [of "''c''"] by (simp_all add: str_bytes_def)

lemma toy_file_chain:
  "tcb_chain_ders toy toy_file = Some [[0x54], [0x52]]"
  "parsed_fixture toy toy_file = Some \<lparr>pc_kind = TcbInfoIssuer, certs = [signing_cert, root_cert]\<rparr>"
proof -
  show ders: "tcb_chain_ders toy toy_file = Some [[0x54], [0x52]]"
    by (simp only: tcb_chain_ders_def toy_file_texts toy_file_bytes bind.bind_lunit)
      (simp add: toy_pem result_ok_def)
  have "cert_from_der toy [0x54] = Inr signing_cert" "cert_from_der toy [0x52] = Inr root_cert"
    by (simp_all add: toy_def)
  then have "chain_parse toy (tcb_issuer_chain [[0x54], [0x52]]) =
      Inr \<lparr>pc_kind = TcbInfoIssuer, certs = [signing_cert, root_cert]\<rparr>"
    by (simp add: chain_parse_ok tcb_issuer_chain_def)
  then show "parsed_fixture toy toy_file = Some \<lparr>pc_kind = TcbInfoIssuer, certs = [signing_cert, root_cert]\<rparr>"
    by (simp add: parsed_fixture_def ders result_ok_def)
qed

lemma toy_file_crl:
  "crl_fixture toy toy_file =
     Some (''c'', toy_crl 0x63 root_name 0x94, [0x52], INTEL_SGX_ROOT_CA_PUBLIC_KEY_SEC1)"
proof -
  have "crl_from_der toy [0x63] = Inr (toy_crl 0x63 root_name 0x94)"
    "cert_from_der toy [0x52] = Inr root_cert" "name_raw (subject root_cert) = [0x52]"
    by (simp_all add: toy_def toy_cert_defs)
  moreover have "str_contains ''X509 CRL'' ''CRL''" by code_simp
  ultimately have "root_ca_crl_of toy toy_file = Some (''c'', toy_crl 0x63 root_name 0x94)"
    "chain_cert toy [[0x54], [0x52]] 1 = Some root_cert"
    by (simp_all only: root_ca_crl_of_def toy_file_texts toy_file_bytes bind.bind_lunit)
      (simp_all add: toy_pem result_ok_def chain_cert_def)
  then show ?thesis
    using \<open>name_raw (subject root_cert) = [0x52]\<close> toy_root_key
    by (simp add: crl_fixture_def toy_file_chain(1) toy_root_key)
qed

lemma toy_quote_reads: "prod1_quote (Some (encode_quote toy_quote)) = Some toy_quote"
proof -
  have "fst (sgx_quote_read (encode_quote toy_quote)) = Inr toy_quote"
    using toy_quote_wf by (auto simp: sgx_quote_read_ok)
  then show ?thesis by (simp add: prod1_quote_def result_ok_def)
qed


section \<open>Generated certificates\<close>

definition lab_block :: pem_block where
  "lab_block = \<lparr>pem_tag = ''CERTIFICATE'', pem_contents = [0xF0]\<rparr>"

lemma lab_encodes: "encodes_block lab [0xF0] lab_block"
proof -
  have "concat (replicate n [x]) = replicate n x" for n and x :: byte
    by (induction n) simp_all
  moreover have "dropWhile trailing_junk (replicate n 0xF0) = replicate n 0xF0" for n
    by (cases n) (simp_all add: trailing_junk_def is_ascii_whitespace_def)
  ultimately have "trim_trailing_junk (concat (replicate n [0xF0])) = replicate n 0xF0" for n
    by (simp add: trim_trailing_junk_alt)
  then show ?thesis
    by (simp add: encodes_block_def lab_block_def lab_def)
qed

lemma lab_garbage: "pem_parse_many lab (trim_trailing_junk (str_bytes ''no certificates here'')) = Inr []"
proof -
  have "list_all (\<lambda>b. \<not> 0x80 \<le> b) (str_bytes ''no certificates here'')" by code_simp
  moreover have "set (trim_trailing_junk bs) \<subseteq> set bs" for bs
    by (simp add: trim_trailing_junk_def set_take_subset)
  ultimately have "filter (\<lambda>b. 0x80 \<le> b) (trim_trailing_junk (str_bytes ''no certificates here'')) = []"
    unfolding filter_empty_conv list_all_iff by blast
  then show ?thesis by (simp add: lab_def)
qed

theorem generated_pki_tests_hold_witness:
  "require_ca_rejects_key_usage_without_key_cert_sign lab lab_gen \<and>
   crl_listing_leaf_serial_rejects_chain lab lab_gen \<and>
   crl_without_leaf_serial_passes_revocation_check lab lab_gen \<and>
   pck_collateral_params_reads_platform_ca lab lab_gen lab_quote \<and>
   chain_length_cap_boundary lab [0xF0]"
  using generated_pki_tests_hold [OF lab_rcgen_lawful lab_pem_round_trips lab_generates_certs
      lab_generates_crls lab_generates_quotes lab_platform lab_encodes _ lab_garbage] by simp

section \<open>A spliced quote and a synthetic PKI\<close>

theorem splice_replaces_certificates_witness:
  "\<exists>spliced. splice_cert_data (encode_quote captured @ [1, 2]) ''LPR'' = Some spliced \<and>
     sgx_quote_read spliced = (Inr (with_cert_data captured (str_bytes ''LPR'')), [])"
  by (rule splice_replaces_certificates [OF captured_facts(1,2)]) simp


theorem synthetic_pki_dies_at_the_anchor_witness:
  "\<exists>pki. build_pki lab lab_gen (Some (encode_quote captured @ [1, 2])) = Some pki \<and>
     synthetic_chain_without_override_dies_at_the_anchor lab lab_gen pki"
  using lab_builds synthetic_pki_dies_at_the_anchor [OF _ _ _ lab_rcgen_lawful lab_pem_round_trips
      captured_facts(1-3)] by blast

end
