(* ===== verification/Spec2Isabelle.thy ===== *)
theory Spec2Isabelle
  imports Witnesses_Differ Witnesses_Tests
begin

text \<open>
  A model of \<^verbatim>\<open>dcap-verify\<close>, a verifier for Intel SGX DCAP v3 quotes, and of \<^verbatim>\<open>dcap-differ\<close>, the
  harness that compares it with Intel's quote verification library (QVL).

  \<^bold>\<open>The program.\<close> \<^verbatim>\<open>verify_remote_attestation\<close> (\<^verbatim>\<open>src/dcap-verify/src/verify.rs\<close>) takes a time, a
  collateral bundle, a parsed quote, the expected enclave measurement and a floor on the TCB
  evaluation round. It runs a fixed sequence of gates, each of which rejects with a category and a
  text: quote vendor, measurement, document formats, four certificate chains, purpose of the
  signing leaves, CRL scope, CRLs and revocation, the two signed documents, the three quote
  signatures, the DEBUG flag, and the standing of the platform. A caller's policy may then refuse
  an accepted standing.

  \<^bold>\<open>Theories\<close>, in import order, with what they model:

  \<^item> \<open>Prelude\<close>: machine integers, Rust's \<open>Result\<close> combinators (\<open>and_then\<close> is the \<open>?\<close> operator),
    loops with early return, little-endian integers, formatting and parsing of numbers.
  \<^item> \<open>Errors\<close>: \<^verbatim>\<open>error.rs\<close>. \<open>rejects_within\<close> bounds the categories of a check.
  \<^item> \<open>Reader\<close>, \<open>Report\<close>, \<open>Quote\<close>: \<^verbatim>\<open>types.rs\<close>, \<^verbatim>\<open>types/report.rs\<close>, \<^verbatim>\<open>types/quote.rs\<close>. The locale
    \<open>fixed_parser\<close> is the contract of a fixed-width read; the four reader operations interpret it.
  \<^item> \<open>Crates\<close>: the third-party crates (P-256, SHA-256, X.509, PEM, DER, hex), as one record of
    functions that is an argument of every operation that calls them.
  \<^item> \<open>Collateral\<close>: \<^verbatim>\<open>types/{collateral,tcb_info,qe_identity}.rs\<close>, with the hand-written map visitor.
  \<^item> \<open>Window\<close>: the locale of half-open validity windows, interpreted by the certificate, CRL and
    document time tests.
  \<^item> \<open>Pki\<close>, \<open>Chain\<close>, \<open>Crl\<close>, \<open>Pck_Extension\<close>: \<^verbatim>\<open>pki.rs\<close>. An operation that reads the trust anchor
    exists twice: \<open>..._under\<close> takes the content of the override cell of test builds, the plain name
    is the shipped operation.
  \<^item> \<open>Tcb\<close>, \<open>Policy\<close>, \<open>Verify\<close>: \<^verbatim>\<open>tcb.rs\<close>, \<^verbatim>\<open>policy.rs\<close>, \<^verbatim>\<open>verify.rs\<close>.
  \<^item> \<open>Pipeline\<close>, \<open>Attestation\<close>, \<open>Rejection\<close>: no code, but the specification of the verifier.
    \<open>attested\<close> says what an accepted quote is, without reference to the order of the gates;
    \<open>rejects_as\<close> says what a rejection of a given category means.
  \<^item> \<open>Gates\<close>: the verifier as one flat list of conditions, each with its category, of which the
    first that fails decides.
  \<^item> \<open>Differ_Rng\<close>, \<open>Differ_Pipeline\<close>, \<open>Differ_Sweep\<close>: \<^verbatim>\<open>dcap-differ/src/\<close>\<^verbatim>\<open>{rng, pipeline, sweep}.rs\<close>.
    \<open>Differ_Verdict\<close> holds the locale of a run counted against an allowlist, interpreted by the
    sweep and by the fixture run.
  \<^item> \<open>Differ_Report\<close>, \<open>Differ_Trace\<close>: what a run prints and writes, as a list of effects, and what
    that output says.
  \<^item> \<open>Differ_Cli\<close>, \<open>Differ_Main\<close>: \<^verbatim>\<open>dcap-differ/src/main.rs\<close> over an abstract host, and what its
    commands promise.
  \<^item> \<open>Differ_Brackets\<close>: a reference reading of bracketed text for the sweep's search in JSON bytes.
  \<^item> \<open>Programs\<close>: the example program \<^verbatim>\<open>examples/eval_standing.rs\<close> and the fuzz targets.
  \<^item> \<open>Rcgen\<close>: the crates that make certificates for the tests, as one record of functions, and
    what they document.
  \<^item> \<open>Tests_Tcb\<close>, \<open>Tests_Unit\<close>: the test modules of \<^verbatim>\<open>error.rs\<close>, \<^verbatim>\<open>types.rs\<close>,
    \<^verbatim>\<open>types/collateral.rs\<close>, \<^verbatim>\<open>tcb.rs\<close>, \<^verbatim>\<open>policy.rs\<close>, \<^verbatim>\<open>verify.rs\<close> and \<^verbatim>\<open>pki.rs\<close> as statements
    about the model. \<open>Synthetic\<close>, \<open>Synthetic_Runs\<close>: \<^verbatim>\<open>synthetic_e2e.rs\<close>, its PKI and its four runs.
  \<^item> \<open>Example\<close>, \<open>Lab\<close>, \<open>Witnesses\<close>, \<open>Witnesses_Differ\<close>, \<open>Witnesses_Tests\<close>: a concrete attested quote
    under small stand-ins for the crates, a small certificate generator, and the theorems with
    hypotheses applied to concrete inputs.

  \<^bold>\<open>Correspondence.\<close> A definition has the name of the function or type it models, with a prefix
  where HOL or another record already uses the name (\<open>chain_parse\<close>, \<open>ti_version\<close>, \<open>reader_take\<close>);
  the long bodies of \<open>verify_remote_attestation\<close> and \<open>ParsedChain::validate\<close> are composed of one
  definition per gate, in the order of the code. Every text a rejection carries is modelled, as a
  definition ending in \<open>_detail\<close> or \<open>_msg\<close>. \<open>Result<T, VerifyError>\<close> is \<open>'a res\<close>; a panic is \<open>None\<close>.
  Fixed-size arrays are lists whose length the parser establishes (\<open>wf_quote\<close>); \<open>u8\<close> to \<open>u64\<close> are
  words, lengths are naturals, times are integers within their 64-bit range.

  \<^bold>\<open>What is shown.\<close> The verifier accepts exactly the attested quotes, never panics on its own
  account, and each late or early rejection category means precisely one thing (this theory); the
  order of all its gates and the category of every failure are those of one list (\<open>Gates\<close>). The
  parsers accept exactly the encodings of well-formed values (\<open>Report\<close>, \<open>Quote\<close>). Path validation,
  CRL checking, revocation, the document checks, the QE identity check and the platform standing
  each equal a declarative specification (\<open>Chain\<close>, \<open>Crl\<close>, \<open>Pipeline\<close>). The harness classifies every
  pair of outcomes, its mutators stay in range, and the exit code of a run says exactly what the
  allowlist promises; its output records exactly the disagreements, the inputs it dumps reproduce
  them, and so does the command it records (\<open>Differ_\<close> theories). The example program's exit code is
  the verdict, and a fuzz target crashes only on a broken fixture (\<open>Programs\<close>). The repository's unit
  and synthetic end-to-end tests hold of the model, those on fixtures and generated certificates
  for every input of the documented kind.

  \<^bold>\<open>Bounds.\<close> No fuel is used: every loop is structural recursion or has a termination proof. The only size hypotheses are that
  base cases of a sweep are non-empty and fit in memory (their bit length is below \<open>2^64\<close>).

  \<^bold>\<open>Not modelled.\<close> The third-party crates, the serde-derived deserialisers and JSON rendering
  (parameters); failing writes, the texts on standard error and the panic hook of the harness; the
  integration tests over captured binary fixtures (the directory \<^verbatim>\<open>tests\<close>) and the scripts.
\<close>

section \<open>Acceptance\<close>

text \<open>C1. The verifier accepts a quote with a standing iff the quote is attested with that standing at
  the given time: Intel's QE vendor, the expected measurement, supported document formats, four
  trusted chains ending in the pinned root, the right signing leaves and CRL issuer, no revoked
  certificate, authentic, current and recent enough documents, a matching QE identity, the three
  signatures of the quote, no DEBUG flag, and a TCB level of accepted status. It returns the
  report body of the quote.\<close>

theorem accepts_iff_attested:
  "verify_remote_attestation C t coll quote expected minimum = Some (Inr (standing, rb)) \<longleftrightarrow>
     rb = report_body quote \<and> attested C (unix_seconds t) coll quote expected minimum standing"
  by (rule verify_ok)

text \<open>C3. The verifier always returns: the panic on an undecodable pinned key is unreachable, because
  path validation has used that key before. A rejection never carries the policy's category.\<close>

theorem verifier_returns:
  "\<exists>r. verify_remote_attestation C t coll quote expected minimum = Some r \<and>
     \<not> rejects_as TcbStandingRejected r"
proof -
  obtain r where r: "verify_remote_attestation C t coll quote expected minimum = Some r"
    using verify_never_panics [of C t coll quote expected minimum] by blast
  have "TcbStandingRejected \<notin> chain_categories \<union> evidence_categories"
    by (simp add: chain_categories_def evidence_categories_def)
  with r verify_rejects [OF r] show ?thesis by (auto dest: not_rejects_as)
qed

text \<open>C4. With a policy the verifier accepts iff the quote is attested at the policy's floor and the
  policy admits the standing.\<close>

theorem with_policy_accepts_iff:
  "verify_remote_attestation_with_policy C t coll quote expected policy =
       Some (Inr (standing, rb)) \<longleftrightarrow>
     rb = report_body quote \<and>
     attested C (unix_seconds t) coll quote expected
       (min_tcb_evaluation_data_number policy) standing \<and>
     admits policy standing"
proof -
  let ?m = "min_tcb_evaluation_data_number policy"
  have "verify_remote_attestation_with_policy C t coll quote expected policy =
        Some (Inr (standing, rb)) \<longleftrightarrow>
      verify_remote_attestation C t coll quote expected ?m = Some (Inr (standing, rb)) \<and>
      policy_check policy standing = Inr ()"
    by (auto simp: verify_remote_attestation_with_policy_def res_simps)
  then show ?thesis by (simp add: verify_ok policy_check_ok conj_assoc)
qed

text \<open>C5. With a policy the verifier rejects for the standing iff the quote is attested, at the policy's
  floor, with a standing that the policy does not admit.\<close>

theorem policy_rejects_iff:
  "map_option (rejects_as TcbStandingRejected)
       (verify_remote_attestation_with_policy C t coll quote expected policy) = Some True \<longleftrightarrow>
     (\<exists>standing. attested C (unix_seconds t) coll quote expected
        (min_tcb_evaluation_data_number policy) standing \<and> \<not> admits policy standing)"
proof -
  let ?m = "min_tcb_evaluation_data_number policy"
  obtain r where r: "verify_remote_attestation C t coll quote expected ?m = Some r"
    using verify_never_panics [of C t coll quote expected ?m] by blast
  have inner: "\<not> rejects_as TcbStandingRejected r"
    by (rule not_rejects_as [OF verify_rejects [OF r]])
      (simp add: chain_categories_def evidence_categories_def)
  have refused: "rejects_as TcbStandingRejected (policy_check policy s) \<longleftrightarrow> \<not> admits policy s" for s
    by (cases s) (simp_all add: admits_def rejects_as_basic)
  have "map_option (rejects_as TcbStandingRejected)
        (verify_remote_attestation_with_policy C t coll quote expected policy) = Some True \<longleftrightarrow>
      (\<exists>standing rb. r = Inr (standing, rb) \<and> \<not> admits policy standing)"
    by (auto simp: verify_remote_attestation_with_policy_def r rejects_as_simps inner refused)
  then show ?thesis
    using verify_ok [of C t coll quote expected ?m] r by auto
qed

section \<open>Rejections\<close>

text \<open>C12. The first two gates decide before anything else is read: a vendor rejection means exactly
  that the quote names another QE vendor, and a measurement rejection that the vendor is Intel's
  and the measurement is not the expected one.\<close>

theorem identity_gates_come_first:
  "(map_option (rejects_as QeVendorInvalid)
        (verify_remote_attestation C t coll quote expected minimum) = Some True \<longleftrightarrow>
      qe_vendor_id (header quote) \<noteq> INTEL_QE_VENDOR_ID) \<and>
   (map_option (rejects_as MrenclaveMismatch)
        (verify_remote_attestation C t coll quote expected minimum) = Some True \<longleftrightarrow>
      qe_vendor_id (header quote) = INTEL_QE_VENDOR_ID \<and>
      mrenclave (report_body quote) \<noteq> expected)"
  using verify_identity_rejections [of C t coll quote expected minimum] by blast

text \<open>C10. A DEBUG rejection means exactly that the report carries the DEBUG flag and that everything
  else about the evidence holds: the chains are trusted, nothing is revoked, both documents are
  accepted and all three signatures of the quote verify.\<close>

theorem debug_rejection_iff:
  "map_option (rejects_as DebugEnclaveRejected)
       (verify_remote_attestation C t coll quote expected minimum) = Some True \<longleftrightarrow>
     is_debug (report_body quote) \<and>
     (\<exists>ch. authenticated C (unix_seconds t) coll quote expected minimum ch)"
proof -
  have "\<not> rejects_as DebugEnclaveRejected (platform_standing C info pck)" for info pck
    by (rule not_rejects_as [where cs = "{TcbLevelUnsupported, CollateralParse}"])
      (intro rejects_intros, simp_all)
  then show ?thesis
    using verify_rejects_late [of DebugEnclaveRejected C t coll quote expected minimum] by auto
qed

text \<open>C11. A TCB level rejection means exactly that the evidence is authentic and not a debug enclave's,
  the platform is read from the PCK certificate, and tcbInfo refuses it: another family or PCE, no
  level the platform satisfies, or a first satisfied level whose status is not accepted.\<close>

theorem tcb_level_rejection_iff:
  "map_option (rejects_as TcbLevelUnsupported)
       (verify_remote_attestation C t coll quote expected minimum) = Some True \<longleftrightarrow>
     \<not> is_debug (report_body quote) \<and>
     (\<exists>ch platform. authenticated C (unix_seconds t) coll quote expected minimum ch \<and>
        extract_pck_platform_tcb C (pck_chain ch) = Inr platform \<and>
        standing_refused C (body (coll_tcb_info coll)) platform)"
  using verify_rejects_late [of TcbLevelUnsupported C t coll quote expected minimum]
  by (auto simp: platform_standing_refuses)

section \<open>What acceptance depends on\<close>

text \<open>C13. The floor does what it says and nothing more: a quote is accepted at a floor iff it is
  accepted without one and both documents are from that evaluation round or a later one.\<close>

theorem floor_is_a_lower_bound:
  "verify_remote_attestation C t coll quote expected minimum = Some (Inr (standing, rb)) \<longleftrightarrow>
     verify_remote_attestation C t coll quote expected 0 = Some (Inr (standing, rb)) \<and>
     minimum \<le> ti_tcb_evaluation_data_number (body (coll_tcb_info coll)) \<and>
     minimum \<le> qi_tcb_evaluation_data_number (body (coll_qe_identity coll))"
  using attested_floor [of C "unix_seconds t" coll quote expected minimum standing]
  by (auto simp: verify_ok)

text \<open>C14. Acceptance is an interval of time: if the same evidence is accepted at two times, it is
  accepted with the same result at every time between them.\<close>

theorem acceptance_is_an_interval:
  assumes "verify_remote_attestation C s coll quote expected minimum = Some (Inr res)"
    and "verify_remote_attestation C t coll quote expected minimum = Some (Inr res')"
    and "unix_seconds s \<le> unix_seconds now" and "unix_seconds now \<le> unix_seconds t"
  shows "verify_remote_attestation C now coll quote expected minimum = Some (Inr res)"
proof -
  obtain st rb st' rb' where "res = (st, rb)" and "res' = (st', rb')" by (cases res; cases res')
  with assms show ?thesis by (auto simp: verify_ok intro: attested_convex)
qed

theorem acceptance_is_an_interval_witness:
  "verify_remote_attestation toy (50 * 10 ^ 9 + 7) toy_collateral toy_quote (replicate 32 7) 17 =
     Some (Inr (SWHardeningNeeded [''INTEL-SA-00334''], report_body toy_quote))"
proof (rule acceptance_is_an_interval)
  have "unix_seconds (10 * 10 ^ 9) = 10" "unix_seconds (90 * 10 ^ 9) = 90"
    "unix_seconds (50 * 10 ^ 9 + 7) = 50"
    by (simp_all add: unix_seconds_def i64_from_secs_def I64_MAX_def)
  then show "verify_remote_attestation toy (10 * 10 ^ 9) toy_collateral toy_quote
      (replicate 32 7) 17 =
      Some (Inr (SWHardeningNeeded [''INTEL-SA-00334''], report_body toy_quote))"
    "verify_remote_attestation toy (90 * 10 ^ 9) toy_collateral toy_quote (replicate 32 7) 17 =
      Some (Inr (SWHardeningNeeded [''INTEL-SA-00334''], report_body toy_quote))"
    "unix_seconds (10 * 10 ^ 9) \<le> unix_seconds (50 * 10 ^ 9 + 7)"
    "unix_seconds (50 * 10 ^ 9 + 7) \<le> unix_seconds (90 * 10 ^ 9)"
    by (simp_all add: verify_ok toy_attested)
qed

text \<open>C21. The selectors for fetching collateral agree with verification: if a quote is accepted and its
  selectors are read, tcbInfo is for the family they name.\<close>

theorem selectors_agree_with_verification:
  assumes "verify_remote_attestation C t coll quote expected minimum = Some (Inr res)"
    and "pck_collateral_params C quote = Inr (f, ca)"
  shows "hex_decode C (fmspc (body (coll_tcb_info coll))) = Inr f \<and> length f = 6"
proof -
  obtain st rb where "res = (st, rb)" by (cases res)
  with assms(1) have "attested C (unix_seconds t) coll quote expected minimum st"
    by (simp add: verify_ok)
  from attested_fmspc [OF this assms(2)] show ?thesis by (simp add: hex_field_def)
qed

theorem selectors_agree_with_verification_witness:
  "hex_decode toy (fmspc (body (coll_tcb_info toy_collateral))) = Inr [1, 2, 3, 4, 5, 6] \<and>
   length [1, 2, 3, 4, 5, 6 :: byte] = 6"
proof (rule selectors_agree_with_verification)
  have "unix_seconds (10 * 10 ^ 9) = 10"
    by (simp add: unix_seconds_def i64_from_secs_def I64_MAX_def)
  then show "verify_remote_attestation toy (10 * 10 ^ 9) toy_collateral toy_quote
      (replicate 32 7) 17 =
      Some (Inr (SWHardeningNeeded [''INTEL-SA-00334''], report_body toy_quote))"
    by (simp add: verify_ok toy_attested)
  have "load_chain toy QuotePck (cert_data (signature toy_quote)) (pck_chain toy_chains)"
    using toy_chains_of by (simp add: chains_of_def)
  moreover have "first_common_name (issuer (leaf (pck_chain toy_chains))) = Some PCK_PLATFORM_CA_CN"
    by (simp add: first_common_name_def leaf_def toy_chains_def toy_cert_defs
        PCK_PLATFORM_CA_CN_def)
  ultimately show "pck_collateral_params toy toy_quote = Inr ([1, 2, 3, 4, 5, 6], Platform)"
    using toy_extract
    by (auto simp: pck_collateral_params_def res_simps load_chain_def PCK_PROCESSOR_CA_CN_def
        PCK_PLATFORM_CA_CN_def toy_platform_def)
qed

end
